theory Spec2Isabelle
  imports Main "HOL-Library.Word" "HOL-Library.Sublist"
begin

unbundle bit_operations_syntax

section \<open>Wire primitives (package mu, as used by command.go)\<close>

type_synonym byte = "8 word"
type_synonym bytes = "byte list"
type_synonym u16 = "16 word"
type_synonym u32 = "32 word"
type_synonym u64 = "64 word"

text \<open>Big-endian fixed-width integers, as the codec writes them.\<close>

definition be16 :: "u16 \<Rightarrow> bytes" where
  "be16 w = [ucast (drop_bit 8 w), ucast w]"

definition be32 :: "u32 \<Rightarrow> bytes" where
  "be32 w = [ucast (drop_bit 24 w), ucast (drop_bit 16 w), ucast (drop_bit 8 w), ucast w]"

fun read_u8 :: "bytes \<Rightarrow> (byte \<times> bytes) option" where
  "read_u8 (a # rest) = Some (a, rest)"
| "read_u8 _ = None"

fun read_u16 :: "bytes \<Rightarrow> (u16 \<times> bytes) option" where
  "read_u16 (a # b # rest) = Some (push_bit 8 (ucast a) OR ucast b, rest)"
| "read_u16 _ = None"

fun read_u32 :: "bytes \<Rightarrow> (u32 \<times> bytes) option" where
  "read_u32 (a # b # c # d # rest) =
     Some (push_bit 24 (ucast a) OR push_bit 16 (ucast b) OR push_bit 8 (ucast c) OR ucast d, rest)"
| "read_u32 _ = None"

text \<open>io.ReadFull into a buffer of \<open>n\<close> bytes: fails when fewer than \<open>n\<close> bytes are left.\<close>

definition read_full :: "nat \<Rightarrow> bytes \<Rightarrow> (bytes \<times> bytes) option" where
  "read_full n buf = (if length buf < n then None else Some (take n buf, drop n buf))"

text \<open>A sized buffer (TPM2B): a u16 length, then that many bytes. Marshalling a buffer
  that does not fit the 16-bit length is an error of the codec.\<close>

definition marshal_sized :: "bytes \<Rightarrow> bytes option" where
  "marshal_sized b = (if length b < 65536 then Some (be16 (of_nat (length b)) @ b) else None)"

definition read_sized :: "bytes \<Rightarrow> (bytes \<times> bytes) option" where
  "read_sized buf =
     (case read_u16 buf of
        None \<Rightarrow> None
      | Some (n, rest) \<Rightarrow> read_full (unat n) rest)"

section \<open>Packet codec (command.go)\<close>

definition maxResponseSize :: nat where
  "maxResponseSize = 4096"

definition TagNoSessions :: u16 where
  "TagNoSessions = 0x8001"

definition TagSessions :: u16 where
  "TagSessions = 0x8002"

definition Success :: u32 where
  "Success = 0"

record CommandHeader =
  chTag :: u16
  chCommandSize :: u32
  chCommandCode :: u32

record ResponseHeader =
  rhTag :: u16
  rhResponseSize :: u32
  rhResponseCode :: u32

record AuthCommand =
  acSessionHandle :: u32
  acNonce :: bytes
  acSessionAttributes :: byte
  acHMAC :: bytes

record AuthResponse =
  arNonce :: bytes
  arSessionAttributes :: byte
  arHMAC :: bytes

datatype error =
    PacketTooLarge nat
  | CannotUnmarshalHeader
  | InvalidResponseSize u32 nat
  | InvalidCommandSize u32 nat
  | TrailingBytes nat
  | CannotReadHandles
  | CannotUnmarshalParameterSize
  | CannotUnmarshalAuthSize
  | CannotReadParameters
  | CannotUnmarshalAuth
  | InvalidTag u16
  | Panic
  | Err string
  | Wrap string error
  | UnexpectedAuthCount nat nat
  | InvalidResponseError u32 error
  | InvalidParamError string
  | TctiError string
  | TPMWarning u32 u32
  | TPMError u32 u32
  | IntermediateQN nat error

definition unmarshal_CommandHeader :: "bytes \<Rightarrow> (CommandHeader \<times> bytes) option" where
  "unmarshal_CommandHeader buf =
     (case read_u16 buf of None \<Rightarrow> None | Some (t, b1) \<Rightarrow>
      (case read_u32 b1 of None \<Rightarrow> None | Some (s, b2) \<Rightarrow>
       (case read_u32 b2 of None \<Rightarrow> None | Some (c, b3) \<Rightarrow>
          Some (\<lparr>chTag = t, chCommandSize = s, chCommandCode = c\<rparr>, b3))))"

definition unmarshal_ResponseHeader :: "bytes \<Rightarrow> (ResponseHeader \<times> bytes) option" where
  "unmarshal_ResponseHeader buf =
     (case read_u16 buf of None \<Rightarrow> None | Some (t, b1) \<Rightarrow>
      (case read_u32 b1 of None \<Rightarrow> None | Some (s, b2) \<Rightarrow>
       (case read_u32 b2 of None \<Rightarrow> None | Some (c, b3) \<Rightarrow>
          Some (\<lparr>rhTag = t, rhResponseSize = s, rhResponseCode = c\<rparr>, b3))))"

definition marshal_CommandHeader :: "CommandHeader \<Rightarrow> bytes" where
  "marshal_CommandHeader h = be16 (chTag h) @ be32 (chCommandSize h) @ be32 (chCommandCode h)"

definition marshal_AuthCommand :: "AuthCommand \<Rightarrow> bytes option" where
  "marshal_AuthCommand a =
     (case marshal_sized (acNonce a) of None \<Rightarrow> None | Some n \<Rightarrow>
      (case marshal_sized (acHMAC a) of None \<Rightarrow> None | Some h \<Rightarrow>
         Some (be32 (acSessionHandle a) @ n @ [acSessionAttributes a] @ h)))"

definition unmarshal_AuthCommand :: "bytes \<Rightarrow> (AuthCommand \<times> bytes) option" where
  "unmarshal_AuthCommand buf =
     (case read_u32 buf of None \<Rightarrow> None | Some (sh, b1) \<Rightarrow>
      (case read_sized b1 of None \<Rightarrow> None | Some (n, b2) \<Rightarrow>
       (case read_u8 b2 of None \<Rightarrow> None | Some (at, b3) \<Rightarrow>
        (case read_sized b3 of None \<Rightarrow> None | Some (h, b4) \<Rightarrow>
           Some (\<lparr>acSessionHandle = sh, acNonce = n, acSessionAttributes = at, acHMAC = h\<rparr>, b4)))))"

definition unmarshal_AuthResponse :: "bytes \<Rightarrow> (AuthResponse \<times> bytes) option" where
  "unmarshal_AuthResponse buf =
     (case read_sized buf of None \<Rightarrow> None | Some (n, b1) \<Rightarrow>
      (case read_u8 b1 of None \<Rightarrow> None | Some (at, b2) \<Rightarrow>
       (case read_sized b2 of None \<Rightarrow> None | Some (h, b3) \<Rightarrow>
          Some (\<lparr>arNonce = n, arSessionAttributes = at, arHMAC = h\<rparr>, b3))))"

text \<open>The loop \<open>for buf.Len() > 0\<close> of \<open>ResponsePacket.Unmarshal\<close>: it stops with an error at
  a fourth entry, so the number of entries still allowed decreases.\<close>

function response_auth_loop :: "bytes \<Rightarrow> AuthResponse list \<Rightarrow> error + AuthResponse list" where
  "response_auth_loop buf authArea =
     (if length buf > 0 then
        (if length authArea \<ge> 3 then Inl (TrailingBytes (length buf))
         else (case unmarshal_AuthResponse buf of
                 None \<Rightarrow> Inl CannotUnmarshalAuth
               | Some (auth, rest) \<Rightarrow> response_auth_loop rest (authArea @ [auth])))
      else Inr authArea)"
  by pat_completeness auto
termination
  by (relation "measure (\<lambda>(buf, authArea). 3 - length authArea)") auto

declare response_auth_loop.simps [simp del]

text \<open>\<open>ResponsePacket.Unmarshal\<close> returns the five values of the Go function: the response
  code, the handle bytes, the parameter bytes, the auth area and the error (\<open>None\<close> is nil).\<close>

type_synonym unmarshal_result = "u32 \<times> bytes \<times> bytes \<times> AuthResponse list \<times> error option"

definition Unmarshal :: "bytes \<Rightarrow> nat \<Rightarrow> unmarshal_result" where
  "Unmarshal p numHandles =
     (if length p > maxResponseSize then (0, [], [], [], Some (PacketTooLarge (length p)))
      else case unmarshal_ResponseHeader p of
        None \<Rightarrow> (0, [], [], [], Some CannotUnmarshalHeader)
      | Some (header, buf) \<Rightarrow>
        if rhResponseSize header \<noteq> of_nat (length p)
        then (0, [], [], [], Some (InvalidResponseSize (rhResponseSize header) (length p)))
        else if rhResponseCode header \<noteq> Success then
          (if length buf \<noteq> 0 then (rhResponseCode header, [], [], [], Some (TrailingBytes (length buf)))
           else (rhResponseCode header, [], [], [], None))
        else case read_full (numHandles * 4) buf of
          None \<Rightarrow> (0, [], [], [], Some CannotReadHandles)
        | Some (handles, buf1) \<Rightarrow>
          if rhTag header = TagSessions then
            (case read_u32 buf1 of
               None \<Rightarrow> (0, [], [], [], Some CannotUnmarshalParameterSize)
             | Some (parameterSize, buf2) \<Rightarrow>
               (case read_full (unat parameterSize) buf2 of
                  None \<Rightarrow> (0, [], [], [], Some CannotReadParameters)
                | Some (parameters, buf3) \<Rightarrow>
                  (case response_auth_loop buf3 [] of
                     Inl e \<Rightarrow> (0, [], [], [], Some e)
                   | Inr authArea \<Rightarrow> (Success, handles, parameters, authArea, None))))
          else if rhTag header = TagNoSessions then (Success, handles, buf1, [], None)
          else (0, [], [], [], Some (InvalidTag (rhTag header))))"

text \<open>The loop \<open>for r.N > 0\<close> of \<open>CommandPacket.UnmarshalPayload\<close>, reading through an
  io.LimitedReader: \<open>n\<close> is \<open>r.N\<close>, the bytes the reader may still hand out, and \<open>buf\<close> is
  what is left of the packet. An entry is unmarshalled from the first \<open>n\<close> bytes of \<open>buf\<close>
  (all of \<open>buf\<close> when it is shorter) and \<open>r.N\<close> goes down by the bytes read, so a window
  that reaches beyond the packet ends in a failed read.\<close>

function command_auth_loop :: "nat \<Rightarrow> bytes \<Rightarrow> AuthCommand list \<Rightarrow>
    error + (AuthCommand list \<times> bytes)" where
  "command_auth_loop n buf authArea =
     (if n > 0 then
        (if length authArea \<ge> 3 then Inl (TrailingBytes n)
         else (case unmarshal_AuthCommand (take n buf) of
                 None \<Rightarrow> Inl CannotUnmarshalAuth
               | Some (auth, rest) \<Rightarrow>
                   (let used = length (take n buf) - length rest
                    in command_auth_loop (n - used) (drop used buf) (authArea @ [auth]))))
      else Inr (authArea, buf))"
  by pat_completeness auto
termination
  by (relation "measure (\<lambda>(n, buf, authArea). 3 - length authArea)") auto

declare command_auth_loop.simps [simp del]

definition UnmarshalPayload :: "bytes \<Rightarrow> nat \<Rightarrow> error + (bytes \<times> AuthCommand list \<times> bytes)" where
  "UnmarshalPayload p numHandles =
     (case unmarshal_CommandHeader p of
        None \<Rightarrow> Inl CannotUnmarshalHeader
      | Some (header, buf) \<Rightarrow>
        if chCommandSize header \<noteq> of_nat (length p)
        then Inl (InvalidCommandSize (chCommandSize header) (length p))
        else case read_full (numHandles * 4) buf of
          None \<Rightarrow> Inl CannotReadHandles
        | Some (handles, buf1) \<Rightarrow>
          if chTag header = TagSessions then
            (case read_u32 buf1 of
               None \<Rightarrow> Inl CannotUnmarshalAuthSize
             | Some (authSize, buf2) \<Rightarrow>
               (case command_auth_loop (unat authSize) buf2 [] of
                  Inl e \<Rightarrow> Inl e
                | Inr (authArea, buf3) \<Rightarrow> Inr (handles, authArea, buf3)))
          else if chTag header = TagNoSessions then Inr (handles, [], buf1)
          else Inl (InvalidTag (chTag header)))"

text \<open>Marshalling the auth area entry by entry into one buffer; an entry that cannot be
  marshalled makes \<open>MarshalCommandPacket\<close> panic.\<close>

fun marshal_auth_area :: "AuthCommand list \<Rightarrow> bytes option" where
  "marshal_auth_area [] = Some []"
| "marshal_auth_area (a # as) =
     (case marshal_AuthCommand a of
        None \<Rightarrow> None
      | Some b \<Rightarrow> (case marshal_auth_area as of None \<Rightarrow> None | Some bs \<Rightarrow> Some (b @ bs)))"

definition MarshalCommandPacket :: "u32 \<Rightarrow> bytes \<Rightarrow> AuthCommand list \<Rightarrow> bytes \<Rightarrow> error + bytes" where
  "MarshalCommandPacket command handles authArea parameters =
     (if length authArea > 0 then
        (case marshal_auth_area authArea of
           None \<Rightarrow> Inl Panic
         | Some aBytes \<Rightarrow>
           (let payload = handles @ be32 (of_nat (length aBytes)) @ aBytes @ parameters;
                header = \<lparr>chTag = TagSessions, chCommandSize = of_nat (10 + length payload),
                          chCommandCode = command\<rparr>
            in Inr (marshal_CommandHeader header @ payload)))
      else
        (let payload = handles @ parameters;
             header = \<lparr>chTag = TagNoSessions, chCommandSize = of_nat (10 + length payload),
                       chCommandCode = command\<rparr>
         in Inr (marshal_CommandHeader header @ payload)))"


section \<open>Command dispatch (tpm.go)\<close>

text \<open>Constants of the TPM 2.0 library specification (part 2) that the sources name; their
  declarations are in files of the package that are not part of this development.\<close>

definition CommandStartup :: u32 where "CommandStartup = 0x144"
definition CommandContextLoad :: u32 where "CommandContextLoad = 0x161"
definition CommandContextSave :: u32 where "CommandContextSave = 0x162"
definition CommandFlushContext :: u32 where "CommandFlushContext = 0x165"
definition CommandStartAuthSession :: u32 where "CommandStartAuthSession = 0x176"
definition CommandNVChangeAuth :: u32 where "CommandNVChangeAuth = 0x13b"
definition CommandPolicySecret :: u32 where "CommandPolicySecret = 0x151"
definition CommandPolicyAuthValue :: u32 where "CommandPolicyAuthValue = 0x16b"
definition CommandPolicyCommandCode :: u32 where "CommandPolicyCommandCode = 0x16c"
definition CommandGetRandom :: u32 where "CommandGetRandom = 0x17b"
definition HandleOwner :: u32 where "HandleOwner = 0x40000001"
definition HandleNull :: u32 where "HandleNull = 0x40000007"
definition AttrContinueSession :: byte where "AttrContinueSession = 1"

datatype SessionType = SessionTypeHMAC | SessionTypePolicy | SessionTypeTrial

record sessionContextData =
  sdSessionType :: SessionType
  sdIsExclusive :: bool

subsection \<open>execMultipleHelper and readMultipleHelper\<close>

text \<open>A session context as the helper sees it: its data (\<open>Data()\<close>, which may be nil) and
  its per-use attributes. A nil \<open>SessionContext\<close> in the argument list is \<open>None\<close>.\<close>

record SessionContext =
  scHandle :: u32
  scData :: "sessionContextData option"
  scAttrs :: byte

definition IncludeAttrs :: "SessionContext \<Rightarrow> byte \<Rightarrow> SessionContext" where
  "IncludeAttrs s a = s\<lparr>scAttrs := scAttrs s OR a\<rparr>"

text \<open>The first loop of \<open>execMultipleHelper\<close>: it returns the session list with
  \<open>AttrContinueSession\<close> included and whether a policy session was seen.\<close>

fun prepare_sessions :: "SessionContext option list \<Rightarrow> bool \<Rightarrow>
    error + (SessionContext option list \<times> bool)" where
  "prepare_sessions [] hasPolicySession = Inr ([], hasPolicySession)"
| "prepare_sessions (None # ss) hasPolicySession =
     (case prepare_sessions ss hasPolicySession of
        Inl e \<Rightarrow> Inl e
      | Inr (ss', hp) \<Rightarrow> Inr (None # ss', hp))"
| "prepare_sessions (Some s # ss) hasPolicySession =
     (case scData s of
        None \<Rightarrow> Inl (Err ''unusable session context'')
      | Some sessionData \<Rightarrow>
        (case prepare_sessions ss
                (if sdSessionType sessionData = SessionTypePolicy then True else hasPolicySession) of
           Inl e \<Rightarrow> Inl e
         | Inr (ss', hp) \<Rightarrow> Inr (Some (IncludeAttrs s AttrContinueSession) # ss', hp)))"

text \<open>The interface \<open>execMultipleHelperAction\<close> over a state \<open>'s\<close>: \<open>last\<close> reads the state,
  \<open>run\<close> returns its error (\<open>None\<close> is nil) and the state it leaves.\<close>

record 's execMultipleHelperAction =
  last_of :: "'s \<Rightarrow> bool"
  run_of :: "'s \<Rightarrow> SessionContext option list \<Rightarrow> error option \<times> 's"

text \<open>The loop \<open>for !action.last()\<close> need not end (\<open>run\<close> may leave \<open>last\<close> false for
  ever), so it carries fuel: \<open>None\<close> is a loop that has not ended within the fuel. The result
  pairs the returned error (\<open>None\<close> is nil) with the final state of the action.\<close>

fun exec_loop :: "nat \<Rightarrow> 's execMultipleHelperAction \<Rightarrow> bool \<Rightarrow> SessionContext option list \<Rightarrow>
    SessionContext option list \<Rightarrow> 's \<Rightarrow> (error option \<times> 's) option" where
  "exec_loop 0 action hasPolicySession sessions sessionsOrig st = None"
| "exec_loop (Suc fuel) action hasPolicySession sessions sessionsOrig st =
     (if \<not> last_of action st then
        (if hasPolicySession then Some (Some (Err ''cannot use a policy session for authorization''), st)
         else (case run_of action st sessions of
                 (Some e, st') \<Rightarrow> Some (Some e, st')
               | (None, st') \<Rightarrow> exec_loop fuel action hasPolicySession sessions sessionsOrig st'))
      else Some (run_of action st sessionsOrig))"

definition execMultipleHelper :: "nat \<Rightarrow> 's execMultipleHelperAction \<Rightarrow> 's \<Rightarrow>
    SessionContext option list \<Rightarrow> (error option \<times> 's) option" where
  "execMultipleHelper fuel action st sessions =
     (case prepare_sessions sessions False of
        Inl e \<Rightarrow> Some (Some e, st)
      | Inr (sessions', hasPolicySession) \<Rightarrow>
          exec_loop fuel action hasPolicySession sessions' sessions st)"

text \<open>\<open>readMultipleHelperContext\<close>. The callback \<open>fn\<close> issues one TPM command; the field
  \<open>issued\<close> records each call of it (size, offset, sessions), oldest first, also a call
  that returned an error.\<close>

record readMultipleHelperContext =
  rmData :: bytes
  rmMaxSize :: u16
  rmRemaining :: u16
  rmTotal :: u16
  issued :: "(u16 \<times> u16 \<times> SessionContext option list) list"

type_synonym read_fn = "u16 \<Rightarrow> u16 \<Rightarrow> SessionContext option list \<Rightarrow> error + bytes"

definition rm_last :: "readMultipleHelperContext \<Rightarrow> bool" where
  "rm_last c = (rmRemaining c \<le> rmMaxSize c)"

text \<open>Go's \<open>copy(dst[off:], src)\<close>: as many bytes as fit.\<close>

definition copy_at :: "bytes \<Rightarrow> nat \<Rightarrow> bytes \<Rightarrow> bytes" where
  "copy_at dst off src =
     (let n = min (length dst - off) (length src)
      in take off dst @ take n src @ drop (off + n) dst)"

definition rm_run :: "read_fn \<Rightarrow> readMultipleHelperContext \<Rightarrow> SessionContext option list \<Rightarrow>
    error option \<times> readMultipleHelperContext" where
  "rm_run fn c sessions =
     (let sz = (if rmRemaining c > rmMaxSize c then rmMaxSize c else rmRemaining c);
          c1 = c\<lparr>issued := issued c @ [(sz, rmTotal c, sessions)]\<rparr>
      in case fn sz (rmTotal c) sessions of
           Inl e \<Rightarrow> (Some e, c1)
         | Inr tmpData \<Rightarrow>
             (None, c1\<lparr>rmData := copy_at (rmData c) (unat (rmTotal c)) tmpData,
                       rmTotal := rmTotal c + sz,
                       rmRemaining := rmRemaining c - sz\<rparr>))"


definition rm_action :: "read_fn \<Rightarrow> readMultipleHelperContext execMultipleHelperAction" where
  "rm_action fn = \<lparr>last_of = rm_last, run_of = rm_run fn\<rparr>"

text \<open>\<open>readMultipleHelper\<close> returns the data or the error; the model also returns the
  commands issued. \<open>None\<close> is a run that has not ended within the fuel.\<close>

definition readMultipleHelper :: "nat \<Rightarrow> u16 \<Rightarrow> u16 \<Rightarrow> read_fn \<Rightarrow> SessionContext option list \<Rightarrow>
    ((error + bytes) \<times> (u16 \<times> u16 \<times> SessionContext option list) list) option" where
  "readMultipleHelper fuel size0 maxSize exec sessions =
     (let context = \<lparr>rmData = replicate (unat size0) 0, rmMaxSize = maxSize, rmRemaining = size0,
                     rmTotal = 0, issued = []\<rparr>
      in case execMultipleHelper fuel (rm_action exec) context sessions of
           None \<Rightarrow> None
         | Some (Some e, c) \<Rightarrow> Some (Inl e, issued c)
         | Some (None, c) \<Rightarrow> Some (Inr (rmData c), issued c))"

subsection \<open>Exclusive-audit tracking\<close>

definition isSessionAllowed :: "u32 \<Rightarrow> bool" where
  "isSessionAllowed commandCode =
     (if commandCode = CommandStartup then False
      else if commandCode = CommandContextLoad then False
      else if commandCode = CommandContextSave then False
      else if commandCode = CommandFlushContext then False
      else True)"

text \<open>Session contexts and response contexts are shared through pointers, so they are
  named by an address. \<open>sessionData\<close> is the store of the session contexts' data: \<open>None\<close> at
  the address of a session context is a context whose \<open>Data()\<close> is nil.\<close>

record rspContext =
  rspAddr :: nat
  rspCommandCode :: u32
  rspSessions :: "nat list"
  rspResponseAuthArea :: "AuthResponse list"
  rspRpBytes :: bytes
  rspErr :: "error option"

record execContext =
  lastExclusiveSession :: "nat option"
  pendingResponse :: "nat option"
  sessionData :: "nat \<Rightarrow> sessionContextData option"

type_synonym process_auth_area =
  "(nat \<Rightarrow> sessionContextData option) \<Rightarrow> rspContext \<Rightarrow> error option \<times> (nat \<Rightarrow> sessionContextData option)"

text \<open>The guarded block of \<open>processResponseAuth\<close> that drops the cached exclusive session.\<close>

definition clear_last_exclusive :: "u32 \<Rightarrow> execContext \<Rightarrow> execContext" where
  "clear_last_exclusive commandCode e =
     (case lastExclusiveSession e of
        Some s \<Rightarrow>
          if isSessionAllowed commandCode then
            (case sessionData e s of
               Some data \<Rightarrow> e\<lparr>sessionData := (sessionData e)(s := Some (data\<lparr>sdIsExclusive := False\<rparr>)),
                              lastExclusiveSession := None\<rparr>
             | None \<Rightarrow> e\<lparr>lastExclusiveSession := None\<rparr>)
          else e
      | None \<Rightarrow> e)"

definition IsExclusive :: "(nat \<Rightarrow> sessionContextData option) \<Rightarrow> nat \<Rightarrow> bool" where
  "IsExclusive store s = (case store s of None \<Rightarrow> False | Some d \<Rightarrow> sdIsExclusive d)"

text \<open>\<open>processResponseAuth\<close>. \<open>SessionParams.ProcessResponseAuthArea\<close> is a parameter: it
  returns its error and the session data as it leaves them. The result is the returned
  error, the dispatcher state and the response context with \<open>Err\<close> set by the deferred
  function.\<close>

definition processResponseAuth :: "process_auth_area \<Rightarrow> execContext \<Rightarrow> rspContext \<Rightarrow>
    error option \<times> execContext \<times> rspContext" where
  "processResponseAuth ProcessResponseAuthArea e r =
     (if Some (rspAddr r) \<noteq> pendingResponse e then (rspErr r, e, r)
      else
        (let e1 = clear_last_exclusive (rspCommandCode r) (e\<lparr>pendingResponse := None\<rparr>)
         in case ProcessResponseAuthArea (sessionData e1) r of
              (Some err, store) \<Rightarrow>
                (let err' = InvalidResponseError (rspCommandCode r)
                              (Wrap ''cannot process response auth area'' err)
                 in (Some err', e1\<lparr>sessionData := store\<rparr>, r\<lparr>rspErr := Some err'\<rparr>))
            | (None, store) \<Rightarrow>
                (let e2 = e1\<lparr>sessionData := store\<rparr>;
                     e3 = (case find (IsExclusive store) (rspSessions r) of
                             Some s \<Rightarrow> e2\<lparr>lastExclusiveSession := Some s\<rparr>
                           | None \<Rightarrow> e2)
                 in (None, e3, r\<lparr>rspErr := None\<rparr>))))"

subsection \<open>TPMContext.RunCommand\<close>

text \<open>What \<open>RunCommand\<close> consumes from outside this file: the transmission interface (the
  response to the \<open>n\<close>-th packet written, counted from 0, or the error of the write or read),
  \<open>DecodeResponseCode\<close> and \<open>IsTPMWarning\<close>.\<close>

record run_env =
  transmit :: "nat \<Rightarrow> bytes \<Rightarrow> error + bytes"
  DecodeResponseCode :: "u32 \<Rightarrow> u32 \<Rightarrow> error option"
  IsTPMWarning :: "error \<Rightarrow> u32 \<Rightarrow> u32 \<Rightarrow> bool"

definition WarningYielded :: u32 where "WarningYielded = 0x08"
definition WarningTesting :: u32 where "WarningTesting = 0x0a"
definition WarningRetry :: u32 where "WarningRetry = 0x22"

definition retry_warning :: "run_env \<Rightarrow> error \<Rightarrow> u32 \<Rightarrow> bool" where
  "retry_warning env err commandCode =
     (IsTPMWarning env err WarningYielded commandCode \<or>
      IsTPMWarning env err WarningTesting commandCode \<or>
      IsTPMWarning env err WarningRetry commandCode)"

text \<open>The loop \<open>for tries := uint(1); ; tries++\<close>. The second component of the result is
  the number of packets written to the transmission interface.\<close>

function RunCommand_loop :: "run_env \<Rightarrow> u64 \<Rightarrow> u32 \<Rightarrow> nat \<Rightarrow> bytes \<Rightarrow> nat \<Rightarrow> u64 \<Rightarrow>
    (error + bytes \<times> AuthResponse list) \<times> nat" where
  "RunCommand_loop env maxSubmissions commandCode nAuth cmd numHandles tries =
     (case transmit env (unat tries - 1) cmd of
        Inl e \<Rightarrow> (Inl e, unat tries)
      | Inr resp \<Rightarrow>
        (case Unmarshal resp numHandles of
           (rc, handles, rpBytes, rAuthArea, Some e) \<Rightarrow>
             (Inl (InvalidResponseError commandCode (Wrap ''cannot unmarshal response packet'' e)),
              unat tries)
         | (rc, handles, rpBytes, rAuthArea, None) \<Rightarrow>
           (case DecodeResponseCode env commandCode rc of
              None \<Rightarrow>
                (if length rAuthArea \<noteq> nAuth
                 then (Inl (InvalidResponseError commandCode
                              (UnexpectedAuthCount (length rAuthArea) nAuth)), unat tries)
                 else (Inr (rpBytes, rAuthArea), unat tries))
            | Some err \<Rightarrow>
                if maxSubmissions \<le> tries then (Inl err, unat tries)
                else if \<not> retry_warning env err commandCode then (Inl err, unat tries)
                else RunCommand_loop env maxSubmissions commandCode nAuth cmd numHandles (tries + 1))))"
  by pat_completeness auto
termination
proof (relation "measure (\<lambda>(env, maxSubmissions, commandCode, nAuth, cmd, numHandles, tries).
        unat maxSubmissions - unat tries)", goal_cases)
  case 1
  show ?case by simp
next
  case (2 env maxSubmissions commandCode nAuth cmd numHandles tries)
  from \<open>\<not> maxSubmissions \<le> tries\<close> have lt: "tries < maxSubmissions" by simp
  then have "tries \<noteq> - 1" by (metis word_order.extremum_strict)
  then have "1 + tries \<noteq> 0" by (simp add: add_eq_0_iff)
  then have "unat (tries + 1) = Suc (unat tries)" using unatSuc [of tries] by (simp add: add.commute)
  moreover have "unat tries < unat maxSubmissions" using lt by (simp add: word_less_nat_alt)
  ultimately show ?case by simp
qed

declare RunCommand_loop.simps [simp del]

definition RunCommand :: "run_env \<Rightarrow> u64 \<Rightarrow> u32 \<Rightarrow> u32 list \<Rightarrow> AuthCommand list \<Rightarrow> bytes \<Rightarrow> bool \<Rightarrow>
    (error + bytes \<times> AuthResponse list) \<times> nat" where
  "RunCommand env maxSubmissions commandCode cHandles cAuthArea cpBytes rHandle =
     (case MarshalCommandPacket commandCode (concat (map be32 cHandles)) cAuthArea cpBytes of
        Inl e \<Rightarrow> (Inl (Wrap ''cannot serialize command packet'' e), 0)
      | Inr cmd \<Rightarrow>
          RunCommand_loop env maxSubmissions commandCode (length cAuthArea) cmd
            (if rHandle then 1 else 0) 1)"

definition defaultMaxSubmissions :: u64 where
  "defaultMaxSubmissions = 5"



section \<open>Session start (cmds\_session.go)\<close>

text \<open>What \<open>StartAuthSession\<close> consumes from files of the package that are not part of this
  development: the check of a resource context, the table of digest sizes, the nonce
  generator, KDFa, and the submission of the TPM2\_StartAuthSession command (which returns
  the session handle and nonceTPM, or an error).\<close>

record ResourceContext =
  rcHandle :: u32

datatype authValueArg = AuthString string | AuthBytes bytes | AuthNil | AuthOther

record SymDef =
  symAlgorithm :: u16

record sessionContext =
  sessHandle :: u32
  sessHashAlg :: u16
  sessBoundResource :: ResourceContext
  sessNonceCaller :: bytes
  sessNonceTPM :: bytes
  sessSessionKey :: bytes

record sas_env =
  checkResourceContextParam :: "ResourceContext \<Rightarrow> error option"
  digestSizes :: "u16 \<Rightarrow> nat option"
  cryptComputeNonce :: "nat \<Rightarrow> error + bytes"
  cryptKDFa :: "u16 \<Rightarrow> bytes \<Rightarrow> bytes \<Rightarrow> bytes \<Rightarrow> bytes \<Rightarrow> nat \<Rightarrow> bytes"
  runStartAuthSession :: "ResourceContext \<Rightarrow> ResourceContext \<Rightarrow> bytes \<Rightarrow> SessionType \<Rightarrow> u16 \<Rightarrow>
      error + (u32 \<times> bytes)"

text \<open>The state of \<open>tpmImpl\<close> that \<open>StartAuthSession\<close> touches: the commands it has sent
  (their command codes, oldest first) and the session contexts it has registered.\<close>

record tpmImpl =
  commandsSent :: "u32 list"
  resources :: "sessionContext list"

definition bytes_of_string :: "string \<Rightarrow> bytes" where
  "bytes_of_string str = map (\<lambda>ch. of_nat (of_char ch)) str"

definition StartAuthSession :: "sas_env \<Rightarrow> tpmImpl \<Rightarrow> ResourceContext option \<Rightarrow>
    ResourceContext option \<Rightarrow> SessionType \<Rightarrow> SymDef option \<Rightarrow> u16 \<Rightarrow> authValueArg \<Rightarrow>
    (error + sessionContext) \<times> tpmImpl" where
  "StartAuthSession env t tpmKey bind sessionType symmetric authHash authValue =
     (if tpmKey \<noteq> None then (Inl (InvalidParamError ''no support for salted sessions yet''), t)
      else case (case bind of None \<Rightarrow> None | Some b \<Rightarrow> checkResourceContextParam env b) of
        Some err \<Rightarrow> (Inl err, t)
      | None \<Rightarrow>
        if symmetric \<noteq> None
        then (Inl (InvalidParamError ''no support for parameter / response encryption yet''), t)
        else case digestSizes env authHash of
          None \<Rightarrow> (Inl (InvalidParamError ''unsupported authHash value''), t)
        | Some digestSize \<Rightarrow>
          (let salt = [];
               tpmKey' = \<lparr>rcHandle = HandleNull\<rparr>
           in case (case bind of
                      None \<Rightarrow> Inr ([], \<lparr>rcHandle = HandleNull\<rparr>)
                    | Some b \<Rightarrow>
                        (case authValue of
                           AuthString a \<Rightarrow> Inr (bytes_of_string a, b)
                         | AuthBytes a \<Rightarrow> Inr (a, b)
                         | AuthNil \<Rightarrow> Inr ([], b)
                         | AuthOther \<Rightarrow> Inl (InvalidParamError ''invalid auth value''))) of
                Inl err \<Rightarrow> (Inl err, t)
              | Inr (authB, bind') \<Rightarrow>
                (case cryptComputeNonce env digestSize of
                   Inl err \<Rightarrow> (Inl (Wrap ''cannot compute initial nonceCaller'' err), t)
                 | Inr nonceCaller \<Rightarrow>
                   (let t1 = t\<lparr>commandsSent := commandsSent t @ [CommandStartAuthSession]\<rparr>
                    in case runStartAuthSession env tpmKey' bind' nonceCaller sessionType authHash of
                         Inl err \<Rightarrow> (Inl err, t1)
                       | Inr (sessionHandle, nonceTPM) \<Rightarrow>
                         (let sc = \<lparr>sessHandle = sessionHandle, sessHashAlg = authHash,
                                    sessBoundResource = bind', sessNonceCaller = nonceCaller,
                                    sessNonceTPM = nonceTPM,
                                    sessSessionKey =
                                      (if rcHandle tpmKey' \<noteq> HandleNull \<or> rcHandle bind' \<noteq> HandleNull
                                       then cryptKDFa env authHash (authB @ salt)
                                              (bytes_of_string ''ATH'') nonceTPM nonceCaller
                                              (digestSize * 8)
                                       else [])\<rparr>
                          in (Inr sc, t1\<lparr>resources := resources t1 @ [sc]\<rparr>))))))"

section \<open>Qualified names (package util)\<close>

text \<open>An entity is known by its name. What the functions consume from package tpm2: the
  name's algorithm (\<open>Name.Algorithm()\<close>), the validity of a name (\<open>Name.IsValid()\<close>), whether
  an algorithm is available, and the digest of the bytes written to a hash of an
  algorithm.\<close>

record qn_env =
  nameAlgorithm :: "bytes \<Rightarrow> u16"
  nameIsValid :: "bytes \<Rightarrow> bool"
  algAvailable :: "u16 \<Rightarrow> bool"
  hashSum :: "u16 \<Rightarrow> bytes \<Rightarrow> bytes"

definition HashAlgorithmNull :: u16 where
  "HashAlgorithmNull = 0x0010"

definition HandleEndorsement :: u32 where "HandleEndorsement = 0x4000000b"
definition HandlePlatform :: u32 where "HandlePlatform = 0x4000000c"

definition computeOneQualifiedName :: "qn_env \<Rightarrow> bytes \<Rightarrow> bytes \<Rightarrow> error + bytes" where
  "computeOneQualifiedName env entity parentQn =
     (if nameAlgorithm env entity = HashAlgorithmNull then Inl (Err ''invalid name'')
      else if \<not> algAvailable env (nameAlgorithm env entity)
        then Inl (Err ''name algorithm is not available'')
      else if \<not> nameIsValid env parentQn then Inl (Err ''invalid parent qualified name'')
      else if nameAlgorithm env parentQn \<noteq> HashAlgorithmNull \<and>
              nameAlgorithm env parentQn \<noteq> nameAlgorithm env entity
        then Inl (Err ''name algorithm mismatch'')
      else Inr (be16 (nameAlgorithm env entity) @
                hashSum env (nameAlgorithm env entity) (parentQn @ entity)))"

text \<open>The loop over the ancestors: \<open>i\<close> is the index of the next ancestor.\<close>

fun qn_ancestors :: "qn_env \<Rightarrow> nat \<Rightarrow> bytes \<Rightarrow> bytes list \<Rightarrow> error + bytes" where
  "qn_ancestors env i lastQn [] = Inr lastQn"
| "qn_ancestors env i lastQn (ancestor # rest) =
     (case computeOneQualifiedName env ancestor lastQn of
        Inl err \<Rightarrow> Inl (IntermediateQN i err)
      | Inr qn \<Rightarrow> qn_ancestors env (Suc i) qn rest)"

definition ComputeQualifiedName :: "qn_env \<Rightarrow> bytes \<Rightarrow> bytes \<Rightarrow> bytes list \<Rightarrow> error + bytes" where
  "ComputeQualifiedName env entity rootQn ancestors =
     (case qn_ancestors env 0 rootQn ancestors of
        Inl err \<Rightarrow> Inl err
      | Inr lastQn \<Rightarrow> computeOneQualifiedName env entity lastQn)"

definition ComputeQualifiedNameInHierarchy :: "qn_env \<Rightarrow> bytes \<Rightarrow> u32 \<Rightarrow> bytes list \<Rightarrow> error + bytes" where
  "ComputeQualifiedNameInHierarchy env entity hierarchy ancestors =
     (if hierarchy = HandleOwner \<or> hierarchy = HandleNull \<or> hierarchy = HandleEndorsement \<or>
         hierarchy = HandlePlatform
      then ComputeQualifiedName env entity (be32 hierarchy) ancestors
      else Inl (Err ''invalid hierarchy''))"

text \<open>The qualified name of the \<open>k\<close>-th ancestor, computed from the root with the ancestors
  before it; for \<open>k = 0\<close> there is no ancestor and it is the root's qualified name.\<close>

definition intermediate_qn :: "qn_env \<Rightarrow> bytes \<Rightarrow> bytes list \<Rightarrow> nat \<Rightarrow> error + bytes" where
  "intermediate_qn env rootQn ancestors k =
     (if k = 0 then Inr rootQn
      else ComputeQualifiedName env (ancestors ! (k - 1)) rootQn (take (k - 1) ancestors))"

text \<open>The qualified name that a computation returns, if it returns one.\<close>

definition qn_value :: "error + bytes \<Rightarrow> bytes option" where
  "qn_value r = (case r of Inl err \<Rightarrow> None | Inr qn \<Rightarrow> Some qn)"

text \<open>A hash and names to run the functions on: the name of algorithm \<open>0x000b\<close> with a
  one-byte digest, and the sum of the bytes as the digest.\<close>

definition example_qn_env :: qn_env where
  "example_qn_env =
     \<lparr>nameAlgorithm = (\<lambda>n. if length n = 3 then 0x000b else HashAlgorithmNull),
      nameIsValid = (\<lambda>n. length n = 3 \<or> length n = 4),
      algAvailable = (\<lambda>a. a = 0x000b),
      hashSum = (\<lambda>a bs. [sum_list bs])\<rparr>"

section \<open>Object wrappers (util/object.go)\<close>

text \<open>What the wrappers consume from outside the file: KDFa, HMAC and digests of an
  algorithm (\<open>None\<close> where the library panics because the algorithm is not available), the
  digest and block sizes, the symmetric cipher, the algorithm of a name, the codec of the
  sized sensitive structure, and the random source.\<close>

record SymDefObject =
  sdoAlgorithm :: u16
  sdoKeyBits :: u16

text \<open>Of a public area, the name algorithm and \<open>Params.AsymDetail().Symmetric\<close>: the latter
  is \<open>None\<close> when \<open>AsymDetail()\<close> is nil.\<close>

record Public =
  pubNameAlg :: u16
  pubAsymSymmetric :: "SymDefObject option"

record 's crypto_env =
  KDFa :: "u16 \<Rightarrow> bytes \<Rightarrow> bytes \<Rightarrow> bytes \<Rightarrow> bytes \<Rightarrow> nat \<Rightarrow> bytes option"
  hmacSum :: "u16 \<Rightarrow> bytes \<Rightarrow> bytes \<Rightarrow> bytes option"
  digestSum :: "u16 \<Rightarrow> bytes \<Rightarrow> bytes option"
  digestSize :: "u16 \<Rightarrow> nat"
  blockSize :: "u16 \<Rightarrow> nat"
  CryptSymmetricEncrypt :: "u16 \<Rightarrow> bytes \<Rightarrow> bytes \<Rightarrow> bytes \<Rightarrow> error + bytes"
  CryptSymmetricDecrypt :: "u16 \<Rightarrow> bytes \<Rightarrow> bytes \<Rightarrow> bytes \<Rightarrow> error + bytes"
  objNameAlgorithm :: "bytes \<Rightarrow> u16"
  marshalSensitive :: "'s \<Rightarrow> error + bytes"
  unmarshalSensitive :: "bytes \<Rightarrow> error + 's"
  randRead :: "nat \<Rightarrow> error + bytes"

definition SymObjectAlgorithmNull :: u16 where
  "SymObjectAlgorithmNull = 0x0010"

definition IntegrityKey :: bytes where
  "IntegrityKey = bytes_of_string ''INTEGRITY''"

definition StorageKey :: bytes where
  "StorageKey = bytes_of_string ''STORAGE''"

text \<open>\<open>mu.MustMarshalToBytes(b, mu.RawBytes(data))\<close> for a byte slice \<open>b\<close>: the sized buffer,
  then the raw bytes; it panics when \<open>b\<close> does not fit its size field.\<close>

definition must_marshal_sized_raw :: "bytes \<Rightarrow> bytes \<Rightarrow> error + bytes" where
  "must_marshal_sized_raw b raw =
     (case marshal_sized b of None \<Rightarrow> Inl Panic | Some m \<Rightarrow> Inr (m @ raw))"

text \<open>\<open>xerrors.Errorf("...: %w", err)\<close> wraps an error that a call returned. A panic is
  not returned: it passes through every caller unchanged.\<close>

definition wrap_error :: "string \<Rightarrow> error \<Rightarrow> error" where
  "wrap_error msg err = (if err = Panic then Panic else Wrap msg err)"

definition UnwrapOuter :: "'s crypto_env \<Rightarrow> u16 \<Rightarrow> SymDefObject option \<Rightarrow> bytes \<Rightarrow> bytes \<Rightarrow> bool \<Rightarrow>
    bytes \<Rightarrow> error + bytes" where
  "UnwrapOuter env hashAlg symmetricAlg name seed useIV data0 =
     (case read_sized data0 of
        None \<Rightarrow> Inl (Wrap ''cannot unpack integrity digest'' (Err ''unexpected EOF''))
      | Some (integrity, data1) \<Rightarrow>
        (case KDFa env hashAlg seed IntegrityKey [] [] (digestSize env hashAlg * 8) of
           None \<Rightarrow> Inl Panic
         | Some hmacKey \<Rightarrow>
           (case hmacSum env hashAlg hmacKey (data1 @ name) of
              None \<Rightarrow> Inl Panic
            | Some mac \<Rightarrow>
              if mac \<noteq> integrity then Inl (Err ''integrity digest is invalid'')
              else case symmetricAlg of
                None \<Rightarrow> Inl Panic
              | Some sdo \<Rightarrow>
                (case (if useIV then
                         (case read_sized data1 of
                            None \<Rightarrow> Inl (Wrap ''cannot unpack IV'' (Err ''unexpected EOF''))
                          | Some (iv, rest) \<Rightarrow>
                              if length iv \<noteq> blockSize env (sdoAlgorithm sdo)
                              then Inl (Err ''IV has the wrong size'')
                              else Inr (iv, rest))
                       else Inr (replicate (blockSize env (sdoAlgorithm sdo)) 0, data1)) of
                   Inl err \<Rightarrow> Inl err
                 | Inr (iv, data2) \<Rightarrow>
                   (case KDFa env hashAlg seed StorageKey name [] (unat (sdoKeyBits sdo)) of
                      None \<Rightarrow> Inl Panic
                    | Some symKey \<Rightarrow>
                      (case CryptSymmetricDecrypt env (sdoAlgorithm sdo) symKey iv data2 of
                         Inl err \<Rightarrow> Inl (wrap_error ''cannot remove wrapper'' err)
                       | Inr plain \<Rightarrow> Inr plain))))))"

definition ProduceOuterWrap :: "'s crypto_env \<Rightarrow> u16 \<Rightarrow> SymDefObject option \<Rightarrow> bytes \<Rightarrow> bytes \<Rightarrow> bool \<Rightarrow>
    bytes \<Rightarrow> error + bytes" where
  "ProduceOuterWrap env hashAlg symmetricAlg name seed useIV data0 =
     (case symmetricAlg of
        None \<Rightarrow> Inl Panic
      | Some sdo \<Rightarrow>
        (case (if useIV then
                 (case randRead env (blockSize env (sdoAlgorithm sdo)) of
                    Inl err \<Rightarrow> Inl (wrap_error ''cannot generate IV'' err)
                  | Inr r \<Rightarrow> Inr r)
               else Inr (replicate (blockSize env (sdoAlgorithm sdo)) 0)) of
           Inl err \<Rightarrow> Inl err
         | Inr iv \<Rightarrow>
           (case KDFa env hashAlg seed StorageKey name [] (unat (sdoKeyBits sdo)) of
              None \<Rightarrow> Inl Panic
            | Some symKey \<Rightarrow>
              (case CryptSymmetricEncrypt env (sdoAlgorithm sdo) symKey iv data0 of
                 Inl err \<Rightarrow> Inl (wrap_error ''cannot apply wrapper'' err)
               | Inr enc \<Rightarrow>
                 (case (if useIV then must_marshal_sized_raw iv enc else Inr enc) of
                    Inl err \<Rightarrow> Inl err
                  | Inr data1 \<Rightarrow>
                    (case KDFa env hashAlg seed IntegrityKey [] [] (digestSize env hashAlg * 8) of
                       None \<Rightarrow> Inl Panic
                     | Some hmacKey \<Rightarrow>
                       (case hmacSum env hashAlg hmacKey (data1 @ name) of
                          None \<Rightarrow> Inl Panic
                        | Some integrity \<Rightarrow> must_marshal_sized_raw integrity data1)))))))"

definition inner_wrapper_applies :: "SymDefObject option \<Rightarrow> bool" where
  "inner_wrapper_applies symmetricAlg =
     (case symmetricAlg of None \<Rightarrow> False | Some sdo \<Rightarrow> sdoAlgorithm sdo \<noteq> SymObjectAlgorithmNull)"

definition DuplicateToSensitive :: "'s crypto_env \<Rightarrow> bytes \<Rightarrow> bytes \<Rightarrow> u16 \<Rightarrow> SymDefObject option \<Rightarrow>
    bytes \<Rightarrow> SymDefObject option \<Rightarrow> bytes \<Rightarrow> error + 's" where
  "DuplicateToSensitive env duplicate name parentNameAlg parentSymmetricAlg seed symmetricAlg innerSymKey =
     (case (if length seed > 0 then
              (case UnwrapOuter env parentNameAlg parentSymmetricAlg name seed False duplicate of
                 Inl err \<Rightarrow> Inl (wrap_error ''cannot unwrap outer wrapper'' err)
               | Inr d \<Rightarrow> Inr d)
            else Inr duplicate) of
        Inl err \<Rightarrow> Inl err
      | Inr dup1 \<Rightarrow>
        (case (case symmetricAlg of
                 None \<Rightarrow> Inr dup1
               | Some sdo \<Rightarrow>
                 if sdoAlgorithm sdo \<noteq> SymObjectAlgorithmNull then
                   (case CryptSymmetricDecrypt env (sdoAlgorithm sdo) innerSymKey
                           (replicate (blockSize env (sdoAlgorithm sdo)) 0) dup1 of
                      Inl err \<Rightarrow> Inl (wrap_error ''cannot remove inner wrapper'' err)
                    | Inr plain \<Rightarrow>
                      (case read_sized plain of
                         None \<Rightarrow> Inl (Wrap ''cannot unpack inner integrity digest'' (Err ''unexpected EOF''))
                       | Some (innerIntegrity, rest) \<Rightarrow>
                         (case digestSum env (objNameAlgorithm env name) (rest @ name) of
                            None \<Rightarrow> Inl Panic
                          | Some h \<Rightarrow>
                            if h \<noteq> innerIntegrity then Inl (Err ''inner integrity digest is invalid'')
                            else Inr rest)))
                 else Inr dup1) of
           Inl err \<Rightarrow> Inl err
         | Inr dup2 \<Rightarrow>
           (case unmarshalSensitive env dup2 of
              Inl err \<Rightarrow> Inl (wrap_error ''cannot unmarhsal sensitive'' err)
            | Inr sensitive \<Rightarrow> Inr sensitive)))"

text \<open>\<open>SensitiveToDuplicate\<close> returns \<open>innerSymKeyOut\<close> (empty unless a key was created) and
  the duplication blob.\<close>

definition SensitiveToDuplicate :: "'s crypto_env \<Rightarrow> 's \<Rightarrow> bytes \<Rightarrow> Public option \<Rightarrow> bytes \<Rightarrow>
    SymDefObject option \<Rightarrow> bytes \<Rightarrow> error + (bytes \<times> bytes)" where
  "SensitiveToDuplicate env sensitive name parent seed symmetricAlg innerSymKey =
     (case marshalSensitive env sensitive of
        Inl err \<Rightarrow> Inl (wrap_error ''cannot marshal sensitive'' err)
      | Inr dup0 \<Rightarrow>
        (case (case symmetricAlg of
                 None \<Rightarrow> Inr ([], dup0)
               | Some sdo \<Rightarrow>
                 if sdoAlgorithm sdo \<noteq> SymObjectAlgorithmNull then
                   (case digestSum env (objNameAlgorithm env name) (dup0 @ name) of
                      None \<Rightarrow> Inl Panic
                    | Some innerIntegrity \<Rightarrow>
                      (case must_marshal_sized_raw innerIntegrity dup0 of
                         Inl err \<Rightarrow> Inl err
                       | Inr dup1 \<Rightarrow>
                         (case (if length innerSymKey = 0 then
                                  (case randRead env (unat (sdoKeyBits sdo) div 8) of
                                     Inl err \<Rightarrow> Inl (wrap_error ''cannot read random bytes for key for inner wrapper'' err)
                                   | Inr key \<Rightarrow> Inr (key, key))
                                else Inr (innerSymKey, [])) of
                            Inl err \<Rightarrow> Inl err
                          | Inr (key, keyOut) \<Rightarrow>
                            (case CryptSymmetricEncrypt env (sdoAlgorithm sdo) key
                                    (replicate (blockSize env (sdoAlgorithm sdo)) 0) dup1 of
                               Inl err \<Rightarrow> Inl (wrap_error ''cannot apply inner wrapper'' err)
                             | Inr enc \<Rightarrow> Inr (keyOut, enc)))))
                 else Inr ([], dup0)) of
           Inl err \<Rightarrow> Inl err
         | Inr (innerSymKeyOut, dup2) \<Rightarrow>
           if length seed > 0 then
             (case parent of
                None \<Rightarrow> Inl Panic
              | Some p \<Rightarrow>
                (case pubAsymSymmetric p of
                   None \<Rightarrow> Inl Panic
                 | Some psym \<Rightarrow>
                   (case ProduceOuterWrap env (pubNameAlg p) (Some psym) name seed False dup2 of
                      Inl err \<Rightarrow> Inl (wrap_error ''cannot produce outer wrapper'' err)
                    | Inr dup3 \<Rightarrow> Inr (innerSymKeyOut, dup3))))
           else Inr (innerSymKeyOut, dup2)))"

text \<open>A cipher, digests and a sensitive codec to run the wrappers on: the cipher adds the
  first key byte to every byte, the digest is the sum of the bytes, a sensitive structure
  is a byte string marshalled as a sized buffer.\<close>

definition example_crypto_env :: "bytes crypto_env" where
  "example_crypto_env =
     \<lparr>KDFa = (\<lambda>alg key label u v bits. Some (take (bits div 8) (key @ label @ u @ v))),
      hmacSum = (\<lambda>alg key msg. Some [sum_list key + sum_list msg]),
      digestSum = (\<lambda>alg msg. Some [sum_list msg]),
      digestSize = (\<lambda>alg. 1),
      blockSize = (\<lambda>alg. 2),
      CryptSymmetricEncrypt = (\<lambda>alg key iv d. Inr (map (\<lambda>b. b + sum_list key) d)),
      CryptSymmetricDecrypt = (\<lambda>alg key iv d. Inr (map (\<lambda>b. b - sum_list key) d)),
      objNameAlgorithm = (\<lambda>n. 0x000b),
      marshalSensitive = (\<lambda>s. case marshal_sized s of None \<Rightarrow> Inl (Err ''sensitive too large'') | Some m \<Rightarrow> Inr m),
      unmarshalSensitive = (\<lambda>b. case read_sized b of None \<Rightarrow> Inl (Err ''unexpected EOF'') | Some (s, rest) \<Rightarrow> Inr s),
      randRead = (\<lambda>n. Inr (replicate n 0x5a))\<rparr>"

text \<open>An environment to run \<open>StartAuthSession\<close> on: SHA-256 as the only digest, a TPM that
  answers with session handle \<open>0x02000000\<close>.\<close>

definition example_sas_env :: sas_env where
  "example_sas_env =
     \<lparr>checkResourceContextParam = (\<lambda>r. None),
      digestSizes = (\<lambda>a. if a = 0x000b then Some 32 else None),
      cryptComputeNonce = (\<lambda>n. Inr (replicate n 0x11)),
      cryptKDFa = (\<lambda>alg key label u v bits. take (bits div 8) (key @ label @ u @ v)),
      runStartAuthSession = (\<lambda>k b n st a. Inr (0x02000000, replicate 32 0x22))\<rparr>"

section \<open>Hash functions (crypto/sha1 and crypto/sha256, FIPS 180-4)\<close>

text \<open>The library takes its digests from the Go standard library. The two used by the policy
  digests below are written out here as FIPS 180-4 defines them, on 32-bit words: the message is
  padded to a multiple of 64 bytes, cut into blocks of sixteen big-endian words, and every block
  is compressed into the running state. The message schedule is kept as a window of the last
  sixteen words: each round takes the head of the window and appends the next scheduled word.\<close>

definition rotr :: "nat \<Rightarrow> u32 \<Rightarrow> u32" where
  "rotr n w = drop_bit n w OR push_bit (32 - n) w"

definition rotl :: "nat \<Rightarrow> u32 \<Rightarrow> u32" where
  "rotl n w = push_bit n w OR drop_bit (32 - n) w"

definition be64_of_nat :: "nat \<Rightarrow> bytes" where
  "be64_of_nat n = be32 (of_nat (n div 4294967296)) @ be32 (of_nat n)"

text \<open>A \<open>0x80\<close> byte, zero bytes up to 56 modulo 64, and the length of the message in bits as a
  64-bit big-endian integer.\<close>

definition sha_pad :: "bytes \<Rightarrow> bytes" where
  "sha_pad m = m @ [0x80] @ replicate ((119 - length m mod 64) mod 64) 0 @ be64_of_nat (8 * length m)"

fun words_of :: "bytes \<Rightarrow> u32 list" where
  "words_of (a # b # c # d # rest) =
     (push_bit 24 (ucast a) OR push_bit 16 (ucast b) OR push_bit 8 (ucast c) OR ucast d) # words_of rest"
| "words_of _ = []"

function blocks_of :: "u32 list \<Rightarrow> u32 list list" where
  "blocks_of ws = (if ws = [] then [] else take 16 ws # blocks_of (drop 16 ws))"
  by pat_completeness auto
termination
  by (relation "measure length") auto

declare blocks_of.simps [simp del]

definition sha256_K :: "u32 list" where
  "sha256_K =
     [0x428A2F98, 0x71374491, 0xB5C0FBCF, 0xE9B5DBA5, 0x3956C25B, 0x59F111F1, 0x923F82A4, 0xAB1C5ED5,
      0xD807AA98, 0x12835B01, 0x243185BE, 0x550C7DC3, 0x72BE5D74, 0x80DEB1FE, 0x9BDC06A7, 0xC19BF174,
      0xE49B69C1, 0xEFBE4786, 0x0FC19DC6, 0x240CA1CC, 0x2DE92C6F, 0x4A7484AA, 0x5CB0A9DC, 0x76F988DA,
      0x983E5152, 0xA831C66D, 0xB00327C8, 0xBF597FC7, 0xC6E00BF3, 0xD5A79147, 0x06CA6351, 0x14292967,
      0x27B70A85, 0x2E1B2138, 0x4D2C6DFC, 0x53380D13, 0x650A7354, 0x766A0ABB, 0x81C2C92E, 0x92722C85,
      0xA2BFE8A1, 0xA81A664B, 0xC24B8B70, 0xC76C51A3, 0xD192E819, 0xD6990624, 0xF40E3585, 0x106AA070,
      0x19A4C116, 0x1E376C08, 0x2748774C, 0x34B0BCB5, 0x391C0CB3, 0x4ED8AA4A, 0x5B9CCA4F, 0x682E6FF3,
      0x748F82EE, 0x78A5636F, 0x84C87814, 0x8CC70208, 0x90BEFFFA, 0xA4506CEB, 0xBEF9A3F7, 0xC67178F2]"

definition sha256_H0 :: "u32 list" where
  "sha256_H0 = [0x6A09E667, 0xBB67AE85, 0x3C6EF372, 0xA54FF53A,
                0x510E527F, 0x9B05688C, 0x1F83D9AB, 0x5BE0CD19]"

definition sha256_next :: "u32 list \<Rightarrow> u32" where
  "sha256_next ws =
     (let w15 = ws ! 1; w2 = ws ! 14
      in ws ! 0 + (rotr 7 w15 XOR rotr 18 w15 XOR drop_bit 3 w15) + ws ! 9 +
         (rotr 17 w2 XOR rotr 19 w2 XOR drop_bit 10 w2))"

fun sha256_round :: "u32 list \<Rightarrow> u32 \<Rightarrow> u32 \<Rightarrow> u32 list" where
  "sha256_round [a, b, c, d, e, f, g, h] k w =
     (let t1 = h + (rotr 6 e XOR rotr 11 e XOR rotr 25 e) + ((e AND f) XOR (NOT e AND g)) + k + w;
          t2 = (rotr 2 a XOR rotr 13 a XOR rotr 22 a) + ((a AND b) XOR (a AND c) XOR (b AND c))
      in [t1 + t2, a, b, c, d + t1, e, f, g])"
| "sha256_round st k w = st"

fun sha256_rounds :: "u32 list \<Rightarrow> u32 list \<Rightarrow> u32 list \<Rightarrow> u32 list" where
  "sha256_rounds [] st ws = st"
| "sha256_rounds (k # ks) st ws =
     sha256_rounds ks (sha256_round st k (hd ws)) (tl ws @ [sha256_next ws])"

definition sha256_compress :: "u32 list \<Rightarrow> u32 list \<Rightarrow> u32 list" where
  "sha256_compress st block = map2 (+) st (sha256_rounds sha256_K st block)"

definition sha256 :: "bytes \<Rightarrow> bytes" where
  "sha256 m = concat (map be32 (foldl sha256_compress sha256_H0 (blocks_of (words_of (sha_pad m)))))"

definition sha1_H0 :: "u32 list" where
  "sha1_H0 = [0x67452301, 0xEFCDAB89, 0x98BADCFE, 0x10325476, 0xC3D2E1F0]"

datatype sha1_f = Ch | Parity | Maj

definition twenty :: "'a \<Rightarrow> 'a list" where
  "twenty x = [x, x, x, x, x, x, x, x, x, x, x, x, x, x, x, x, x, x, x, x]"

text \<open>The function and the constant of each of the eighty rounds of SHA-1.\<close>

definition sha1_schedule :: "(sha1_f \<times> u32) list" where
  "sha1_schedule = twenty (Ch, 0x5A827999) @ twenty (Parity, 0x6ED9EBA1) @
                   twenty (Maj, 0x8F1BBCDC) @ twenty (Parity, 0xCA62C1D6)"

fun sha1_fun :: "sha1_f \<Rightarrow> u32 \<Rightarrow> u32 \<Rightarrow> u32 \<Rightarrow> u32" where
  "sha1_fun Ch b c d = (b AND c) XOR (NOT b AND d)"
| "sha1_fun Parity b c d = b XOR c XOR d"
| "sha1_fun Maj b c d = (b AND c) XOR (b AND d) XOR (c AND d)"

definition sha1_next :: "u32 list \<Rightarrow> u32" where
  "sha1_next ws = rotl 1 (ws ! 13 XOR ws ! 8 XOR ws ! 2 XOR ws ! 0)"

fun sha1_round :: "u32 list \<Rightarrow> sha1_f \<times> u32 \<Rightarrow> u32 \<Rightarrow> u32 list" where
  "sha1_round [a, b, c, d, e] (f, k) w =
     [rotl 5 a + sha1_fun f b c d + e + k + w, a, rotl 30 b, c, d]"
| "sha1_round st fk w = st"

fun sha1_rounds :: "(sha1_f \<times> u32) list \<Rightarrow> u32 list \<Rightarrow> u32 list \<Rightarrow> u32 list" where
  "sha1_rounds [] st ws = st"
| "sha1_rounds (fk # fks) st ws =
     sha1_rounds fks (sha1_round st fk (hd ws)) (tl ws @ [sha1_next ws])"

definition sha1_compress :: "u32 list \<Rightarrow> u32 list \<Rightarrow> u32 list" where
  "sha1_compress st block = map2 (+) st (sha1_rounds sha1_schedule st block)"

definition sha1 :: "bytes \<Rightarrow> bytes" where
  "sha1 m = concat (map be32 (foldl sha1_compress sha1_H0 (blocks_of (words_of (sha_pad m)))))"

section \<open>Policy digests (package policyutil)\<close>

text \<open>Of package policyutil the sources hold the tests only (\<open>policy_test.go\<close>): the builder and
  \<open>Policy.ComputeFor\<close> are modelled from the specification's table of digest updates. A policy is
  the ordered list of the elements of its root branch; the elements modelled are the ones whose
  update the table gives byte for byte from values at hand (a command code, a name, a policy
  reference). The name of a permanent handle is its four bytes (\<open>tpm2.MakeHandleName\<close>).\<close>

datatype HashAlgorithm = HashAlgorithmSHA1 | HashAlgorithmSHA256

fun hash_sum :: "HashAlgorithm \<Rightarrow> bytes \<Rightarrow> bytes" where
  "hash_sum HashAlgorithmSHA1 m = sha1 m"
| "hash_sum HashAlgorithmSHA256 m = sha256 m"

fun digest_size :: "HashAlgorithm \<Rightarrow> nat" where
  "digest_size HashAlgorithmSHA1 = 20"
| "digest_size HashAlgorithmSHA256 = 32"

definition MakeHandleName :: "u32 \<Rightarrow> bytes" where
  "MakeHandleName h = be32 h"

datatype PolicyElement =
    PolicyAuthValue
  | PolicyPassword
  | PolicyCommandCode u32
  | PolicySecret bytes bytes

text \<open>Modelled from the spec: the update of the running digest \<open>d\<close> by one element
  (the implementation is not among the sources). \<open>AuthValue\<close>:
  \<open>d \<leftarrow> H(d || TPM_CC_PolicyAuthValue)\<close>; \<open>Password\<close>: the same digest as \<open>AuthValue\<close>;
  \<open>CommandCode(cc)\<close>: \<open>d \<leftarrow> H(d || TPM_CC_PolicyCommandCode || cc)\<close>; \<open>Secret(name, ref)\<close>:
  \<open>d \<leftarrow> H(d || TPM_CC_PolicySecret || name); d \<leftarrow> H(d || ref)\<close>.\<close>

fun policy_update :: "HashAlgorithm \<Rightarrow> bytes \<Rightarrow> PolicyElement \<Rightarrow> bytes" where
  "policy_update alg d PolicyAuthValue = hash_sum alg (d @ be32 CommandPolicyAuthValue)"
| "policy_update alg d PolicyPassword = hash_sum alg (d @ be32 CommandPolicyAuthValue)"
| "policy_update alg d (PolicyCommandCode cc) =
     hash_sum alg (d @ be32 CommandPolicyCommandCode @ be32 cc)"
| "policy_update alg d (PolicySecret name policyRef) =
     hash_sum alg (hash_sum alg (d @ be32 CommandPolicySecret @ name) @ policyRef)"

text \<open>Modelled from the spec: \<open>Policy.compute_for(alg)\<close> (\<open>Policy.ComputeFor\<close>, not among the
  sources) walks the elements in order, updating a running digest that starts at all-zero bytes
  of \<open>digest_size(alg)\<close>.\<close>

definition ComputeFor :: "HashAlgorithm \<Rightarrow> PolicyElement list \<Rightarrow> bytes" where
  "ComputeFor alg elements = foldl (policy_update alg) (replicate (digest_size alg) 0) elements"

section \<open>Vocabulary for the properties of the helpers\<close>

text \<open>A session argument is usable when it is nil or its \<open>Data()\<close> is not nil; it is a policy
  session when its data says so.\<close>

fun session_usable :: "SessionContext option \<Rightarrow> bool" where
  "session_usable None = True"
| "session_usable (Some s) = (scData s \<noteq> None)"

fun is_policy_session :: "SessionContext option \<Rightarrow> bool" where
  "is_policy_session None = False"
| "is_policy_session (Some s) =
     (case scData s of None \<Rightarrow> False | Some d \<Rightarrow> sdSessionType d = SessionTypePolicy)"

definition with_continue :: "SessionContext option list \<Rightarrow> SessionContext option list" where
  "with_continue sessions = map (map_option (\<lambda>s. IncludeAttrs s AttrContinueSession)) sessions"

text \<open>The commands that chunking a transfer of \<open>remaining\<close> bytes at offset \<open>off\<close> into
  slices of \<open>maxSize\<close> bytes asks for, written from the description of the helper and not
  from its code: every chunk but the last has \<open>maxSize\<close> bytes and runs with the sessions
  that have \<open>AttrContinueSession\<close> included, the last chunk runs with the sessions as given.\<close>

function expected_calls :: "u16 \<Rightarrow> SessionContext option list \<Rightarrow> u16 \<Rightarrow> u16 \<Rightarrow>
    (u16 \<times> u16 \<times> SessionContext option list) list" where
  "expected_calls maxSize sessions off remaining =
     (if remaining \<le> maxSize \<or> maxSize = 0 then [(remaining, off, sessions)]
      else (maxSize, off, with_continue sessions) #
           expected_calls maxSize sessions (off + maxSize) (remaining - maxSize))"
  by pat_completeness auto
termination
proof (relation "measure (\<lambda>(maxSize, sessions, off, remaining). unat remaining)", goal_cases)
  case 1
  show ?case by simp
next
  case (2 maxSize sessions off remaining)
  then have le: "maxSize \<le> remaining" and nz: "maxSize \<noteq> 0" by auto
  have "unat (remaining - maxSize) = unat remaining - unat maxSize"
    using le by (simp add: unat_sub)
  moreover have "0 < unat maxSize" using nz by (simp add: unat_gt_0)
  moreover have "unat maxSize \<le> unat remaining" using le by (simp add: word_le_nat_alt)
  ultimately show ?case by simp
qed

declare expected_calls.simps [simp del]


text \<open>Sessions and a command callback to run the helper on.\<close>

definition example_policy_session :: SessionContext where
  "example_policy_session =
     \<lparr>scHandle = 0x03000000,
      scData = Some \<lparr>sdSessionType = SessionTypePolicy, sdIsExclusive = False\<rparr>, scAttrs = 0\<rparr>"

definition example_hmac_session :: SessionContext where
  "example_hmac_session =
     \<lparr>scHandle = 0x02000000,
      scData = Some \<lparr>sdSessionType = SessionTypeHMAC, sdIsExclusive = False\<rparr>, scAttrs = 0\<rparr>"

definition example_read_fn :: read_fn where
  "example_read_fn sz off sessions = Inr (replicate (unat sz) 0xaa)"

text \<open>The error that the response to the \<open>i\<close>-th packet written (counted from 0) decodes to,
  if that response arrives, unmarshals and carries an error code.\<close>

definition submission_error :: "run_env \<Rightarrow> u32 \<Rightarrow> bytes \<Rightarrow> nat \<Rightarrow> nat \<Rightarrow> error option" where
  "submission_error env commandCode cmd numHandles i =
     (case transmit env i cmd of
        Inl e \<Rightarrow> None
      | Inr resp \<Rightarrow>
        (case Unmarshal resp numHandles of
           (rc, handles, rpBytes, rAuthArea, Some e) \<Rightarrow> None
         | (rc, handles, rpBytes, rAuthArea, None) \<Rightarrow> DecodeResponseCode env commandCode rc))"

text \<open>The same for a call of \<open>RunCommand\<close>, whose packet is the marshalled command; no
  packet, no response.\<close>

definition response_error :: "run_env \<Rightarrow> u32 \<Rightarrow> u32 list \<Rightarrow> AuthCommand list \<Rightarrow> bytes \<Rightarrow> bool \<Rightarrow>
    nat \<Rightarrow> error option" where
  "response_error env commandCode cHandles cAuthArea cpBytes rHandle i =
     (case MarshalCommandPacket commandCode (concat (map be32 cHandles)) cAuthArea cpBytes of
        Inl e \<Rightarrow> None
      | Inr cmd \<Rightarrow> submission_error env commandCode cmd (if rHandle then 1 else 0) i)"

text \<open>Transmission interfaces to run \<open>RunCommand\<close> on: one answers TPM_RC_RETRY twice and
  then success, one answers TPM_RC_RETRY for ever.\<close>

definition retry_packet :: bytes where
  "retry_packet = [0x80, 0x01, 0x00, 0x00, 0x00, 0x0a, 0x00, 0x00, 0x09, 0x22]"

definition success_packet :: bytes where
  "success_packet = [0x80, 0x01, 0x00, 0x00, 0x00, 0x0a, 0x00, 0x00, 0x00, 0x00]"

definition example_decode :: "u32 \<Rightarrow> u32 \<Rightarrow> error option" where
  "example_decode commandCode rc =
     (if rc = 0 then None
      else if rc = 0x922 then Some (TPMWarning commandCode WarningRetry)
      else Some (TPMError commandCode rc))"

definition example_is_warning :: "error \<Rightarrow> u32 \<Rightarrow> u32 \<Rightarrow> bool" where
  "example_is_warning err code commandCode = (err = TPMWarning commandCode code)"

definition retry_twice_env :: run_env where
  "retry_twice_env = \<lparr>transmit = (\<lambda>n p. if n < 2 then Inr retry_packet else Inr success_packet),
      DecodeResponseCode = example_decode, IsTPMWarning = example_is_warning\<rparr>"

definition always_retry_env :: run_env where
  "always_retry_env = \<lparr>transmit = (\<lambda>n p. Inr retry_packet),
      DecodeResponseCode = example_decode, IsTPMWarning = example_is_warning\<rparr>"



section \<open>Properties of the packet codec\<close>

lemma read_u16_be16: "read_u16 (be16 w @ rest) = Some (w, rest)"
  unfolding be16_def
  apply simp
  apply (rule bit_word_eqI)
  subgoal for n
    by (cases "n < 8"; cases "n < 16"; cases "n < 24") (auto simp add: bit_simps)
  done

lemma read_u32_be32: "read_u32 (be32 w @ rest) = Some (w, rest)"
  unfolding be32_def
  apply simp
  apply (rule bit_word_eqI)
  subgoal for n
    by (cases "n < 8"; cases "n < 16"; cases "n < 24") (auto simp add: bit_simps)
  done

lemma length_be16: "length (be16 w) = 2"
  by (simp add: be16_def)

lemma length_be32: "length (be32 w) = 4"
  by (simp add: be32_def)

lemma read_full_append: "read_full (length b) (b @ rest) = Some (b, rest)"
  by (simp add: read_full_def)

lemma unat_of_nat16: "n < 65536 \<Longrightarrow> unat (of_nat n :: u16) = n"
  by (simp add: unat_of_nat)

lemma unat_of_nat32: "n < 4294967296 \<Longrightarrow> unat (of_nat n :: u32) = n"
  by (simp add: unat_of_nat)

lemma read_sized_marshal:
  "marshal_sized b = Some m \<Longrightarrow> read_sized (m @ rest) = Some (b, rest)"
  by (auto simp: marshal_sized_def read_sized_def read_u16_be16 unat_of_nat16 read_full_append
      split: if_splits)

lemma length_marshal_sized: "marshal_sized b = Some m \<Longrightarrow> length m < 65538"
  by (auto simp: marshal_sized_def length_be16 split: if_splits)

lemma unmarshal_marshal_AuthCommand:
  "marshal_AuthCommand a = Some m \<Longrightarrow> unmarshal_AuthCommand (m @ rest) = Some (a, rest)"
  by (auto simp: marshal_AuthCommand_def unmarshal_AuthCommand_def read_u32_be32
      read_sized_marshal split: option.splits)

lemma length_marshal_AuthCommand:
  "marshal_AuthCommand a = Some m \<Longrightarrow> 0 < length m \<and> length m \<le> 131081"
  by (auto simp: marshal_AuthCommand_def length_be32 split: option.splits
      dest!: length_marshal_sized)

lemma length_marshal_auth_area:
  "marshal_auth_area as = Some bs \<Longrightarrow> length bs \<le> 131081 * length as"
  by (induction as arbitrary: bs)
     (auto split: option.splits dest!: length_marshal_AuthCommand)

text \<open>Reading back a marshalled auth area through a window of exactly its length: the
  loop returns the entries it was given, after whatever it had collected before, and
  leaves what follows the auth area, as long as the total stays within three.\<close>

lemma command_auth_loop_marshal:
  "marshal_auth_area as = Some bs \<Longrightarrow> length acc + length as \<le> 3 \<Longrightarrow>
   command_auth_loop (length bs) (bs @ rest) acc = Inr (acc @ as, rest)"
proof (induction as arbitrary: bs acc)
  case Nil
  then show ?case by (simp add: command_auth_loop.simps)
next
  case (Cons a as)
  from Cons.prems(1) obtain b bs' where b: "marshal_AuthCommand a = Some b"
    and bs': "marshal_auth_area as = Some bs'" and bs: "bs = b @ bs'"
    by (auto split: option.splits)
  have pos: "0 < length b" using length_marshal_AuthCommand [OF b] by simp
  have rec: "command_auth_loop (length bs') (bs' @ rest) (acc @ [a]) = Inr ((acc @ [a]) @ as, rest)"
    using Cons.IH [OF bs', of "acc @ [a]"] Cons.prems(2) by simp
  have lt: "length acc < 3" using Cons.prems(2) by simp
  have un: "unmarshal_AuthCommand (b @ bs') = Some (a, bs')"
    by (rule unmarshal_marshal_AuthCommand [OF b])
  show ?case
    unfolding bs
    using pos lt rec un
    by (subst command_auth_loop.simps) (simp add: Let_def)
qed

lemma marshal_auth_area_wf:
  "\<forall>a\<in>set as. length (acNonce a) < 65536 \<and> length (acHMAC a) < 65536 \<Longrightarrow>
   \<exists>bs. marshal_auth_area as = Some bs"
  by (induction as) (auto simp: marshal_AuthCommand_def marshal_sized_def)

lemma unmarshal_marshal_CommandHeader:
  "unmarshal_CommandHeader (marshal_CommandHeader h @ rest) = Some (h, rest)"
  by (simp add: unmarshal_CommandHeader_def marshal_CommandHeader_def read_u16_be16 read_u32_be32)

lemma length_marshal_CommandHeader: "length (marshal_CommandHeader h) = 10"
  by (simp add: marshal_CommandHeader_def length_be16 length_be32)

text \<open>
  C1. The claim: every response packet whose tag is TPM_ST_SESSIONS and whose response
  code is nonzero is rejected by \<open>ResponsePacket.Unmarshal\<close> with an error. The code
  returns early on a nonzero response code before it looks at the tag: the packet
  \<open>80020000000a0000088e\<close> of the test TestUnmarshalResponsePacketUnsuccessfulWithSessions
  (tag TPM_ST_SESSIONS, response code 0x88e) is decoded with a nil error.
\<close>

theorem Unmarshal_sessions_nonzero_rc_accepted:
  "Unmarshal [0x80, 0x02, 0x00, 0x00, 0x00, 0x0a, 0x00, 0x00, 0x08, 0x8e] 0
     = (0x88e, [], [], [], None)"
  by (simp add: Unmarshal_def maxResponseSize_def unmarshal_ResponseHeader_def Success_def)

text \<open>
  C3. For every command code, handle block of \<open>N\<close> 4-byte handles, command auth area of at
  most 3 entries and parameter bytes, \<open>MarshalCommandPacket\<close> produces a packet, and
  \<open>CommandPacket.UnmarshalPayload\<close> with \<open>N\<close> handles succeeds on it and returns the same
  handle bytes, auth area entries and parameter bytes. The auth entries are values of
  the wire schema: their nonce and HMAC are sized buffers, which hold at most 65535 bytes.
\<close>

theorem command_packet_roundtrip:
  assumes hl: "length handles = N * 4"
    and n3: "length authArea \<le> 3"
    and wf: "\<forall>a\<in>set authArea. length (acNonce a) < 65536 \<and> length (acHMAC a) < 65536"
  shows "\<exists>p. MarshalCommandPacket cc handles authArea parameters = Inr p \<and>
             UnmarshalPayload p N = Inr (handles, authArea, parameters)"
proof (cases "authArea = []")
  case True
  then show ?thesis
    using hl
    by (simp add: MarshalCommandPacket_def UnmarshalPayload_def Let_def
        unmarshal_marshal_CommandHeader length_marshal_CommandHeader
        read_full_append [of handles, simplified hl] TagSessions_def TagNoSessions_def)
next
  case False
  from marshal_auth_area_wf [OF wf] obtain aBytes where ab: "marshal_auth_area authArea = Some aBytes"
    by blast
  have "length aBytes \<le> 131081 * length authArea" by (rule length_marshal_auth_area [OF ab])
  then have lt: "length aBytes < 4294967296" using n3 by simp
  have loop: "command_auth_loop (length aBytes) (aBytes @ parameters) [] = Inr (authArea, parameters)"
    using command_auth_loop_marshal [OF ab, of "[]" parameters] n3 by simp
  show ?thesis
    using False hl
    by (simp add: MarshalCommandPacket_def UnmarshalPayload_def Let_def ab
        unmarshal_marshal_CommandHeader length_marshal_CommandHeader
        read_full_append [of handles, simplified hl] read_u32_be32 unat_of_nat32 [OF lt] loop)
qed

theorem command_packet_roundtrip_witness:
  "length [0x80, 0x00, 0x00, 0x01 :: byte] = 1 * 4 \<and>
   length [\<lparr>acSessionHandle = 0x40000009, acNonce = [], acSessionAttributes = 1,
            acHMAC = [0x66, 0x6f, 0x6f]\<rparr>] \<le> 3 \<and>
   length (acNonce \<lparr>acSessionHandle = 0x40000009, acNonce = [], acSessionAttributes = 1,
            acHMAC = [0x66, 0x6f, 0x6f]\<rparr>) < 65536 \<and>
   length (acHMAC \<lparr>acSessionHandle = 0x40000009, acNonce = [], acSessionAttributes = 1,
            acHMAC = [0x66, 0x6f, 0x6f]\<rparr>) < 65536 \<and>
   (\<exists>p. MarshalCommandPacket 0x15e [0x80, 0x00, 0x00, 0x01]
           [\<lparr>acSessionHandle = 0x40000009, acNonce = [], acSessionAttributes = 1,
             acHMAC = [0x66, 0x6f, 0x6f]\<rparr>] [0x01, 0x02] = Inr p \<and>
        UnmarshalPayload p 1 =
          Inr ([0x80, 0x00, 0x00, 0x01],
               [\<lparr>acSessionHandle = 0x40000009, acNonce = [], acSessionAttributes = 1,
                 acHMAC = [0x66, 0x6f, 0x6f]\<rparr>], [0x01, 0x02]))"
  using command_packet_roundtrip [of "[0x80, 0x00, 0x00, 0x01]" 1
      "[\<lparr>acSessionHandle = 0x40000009, acNonce = [], acSessionAttributes = 1,
         acHMAC = [0x66, 0x6f, 0x6f]\<rparr>]" "0x15e" "[0x01, 0x02]"]
  by simp


section \<open>Properties of the exclusive-audit tracking\<close>

lemma isSessionAllowed_iff:
  "isSessionAllowed cc \<longleftrightarrow>
     cc \<noteq> CommandStartup \<and> cc \<noteq> CommandContextLoad \<and> cc \<noteq> CommandContextSave \<and> cc \<noteq> CommandFlushContext"
  by (simp add: isSessionAllowed_def)

lemma find_IsExclusive: "find (IsExclusive st) xs = Some t \<Longrightarrow> IsExclusive st t"
  by (induction xs) (auto split: if_splits)

text \<open>
  C2 (as amended). The claim: the cached last-exclusive session loses its exclusivity on
  the host side when the response of one of the commands Startup, ContextLoad, ContextSave
  or FlushContext is processed, and not for other commands. The guard in
  \<open>processResponseAuth\<close> is \<open>isSessionAllowed(r.CommandCode)\<close>, which is false exactly for
  those four commands: the clearing happens for every other command, and not for those
  four.

  Amended: when the dispatcher has cached a last-exclusive session \<open>s\<close> and processes the
  pending response of a command that allows sessions (any command other than Startup,
  ContextLoad, ContextSave and FlushContext), \<open>s\<close> is no longer exclusive on the host side
  and is no longer the cached session, whether the response auth area is then processed
  with or without an error; when the command is one of those four, the exclusivity flag
  of \<open>s\<close> is left as it was and the cache stays occupied. Both parts are about a session
  whose data the processing of the response auth area does not itself change.
\<close>

theorem exclusive_cleared_when_sessions_allowed:
  "(isSessionAllowed cc \<longleftrightarrow>
      cc \<noteq> CommandStartup \<and> cc \<noteq> CommandContextLoad \<and> cc \<noteq> CommandContextSave \<and>
      cc \<noteq> CommandFlushContext) \<and>
   (pendingResponse e = Some (rspAddr r) \<longrightarrow> lastExclusiveSession e = Some s \<longrightarrow>
    (\<forall>st. snd (pra st r) s = st s) \<longrightarrow>
    isSessionAllowed (rspCommandCode r) \<longrightarrow>
      \<not> IsExclusive (sessionData (fst (snd (processResponseAuth pra e r)))) s \<and>
      lastExclusiveSession (fst (snd (processResponseAuth pra e r))) \<noteq> Some s) \<and>
   (pendingResponse e = Some (rspAddr r) \<longrightarrow> lastExclusiveSession e = Some s \<longrightarrow>
    (\<forall>st. snd (pra st r) s = st s) \<longrightarrow>
    \<not> isSessionAllowed (rspCommandCode r) \<longrightarrow>
      sessionData (fst (snd (processResponseAuth pra e r))) s = sessionData e s \<and>
      lastExclusiveSession (fst (snd (processResponseAuth pra e r))) \<noteq> None)"
proof (intro conjI impI)
  show "isSessionAllowed cc \<longleftrightarrow>
      cc \<noteq> CommandStartup \<and> cc \<noteq> CommandContextLoad \<and> cc \<noteq> CommandContextSave \<and>
      cc \<noteq> CommandFlushContext"
    by (rule isSessionAllowed_iff)
next
  let ?e1 = "clear_last_exclusive (rspCommandCode r) (e\<lparr>pendingResponse := None\<rparr>)"
  assume p: "pendingResponse e = Some (rspAddr r)" and l: "lastExclusiveSession e = Some s"
    and keep: "\<forall>st. snd (pra st r) s = st s"
    and a: "isSessionAllowed (rspCommandCode r)"
  obtain err st' where pra: "pra (sessionData ?e1) r = (err, st')"
    by (cases "pra (sessionData ?e1) r")
  have same: "st' s = sessionData ?e1 s" using keep [rule_format, of "sessionData ?e1"] pra by simp
  have ne: "\<not> IsExclusive (sessionData ?e1) s"
    using l a by (simp add: clear_last_exclusive_def IsExclusive_def split: option.splits)
  then have ne': "\<not> IsExclusive st' s" using same by (simp add: IsExclusive_def)
  have l1: "lastExclusiveSession ?e1 = None"
    using l a by (simp add: clear_last_exclusive_def split: option.splits)
  show "\<not> IsExclusive (sessionData (fst (snd (processResponseAuth pra e r)))) s"
    using p pra ne' by (cases err) (simp_all add: processResponseAuth_def Let_def split: option.splits)
  show "lastExclusiveSession (fst (snd (processResponseAuth pra e r))) \<noteq> Some s"
    using p pra ne' l1 find_IsExclusive [of st' "rspSessions r"]
    by (cases err) (auto simp add: processResponseAuth_def Let_def split: option.splits)
next
  let ?e1 = "clear_last_exclusive (rspCommandCode r) (e\<lparr>pendingResponse := None\<rparr>)"
  assume p: "pendingResponse e = Some (rspAddr r)" and l: "lastExclusiveSession e = Some s"
    and keep: "\<forall>st. snd (pra st r) s = st s"
    and a: "\<not> isSessionAllowed (rspCommandCode r)"
  have e1: "?e1 = e\<lparr>pendingResponse := None\<rparr>"
    using a l by (simp add: clear_last_exclusive_def)
  obtain err st' where pra: "pra (sessionData e) r = (err, st')"
    by (cases "pra (sessionData e) r")
  have same: "st' s = sessionData e s" using keep [rule_format, of "sessionData e"] pra by simp
  show "sessionData (fst (snd (processResponseAuth pra e r))) s = sessionData e s"
    using p pra same e1
    by (cases err) (simp_all add: processResponseAuth_def Let_def split: option.splits)
  show "lastExclusiveSession (fst (snd (processResponseAuth pra e r))) \<noteq> None"
    using p pra l e1
    by (cases err) (simp_all add: processResponseAuth_def Let_def split: option.splits)
qed

theorem exclusive_cleared_when_sessions_allowed_witness:
  "isSessionAllowed CommandGetRandom \<and> \<not> isSessionAllowed CommandStartup \<and>
   \<not> IsExclusive (sessionData (fst (snd (processResponseAuth (\<lambda>st r. (Some (Err ''invalid response HMAC''), st))
      \<lparr>lastExclusiveSession = Some 0, pendingResponse = Some 7,
        sessionData = (\<lambda>_. None)(0 := Some \<lparr>sdSessionType = SessionTypeHMAC, sdIsExclusive = True\<rparr>)\<rparr>
      \<lparr>rspAddr = 7, rspCommandCode = CommandGetRandom, rspSessions = [], rspResponseAuthArea = [],
        rspRpBytes = [], rspErr = None\<rparr>)))) 0 \<and>
   lastExclusiveSession (fst (snd (processResponseAuth (\<lambda>st r. (Some (Err ''invalid response HMAC''), st))
      \<lparr>lastExclusiveSession = Some 0, pendingResponse = Some 7,
        sessionData = (\<lambda>_. None)(0 := Some \<lparr>sdSessionType = SessionTypeHMAC, sdIsExclusive = True\<rparr>)\<rparr>
      \<lparr>rspAddr = 7, rspCommandCode = CommandGetRandom, rspSessions = [], rspResponseAuthArea = [],
        rspRpBytes = [], rspErr = None\<rparr>))) \<noteq> Some 0 \<and>
   sessionData (fst (snd (processResponseAuth (\<lambda>st r. (None, st))
      \<lparr>lastExclusiveSession = Some 0, pendingResponse = Some 7,
        sessionData = (\<lambda>_. None)(0 := Some \<lparr>sdSessionType = SessionTypeHMAC, sdIsExclusive = True\<rparr>)\<rparr>
      \<lparr>rspAddr = 7, rspCommandCode = CommandStartup, rspSessions = [], rspResponseAuthArea = [],
        rspRpBytes = [], rspErr = None\<rparr>))) 0 = Some \<lparr>sdSessionType = SessionTypeHMAC, sdIsExclusive = True\<rparr> \<and>
   lastExclusiveSession (fst (snd (processResponseAuth (\<lambda>st r. (None, st))
      \<lparr>lastExclusiveSession = Some 0, pendingResponse = Some 7,
        sessionData = (\<lambda>_. None)(0 := Some \<lparr>sdSessionType = SessionTypeHMAC, sdIsExclusive = True\<rparr>)\<rparr>
      \<lparr>rspAddr = 7, rspCommandCode = CommandStartup, rspSessions = [], rspResponseAuthArea = [],
        rspRpBytes = [], rspErr = None\<rparr>))) \<noteq> None"
  using exclusive_cleared_when_sessions_allowed
    [of CommandGetRandom
      "\<lparr>lastExclusiveSession = Some 0, pendingResponse = Some 7,
        sessionData = (\<lambda>_. None)(0 := Some \<lparr>sdSessionType = SessionTypeHMAC, sdIsExclusive = True\<rparr>)\<rparr>"
      "\<lparr>rspAddr = 7, rspCommandCode = CommandGetRandom, rspSessions = [], rspResponseAuthArea = [],
        rspRpBytes = [], rspErr = None\<rparr>"
      0 "\<lambda>st r. (Some (Err ''invalid response HMAC''), st)"]
    exclusive_cleared_when_sessions_allowed
    [of CommandStartup
      "\<lparr>lastExclusiveSession = Some 0, pendingResponse = Some 7,
        sessionData = (\<lambda>_. None)(0 := Some \<lparr>sdSessionType = SessionTypeHMAC, sdIsExclusive = True\<rparr>)\<rparr>"
      "\<lparr>rspAddr = 7, rspCommandCode = CommandStartup, rspSessions = [], rspResponseAuthArea = [],
        rspRpBytes = [], rspErr = None\<rparr>"
      0 "\<lambda>st r. (None, st)"]
  by (simp add: isSessionAllowed_def
      CommandStartup_def CommandGetRandom_def CommandContextLoad_def CommandContextSave_def
      CommandFlushContext_def)

text \<open>The claim as stated fails: with a cached exclusive session, processing the response
  of Startup leaves the session exclusive, and processing the response of GetRandom (not
  one of the four commands) clears it.\<close>

theorem exclusive_not_cleared_by_Startup_counterexample:
  "IsExclusive (sessionData (fst (snd (processResponseAuth (\<lambda>st r. (None, st))
      \<lparr>lastExclusiveSession = Some 0, pendingResponse = Some 7,
        sessionData = (\<lambda>_. None)(0 := Some \<lparr>sdSessionType = SessionTypeHMAC, sdIsExclusive = True\<rparr>)\<rparr>
      \<lparr>rspAddr = 7, rspCommandCode = CommandStartup, rspSessions = [], rspResponseAuthArea = [],
        rspRpBytes = [], rspErr = None\<rparr>)))) 0 \<and>
   \<not> IsExclusive (sessionData (fst (snd (processResponseAuth (\<lambda>st r. (None, st))
      \<lparr>lastExclusiveSession = Some 0, pendingResponse = Some 7,
        sessionData = (\<lambda>_. None)(0 := Some \<lparr>sdSessionType = SessionTypeHMAC, sdIsExclusive = True\<rparr>)\<rparr>
      \<lparr>rspAddr = 7, rspCommandCode = CommandGetRandom, rspSessions = [], rspResponseAuthArea = [],
        rspRpBytes = [], rspErr = None\<rparr>)))) 0"
  by (simp add: processResponseAuth_def clear_last_exclusive_def isSessionAllowed_def IsExclusive_def
      CommandStartup_def CommandGetRandom_def CommandContextLoad_def CommandContextSave_def
      CommandFlushContext_def)

section \<open>Properties of RunCommand\<close>

lemma unat_suc_lt: "(tries :: u64) < m \<Longrightarrow> unat (tries + 1) = Suc (unat tries)"
proof -
  assume lt: "tries < m"
  then have "tries \<noteq> - 1" by (metis word_order.extremum_strict)
  then have "1 + tries \<noteq> 0" by (simp add: add_eq_0_iff)
  then show ?thesis using unatSuc [of tries] by (simp add: add.commute)
qed

lemma RunCommand_loop_props:
  "RunCommand_loop env m cc nAuth cmd nh tries = (res, n) \<Longrightarrow>
     unat tries \<le> n \<and> n \<le> max (unat tries) (unat m) \<and>
     (\<forall>i. unat tries \<le> i \<and> i < n \<longrightarrow>
        (\<exists>err. submission_error env cc cmd nh (i - 1) = Some err \<and> retry_warning env err cc)) \<and>
     (\<forall>err. submission_error env cc cmd nh (n - 1) = Some err \<longrightarrow> res = Inl err)"
proof (induction env m cc nAuth cmd nh tries arbitrary: res n rule: RunCommand_loop.induct)
  case (1 env m cc nAuth cmd nh tries)
  show ?case
  proof (cases "\<exists>resp rc h rp ra err. transmit env (unat tries - 1) cmd = Inr resp \<and>
        Unmarshal resp nh = (rc, h, rp, ra, None) \<and> DecodeResponseCode env cc rc = Some err \<and>
        \<not> m \<le> tries \<and> retry_warning env err cc")
    case True
    then obtain resp rc h rp ra err where t: "transmit env (unat tries - 1) cmd = Inr resp"
      and u: "Unmarshal resp nh = (rc, h, rp, ra, None)"
      and d: "DecodeResponseCode env cc rc = Some err"
      and lt: "\<not> m \<le> tries" and w: "retry_warning env err cc" by blast
    have rec: "RunCommand_loop env m cc nAuth cmd nh (tries + 1) = (res, n)"
      using "1.prems" t u d lt w by (subst (asm) RunCommand_loop.simps) simp
    have lt': "tries < m" using lt by simp
    have suc: "unat (tries + 1) = Suc (unat tries)" using lt' by (rule unat_suc_lt)
    have ltn: "unat tries < unat m" using lt' by (simp add: word_less_nat_alt)
    have se: "submission_error env cc cmd nh (unat tries - 1) = Some err"
      using t u d by (simp add: submission_error_def)
    have ih: "unat (tries + 1) \<le> n \<and> n \<le> max (unat (tries + 1)) (unat m) \<and>
     (\<forall>i. unat (tries + 1) \<le> i \<and> i < n \<longrightarrow>
        (\<exists>err. submission_error env cc cmd nh (i - 1) = Some err \<and> retry_warning env err cc)) \<and>
     (\<forall>err. submission_error env cc cmd nh (n - 1) = Some err \<longrightarrow> res = Inl err)"
      using "1.IH" [of resp rc "(h, rp, ra, None)" h "(rp, ra, None)" rp "(ra, None)" ra None err res n]
        t u d lt w rec by simp
    show ?thesis
    proof (intro conjI allI impI)
      show "unat tries \<le> n" using ih suc by simp
      show "n \<le> max (unat tries) (unat m)" using ih suc ltn by simp
    next
      fix i assume "unat tries \<le> i \<and> i < n"
      then consider "i = unat tries" | "unat (tries + 1) \<le> i \<and> i < n" using suc by force
      then show "\<exists>err. submission_error env cc cmd nh (i - 1) = Some err \<and> retry_warning env err cc"
      proof cases
        case 1 then show ?thesis using se w by simp
      next
        case 2 then show ?thesis using ih by blast
      qed
    next
      fix err assume "submission_error env cc cmd nh (n - 1) = Some err"
      then show "res = Inl err" using ih by blast
    qed
  next
    case False
    then have "n = unat tries \<and> (\<forall>err. submission_error env cc cmd nh (unat tries - 1) = Some err \<longrightarrow> res = Inl err)"
      using "1.prems"
      by (subst (asm) RunCommand_loop.simps)
         (auto simp: submission_error_def split: sum.splits prod.splits option.splits if_splits)
    then show ?thesis by auto
  qed
qed


text \<open>
  C5 (as amended). The claim: \<open>RunCommand\<close> resubmits only on the warnings WarningYielded,
  WarningTesting and WarningRetry, makes at most \<open>maxSubmissions\<close> (default 5) submissions,
  and surfaces any other TPM error right after the first response that carries it. The
  loop submits before it compares \<open>tries\<close> with \<open>maxSubmissions\<close>, so with
  \<open>SetMaxSubmissions(0)\<close> one submission is still made.

  Amended: \<open>RunCommand\<close> makes at most max(1, maxSubmissions) submissions (at most 5 with
  the default); every submission but the last was answered by a response whose code
  decodes to one of the warnings WarningYielded, WarningTesting or WarningRetry; and a
  response whose code decodes to any other error ends the run with that error, at that
  submission.
\<close>

theorem RunCommand_retry_bound:
  assumes run: "RunCommand env m cc cHandles cAuthArea cpBytes rHandle = (res, n)"
  shows "n \<le> max 1 (unat m) \<and>
     (m = defaultMaxSubmissions \<longrightarrow> n \<le> 5) \<and>
     (\<forall>i. 1 \<le> i \<and> i < n \<longrightarrow>
        (\<exists>err. response_error env cc cHandles cAuthArea cpBytes rHandle (i - 1) = Some err \<and>
           (IsTPMWarning env err WarningYielded cc \<or> IsTPMWarning env err WarningTesting cc \<or>
            IsTPMWarning env err WarningRetry cc))) \<and>
     (\<forall>i err. 1 \<le> i \<and> i \<le> n \<and>
        response_error env cc cHandles cAuthArea cpBytes rHandle (i - 1) = Some err \<and>
        \<not> (IsTPMWarning env err WarningYielded cc \<or> IsTPMWarning env err WarningTesting cc \<or>
           IsTPMWarning env err WarningRetry cc) \<longrightarrow> n = i \<and> res = Inl err)"
proof (cases "MarshalCommandPacket cc (concat (map be32 cHandles)) cAuthArea cpBytes")
  case (Inl e)
  then have "n = 0" using run by (simp add: RunCommand_def)
  then show ?thesis by simp
next
  case (Inr cmd)
  define nh :: nat where "nh = (if rHandle then 1 else 0)"
  have re: "\<And>i. response_error env cc cHandles cAuthArea cpBytes rHandle i =
      submission_error env cc cmd nh i"
    by (simp add: response_error_def Inr nh_def)
  have loop: "RunCommand_loop env m cc (length cAuthArea) cmd nh 1 = (res, n)"
    using run Inr by (simp add: RunCommand_def nh_def)
  note p = RunCommand_loop_props [OF loop]
  have b: "1 \<le> n" "n \<le> max 1 (unat m)" using p by simp_all
  have r: "\<forall>i. 1 \<le> i \<and> i < n \<longrightarrow>
        (\<exists>err. response_error env cc cHandles cAuthArea cpBytes rHandle (i - 1) = Some err \<and>
           (IsTPMWarning env err WarningYielded cc \<or> IsTPMWarning env err WarningTesting cc \<or>
            IsTPMWarning env err WarningRetry cc))"
    using p by (simp add: re retry_warning_def)
  have s: "\<forall>err. response_error env cc cHandles cAuthArea cpBytes rHandle (n - 1) = Some err
        \<longrightarrow> res = Inl err"
    using p by (simp add: re)
  have d: "m = defaultMaxSubmissions \<longrightarrow> n \<le> 5"
    using b by (auto simp: defaultMaxSubmissions_def)
  have i: "\<forall>i err. 1 \<le> i \<and> i \<le> n \<and>
        response_error env cc cHandles cAuthArea cpBytes rHandle (i - 1) = Some err \<and>
        \<not> (IsTPMWarning env err WarningYielded cc \<or> IsTPMWarning env err WarningTesting cc \<or>
           IsTPMWarning env err WarningRetry cc) \<longrightarrow> n = i \<and> res = Inl err"
  proof (intro allI impI)
    fix i err
    assume a: "1 \<le> i \<and> i \<le> n \<and>
        response_error env cc cHandles cAuthArea cpBytes rHandle (i - 1) = Some err \<and>
        \<not> (IsTPMWarning env err WarningYielded cc \<or> IsTPMWarning env err WarningTesting cc \<or>
           IsTPMWarning env err WarningRetry cc)"
    have "\<not> i < n"
    proof
      assume "i < n"
      with a r obtain err' where
        "response_error env cc cHandles cAuthArea cpBytes rHandle (i - 1) = Some err'"
        "IsTPMWarning env err' WarningYielded cc \<or> IsTPMWarning env err' WarningTesting cc \<or>
            IsTPMWarning env err' WarningRetry cc"
        by blast
      with a show False by simp
    qed
    then have "n = i" using a by simp
    then show "n = i \<and> res = Inl err" using a s by simp
  qed
  show ?thesis using b d r i by blast
qed

theorem RunCommand_retry_bound_witness:
  "RunCommand retry_twice_env 5 CommandGetRandom [] [] [] False = (Inr ([], []), 3) \<and>
   (3::nat) \<le> max 1 (unat (5 :: u64)) \<and>
   (\<exists>err. response_error retry_twice_env CommandGetRandom [] [] [] False (2 - 1) = Some err \<and>
      (IsTPMWarning retry_twice_env err WarningYielded CommandGetRandom \<or>
       IsTPMWarning retry_twice_env err WarningTesting CommandGetRandom \<or>
       IsTPMWarning retry_twice_env err WarningRetry CommandGetRandom))"
proof -
  have run: "RunCommand retry_twice_env 5 CommandGetRandom [] [] [] False = (Inr ([], []), 3)"
    by code_simp
  note t = RunCommand_retry_bound [OF run]
  from t have all: "\<forall>i. 1 \<le> i \<and> i < 3 \<longrightarrow>
        (\<exists>err. response_error retry_twice_env CommandGetRandom [] [] [] False (i - 1) = Some err \<and>
          (IsTPMWarning retry_twice_env err WarningYielded CommandGetRandom \<or>
           IsTPMWarning retry_twice_env err WarningTesting CommandGetRandom \<or>
           IsTPMWarning retry_twice_env err WarningRetry CommandGetRandom))"
    by blast
  have "\<exists>err. response_error retry_twice_env CommandGetRandom [] [] [] False (2 - 1) = Some err \<and>
          (IsTPMWarning retry_twice_env err WarningYielded CommandGetRandom \<or>
           IsTPMWarning retry_twice_env err WarningTesting CommandGetRandom \<or>
           IsTPMWarning retry_twice_env err WarningRetry CommandGetRandom)"
    using all [rule_format, of 2] by simp
  then show ?thesis using t run by simp
qed

text \<open>The claim as stated fails: with \<open>maxSubmissions = 0\<close> a packet is still submitted.\<close>

theorem RunCommand_zero_maxSubmissions_counterexample:
  "\<not> snd (RunCommand always_retry_env 0 CommandGetRandom [] [] [] False) \<le> unat (0 :: u64)"
proof -
  have "RunCommand always_retry_env 0 CommandGetRandom [] [] [] False
      = (Inl (TPMWarning CommandGetRandom WarningRetry), 1)"
    by code_simp
  then show ?thesis by simp
qed

section \<open>Properties of the read/write-multiple helper\<close>

lemma prepare_sessions_eq:
  "prepare_sessions ss hp =
     (if list_all session_usable ss
      then Inr (with_continue ss, hp \<or> list_ex is_policy_session ss)
      else Inl (Err ''unusable session context''))"
proof (induction ss arbitrary: hp)
  case Nil
  show ?case by (simp add: with_continue_def)
next
  case (Cons a ss)
  show ?case
  proof (cases a)
    case None
    then show ?thesis using Cons.IH [of hp] by (simp add: with_continue_def)
  next
    case (Some s)
    show ?thesis
    proof (cases "scData s")
      case None
      then show ?thesis using Some by simp
    next
      case (Some d)
      then show ?thesis
        using \<open>a = Some s\<close> Cons.IH [of "if sdSessionType d = SessionTypePolicy then True else hp"]
        by (auto simp add: with_continue_def)
    qed
  qed
qed

lemma unat_sub_lt:
  "\<not> (r :: u16) \<le> m \<Longrightarrow> m \<noteq> 0 \<Longrightarrow> unat (r - m) < unat r"
proof -
  assume a: "\<not> r \<le> m" and nz: "m \<noteq> 0"
  then have le: "m \<le> r" by simp
  have "unat (r - m) = unat r - unat m" using le by (simp add: unat_sub)
  moreover have "0 < unat m" using nz by (simp add: unat_gt_0)
  moreover have "unat m \<le> unat r" using le by (simp add: word_le_nat_alt)
  ultimately show ?thesis by simp
qed

lemma expected_calls_single:
  "remaining \<le> maxSize \<Longrightarrow> expected_calls maxSize sessions off remaining = [(remaining, off, sessions)]"
  by (subst expected_calls.simps) simp

lemma expected_calls_sizes:
  "maxSize \<noteq> 0 \<Longrightarrow> list_all (\<lambda>c. fst c \<le> maxSize) (expected_calls maxSize sessions off remaining)"
proof (induction maxSize sessions off remaining rule: expected_calls.induct)
  case (1 maxSize sessions off remaining)
  then show ?case by (subst expected_calls.simps) auto
qed

lemma expected_calls_nonempty: "expected_calls maxSize sessions off remaining \<noteq> []"
  by (subst expected_calls.simps) simp

lemma expected_calls_last:
  "snd (snd (last (expected_calls maxSize sessions off remaining))) = sessions"
proof (induction maxSize sessions off remaining rule: expected_calls.induct)
  case (1 maxSize sessions off remaining)
  then show ?case
    by (subst expected_calls.simps) (simp add: expected_calls_nonempty)
qed

lemma expected_calls_butlast:
  "list_all (\<lambda>c. fst c = maxSize \<and> snd (snd c) = with_continue sessions)
     (butlast (expected_calls maxSize sessions off remaining))"
proof (induction maxSize sessions off remaining rule: expected_calls.induct)
  case (1 maxSize sessions off remaining)
  then show ?case
    by (subst expected_calls.simps) (simp add: expected_calls_nonempty)
qed

lemma expected_calls_total:
  "sum_list (map (\<lambda>c. unat (fst c)) (expected_calls maxSize sessions off remaining)) = unat remaining"
proof (induction maxSize sessions off remaining rule: expected_calls.induct)
  case (1 maxSize sessions off remaining)
  show ?case
  proof (cases "remaining \<le> maxSize \<or> maxSize = 0")
    case True
    then show ?thesis by (subst expected_calls.simps) simp
  next
    case False
    then have le: "maxSize \<le> remaining" by auto
    have "unat (remaining - maxSize) = unat remaining - unat maxSize"
      using le by (simp add: unat_sub)
    moreover have "unat maxSize \<le> unat remaining" using le by (simp add: word_le_nat_alt)
    ultimately show ?thesis using False "1.IH" by (subst expected_calls.simps) simp
  qed
qed

lemma with_continue_attr:
  "list_all (\<lambda>s. case s of None \<Rightarrow> True | Some c \<Rightarrow> scAttrs c AND AttrContinueSession = AttrContinueSession)
     (with_continue sessions)"
  by (induction sessions)
     (auto simp: with_continue_def IncludeAttrs_def split: option.splits)

lemma readMultipleHelper_single:
  assumes "size0 \<le> maxSize" "list_all session_usable sessions"
  shows "readMultipleHelper (Suc fuel) size0 maxSize fn sessions =
     Some ((case fn size0 0 sessions of
              Inl e \<Rightarrow> Inl e
            | Inr d \<Rightarrow> Inr (copy_at (replicate (unat size0) 0) 0 d)),
           [(size0, 0, sessions)])"
proof -
  have nl: "\<not> maxSize < size0" using assms(1) by simp
  show ?thesis
    using assms nl
    by (cases "fn size0 0 sessions")
       (simp_all add: readMultipleHelper_def execMultipleHelper_def prepare_sessions_eq
         rm_action_def rm_last_def rm_run_def Let_def)
qed

lemma readMultipleHelper_policy_rejected:
  assumes "maxSize < size0" "list_all session_usable sessions" "list_ex is_policy_session sessions"
  shows "readMultipleHelper (Suc fuel) size0 maxSize fn sessions =
     Some (Inl (Err ''cannot use a policy session for authorization''), [])"
proof -
  have nl: "\<not> size0 \<le> maxSize" using assms(1) by simp
  show ?thesis
    using assms nl
    by (simp add: readMultipleHelper_def execMultipleHelper_def prepare_sessions_eq
         rm_action_def rm_last_def Let_def)
qed

lemma rm_run_issued: "rm_run fn c ss = (e, c') \<Longrightarrow> length (issued c') = Suc (length (issued c))"
  by (auto simp: rm_run_def Let_def split: sum.splits)

lemma exec_loop_issued:
  "exec_loop fuel (rm_action fn) hp ss orig c = Some (e, c') \<Longrightarrow>
     length (issued c) \<le> length (issued c') \<and>
     (length (issued c') = length (issued c) \<longrightarrow> hp \<and> \<not> rm_last c)"
proof (induction fuel arbitrary: c)
  case 0
  then show ?case by simp
next
  case (Suc fuel)
  show ?case
  proof (cases "rm_last c")
    case True
    then have "rm_run fn c orig = (e, c')" using Suc.prems by (simp add: rm_action_def)
    from rm_run_issued [OF this] show ?thesis by simp
  next
    case False
    show ?thesis
    proof (cases hp)
      case True
      then show ?thesis using False Suc.prems by (auto simp: rm_action_def)
    next
      case nhp: False
      obtain e1 c1 where r: "rm_run fn c ss = (e1, c1)" by (cases "rm_run fn c ss")
      note i = rm_run_issued [OF r]
      show ?thesis
      proof (cases e1)
        case None
        then have "exec_loop fuel (rm_action fn) hp ss orig c1 = Some (e, c')"
          using Suc.prems False nhp r by (simp add: rm_action_def)
        from Suc.IH [OF this] show ?thesis using i by simp
      next
        case (Some err)
        then have "c' = c1" using Suc.prems False nhp r by (simp add: rm_action_def)
        then show ?thesis using i by simp
      qed
    qed
  qed
qed

lemma readMultipleHelper_nothing_issued:
  assumes "readMultipleHelper fuel size0 maxSize fn sessions = Some (res, [])"
  shows "maxSize < size0 \<and> list_ex is_policy_session sessions \<or> \<not> list_all session_usable sessions"
proof (cases "list_all session_usable sessions")
  case False
  then show ?thesis by simp
next
  case True
  let ?c = "\<lparr>rmData = replicate (unat size0) 0, rmMaxSize = maxSize, rmRemaining = size0,
              rmTotal = 0, issued = []\<rparr>"
  from assms True obtain e c' where
    l: "exec_loop fuel (rm_action fn) (list_ex is_policy_session sessions) (with_continue sessions) sessions ?c = Some (e, c')"
    and i: "issued c' = []"
    by (auto simp add: readMultipleHelper_def execMultipleHelper_def prepare_sessions_eq Let_def
        split: option.splits)
  from exec_loop_issued [OF l] i have "list_ex is_policy_session sessions \<and> \<not> rm_last ?c" by simp
  then show ?thesis by (auto simp add: rm_last_def not_le)
qed


lemma readMultipleHelper_unusable:
  "\<not> list_all session_usable sessions \<Longrightarrow>
   readMultipleHelper fuel size0 maxSize fn sessions = Some (Inl (Err ''unusable session context''), [])"
  by (simp add: readMultipleHelper_def execMultipleHelper_def prepare_sessions_eq)

lemma rm_run_cases:
  "rm_run fn c ss = (e, c') \<Longrightarrow>
     issued c' = issued c @ [(if rmMaxSize c < rmRemaining c then rmMaxSize c else rmRemaining c,
                              rmTotal c, ss)] \<and>
     rmMaxSize c' = rmMaxSize c \<and>
     (e = None \<longrightarrow> rmRemaining c' = rmRemaining c -
          (if rmMaxSize c < rmRemaining c then rmMaxSize c else rmRemaining c) \<and>
        rmTotal c' = rmTotal c +
          (if rmMaxSize c < rmRemaining c then rmMaxSize c else rmRemaining c))"
  by (auto simp: rm_run_def Let_def split: sum.splits)

lemma exec_loop_rm_log:
  "exec_loop fuel (rm_action fn) hp ss orig c = Some (e, c') \<Longrightarrow>
     \<exists>new. issued c' = issued c @ new \<and>
        list_all (\<lambda>x. fst x \<le> rmMaxSize c) new \<and>
        list_all (\<lambda>x. snd (snd x) = ss) (butlast new) \<and>
        (e = None \<longrightarrow> new \<noteq> [] \<and> snd (snd (last new)) = orig \<and>
           sum_list (map (\<lambda>x. unat (fst x)) new) = unat (rmRemaining c))"
proof (induction fuel arbitrary: c)
  case 0
  then show ?case by simp
next
  case (Suc fuel)
  show ?case
  proof (cases "rm_last c")
    case True
    then have le: "rmRemaining c \<le> rmMaxSize c" by (simp add: rm_last_def)
    then have nl: "\<not> rmMaxSize c < rmRemaining c" by simp
    from True Suc.prems have "rm_run fn c orig = (e, c')" by (simp add: rm_action_def)
    from rm_run_cases [OF this] nl
    have "issued c' = issued c @ [(rmRemaining c, rmTotal c, orig)]" by simp
    then show ?thesis using le by simp
  next
    case False
    then have gt: "rmMaxSize c < rmRemaining c" by (simp add: rm_last_def not_le)
    show ?thesis
    proof (cases hp)
      case True
      then have "c' = c" "e \<noteq> None" using False Suc.prems by (auto simp: rm_action_def)
      then show ?thesis by simp
    next
      case nhp: False
      obtain e1 c1 where r: "rm_run fn c ss = (e1, c1)" by (cases "rm_run fn c ss")
      from rm_run_cases [OF r] gt
      have i1: "issued c1 = issued c @ [(rmMaxSize c, rmTotal c, ss)]"
        and m1: "rmMaxSize c1 = rmMaxSize c"
        and r1: "e1 = None \<longrightarrow> rmRemaining c1 = rmRemaining c - rmMaxSize c"
        by simp_all
      show ?thesis
      proof (cases e1)
        case (Some err)
        then have "c' = c1" "e \<noteq> None" using Suc.prems False nhp r by (auto simp: rm_action_def)
        then show ?thesis using i1 by auto
      next
        case None
        then have "exec_loop fuel (rm_action fn) hp ss orig c1 = Some (e, c')"
          using Suc.prems False nhp r by (simp add: rm_action_def)
        from Suc.IH [OF this] obtain new where
          n1: "issued c' = issued c1 @ new"
          and n2: "list_all (\<lambda>x. fst x \<le> rmMaxSize c1) new"
          and n3: "list_all (\<lambda>x. snd (snd x) = ss) (butlast new)"
          and n4: "e = None \<longrightarrow> new \<noteq> [] \<and> snd (snd (last new)) = orig \<and>
           sum_list (map (\<lambda>x. unat (fst x)) new) = unat (rmRemaining c1)"
          by blast
        have le: "rmMaxSize c \<le> rmRemaining c" using gt by simp
        have sub: "unat (rmRemaining c - rmMaxSize c) = unat (rmRemaining c) - unat (rmMaxSize c)"
          using le by (simp add: unat_sub)
        have ule: "unat (rmMaxSize c) \<le> unat (rmRemaining c)" using le by (simp add: word_le_nat_alt)
        let ?new = "(rmMaxSize c, rmTotal c, ss) # new"
        have "issued c' = issued c @ ?new" using n1 i1 by simp
        moreover have "list_all (\<lambda>x. fst x \<le> rmMaxSize c) ?new" using n2 m1 by simp
        moreover have "list_all (\<lambda>x. snd (snd x) = ss) (butlast ?new)" using n3 by simp
        moreover have "e = None \<longrightarrow> ?new \<noteq> [] \<and> snd (snd (last ?new)) = orig \<and>
           sum_list (map (\<lambda>x. unat (fst x)) ?new) = unat (rmRemaining c)"
          using n4 r1 None sub ule by simp
        ultimately show ?thesis by blast
      qed
    qed
  qed
qed

lemma exec_loop_rm_expected:
  "rmMaxSize c \<noteq> 0 \<Longrightarrow>
   exec_loop fuel (rm_action fn) hp (with_continue ss) ss c = Some (None, c') \<Longrightarrow>
   issued c' = issued c @ expected_calls (rmMaxSize c) ss (rmTotal c) (rmRemaining c)"
proof (induction fuel arbitrary: c)
  case 0
  then show ?case by simp
next
  case (Suc fuel)
  show ?case
  proof (cases "rm_last c")
    case True
    then have le: "rmRemaining c \<le> rmMaxSize c" by (simp add: rm_last_def)
    then have nl: "\<not> rmMaxSize c < rmRemaining c" by simp
    from True Suc.prems have "rm_run fn c ss = (None, c')" by (simp add: rm_action_def)
    from rm_run_cases [OF this] nl
    have "issued c' = issued c @ [(rmRemaining c, rmTotal c, ss)]" by simp
    then show ?thesis using expected_calls_single [OF le] by simp
  next
    case False
    then have gt: "rmMaxSize c < rmRemaining c" by (simp add: rm_last_def not_le)
    have ex: "expected_calls (rmMaxSize c) ss (rmTotal c) (rmRemaining c) =
        (rmMaxSize c, rmTotal c, with_continue ss) #
        expected_calls (rmMaxSize c) ss (rmTotal c + rmMaxSize c) (rmRemaining c - rmMaxSize c)"
      using Suc.prems(1) False by (subst expected_calls.simps) (simp add: rm_last_def)
    have nhp: "\<not> hp" using False Suc.prems(2) by (auto simp: rm_action_def split: if_splits)
    obtain e1 c1 where r: "rm_run fn c (with_continue ss) = (e1, c1)"
      by (cases "rm_run fn c (with_continue ss)")
    have e1: "e1 = None" using Suc.prems(2) False nhp r
      by (cases e1) (auto simp: rm_action_def)
    from rm_run_cases [OF r] gt e1
    have i1: "issued c1 = issued c @ [(rmMaxSize c, rmTotal c, with_continue ss)]"
      and m1: "rmMaxSize c1 = rmMaxSize c"
      and r1: "rmRemaining c1 = rmRemaining c - rmMaxSize c"
      and t1: "rmTotal c1 = rmTotal c + rmMaxSize c"
      by simp_all
    have "exec_loop fuel (rm_action fn) hp (with_continue ss) ss c1 = Some (None, c')"
      using Suc.prems(2) False nhp r e1 by (simp add: rm_action_def)
    from Suc.IH [OF _ this] Suc.prems(1) m1
    have "issued c' = issued c1 @ expected_calls (rmMaxSize c1) ss (rmTotal c1) (rmRemaining c1)"
      by simp
    then show ?thesis using i1 m1 r1 t1 ex by simp
  qed
qed

lemma exec_loop_rm_terminates:
  "rmMaxSize c \<noteq> 0 \<Longrightarrow> unat (rmRemaining c) < fuel \<Longrightarrow>
   \<exists>r. exec_loop fuel (rm_action fn) hp ss orig c = Some r"
proof (induction fuel arbitrary: c)
  case 0
  then show ?case by simp
next
  case (Suc fuel)
  show ?case
  proof (cases "rm_last c \<or> hp")
    case True
    then show ?thesis by (auto simp: rm_action_def)
  next
    case False
    then have nl: "\<not> rmRemaining c \<le> rmMaxSize c" and nhp: "\<not> hp" by (simp_all add: rm_last_def)
    then have gt: "rmMaxSize c < rmRemaining c" by (simp add: not_le)
    obtain e1 c1 where r: "rm_run fn c ss = (e1, c1)" by (cases "rm_run fn c ss")
    show ?thesis
    proof (cases e1)
      case (Some err)
      then show ?thesis using False r by (simp add: rm_action_def)
    next
      case None
      from rm_run_cases [OF r] gt None
      have m1: "rmMaxSize c1 = rmMaxSize c" and r1: "rmRemaining c1 = rmRemaining c - rmMaxSize c"
        by simp_all
      have "unat (rmRemaining c1) < fuel"
        using unat_sub_lt [OF nl Suc.prems(1)] Suc.prems(2) r1 by simp
      from Suc.IH [OF _ this] Suc.prems(1) m1
      obtain r' where "exec_loop fuel (rm_action fn) hp ss orig c1 = Some r'" by auto
      then show ?thesis using False r None by (simp add: rm_action_def)
    qed
  qed
qed

text \<open>
  C6. For every read/write-multiple operation, the helper issues one command per chunk of
  at most \<open>maxBufferSize\<close> bytes, with the continue-session attribute forced set on the
  sessions of every command except the last (the last command runs with the caller's
  original session contexts), and it rejects policy sessions with an error, because a
  single policy session cannot be reused: the rejection is that of a transfer that needs
  more than one command, as the sentence on the dispatcher says ("any policy session used
  for a command requiring multiple iterations").

  In the theorem: the helper ends when the chunk size is not zero (with fuel above the
  size); of whatever it returns, every command issued has at most \<open>maxSize\<close> bytes and
  every command but the last ran with the sessions that have the continue-session
  attribute set; when it returns no error, the last command ran with the original
  sessions, the sizes add up to the size asked for, and the commands are the chunks
  \<open>expected_calls\<close>; with a policy session and more than one chunk it returns an error
  without issuing a command.
\<close>

theorem readMultipleHelper_chunks:
  "(maxSize \<noteq> 0 \<longrightarrow> unat size0 < fuel \<longrightarrow>
      (\<exists>r. readMultipleHelper fuel size0 maxSize fn sessions = Some r)) \<and>
   (readMultipleHelper fuel size0 maxSize fn sessions = Some (res, log) \<longrightarrow>
      list_all (\<lambda>c. fst c \<le> maxSize) log \<and>
      list_all (\<lambda>c. snd (snd c) = with_continue sessions) (butlast log) \<and>
      (\<not> isl res \<longrightarrow>
         log \<noteq> [] \<and> snd (snd (last log)) = sessions \<and>
         sum_list (map (\<lambda>c. unat (fst c)) log) = unat size0 \<and>
         (maxSize \<noteq> 0 \<longrightarrow> log = expected_calls maxSize sessions 0 size0))) \<and>
   list_all (\<lambda>s. case s of None \<Rightarrow> True
               | Some c \<Rightarrow> scAttrs c AND AttrContinueSession = AttrContinueSession)
      (with_continue sessions) \<and>
   (list_ex is_policy_session sessions \<longrightarrow> maxSize < size0 \<longrightarrow> 0 < fuel \<longrightarrow>
      (\<exists>e. readMultipleHelper fuel size0 maxSize fn sessions = Some (Inl e, []) \<and>
           (list_all session_usable sessions \<longrightarrow>
              e = Err ''cannot use a policy session for authorization'')))"
proof (intro conjI impI)
  let ?c = "\<lparr>rmData = replicate (unat size0) 0, rmMaxSize = maxSize, rmRemaining = size0,
              rmTotal = 0, issued = []\<rparr>"
  {
    assume nz: "maxSize \<noteq> 0" and fl: "unat size0 < fuel"
    have "rmMaxSize ?c \<noteq> 0" "unat (rmRemaining ?c) < fuel" using nz fl by simp_all
    from exec_loop_rm_terminates [OF this]
    have "\<And>hp ss orig. \<exists>r. exec_loop fuel (rm_action fn) hp ss orig ?c = Some r" by blast
    then show "\<exists>r. readMultipleHelper fuel size0 maxSize fn sessions = Some r"
      by (cases "list_all session_usable sessions")
         (auto simp: readMultipleHelper_def execMultipleHelper_def prepare_sessions_eq Let_def
           split: option.splits)
  }
  {
    assume r: "readMultipleHelper fuel size0 maxSize fn sessions = Some (res, log)"
    have "list_all (\<lambda>c. fst c \<le> maxSize) log \<and>
      list_all (\<lambda>c. snd (snd c) = with_continue sessions) (butlast log) \<and>
      (\<not> isl res \<longrightarrow>
         log \<noteq> [] \<and> snd (snd (last log)) = sessions \<and>
         sum_list (map (\<lambda>c. unat (fst c)) log) = unat size0 \<and>
         (maxSize \<noteq> 0 \<longrightarrow> log = expected_calls maxSize sessions 0 size0))"
    proof (cases "list_all session_usable sessions")
      case False
      from readMultipleHelper_unusable [OF False, of fuel size0 maxSize fn] r
      show ?thesis by simp
    next
      case True
      from r True obtain e c' where
        l: "exec_loop fuel (rm_action fn) (list_ex is_policy_session sessions)
              (with_continue sessions) sessions ?c = Some (e, c')"
        and lg: "log = issued c'" and rs: "\<not> isl res \<longleftrightarrow> e = None"
        by (auto simp add: readMultipleHelper_def execMultipleHelper_def prepare_sessions_eq Let_def
            split: option.splits)
      from exec_loop_rm_log [OF l] obtain new where
        "issued c' = issued ?c @ new"
        "list_all (\<lambda>x. fst x \<le> rmMaxSize ?c) new"
        "list_all (\<lambda>x. snd (snd x) = with_continue sessions) (butlast new)"
        "e = None \<longrightarrow> new \<noteq> [] \<and> snd (snd (last new)) = sessions \<and>
           sum_list (map (\<lambda>x. unat (fst x)) new) = unat (rmRemaining ?c)"
        by blast
      then have g: "list_all (\<lambda>c. fst c \<le> maxSize) log"
        "list_all (\<lambda>c. snd (snd c) = with_continue sessions) (butlast log)"
        "e = None \<longrightarrow> log \<noteq> [] \<and> snd (snd (last log)) = sessions \<and>
           sum_list (map (\<lambda>c. unat (fst c)) log) = unat size0"
        using lg by simp_all
      have x: "e = None \<longrightarrow> maxSize \<noteq> 0 \<longrightarrow> log = expected_calls maxSize sessions 0 size0"
      proof (intro impI)
        assume "e = None" "maxSize \<noteq> 0"
        then have "rmMaxSize ?c \<noteq> 0"
          "exec_loop fuel (rm_action fn) (list_ex is_policy_session sessions)
              (with_continue sessions) sessions ?c = Some (None, c')"
          using l by simp_all
        from exec_loop_rm_expected [OF this] show "log = expected_calls maxSize sessions 0 size0"
          using lg by simp
      qed
      show ?thesis using g x rs by blast
    qed
    then show "list_all (\<lambda>c. fst c \<le> maxSize) log"
      and "list_all (\<lambda>c. snd (snd c) = with_continue sessions) (butlast log)"
      and "\<not> isl res \<Longrightarrow> log \<noteq> []"
      and "\<not> isl res \<Longrightarrow> snd (snd (last log)) = sessions"
      and "\<not> isl res \<Longrightarrow> sum_list (map (\<lambda>c. unat (fst c)) log) = unat size0"
      and "\<not> isl res \<Longrightarrow> maxSize \<noteq> 0 \<Longrightarrow> log = expected_calls maxSize sessions 0 size0"
      by blast+
  }
  show "list_all (\<lambda>s. case s of None \<Rightarrow> True
               | Some c \<Rightarrow> scAttrs c AND AttrContinueSession = AttrContinueSession)
      (with_continue sessions)"
    by (rule with_continue_attr)
  {
    assume p: "list_ex is_policy_session sessions" and m: "maxSize < size0" and f: "0 < fuel"
    then obtain k where k: "fuel = Suc k" by (cases fuel) auto
    show "\<exists>e. readMultipleHelper fuel size0 maxSize fn sessions = Some (Inl e, []) \<and>
           (list_all session_usable sessions \<longrightarrow>
              e = Err ''cannot use a policy session for authorization'')"
    proof (cases "list_all session_usable sessions")
      case False
      from readMultipleHelper_unusable [OF False, of fuel size0 maxSize fn] False
      show ?thesis by simp
    next
      case True
      from readMultipleHelper_policy_rejected [OF m True p, of k fn] k True
      show ?thesis by simp
    qed
  }
qed

theorem readMultipleHelper_chunks_witness:
  "(4 :: u16) \<noteq> 0 \<and> unat (10 :: u16) < 11 \<and>
   readMultipleHelper 11 10 4 example_read_fn [Some example_hmac_session] =
     Some (Inr (replicate 10 0xaa), ([(4, 0, [Some (example_hmac_session\<lparr>scAttrs := 1\<rparr>)]),
      (4, 4, [Some (example_hmac_session\<lparr>scAttrs := 1\<rparr>)]),
      (2, 8, [Some example_hmac_session])] :: (u16 \<times> u16 \<times> SessionContext option list) list)) \<and>
   ([(4, 0, [Some (example_hmac_session\<lparr>scAttrs := 1\<rparr>)]),
      (4, 4, [Some (example_hmac_session\<lparr>scAttrs := 1\<rparr>)]),
      (2, 8, [Some example_hmac_session])] :: (u16 \<times> u16 \<times> SessionContext option list) list) = expected_calls 4 [Some example_hmac_session] 0 10 \<and>
   list_all (\<lambda>c. fst c \<le> 4) ([(4, 0, [Some (example_hmac_session\<lparr>scAttrs := 1\<rparr>)]),
      (4, 4, [Some (example_hmac_session\<lparr>scAttrs := 1\<rparr>)]),
      (2, 8, [Some example_hmac_session])] :: (u16 \<times> u16 \<times> SessionContext option list) list) \<and>
   list_all (\<lambda>c. snd (snd c) = with_continue [Some example_hmac_session]) (butlast ([(4, 0, [Some (example_hmac_session\<lparr>scAttrs := 1\<rparr>)]),
      (4, 4, [Some (example_hmac_session\<lparr>scAttrs := 1\<rparr>)]),
      (2, 8, [Some example_hmac_session])] :: (u16 \<times> u16 \<times> SessionContext option list) list)) \<and>
   snd (snd (last ([(4, 0, [Some (example_hmac_session\<lparr>scAttrs := 1\<rparr>)]),
      (4, 4, [Some (example_hmac_session\<lparr>scAttrs := 1\<rparr>)]),
      (2, 8, [Some example_hmac_session])] :: (u16 \<times> u16 \<times> SessionContext option list) list))) = [Some example_hmac_session] \<and>
   list_ex is_policy_session [Some example_policy_session] \<and> (4 :: u16) < 10 \<and>
   list_all session_usable [Some example_policy_session] \<and>
   readMultipleHelper 11 10 4 example_read_fn [Some example_policy_session] =
     Some (Inl (Err ''cannot use a policy session for authorization''), [])"
proof -
  have nz: "(4 :: u16) \<noteq> 0" by simp
  have fl: "unat (10 :: u16) < 11" by simp
  have us: "list_all session_usable [Some example_policy_session]" by code_simp
  have p: "list_ex is_policy_session [Some example_policy_session]" by code_simp
  have lt: "(4 :: u16) < 10" by simp
  have ev: "readMultipleHelper 11 10 4 example_read_fn [Some example_hmac_session] =
     Some (Inr (replicate 10 0xaa), ([(4, 0, [Some (example_hmac_session\<lparr>scAttrs := 1\<rparr>)]),
      (4, 4, [Some (example_hmac_session\<lparr>scAttrs := 1\<rparr>)]),
      (2, 8, [Some example_hmac_session])] :: (u16 \<times> u16 \<times> SessionContext option list) list))"
    by code_simp
  note t = readMultipleHelper_chunks [of 4 10 11 example_read_fn "[Some example_hmac_session]"
      "Inr (replicate 10 0xaa)" "[(4, 0, [Some (example_hmac_session\<lparr>scAttrs := 1\<rparr>)]),
      (4, 4, [Some (example_hmac_session\<lparr>scAttrs := 1\<rparr>)]),
      (2, 8, [Some example_hmac_session])]"]
  note t' = readMultipleHelper_chunks [of 4 10 11 example_read_fn "[Some example_policy_session]"]
  have ni: "\<not> isl (Inr (replicate 10 0xaa) :: error + bytes)" by simp
  note t2 = t [THEN conjunct2, THEN conjunct1, rule_format, OF ev]
  from t2 ni nz have a: "([(4, 0, [Some (example_hmac_session\<lparr>scAttrs := 1\<rparr>)]),
      (4, 4, [Some (example_hmac_session\<lparr>scAttrs := 1\<rparr>)]),
      (2, 8, [Some example_hmac_session])] :: (u16 \<times> u16 \<times> SessionContext option list) list) = expected_calls 4 [Some example_hmac_session] 0 10"
    by blast
  from t2 have b: "list_all (\<lambda>c. fst c \<le> 4) ([(4, 0, [Some (example_hmac_session\<lparr>scAttrs := 1\<rparr>)]),
      (4, 4, [Some (example_hmac_session\<lparr>scAttrs := 1\<rparr>)]),
      (2, 8, [Some example_hmac_session])] :: (u16 \<times> u16 \<times> SessionContext option list) list)"
    by blast
  from t2 have c: "list_all (\<lambda>c. snd (snd c) = with_continue [Some example_hmac_session]) (butlast ([(4, 0, [Some (example_hmac_session\<lparr>scAttrs := 1\<rparr>)]),
      (4, 4, [Some (example_hmac_session\<lparr>scAttrs := 1\<rparr>)]),
      (2, 8, [Some example_hmac_session])] :: (u16 \<times> u16 \<times> SessionContext option list) list))"
    by blast
  from t2 ni have d: "snd (snd (last ([(4, 0, [Some (example_hmac_session\<lparr>scAttrs := 1\<rparr>)]),
      (4, 4, [Some (example_hmac_session\<lparr>scAttrs := 1\<rparr>)]),
      (2, 8, [Some example_hmac_session])] :: (u16 \<times> u16 \<times> SessionContext option list) list))) = [Some example_hmac_session]"
    by blast
  from t' p lt us have rej: "readMultipleHelper 11 10 4 example_read_fn [Some example_policy_session] =
     Some (Inl (Err ''cannot use a policy session for authorization''), [])"
    by auto
  show ?thesis using nz fl ev a b c d p lt us rej by blast
qed

text \<open>
  C10. If the data fits in a single chunk (size at most \<open>maxSize\<close>), the helper accepts
  policy sessions like any other usable session: it issues exactly one command, with the
  caller's original session contexts, and returns what that command returns. The helper
  returns without having issued a command only when more than one chunk is needed and a
  policy session is present, or when a session context is unusable.
\<close>

theorem single_chunk_accepts_policy_sessions:
  "(size0 \<le> maxSize \<longrightarrow> list_all session_usable sessions \<longrightarrow>
      readMultipleHelper (Suc fuel) size0 maxSize fn sessions =
        Some ((case fn size0 0 sessions of
                 Inl e \<Rightarrow> Inl e
               | Inr d \<Rightarrow> Inr (copy_at (replicate (unat size0) 0) 0 d)),
              [(size0, 0, sessions)])) \<and>
   (readMultipleHelper fuel1 size1 maxSize1 fn1 sessions1 = Some (res1, []) \<longrightarrow>
      (maxSize1 < size1 \<and> list_ex is_policy_session sessions1 \<and>
         res1 = Inl (Err ''cannot use a policy session for authorization'')) \<or>
      (\<not> list_all session_usable sessions1 \<and> res1 = Inl (Err ''unusable session context'')))"
proof (intro conjI impI)
  assume "size0 \<le> maxSize" "list_all session_usable sessions"
  then show "readMultipleHelper (Suc fuel) size0 maxSize fn sessions =
        Some ((case fn size0 0 sessions of
                 Inl e \<Rightarrow> Inl e
               | Inr d \<Rightarrow> Inr (copy_at (replicate (unat size0) 0) 0 d)),
              [(size0, 0, sessions)])"
    by (rule readMultipleHelper_single)
next
  assume r: "readMultipleHelper fuel1 size1 maxSize1 fn1 sessions1 = Some (res1, [])"
  show "(maxSize1 < size1 \<and> list_ex is_policy_session sessions1 \<and>
         res1 = Inl (Err ''cannot use a policy session for authorization'')) \<or>
      (\<not> list_all session_usable sessions1 \<and> res1 = Inl (Err ''unusable session context''))"
  proof (cases "list_all session_usable sessions1")
    case False
    then show ?thesis using r readMultipleHelper_unusable [OF False, of fuel1 size1 maxSize1 fn1]
      by simp
  next
    case True
    from readMultipleHelper_nothing_issued [OF r] True
    have m: "maxSize1 < size1" and p: "list_ex is_policy_session sessions1" by auto
    obtain k where k: "fuel1 = Suc k" using r
      by (cases fuel1) (auto simp: readMultipleHelper_def execMultipleHelper_def
          prepare_sessions_eq True split: if_splits)
    show ?thesis
      using readMultipleHelper_policy_rejected [OF m True p, of k fn1] r k m p by simp
  qed
qed

theorem single_chunk_accepts_policy_sessions_witness:
  "(4 :: u16) \<le> 8 \<and> list_all session_usable [Some example_policy_session] \<and>
   list_ex is_policy_session [Some example_policy_session] \<and>
   readMultipleHelper (Suc 0) 4 8 example_read_fn [Some example_policy_session] =
     Some (Inr [0xaa, 0xaa, 0xaa, 0xaa], [(4, 0, [Some example_policy_session])]) \<and>
   readMultipleHelper 1 10 4 example_read_fn [Some example_policy_session] =
     Some (Inl (Err ''cannot use a policy session for authorization''), []) \<and>
   (4 :: u16) < 10"
proof -
  have le: "(4 :: u16) \<le> 8" by simp
  have us: "list_all session_usable [Some example_policy_session]" by code_simp
  have p: "list_ex is_policy_session [Some example_policy_session]" by code_simp
  have fnv: "example_read_fn 4 0 [Some example_policy_session] = Inr [0xaa, 0xaa, 0xaa, 0xaa]"
    by code_simp
  have cp: "copy_at (replicate 4 0) 0 [0xaa, 0xaa, 0xaa, 0xaa :: byte]
      = [0xaa, 0xaa, 0xaa, 0xaa]"
    by code_simp
  have ev: "readMultipleHelper 1 10 4 example_read_fn [Some example_policy_session] =
     Some (Inl (Err ''cannot use a policy session for authorization''), [])"
    by code_simp
  note t = single_chunk_accepts_policy_sessions
    [of 4 8 "[Some example_policy_session]" 0 example_read_fn
        1 10 4 example_read_fn "[Some example_policy_session]"
        "Inl (Err ''cannot use a policy session for authorization'')"]
  from t le us have one: "readMultipleHelper (Suc 0) 4 8 example_read_fn [Some example_policy_session] =
     Some (Inr [0xaa, 0xaa, 0xaa, 0xaa], [(4, 0, [Some example_policy_session])])"
    by (simp add: fnv cp)
  from t ev us have "(4 :: u16) < 10" by blast
  then show ?thesis using le us p one ev by simp
qed


section \<open>Properties of the qualified names\<close>

lemma qn_ancestors_index:
  "qn_value (qn_ancestors env i q xs) = qn_value (qn_ancestors env j q xs)"
proof (induction xs arbitrary: i j q)
  case Nil
  show ?case by simp
next
  case (Cons x xs)
  show ?case
  proof (cases "computeOneQualifiedName env x q")
    case (Inl e)
    then show ?thesis by (simp add: qn_value_def)
  next
    case (Inr q1)
    then show ?thesis using Cons.IH [of "Suc i" q1 "Suc j"] by simp
  qed
qed

lemma qn_ancestors_append:
  "qn_value (qn_ancestors env i q (xs @ ys)) =
     (case qn_value (qn_ancestors env i q xs) of
        None \<Rightarrow> None
      | Some q' \<Rightarrow> qn_value (qn_ancestors env i q' ys))"
proof (induction xs arbitrary: i q)
  case Nil
  show ?case by (simp add: qn_value_def)
next
  case (Cons x xs)
  show ?case
  proof (cases "computeOneQualifiedName env x q")
    case (Inl e)
    then show ?thesis by (simp add: qn_value_def)
  next
    case (Inr q1)
    then show ?thesis
      using Cons.IH [of "Suc i" q1] qn_ancestors_index [of env "Suc i" _ ys i]
      by (simp split: option.splits)
  qed
qed

lemma ComputeQualifiedName_as_loop:
  "qn_value (ComputeQualifiedName env c rootQn xs) = qn_value (qn_ancestors env 0 rootQn (xs @ [c]))"
  by (simp add: qn_ancestors_append ComputeQualifiedName_def)
     (auto simp: qn_value_def split: sum.splits)

text \<open>
  C8. For every root qualified name, ancestor list \<open>[a1..an]\<close>, child \<open>c\<close> and split point
  \<open>k\<close> with \<open>0 \<le> k \<le> n\<close>: the qualified name of \<open>c\<close> computed in one call from the root
  with the ancestors \<open>[a1..an]\<close> is the qualified name obtained by first computing the
  intermediate qualified name of \<open>ak\<close> from the root with the ancestors \<open>[a1..a(k-1)]\<close> (the
  root's own qualified name for \<open>k = 0\<close>) and then computing the qualified name of \<open>c\<close> from
  that intermediate qualified name with the ancestors \<open>[a(k+1)..an]\<close>. When one way fails,
  so does the other. It holds for every hash and every reading of names, so also for the
  valid roots of the claim.
\<close>

theorem qualified_name_split:
  assumes k: "k \<le> length ancestors"
  shows "qn_value (ComputeQualifiedName env c rootQn ancestors) =
     (case qn_value (intermediate_qn env rootQn ancestors k) of
        None \<Rightarrow> None
      | Some qn \<Rightarrow> qn_value (ComputeQualifiedName env c qn (drop k ancestors)))"
proof (cases k)
  case 0
  then show ?thesis by (simp add: intermediate_qn_def qn_value_def)
next
  case (Suc m)
  then have m: "m < length ancestors" using k by simp
  have tk: "take (Suc m) ancestors = take m ancestors @ [ancestors ! m]"
    using m by (simp add: take_Suc_conv_app_nth)
  have sp: "ancestors @ [c] = take k ancestors @ (drop k ancestors @ [c])" by simp
  have "qn_value (qn_ancestors env 0 rootQn (ancestors @ [c])) =
     (case qn_value (qn_ancestors env 0 rootQn (take k ancestors)) of
        None \<Rightarrow> None
      | Some q' \<Rightarrow> qn_value (qn_ancestors env 0 q' (drop k ancestors @ [c])))"
    by (subst sp) (rule qn_ancestors_append)
  moreover have "qn_value (intermediate_qn env rootQn ancestors k) =
      qn_value (qn_ancestors env 0 rootQn (take k ancestors))"
    using Suc by (simp add: intermediate_qn_def ComputeQualifiedName_as_loop tk)
  ultimately show ?thesis
    by (simp add: ComputeQualifiedName_as_loop split: option.splits)
qed


theorem qualified_name_split_witness:
  "(1 :: nat) \<le> length [[0x00, 0x0b, 0x01], [0x00, 0x0b, 0x02 :: byte]] \<and>
   qn_value (intermediate_qn example_qn_env (be32 HandleOwner)
       [[0x00, 0x0b, 0x01], [0x00, 0x0b, 0x02]] 1) = Some [0x00, 0x0b, 0x4d] \<and>
   qn_value (ComputeQualifiedName example_qn_env [0x00, 0x0b, 0x07] [0x00, 0x0b, 0x4d]
       (drop 1 [[0x00, 0x0b, 0x01], [0x00, 0x0b, 0x02]])) = Some [0x00, 0x0b, 0x82] \<and>
   qn_value (ComputeQualifiedName example_qn_env [0x00, 0x0b, 0x07] (be32 HandleOwner)
       [[0x00, 0x0b, 0x01], [0x00, 0x0b, 0x02]]) = Some [0x00, 0x0b, 0x82]"
proof -
  have k: "(1 :: nat) \<le> length [[0x00, 0x0b, 0x01], [0x00, 0x0b, 0x02 :: byte]]" by simp
  have a: "qn_value (intermediate_qn example_qn_env (be32 HandleOwner)
       [[0x00, 0x0b, 0x01], [0x00, 0x0b, 0x02]] 1) = Some [0x00, 0x0b, 0x4d]"
    by code_simp
  have b: "qn_value (ComputeQualifiedName example_qn_env [0x00, 0x0b, 0x07] [0x00, 0x0b, 0x4d]
       (drop 1 [[0x00, 0x0b, 0x01], [0x00, 0x0b, 0x02]])) = Some [0x00, 0x0b, 0x82]"
    by code_simp
  have "qn_value (ComputeQualifiedName example_qn_env [0x00, 0x0b, 0x07] (be32 HandleOwner)
       [[0x00, 0x0b, 0x01], [0x00, 0x0b, 0x02]]) = Some [0x00, 0x0b, 0x82]"
    using qualified_name_split [OF k, of example_qn_env "[0x00, 0x0b, 0x07]" "be32 HandleOwner"]
    by (simp only: a b option.case)
  then show ?thesis using k a b by blast
qed

section \<open>Properties of StartAuthSession\<close>

text \<open>
  C7 (as amended). The claim: with a non-nil \<open>tpmKey\<close>, \<open>StartAuthSession\<close> generates a salt
  and an encrypted secret and proceeds to send the command, that is, salted sessions are
  supported. The function's first statement returns an invalid-parameter error for a
  non-nil \<open>tpmKey\<close>.

  Amended: for every call to \<open>StartAuthSession\<close> with a non-nil \<open>tpmKey\<close>, the session engine
  returns the invalid-parameter error "no support for salted sessions yet"; it generates
  no salt, sends no command and registers no session context: salted sessions are rejected.
\<close>

theorem StartAuthSession_salted_rejected:
  "StartAuthSession env t (Some tpmKey) bind sessionType symmetric authHash authValue =
     (Inl (InvalidParamError ''no support for salted sessions yet''), t)"
  by (simp add: StartAuthSession_def)

theorem StartAuthSession_salted_rejected_witness:
  "StartAuthSession example_sas_env \<lparr>commandsSent = [], resources = []\<rparr>
      (Some \<lparr>rcHandle = 0x81000001\<rparr>) (Some \<lparr>rcHandle = 0x81000002\<rparr>) SessionTypeHMAC None 0x000b
      (AuthString ''foo'') =
     (Inl (InvalidParamError ''no support for salted sessions yet''),
      \<lparr>commandsSent = [], resources = []\<rparr>)"
  using StartAuthSession_salted_rejected [of example_sas_env "\<lparr>commandsSent = [], resources = []\<rparr>"
      "\<lparr>rcHandle = 0x81000001\<rparr>" "Some \<lparr>rcHandle = 0x81000002\<rparr>" SessionTypeHMAC None "0x000b"
      "AuthString ''foo''"]
  by simp

text \<open>The claim as stated fails: a call with a \<open>tpmKey\<close> sends no command, where the same
  call without it sends TPM2\_StartAuthSession.\<close>

theorem StartAuthSession_salted_counterexample:
  "commandsSent (snd (StartAuthSession example_sas_env \<lparr>commandsSent = [], resources = []\<rparr>
      (Some \<lparr>rcHandle = 0x81000001\<rparr>) None SessionTypeHMAC None 0x000b AuthNil)) = [] \<and>
   fst (StartAuthSession example_sas_env \<lparr>commandsSent = [], resources = []\<rparr>
      (Some \<lparr>rcHandle = 0x81000001\<rparr>) None SessionTypeHMAC None 0x000b AuthNil)
     = Inl (InvalidParamError ''no support for salted sessions yet'') \<and>
   commandsSent (snd (StartAuthSession example_sas_env \<lparr>commandsSent = [], resources = []\<rparr>
      None None SessionTypeHMAC None 0x000b AuthNil)) = [CommandStartAuthSession]"
  by code_simp


section \<open>Properties of the object wrappers\<close>

lemma outer_wrap_unwrap:
  assumes dec: "\<And>alg key iv d c. CryptSymmetricEncrypt env alg key iv d = Inr c \<Longrightarrow>
                  CryptSymmetricDecrypt env alg key iv c = Inr d"
    and w: "ProduceOuterWrap env hashAlg symmetricAlg name seed False d = Inr w"
  shows "UnwrapOuter env hashAlg symmetricAlg name seed False w = Inr d"
proof -
  from w obtain sdo where s: "symmetricAlg = Some sdo"
    by (cases symmetricAlg) (auto simp: ProduceOuterWrap_def)
  from w s obtain symKey where sk: "KDFa env hashAlg seed StorageKey name [] (unat (sdoKeyBits sdo)) = Some symKey"
    by (auto simp: ProduceOuterWrap_def split: option.splits)
  from w s sk obtain enc where enc: "CryptSymmetricEncrypt env (sdoAlgorithm sdo) symKey
      (replicate (blockSize env (sdoAlgorithm sdo)) 0) d = Inr enc"
    by (auto simp: ProduceOuterWrap_def split: sum.splits)
  from w s sk enc obtain hmacKey where hk: "KDFa env hashAlg seed IntegrityKey [] [] (digestSize env hashAlg * 8) = Some hmacKey"
    by (auto simp: ProduceOuterWrap_def split: option.splits)
  from w s sk enc hk obtain integrity where mac: "hmacSum env hashAlg hmacKey (enc @ name) = Some integrity"
    by (auto simp: ProduceOuterWrap_def split: option.splits)
  from w s sk enc hk mac obtain m where m: "marshal_sized integrity = Some m" and wm: "w = m @ enc"
    by (auto simp: ProduceOuterWrap_def must_marshal_sized_raw_def split: option.splits)
  have rd: "read_sized (m @ enc) = Some (integrity, enc)" by (rule read_sized_marshal [OF m])
  show ?thesis
    by (simp add: UnwrapOuter_def wm rd hk mac s sk dec [OF enc])
qed

text \<open>
  C4. For every sensitive structure \<open>s\<close>, object name, parent public area, seed, symmetric
  algorithm and inner symmetric key \<open>k\<close>: when \<open>SensitiveToDuplicate\<close> produces a duplication
  blob, \<open>DuplicateToSensitive\<close> applied to that blob with the same name, the parent's name
  algorithm and symmetric algorithm, the same seed and symmetric algorithm and the matching
  key returns \<open>s\<close>. The matching key is \<open>k\<close>, or the key that \<open>SensitiveToDuplicate\<close> created and
  returned when \<open>k\<close> was empty. The cipher and the codec of the sensitive structure are
  not part of the file: the cipher's decryption is assumed to invert its encryption, and
  unmarshalling to invert marshalling. The theorem covers the empty seed (no outer wrapper)
  as well as the non-empty seed of the claim.
\<close>

theorem duplicate_roundtrip:
  assumes dec: "\<And>alg key iv d c. CryptSymmetricEncrypt env alg key iv d = Inr c \<Longrightarrow>
                  CryptSymmetricDecrypt env alg key iv c = Inr d"
    and codec: "\<And>s b. marshalSensitive env s = Inr b \<Longrightarrow> unmarshalSensitive env b = Inr s"
    and dup: "SensitiveToDuplicate env s name (Some parent) seed symmetricAlg innerSymKey
                = Inr (keyOut, blob)"
  shows "DuplicateToSensitive env blob name (pubNameAlg parent) (pubAsymSymmetric parent) seed
           symmetricAlg (if innerSymKey = [] then keyOut else innerSymKey) = Inr s"
proof -
  define key where "key = (if innerSymKey = [] then keyOut else innerSymKey)"
  from dup obtain dup0 where d0: "marshalSensitive env s = Inr dup0"
    by (auto simp: SensitiveToDuplicate_def split: sum.splits)
  note un = codec [OF d0]
  \<comment> \<open>the inner wrapper\<close>
  obtain dup2 where inner: "(case symmetricAlg of
                 None \<Rightarrow> Inr dup2
               | Some sdo \<Rightarrow>
                 if sdoAlgorithm sdo \<noteq> SymObjectAlgorithmNull then
                   (case CryptSymmetricDecrypt env (sdoAlgorithm sdo) key
                           (replicate (blockSize env (sdoAlgorithm sdo)) 0) dup2 of
                      Inl err \<Rightarrow> Inl (wrap_error ''cannot remove inner wrapper'' err)
                    | Inr plain \<Rightarrow>
                      (case read_sized plain of
                         None \<Rightarrow> Inl (Wrap ''cannot unpack inner integrity digest'' (Err ''unexpected EOF''))
                       | Some (innerIntegrity, rest) \<Rightarrow>
                         (case digestSum env (objNameAlgorithm env name) (rest @ name) of
                            None \<Rightarrow> Inl Panic
                          | Some h \<Rightarrow>
                            if h \<noteq> innerIntegrity then Inl (Err ''inner integrity digest is invalid'')
                            else Inr rest)))
                 else Inr dup2) = Inr dup0"
    and outer: "if length seed > 0
       then (\<exists>psdo. pubAsymSymmetric parent = Some psdo \<and>
              ProduceOuterWrap env (pubNameAlg parent) (Some psdo) name seed False dup2 = Inr blob)
       else blob = dup2"
  proof (cases "inner_wrapper_applies symmetricAlg")
    case False
    show ?thesis
    proof (rule that [of dup0])
      show "(case symmetricAlg of
                 None \<Rightarrow> Inr dup0
               | Some sdo \<Rightarrow>
                 if sdoAlgorithm sdo \<noteq> SymObjectAlgorithmNull then
                   (case CryptSymmetricDecrypt env (sdoAlgorithm sdo) key
                           (replicate (blockSize env (sdoAlgorithm sdo)) 0) dup0 of
                      Inl err \<Rightarrow> Inl (wrap_error ''cannot remove inner wrapper'' err)
                    | Inr plain \<Rightarrow>
                      (case read_sized plain of
                         None \<Rightarrow> Inl (Wrap ''cannot unpack inner integrity digest'' (Err ''unexpected EOF''))
                       | Some (innerIntegrity, rest) \<Rightarrow>
                         (case digestSum env (objNameAlgorithm env name) (rest @ name) of
                            None \<Rightarrow> Inl Panic
                          | Some h \<Rightarrow>
                            if h \<noteq> innerIntegrity then Inl (Err ''inner integrity digest is invalid'')
                            else Inr rest)))
                 else Inr dup0) = Inr dup0"
        using False by (auto simp: inner_wrapper_applies_def split: option.splits)
      show "if length seed > 0
       then (\<exists>psdo. pubAsymSymmetric parent = Some psdo \<and>
              ProduceOuterWrap env (pubNameAlg parent) (Some psdo) name seed False dup0 = Inr blob)
       else blob = dup0"
        using dup d0 False
        by (auto simp: SensitiveToDuplicate_def inner_wrapper_applies_def
            split: option.splits sum.splits if_splits)
    qed
  next
    case True
    then obtain sdo where sa: "symmetricAlg = Some sdo" and nn: "sdoAlgorithm sdo \<noteq> SymObjectAlgorithmNull"
      by (auto simp: inner_wrapper_applies_def split: option.splits)
    from dup d0 sa nn obtain ii where ii: "digestSum env (objNameAlgorithm env name) (dup0 @ name) = Some ii"
      by (auto simp: SensitiveToDuplicate_def split: option.splits)
    from dup d0 sa nn ii obtain m where m: "marshal_sized ii = Some m"
      by (auto simp: SensitiveToDuplicate_def must_marshal_sized_raw_def split: option.splits)
    from dup d0 sa nn ii m obtain enc where
      enc: "CryptSymmetricEncrypt env (sdoAlgorithm sdo) key
              (replicate (blockSize env (sdoAlgorithm sdo)) 0) (m @ dup0) = Inr enc"
      and out: "if length seed > 0
       then (\<exists>psdo. pubAsymSymmetric parent = Some psdo \<and>
              ProduceOuterWrap env (pubNameAlg parent) (Some psdo) name seed False enc = Inr blob)
       else blob = enc"
      by (auto simp: SensitiveToDuplicate_def must_marshal_sized_raw_def key_def
          split: option.splits sum.splits if_splits)
    have rd: "read_sized (m @ dup0) = Some (ii, dup0)" by (rule read_sized_marshal [OF m])
    show ?thesis
    proof (rule that [of enc])
      show "(case symmetricAlg of
                 None \<Rightarrow> Inr enc
               | Some sdo \<Rightarrow>
                 if sdoAlgorithm sdo \<noteq> SymObjectAlgorithmNull then
                   (case CryptSymmetricDecrypt env (sdoAlgorithm sdo) key
                           (replicate (blockSize env (sdoAlgorithm sdo)) 0) enc of
                      Inl err \<Rightarrow> Inl (wrap_error ''cannot remove inner wrapper'' err)
                    | Inr plain \<Rightarrow>
                      (case read_sized plain of
                         None \<Rightarrow> Inl (Wrap ''cannot unpack inner integrity digest'' (Err ''unexpected EOF''))
                       | Some (innerIntegrity, rest) \<Rightarrow>
                         (case digestSum env (objNameAlgorithm env name) (rest @ name) of
                            None \<Rightarrow> Inl Panic
                          | Some h \<Rightarrow>
                            if h \<noteq> innerIntegrity then Inl (Err ''inner integrity digest is invalid'')
                            else Inr rest)))
                 else Inr enc) = Inr dup0"
        using sa nn dec [OF enc] rd ii by simp
      show "if length seed > 0
       then (\<exists>psdo. pubAsymSymmetric parent = Some psdo \<and>
              ProduceOuterWrap env (pubNameAlg parent) (Some psdo) name seed False enc = Inr blob)
       else blob = enc"
        by (rule out)
    qed
  qed
  \<comment> \<open>the outer wrapper\<close>
  have o: "(if length seed > 0 then
              (case UnwrapOuter env (pubNameAlg parent) (pubAsymSymmetric parent) name seed False blob of
                 Inl err \<Rightarrow> Inl (wrap_error ''cannot unwrap outer wrapper'' err)
               | Inr d \<Rightarrow> Inr d)
            else Inr blob) = Inr dup2"
  proof (cases "length seed > 0")
    case True
    with outer obtain psdo where p: "pubAsymSymmetric parent = Some psdo"
      and w: "ProduceOuterWrap env (pubNameAlg parent) (Some psdo) name seed False dup2 = Inr blob"
      by auto
    show ?thesis using True outer_wrap_unwrap [OF dec w] p by simp
  next
    case False
    then show ?thesis using outer by simp
  qed
  have "DuplicateToSensitive env blob name (pubNameAlg parent) (pubAsymSymmetric parent) seed
           symmetricAlg key = Inr s"
    unfolding DuplicateToSensitive_def o using inner un by simp
  then show ?thesis by (simp only: key_def)
qed


theorem duplicate_roundtrip_witness:
  "SensitiveToDuplicate example_crypto_env [0x01, 0x02, 0x03] [0x00, 0x0b, 0x09]
      (Some \<lparr>pubNameAlg = 0x000b, pubAsymSymmetric = Some \<lparr>sdoAlgorithm = 0x0006, sdoKeyBits = 128\<rparr>\<rparr>)
      [0x07, 0x07] (Some \<lparr>sdoAlgorithm = 0x0006, sdoKeyBits = 128\<rparr>) [0x03]
     = Inr ([], [0x00, 0x01, 0x12, 0x3a, 0x3b, 0x57, 0x3a, 0x3d, 0x3b, 0x3c, 0x3d]) \<and>
   DuplicateToSensitive example_crypto_env [0x00, 0x01, 0x12, 0x3a, 0x3b, 0x57, 0x3a, 0x3d, 0x3b, 0x3c, 0x3d]
      [0x00, 0x0b, 0x09] 0x000b (Some \<lparr>sdoAlgorithm = 0x0006, sdoKeyBits = 128\<rparr>) [0x07, 0x07]
      (Some \<lparr>sdoAlgorithm = 0x0006, sdoKeyBits = 128\<rparr>) [0x03]
     = Inr [0x01, 0x02, 0x03] \<and>
   SensitiveToDuplicate example_crypto_env [0x01, 0x02, 0x03] [0x00, 0x0b, 0x09]
      (Some \<lparr>pubNameAlg = 0x000b, pubAsymSymmetric = Some \<lparr>sdoAlgorithm = 0x0006, sdoKeyBits = 128\<rparr>\<rparr>)
      [0x07, 0x07] (Some \<lparr>sdoAlgorithm = 0x0006, sdoKeyBits = 128\<rparr>) []
     = Inr (replicate 16 0x5a, [0x00, 0x01, 0xfa, 0xd7, 0xd8, 0xf4, 0xd7, 0xda, 0xd8, 0xd9, 0xda]) \<and>
   DuplicateToSensitive example_crypto_env [0x00, 0x01, 0xfa, 0xd7, 0xd8, 0xf4, 0xd7, 0xda, 0xd8, 0xd9, 0xda]
      [0x00, 0x0b, 0x09] 0x000b (Some \<lparr>sdoAlgorithm = 0x0006, sdoKeyBits = 128\<rparr>) [0x07, 0x07]
      (Some \<lparr>sdoAlgorithm = 0x0006, sdoKeyBits = 128\<rparr>) (replicate 16 0x5a)
     = Inr [0x01, 0x02, 0x03]"
proof -
  have dec: "\<And>alg key iv d c. CryptSymmetricEncrypt example_crypto_env alg key iv d = Inr c \<Longrightarrow>
                  CryptSymmetricDecrypt example_crypto_env alg key iv c = Inr d"
    by (auto simp: example_crypto_env_def comp_def)
  have codec: "\<And>s b. marshalSensitive example_crypto_env s = Inr b \<Longrightarrow>
                  unmarshalSensitive example_crypto_env b = Inr s"
    using read_sized_marshal [of _ _ "[]"]
    by (auto simp: example_crypto_env_def split: option.splits)
  have ev1: "SensitiveToDuplicate example_crypto_env [0x01, 0x02, 0x03] [0x00, 0x0b, 0x09]
      (Some \<lparr>pubNameAlg = 0x000b, pubAsymSymmetric = Some \<lparr>sdoAlgorithm = 0x0006, sdoKeyBits = 128\<rparr>\<rparr>)
      [0x07, 0x07] (Some \<lparr>sdoAlgorithm = 0x0006, sdoKeyBits = 128\<rparr>) [0x03]
     = Inr ([], [0x00, 0x01, 0x12, 0x3a, 0x3b, 0x57, 0x3a, 0x3d, 0x3b, 0x3c, 0x3d])"
    by (simp add: SensitiveToDuplicate_def ProduceOuterWrap_def example_crypto_env_def StorageKey_def
      IntegrityKey_def bytes_of_string_def must_marshal_sized_raw_def marshal_sized_def be16_def
      SymObjectAlgorithmNull_def sum_list_replicate)
  have ev2: "SensitiveToDuplicate example_crypto_env [0x01, 0x02, 0x03] [0x00, 0x0b, 0x09]
      (Some \<lparr>pubNameAlg = 0x000b, pubAsymSymmetric = Some \<lparr>sdoAlgorithm = 0x0006, sdoKeyBits = 128\<rparr>\<rparr>)
      [0x07, 0x07] (Some \<lparr>sdoAlgorithm = 0x0006, sdoKeyBits = 128\<rparr>) []
     = Inr (replicate 16 0x5a, [0x00, 0x01, 0xfa, 0xd7, 0xd8, 0xf4, 0xd7, 0xda, 0xd8, 0xd9, 0xda])"
    by (simp add: SensitiveToDuplicate_def ProduceOuterWrap_def example_crypto_env_def StorageKey_def
      IntegrityKey_def bytes_of_string_def must_marshal_sized_raw_def marshal_sized_def be16_def
      SymObjectAlgorithmNull_def sum_list_replicate)
  show ?thesis
    using duplicate_roundtrip [OF dec codec ev1] duplicate_roundtrip [OF dec codec ev2] ev1 ev2
    by simp
qed

section \<open>Properties of the policy digests\<close>

lemma replicate_numeral: "replicate (numeral v) x = x # replicate (numeral v - 1) x"
  by (simp add: numeral_eq_Suc)

text \<open>The four hash computations of the policy under SHA-256, and the four under SHA-1. Each
  message fits one block; the eighty (sixty-four) rounds and the words of the message schedule are
  evaluated one at a time.\<close>

lemma sha256_policy_mixed_step1:
  "sha256
     [0x00, 0x00, 0x00, 0x00, 0x00, 0x00, 0x00, 0x00, 0x00, 0x00, 0x00, 0x00, 0x00, 0x00, 0x00,
      0x00, 0x00, 0x00, 0x00, 0x00, 0x00, 0x00, 0x00, 0x00, 0x00, 0x00, 0x00, 0x00, 0x00, 0x00,
      0x00, 0x00, 0x00, 0x00, 0x01, 0x51, 0x40, 0x00, 0x00, 0x01] =
   [0x47, 0x8c, 0xf7, 0x94, 0xda, 0x0e, 0x05, 0x31, 0xf4, 0x11, 0x73, 0x44, 0x27, 0x7d, 0x77,
    0xd0, 0x86, 0x25, 0x90, 0x43, 0xf0, 0x37, 0xb6, 0xd6, 0x7f, 0x63, 0xb1, 0x32, 0xa0, 0x8b,
    0xfc, 0x27]"
proof -
  have block: "words_of (sha_pad
     [0x00, 0x00, 0x00, 0x00, 0x00, 0x00, 0x00, 0x00, 0x00, 0x00, 0x00, 0x00, 0x00, 0x00, 0x00,
      0x00, 0x00, 0x00, 0x00, 0x00, 0x00, 0x00, 0x00, 0x00, 0x00, 0x00, 0x00, 0x00, 0x00, 0x00,
      0x00, 0x00, 0x00, 0x00, 0x01, 0x51, 0x40, 0x00, 0x00, 0x01]) =
     [0x00000000, 0x00000000, 0x00000000, 0x00000000, 0x00000000, 0x00000000, 0x00000000,
      0x00000000, 0x00000151, 0x40000001, 0x80000000, 0x00000000, 0x00000000, 0x00000000,
      0x00000000, 0x00000140]"
    by (simp add: sha_pad_def be64_of_nat_def be32_def replicate_numeral)
  have r0: "sha256_round [0x6a09e667, 0xbb67ae85, 0x3c6ef372, 0xa54ff53a, 0x510e527f, 0x9b05688c, 0x1f83d9ab, 0x5be0cd19]
      0x428a2f98 0x00000000 =
      [0xfc08884d, 0x6a09e667, 0xbb67ae85, 0x3c6ef372, 0x98c7e2a2, 0x510e527f, 0x9b05688c, 0x1f83d9ab]"
    by (simp add: rotr_def Let_def)
  have n0: "sha256_next
      [0x00000000, 0x00000000, 0x00000000, 0x00000000, 0x00000000, 0x00000000, 0x00000000,
      0x00000000, 0x00000151, 0x40000001, 0x80000000, 0x00000000, 0x00000000, 0x00000000,
      0x00000000, 0x00000140] =
      0x40000001"
    by (simp add: rotr_def Let_def sha256_next_def)
  have r1: "sha256_round [0xfc08884d, 0x6a09e667, 0xbb67ae85, 0x3c6ef372, 0x98c7e2a2, 0x510e527f, 0x9b05688c, 0x1f83d9ab]
      0x71374491 0x00000000 =
      [0x7ad96290, 0xfc08884d, 0x6a09e667, 0xbb67ae85, 0x9df1b216, 0x98c7e2a2, 0x510e527f, 0x9b05688c]"
    by (simp add: rotr_def Let_def)
  have n1: "sha256_next
      [0x00000000, 0x00000000, 0x00000000, 0x00000000, 0x00000000, 0x00000000, 0x00000000,
      0x00000151, 0x40000001, 0x80000000, 0x00000000, 0x00000000, 0x00000000, 0x00000000,
      0x00000140, 0x40000001] =
      0x80880000"
    by (simp add: rotr_def Let_def sha256_next_def)
  have r2: "sha256_round [0x7ad96290, 0xfc08884d, 0x6a09e667, 0xbb67ae85, 0x9df1b216, 0x98c7e2a2, 0x510e527f, 0x9b05688c]
      0xb5c0fbcf 0x00000000 =
      [0xf3dd6c3f, 0x7ad96290, 0xfc08884d, 0x6a09e667, 0xc57b68fb, 0x9df1b216, 0x98c7e2a2, 0x510e527f]"
    by (simp add: rotr_def Let_def)
  have n2: "sha256_next
      [0x00000000, 0x00000000, 0x00000000, 0x00000000, 0x00000000, 0x00000000, 0x00000151,
      0x40000001, 0x80000000, 0x00000000, 0x00000000, 0x00000000, 0x00000000, 0x00000140,
      0x40000001, 0x80880000] =
      0x00108800"
    by (simp add: rotr_def Let_def sha256_next_def)
  have r3: "sha256_round [0xf3dd6c3f, 0x7ad96290, 0xfc08884d, 0x6a09e667, 0xc57b68fb, 0x9df1b216, 0x98c7e2a2, 0x510e527f]
      0xe9b5dba5 0x00000000 =
      [0x0a24b1aa, 0xf3dd6c3f, 0x7ad96290, 0xfc08884d, 0x909cf5c9, 0xc57b68fb, 0x9df1b216, 0x98c7e2a2]"
    by (simp add: rotr_def Let_def)
  have n3: "sha256_next
      [0x00000000, 0x00000000, 0x00000000, 0x00000000, 0x00000000, 0x00000151, 0x40000001,
      0x80000000, 0x00000000, 0x00000000, 0x00000000, 0x00000000, 0x00000140, 0x40000001,
      0x80880000, 0x00108800] =
      0x00207255"
    by (simp add: rotr_def Let_def sha256_next_def)
  have r4: "sha256_round [0x0a24b1aa, 0xf3dd6c3f, 0x7ad96290, 0xfc08884d, 0x909cf5c9, 0xc57b68fb, 0x9df1b216, 0x98c7e2a2]
      0x3956c25b 0x00000000 =
      [0x489fc27e, 0x0a24b1aa, 0xf3dd6c3f, 0x7ad96290, 0x2cab14aa, 0x909cf5c9, 0xc57b68fb, 0x9df1b216]"
    by (simp add: rotr_def Let_def)
  have n4: "sha256_next
      [0x00000000, 0x00000000, 0x00000000, 0x00000000, 0x00000151, 0x40000001, 0x80000000,
      0x00000000, 0x00000000, 0x00000000, 0x00000000, 0x00000140, 0x40000001, 0x80880000,
      0x00108800, 0x00207255] =
      0x55000428"
    by (simp add: rotr_def Let_def sha256_next_def)
  have r5: "sha256_round [0x489fc27e, 0x0a24b1aa, 0xf3dd6c3f, 0x7ad96290, 0x2cab14aa, 0x909cf5c9, 0xc57b68fb, 0x9df1b216]
      0x59f111f1 0x00000000 =
      [0x6bb2da87, 0x489fc27e, 0x0a24b1aa, 0xf3dd6c3f, 0x9d120f96, 0x2cab14aa, 0x909cf5c9, 0xc57b68fb]"
    by (simp add: rotr_def Let_def)
  have n5: "sha256_next
      [0x00000000, 0x00000000, 0x00000000, 0x00000151, 0x40000001, 0x80000000, 0x00000000,
      0x00000000, 0x00000000, 0x00000000, 0x00000140, 0x40000001, 0x80880000, 0x00108800,
      0x00207255, 0x55000428] =
      0x37602808"
    by (simp add: rotr_def Let_def sha256_next_def)
  have r6: "sha256_round [0x6bb2da87, 0x489fc27e, 0x0a24b1aa, 0xf3dd6c3f, 0x9d120f96, 0x2cab14aa, 0x909cf5c9, 0xc57b68fb]
      0x923f82a4 0x00000000 =
      [0x965ecae2, 0x6bb2da87, 0x489fc27e, 0x0a24b1aa, 0x79c76dda, 0x9d120f96, 0x2cab14aa, 0x909cf5c9]"
    by (simp add: rotr_def Let_def)
  have n6: "sha256_next
      [0x00000000, 0x00000000, 0x00000151, 0x40000001, 0x80000000, 0x00000000, 0x00000000,
      0x00000000, 0x00000000, 0x00000140, 0x40000001, 0x80880000, 0x00108800, 0x00207255,
      0x55000428, 0x37602808] =
      0x02846161"
    by (simp add: rotr_def Let_def sha256_next_def)
  have r7: "sha256_round [0x965ecae2, 0x6bb2da87, 0x489fc27e, 0x0a24b1aa, 0x79c76dda, 0x9d120f96, 0x2cab14aa, 0x909cf5c9]
      0xab1c5ed5 0x00000000 =
      [0x5e498fb3, 0x965ecae2, 0x6bb2da87, 0x489fc27e, 0x9426ec60, 0x79c76dda, 0x9d120f96, 0x2cab14aa]"
    by (simp add: rotr_def Let_def)
  have n7: "sha256_next
      [0x00000000, 0x00000151, 0x40000001, 0x80000000, 0x00000000, 0x00000000, 0x00000000,
      0x00000000, 0x00000140, 0x40000001, 0x80880000, 0x00108800, 0x00207255, 0x55000428,
      0x37602808, 0x02846161] =
      0xf35d057f"
    by (simp add: rotr_def Let_def sha256_next_def)
  have r8: "sha256_round [0x5e498fb3, 0x965ecae2, 0x6bb2da87, 0x489fc27e, 0x9426ec60, 0x79c76dda, 0x9d120f96, 0x2cab14aa]
      0xd807aa98 0x00000151 =
      [0x258e870b, 0x5e498fb3, 0x965ecae2, 0x6bb2da87, 0x839d220d, 0x9426ec60, 0x79c76dda, 0x9d120f96]"
    by (simp add: rotr_def Let_def)
  have n8: "sha256_next
      [0x00000151, 0x40000001, 0x80000000, 0x00000000, 0x00000000, 0x00000000, 0x00000000,
      0x00000140, 0x40000001, 0x80880000, 0x00108800, 0x00207255, 0x55000428, 0x37602808,
      0x02846161, 0xf35d057f] =
      0x47a4515b"
    by (simp add: rotr_def Let_def sha256_next_def)
  have r9: "sha256_round [0x258e870b, 0x5e498fb3, 0x965ecae2, 0x6bb2da87, 0x839d220d, 0x9426ec60, 0x79c76dda, 0x9d120f96]
      0x12835b01 0x40000001 =
      [0x82800b1a, 0x258e870b, 0x5e498fb3, 0x965ecae2, 0x0cbdb4de, 0x839d220d, 0x9426ec60, 0x79c76dda]"
    by (simp add: rotr_def Let_def)
  have n9: "sha256_next
      [0x40000001, 0x80000000, 0x00000000, 0x00000000, 0x00000000, 0x00000000, 0x00000140,
      0x40000001, 0x80880000, 0x00108800, 0x00207255, 0x55000428, 0x37602808, 0x02846161,
      0xf35d057f, 0x47a4515b] =
      0x733d7885"
    by (simp add: rotr_def Let_def sha256_next_def)
  have r10: "sha256_round [0x82800b1a, 0x258e870b, 0x5e498fb3, 0x965ecae2, 0x0cbdb4de, 0x839d220d, 0x9426ec60, 0x79c76dda]
      0x243185be 0x80000000 =
      [0x6aa2760e, 0x82800b1a, 0x258e870b, 0x5e498fb3, 0x02203509, 0x0cbdb4de, 0x839d220d, 0x9426ec60]"
    by (simp add: rotr_def Let_def)
  have n10: "sha256_next
      [0x80000000, 0x00000000, 0x00000000, 0x00000000, 0x00000000, 0x00000140, 0x40000001,
      0x80880000, 0x00108800, 0x00207255, 0x55000428, 0x37602808, 0x02846161, 0xf35d057f,
      0x47a4515b, 0x733d7885] =
      0x22b79487"
    by (simp add: rotr_def Let_def sha256_next_def)
  have r11: "sha256_round [0x6aa2760e, 0x82800b1a, 0x258e870b, 0x5e498fb3, 0x02203509, 0x0cbdb4de, 0x839d220d, 0x9426ec60]
      0x550c7dc3 0x00000000 =
      [0xc5a8d8c6, 0x6aa2760e, 0x82800b1a, 0x258e870b, 0x5e6c7035, 0x02203509, 0x0cbdb4de, 0x839d220d]"
    by (simp add: rotr_def Let_def)
  have n11: "sha256_next
      [0x00000000, 0x00000000, 0x00000000, 0x00000000, 0x00000140, 0x40000001, 0x80880000,
      0x00108800, 0x00207255, 0x55000428, 0x37602808, 0x02846161, 0xf35d057f, 0x47a4515b,
      0x733d7885, 0x22b79487] =
      0x684edccf"
    by (simp add: rotr_def Let_def sha256_next_def)
  have r12: "sha256_round [0xc5a8d8c6, 0x6aa2760e, 0x82800b1a, 0x258e870b, 0x5e6c7035, 0x02203509, 0x0cbdb4de, 0x839d220d]
      0x72be5d74 0x00000000 =
      [0x75d6f59c, 0xc5a8d8c6, 0x6aa2760e, 0x82800b1a, 0x04862238, 0x5e6c7035, 0x02203509, 0x0cbdb4de]"
    by (simp add: rotr_def Let_def)
  have n12: "sha256_next
      [0x00000000, 0x00000000, 0x00000000, 0x00000140, 0x40000001, 0x80880000, 0x00108800,
      0x00207255, 0x55000428, 0x37602808, 0x02846161, 0xf35d057f, 0x47a4515b, 0x733d7885,
      0x22b79487, 0x684edccf] =
      0x703c00f0"
    by (simp add: rotr_def Let_def sha256_next_def)
  have r13: "sha256_round [0x75d6f59c, 0xc5a8d8c6, 0x6aa2760e, 0x82800b1a, 0x04862238, 0x5e6c7035, 0x02203509, 0x0cbdb4de]
      0x80deb1fe 0x00000000 =
      [0xc7a786f0, 0x75d6f59c, 0xc5a8d8c6, 0x6aa2760e, 0xfa443b75, 0x04862238, 0x5e6c7035, 0x02203509]"
    by (simp add: rotr_def Let_def)
  have n13: "sha256_next
      [0x00000000, 0x00000000, 0x00000140, 0x40000001, 0x80880000, 0x00108800, 0x00207255,
      0x55000428, 0x37602808, 0x02846161, 0xf35d057f, 0x47a4515b, 0x733d7885, 0x22b79487,
      0x684edccf, 0x703c00f0] =
      0xb868abfa"
    by (simp add: rotr_def Let_def sha256_next_def)
  have r14: "sha256_round [0xc7a786f0, 0x75d6f59c, 0xc5a8d8c6, 0x6aa2760e, 0xfa443b75, 0x04862238, 0x5e6c7035, 0x02203509]
      0x9bdc06a7 0x00000000 =
      [0x9b8f74e9, 0xc7a786f0, 0x75d6f59c, 0xc5a8d8c6, 0xa816f685, 0xfa443b75, 0x04862238, 0x5e6c7035]"
    by (simp add: rotr_def Let_def)
  have n14: "sha256_next
      [0x00000000, 0x00000140, 0x40000001, 0x80880000, 0x00108800, 0x00207255, 0x55000428,
      0x37602808, 0x02846161, 0xf35d057f, 0x47a4515b, 0x733d7885, 0x22b79487, 0x684edccf,
      0x703c00f0, 0xb868abfa] =
      0xf4273ec2"
    by (simp add: rotr_def Let_def sha256_next_def)
  have r15: "sha256_round [0x9b8f74e9, 0xc7a786f0, 0x75d6f59c, 0xc5a8d8c6, 0xa816f685, 0xfa443b75, 0x04862238, 0x5e6c7035]
      0xc19bf174 0x00000140 =
      [0x6dff4d1d, 0x9b8f74e9, 0xc7a786f0, 0x75d6f59c, 0x5fa389bc, 0xa816f685, 0xfa443b75, 0x04862238]"
    by (simp add: rotr_def Let_def)
  have n15: "sha256_next
      [0x00000140, 0x40000001, 0x80880000, 0x00108800, 0x00207255, 0x55000428, 0x37602808,
      0x02846161, 0xf35d057f, 0x47a4515b, 0x733d7885, 0x22b79487, 0x684edccf, 0x703c00f0,
      0xb868abfa, 0xf4273ec2] =
      0x92d0b3ae"
    by (simp add: rotr_def Let_def sha256_next_def)
  have r16: "sha256_round [0x6dff4d1d, 0x9b8f74e9, 0xc7a786f0, 0x75d6f59c, 0x5fa389bc, 0xa816f685, 0xfa443b75, 0x04862238]
      0xe49b69c1 0x40000001 =
      [0x86e9f13a, 0x6dff4d1d, 0x9b8f74e9, 0xc7a786f0, 0x5e70d8d3, 0x5fa389bc, 0xa816f685, 0xfa443b75]"
    by (simp add: rotr_def Let_def)
  have n16: "sha256_next
      [0x40000001, 0x80880000, 0x00108800, 0x00207255, 0x55000428, 0x37602808, 0x02846161,
      0xf35d057f, 0x47a4515b, 0x733d7885, 0x22b79487, 0x684edccf, 0x703c00f0, 0xb868abfa,
      0xf4273ec2, 0x92d0b3ae] =
      0x3cd1d600"
    by (simp add: rotr_def Let_def sha256_next_def)
  have r17: "sha256_round [0x86e9f13a, 0x6dff4d1d, 0x9b8f74e9, 0xc7a786f0, 0x5e70d8d3, 0x5fa389bc, 0xa816f685, 0xfa443b75]
      0xefbe4786 0x80880000 =
      [0xf7c9acb9, 0x86e9f13a, 0x6dff4d1d, 0x9b8f74e9, 0x9fd71d56, 0x5e70d8d3, 0x5fa389bc, 0xa816f685]"
    by (simp add: rotr_def Let_def)
  have n17: "sha256_next
      [0x80880000, 0x00108800, 0x00207255, 0x55000428, 0x37602808, 0x02846161, 0xf35d057f,
      0x47a4515b, 0x733d7885, 0x22b79487, 0x684edccf, 0x703c00f0, 0xb868abfa, 0xf4273ec2,
      0x92d0b3ae, 0x3cd1d600] =
      0x14c7f3b9"
    by (simp add: rotr_def Let_def sha256_next_def)
  have r18: "sha256_round [0xf7c9acb9, 0x86e9f13a, 0x6dff4d1d, 0x9b8f74e9, 0x9fd71d56, 0x5e70d8d3, 0x5fa389bc, 0xa816f685]
      0x0fc19dc6 0x00108800 =
      [0x57f4e313, 0xf7c9acb9, 0x86e9f13a, 0x6dff4d1d, 0xcd0b3807, 0x9fd71d56, 0x5e70d8d3, 0x5fa389bc]"
    by (simp add: rotr_def Let_def)
  have n18: "sha256_next
      [0x00108800, 0x00207255, 0x55000428, 0x37602808, 0x02846161, 0xf35d057f, 0x47a4515b,
      0x733d7885, 0x22b79487, 0x684edccf, 0x703c00f0, 0xb868abfa, 0xf4273ec2, 0x92d0b3ae,
      0x3cd1d600, 0x14c7f3b9] =
      0xf0bfa0fc"
    by (simp add: rotr_def Let_def sha256_next_def)
  have r19: "sha256_round [0x57f4e313, 0xf7c9acb9, 0x86e9f13a, 0x6dff4d1d, 0xcd0b3807, 0x9fd71d56, 0x5e70d8d3, 0x5fa389bc]
      0x240ca1cc 0x00207255 =
      [0xb46bb08b, 0x57f4e313, 0xf7c9acb9, 0x86e9f13a, 0x2b955231, 0xcd0b3807, 0x9fd71d56, 0x5e70d8d3]"
    by (simp add: rotr_def Let_def)
  have n19: "sha256_next
      [0x00207255, 0x55000428, 0x37602808, 0x02846161, 0xf35d057f, 0x47a4515b, 0x733d7885,
      0x22b79487, 0x684edccf, 0x703c00f0, 0xb868abfa, 0xf4273ec2, 0x92d0b3ae, 0x3cd1d600,
      0x14c7f3b9, 0xf0bfa0fc] =
      0xd30b2219"
    by (simp add: rotr_def Let_def sha256_next_def)
  have r20: "sha256_round [0xb46bb08b, 0x57f4e313, 0xf7c9acb9, 0x86e9f13a, 0x2b955231, 0xcd0b3807, 0x9fd71d56, 0x5e70d8d3]
      0x2de92c6f 0x55000428 =
      [0x862e6871, 0xb46bb08b, 0x57f4e313, 0xf7c9acb9, 0x4da95762, 0x2b955231, 0xcd0b3807, 0x9fd71d56]"
    by (simp add: rotr_def Let_def)
  have n20: "sha256_next
      [0x55000428, 0x37602808, 0x02846161, 0xf35d057f, 0x47a4515b, 0x733d7885, 0x22b79487,
      0x684edccf, 0x703c00f0, 0xb868abfa, 0xf4273ec2, 0x92d0b3ae, 0x3cd1d600, 0x14c7f3b9,
      0xf0bfa0fc, 0xd30b2219] =
      0x4e47424b"
    by (simp add: rotr_def Let_def sha256_next_def)
  have r21: "sha256_round [0x862e6871, 0xb46bb08b, 0x57f4e313, 0xf7c9acb9, 0x4da95762, 0x2b955231, 0xcd0b3807, 0x9fd71d56]
      0x4a7484aa 0x37602808 =
      [0x8f193308, 0x862e6871, 0xb46bb08b, 0x57f4e313, 0x54cd9237, 0x4da95762, 0x2b955231, 0xcd0b3807]"
    by (simp add: rotr_def Let_def)
  have n21: "sha256_next
      [0x37602808, 0x02846161, 0xf35d057f, 0x47a4515b, 0x733d7885, 0x22b79487, 0x684edccf,
      0x703c00f0, 0xb868abfa, 0xf4273ec2, 0x92d0b3ae, 0x3cd1d600, 0x14c7f3b9, 0xf0bfa0fc,
      0xd30b2219, 0x4e47424b] =
      0xfb103c45"
    by (simp add: rotr_def Let_def sha256_next_def)
  have r22: "sha256_round [0x8f193308, 0x862e6871, 0xb46bb08b, 0x57f4e313, 0x54cd9237, 0x4da95762, 0x2b955231, 0xcd0b3807]
      0x5cb0a9dc 0x02846161 =
      [0xfec38ff6, 0x8f193308, 0x862e6871, 0xb46bb08b, 0xf13f2cc9, 0x54cd9237, 0x4da95762, 0x2b955231]"
    by (simp add: rotr_def Let_def)
  have n22: "sha256_next
      [0x02846161, 0xf35d057f, 0x47a4515b, 0x733d7885, 0x22b79487, 0x684edccf, 0x703c00f0,
      0xb868abfa, 0xf4273ec2, 0x92d0b3ae, 0x3cd1d600, 0x14c7f3b9, 0xf0bfa0fc, 0xd30b2219,
      0x4e47424b, 0xfb103c45] =
      0x7fa75abc"
    by (simp add: rotr_def Let_def sha256_next_def)
  have r23: "sha256_round [0xfec38ff6, 0x8f193308, 0x862e6871, 0xb46bb08b, 0xf13f2cc9, 0x54cd9237, 0x4da95762, 0x2b955231]
      0x76f988da 0xf35d057f =
      [0x7029ece5, 0xfec38ff6, 0x8f193308, 0x862e6871, 0xc851a3e6, 0xf13f2cc9, 0x54cd9237, 0x4da95762]"
    by (simp add: rotr_def Let_def)
  have n23: "sha256_next
      [0xf35d057f, 0x47a4515b, 0x733d7885, 0x22b79487, 0x684edccf, 0x703c00f0, 0xb868abfa,
      0xf4273ec2, 0x92d0b3ae, 0x3cd1d600, 0x14c7f3b9, 0xf0bfa0fc, 0xd30b2219, 0x4e47424b,
      0xfb103c45, 0x7fa75abc] =
      0xf3f075c4"
    by (simp add: rotr_def Let_def sha256_next_def)
  have r24: "sha256_round [0x7029ece5, 0xfec38ff6, 0x8f193308, 0x862e6871, 0xc851a3e6, 0xf13f2cc9, 0x54cd9237, 0x4da95762]
      0x983e5152 0x47a4515b =
      [0x6bef0a59, 0x7029ece5, 0xfec38ff6, 0x8f193308, 0x57815330, 0xc851a3e6, 0xf13f2cc9, 0x54cd9237]"
    by (simp add: rotr_def Let_def)
  have n24: "sha256_next
      [0x47a4515b, 0x733d7885, 0x22b79487, 0x684edccf, 0x703c00f0, 0xb868abfa, 0xf4273ec2,
      0x92d0b3ae, 0x3cd1d600, 0x14c7f3b9, 0xf0bfa0fc, 0xd30b2219, 0x4e47424b, 0xfb103c45,
      0x7fa75abc, 0xf3f075c4] =
      0xfd232833"
    by (simp add: rotr_def Let_def sha256_next_def)
  have r25: "sha256_round [0x6bef0a59, 0x7029ece5, 0xfec38ff6, 0x8f193308, 0x57815330, 0xc851a3e6, 0xf13f2cc9, 0x54cd9237]
      0xa831c66d 0x733d7885 =
      [0xe77ef595, 0x6bef0a59, 0x7029ece5, 0xfec38ff6, 0x4792a167, 0x57815330, 0xc851a3e6, 0xf13f2cc9]"
    by (simp add: rotr_def Let_def)
  have n25: "sha256_next
      [0x733d7885, 0x22b79487, 0x684edccf, 0x703c00f0, 0xb868abfa, 0xf4273ec2, 0x92d0b3ae,
      0x3cd1d600, 0x14c7f3b9, 0xf0bfa0fc, 0xd30b2219, 0x4e47424b, 0xfb103c45, 0x7fa75abc,
      0xf3f075c4, 0xfd232833] =
      0x87958a30"
    by (simp add: rotr_def Let_def sha256_next_def)
  have r26: "sha256_round [0xe77ef595, 0x6bef0a59, 0x7029ece5, 0xfec38ff6, 0x4792a167, 0x57815330, 0xc851a3e6, 0xf13f2cc9]
      0xb00327c8 0x22b79487 =
      [0x9e77b60e, 0xe77ef595, 0x6bef0a59, 0x7029ece5, 0x0b248820, 0x4792a167, 0x57815330, 0xc851a3e6]"
    by (simp add: rotr_def Let_def)
  have n26: "sha256_next
      [0x22b79487, 0x684edccf, 0x703c00f0, 0xb868abfa, 0xf4273ec2, 0x92d0b3ae, 0x3cd1d600,
      0x14c7f3b9, 0xf0bfa0fc, 0xd30b2219, 0x4e47424b, 0xfb103c45, 0x7fa75abc, 0xf3f075c4,
      0xfd232833, 0x87958a30] =
      0x0bce1cd2"
    by (simp add: rotr_def Let_def sha256_next_def)
  have r27: "sha256_round [0x9e77b60e, 0xe77ef595, 0x6bef0a59, 0x7029ece5, 0x0b248820, 0x4792a167, 0x57815330, 0xc851a3e6]
      0xbf597fc7 0x684edccf =
      [0x169694c4, 0x9e77b60e, 0xe77ef595, 0x6bef0a59, 0xce0fa745, 0x0b248820, 0x4792a167, 0x57815330]"
    by (simp add: rotr_def Let_def)
  have n27: "sha256_next
      [0x684edccf, 0x703c00f0, 0xb868abfa, 0xf4273ec2, 0x92d0b3ae, 0x3cd1d600, 0x14c7f3b9,
      0xf0bfa0fc, 0xd30b2219, 0x4e47424b, 0xfb103c45, 0x7fa75abc, 0xf3f075c4, 0xfd232833,
      0x87958a30, 0x0bce1cd2] =
      0x19f1b984"
    by (simp add: rotr_def Let_def sha256_next_def)
  have r28: "sha256_round [0x169694c4, 0x9e77b60e, 0xe77ef595, 0x6bef0a59, 0xce0fa745, 0x0b248820, 0x4792a167, 0x57815330]
      0xc6e00bf3 0x703c00f0 =
      [0x22d0f426, 0x169694c4, 0x9e77b60e, 0xe77ef595, 0xfe73481c, 0xce0fa745, 0x0b248820, 0x4792a167]"
    by (simp add: rotr_def Let_def)
  have n28: "sha256_next
      [0x703c00f0, 0xb868abfa, 0xf4273ec2, 0x92d0b3ae, 0x3cd1d600, 0x14c7f3b9, 0xf0bfa0fc,
      0xd30b2219, 0x4e47424b, 0xfb103c45, 0x7fa75abc, 0xf3f075c4, 0xfd232833, 0x87958a30,
      0x0bce1cd2, 0x19f1b984] =
      0x01c15e80"
    by (simp add: rotr_def Let_def sha256_next_def)
  have r29: "sha256_round [0x22d0f426, 0x169694c4, 0x9e77b60e, 0xe77ef595, 0xfe73481c, 0xce0fa745, 0x0b248820, 0x4792a167]
      0xd5a79147 0xb868abfa =
      [0x6f98d30d, 0x22d0f426, 0x169694c4, 0x9e77b60e, 0xd5eb6197, 0xfe73481c, 0xce0fa745, 0x0b248820]"
    by (simp add: rotr_def Let_def)
  have n29: "sha256_next
      [0xb868abfa, 0xf4273ec2, 0x92d0b3ae, 0x3cd1d600, 0x14c7f3b9, 0xf0bfa0fc, 0xd30b2219,
      0x4e47424b, 0xfb103c45, 0x7fa75abc, 0xf3f075c4, 0xfd232833, 0x87958a30, 0x0bce1cd2,
      0x19f1b984, 0x01c15e80] =
      0x78e10f0a"
    by (simp add: rotr_def Let_def sha256_next_def)
  have r30: "sha256_round [0x6f98d30d, 0x22d0f426, 0x169694c4, 0x9e77b60e, 0xd5eb6197, 0xfe73481c, 0xce0fa745, 0x0b248820]
      0x06ca6351 0xf4273ec2 =
      [0x43ee1d46, 0x6f98d30d, 0x22d0f426, 0x169694c4, 0x1b138195, 0xd5eb6197, 0xfe73481c, 0xce0fa745]"
    by (simp add: rotr_def Let_def)
  have n30: "sha256_next
      [0xf4273ec2, 0x92d0b3ae, 0x3cd1d600, 0x14c7f3b9, 0xf0bfa0fc, 0xd30b2219, 0x4e47424b,
      0xfb103c45, 0x7fa75abc, 0xf3f075c4, 0xfd232833, 0x87958a30, 0x0bce1cd2, 0x19f1b984,
      0x01c15e80, 0x78e10f0a] =
      0xd03c38bb"
    by (simp add: rotr_def Let_def sha256_next_def)
  have r31: "sha256_round [0x43ee1d46, 0x6f98d30d, 0x22d0f426, 0x169694c4, 0x1b138195, 0xd5eb6197, 0xfe73481c, 0xce0fa745]
      0x14292967 0x92d0b3ae =
      [0x80120b26, 0x43ee1d46, 0x6f98d30d, 0x22d0f426, 0x701349b6, 0x1b138195, 0xd5eb6197, 0xfe73481c]"
    by (simp add: rotr_def Let_def)
  have n31: "sha256_next
      [0x92d0b3ae, 0x3cd1d600, 0x14c7f3b9, 0xf0bfa0fc, 0xd30b2219, 0x4e47424b, 0xfb103c45,
      0x7fa75abc, 0xf3f075c4, 0xfd232833, 0x87958a30, 0x0bce1cd2, 0x19f1b984, 0x01c15e80,
      0x78e10f0a, 0xd03c38bb] =
      0xa8d1bd68"
    by (simp add: rotr_def Let_def sha256_next_def)
  have r32: "sha256_round [0x80120b26, 0x43ee1d46, 0x6f98d30d, 0x22d0f426, 0x701349b6, 0x1b138195, 0xd5eb6197, 0xfe73481c]
      0x27b70a85 0x3cd1d600 =
      [0xd458120c, 0x80120b26, 0x43ee1d46, 0x6f98d30d, 0x0272d2d3, 0x701349b6, 0x1b138195, 0xd5eb6197]"
    by (simp add: rotr_def Let_def)
  have n32: "sha256_next
      [0x3cd1d600, 0x14c7f3b9, 0xf0bfa0fc, 0xd30b2219, 0x4e47424b, 0xfb103c45, 0x7fa75abc,
      0xf3f075c4, 0xfd232833, 0x87958a30, 0x0bce1cd2, 0x19f1b984, 0x01c15e80, 0x78e10f0a,
      0xd03c38bb, 0xa8d1bd68] =
      0xec4531e8"
    by (simp add: rotr_def Let_def sha256_next_def)
  have r33: "sha256_round [0xd458120c, 0x80120b26, 0x43ee1d46, 0x6f98d30d, 0x0272d2d3, 0x701349b6, 0x1b138195, 0xd5eb6197]
      0x2e1b2138 0x14c7f3b9 =
      [0xe67554c6, 0xd458120c, 0x80120b26, 0x43ee1d46, 0xd07b77bb, 0x0272d2d3, 0x701349b6, 0x1b138195]"
    by (simp add: rotr_def Let_def)
  have n33: "sha256_next
      [0x14c7f3b9, 0xf0bfa0fc, 0xd30b2219, 0x4e47424b, 0xfb103c45, 0x7fa75abc, 0xf3f075c4,
      0xfd232833, 0x87958a30, 0x0bce1cd2, 0x19f1b984, 0x01c15e80, 0x78e10f0a, 0xd03c38bb,
      0xa8d1bd68, 0xec4531e8] =
      0x19933d19"
    by (simp add: rotr_def Let_def sha256_next_def)
  have r34: "sha256_round [0xe67554c6, 0xd458120c, 0x80120b26, 0x43ee1d46, 0xd07b77bb, 0x0272d2d3, 0x701349b6, 0x1b138195]
      0x4d2c6dfc 0xf0bfa0fc =
      [0x2e3bb984, 0xe67554c6, 0xd458120c, 0x80120b26, 0xe2e047c2, 0xd07b77bb, 0x0272d2d3, 0x701349b6]"
    by (simp add: rotr_def Let_def)
  have n34: "sha256_next
      [0xf0bfa0fc, 0xd30b2219, 0x4e47424b, 0xfb103c45, 0x7fa75abc, 0xf3f075c4, 0xfd232833,
      0x87958a30, 0x0bce1cd2, 0x19f1b984, 0x01c15e80, 0x78e10f0a, 0xd03c38bb, 0xa8d1bd68,
      0xec4531e8, 0x19933d19] =
      0x2ae4dc2b"
    by (simp add: rotr_def Let_def sha256_next_def)
  have r35: "sha256_round [0x2e3bb984, 0xe67554c6, 0xd458120c, 0x80120b26, 0xe2e047c2, 0xd07b77bb, 0x0272d2d3, 0x701349b6]
      0x53380d13 0xd30b2219 =
      [0xea802c63, 0x2e3bb984, 0xe67554c6, 0xd458120c, 0x5acf9801, 0xe2e047c2, 0xd07b77bb, 0x0272d2d3]"
    by (simp add: rotr_def Let_def)
  have n35: "sha256_next
      [0xd30b2219, 0x4e47424b, 0xfb103c45, 0x7fa75abc, 0xf3f075c4, 0xfd232833, 0x87958a30,
      0x0bce1cd2, 0x19f1b984, 0x01c15e80, 0x78e10f0a, 0xd03c38bb, 0xa8d1bd68, 0xec4531e8,
      0x19933d19, 0x2ae4dc2b] =
      0x1dbd0129"
    by (simp add: rotr_def Let_def sha256_next_def)
  have r36: "sha256_round [0xea802c63, 0x2e3bb984, 0xe67554c6, 0xd458120c, 0x5acf9801, 0xe2e047c2, 0xd07b77bb, 0x0272d2d3]
      0x650a7354 0x4e47424b =
      [0x628164e3, 0xea802c63, 0x2e3bb984, 0xe67554c6, 0xaf996976, 0x5acf9801, 0xe2e047c2, 0xd07b77bb]"
    by (simp add: rotr_def Let_def)
  have n36: "sha256_next
      [0x4e47424b, 0xfb103c45, 0x7fa75abc, 0xf3f075c4, 0xfd232833, 0x87958a30, 0x0bce1cd2,
      0x19f1b984, 0x01c15e80, 0x78e10f0a, 0xd03c38bb, 0xa8d1bd68, 0xec4531e8, 0x19933d19,
      0x2ae4dc2b, 0x1dbd0129] =
      0x5847f3a2"
    by (simp add: rotr_def Let_def sha256_next_def)
  have r37: "sha256_round [0x628164e3, 0xea802c63, 0x2e3bb984, 0xe67554c6, 0xaf996976, 0x5acf9801, 0xe2e047c2, 0xd07b77bb]
      0x766a0abb 0xfb103c45 =
      [0x2a67e8b6, 0x628164e3, 0xea802c63, 0x2e3bb984, 0xac334fe0, 0xaf996976, 0x5acf9801, 0xe2e047c2]"
    by (simp add: rotr_def Let_def)
  have n37: "sha256_next
      [0xfb103c45, 0x7fa75abc, 0xf3f075c4, 0xfd232833, 0x87958a30, 0x0bce1cd2, 0x19f1b984,
      0x01c15e80, 0x78e10f0a, 0xd03c38bb, 0xa8d1bd68, 0xec4531e8, 0x19933d19, 0x2ae4dc2b,
      0x1dbd0129, 0x5847f3a2] =
      0x8da7f134"
    by (simp add: rotr_def Let_def sha256_next_def)
  have r38: "sha256_round [0x2a67e8b6, 0x628164e3, 0xea802c63, 0x2e3bb984, 0xac334fe0, 0xaf996976, 0x5acf9801, 0xe2e047c2]
      0x81c2c92e 0x7fa75abc =
      [0x0536deab, 0x2a67e8b6, 0x628164e3, 0xea802c63, 0x7866b991, 0xac334fe0, 0xaf996976, 0x5acf9801]"
    by (simp add: rotr_def Let_def)
  have n38: "sha256_next
      [0x7fa75abc, 0xf3f075c4, 0xfd232833, 0x87958a30, 0x0bce1cd2, 0x19f1b984, 0x01c15e80,
      0x78e10f0a, 0xd03c38bb, 0xa8d1bd68, 0xec4531e8, 0x19933d19, 0x2ae4dc2b, 0x1dbd0129,
      0x5847f3a2, 0x8da7f134] =
      0xbb1561aa"
    by (simp add: rotr_def Let_def sha256_next_def)
  have r39: "sha256_round [0x0536deab, 0x2a67e8b6, 0x628164e3, 0xea802c63, 0x7866b991, 0xac334fe0, 0xaf996976, 0x5acf9801]
      0x92722c85 0xf3f075c4 =
      [0xe7170168, 0x0536deab, 0x2a67e8b6, 0x628164e3, 0xc0000f20, 0x7866b991, 0xac334fe0, 0xaf996976]"
    by (simp add: rotr_def Let_def)
  have n39: "sha256_next
      [0xf3f075c4, 0xfd232833, 0x87958a30, 0x0bce1cd2, 0x19f1b984, 0x01c15e80, 0x78e10f0a,
      0xd03c38bb, 0xa8d1bd68, 0xec4531e8, 0x19933d19, 0x2ae4dc2b, 0x1dbd0129, 0x5847f3a2,
      0x8da7f134, 0xbb1561aa] =
      0x99284265"
    by (simp add: rotr_def Let_def sha256_next_def)
  have r40: "sha256_round [0xe7170168, 0x0536deab, 0x2a67e8b6, 0x628164e3, 0xc0000f20, 0x7866b991, 0xac334fe0, 0xaf996976]
      0xa2bfe8a1 0xfd232833 =
      [0xb88e788f, 0xe7170168, 0x0536deab, 0x2a67e8b6, 0x8550b94a, 0xc0000f20, 0x7866b991, 0xac334fe0]"
    by (simp add: rotr_def Let_def)
  have n40: "sha256_next
      [0xfd232833, 0x87958a30, 0x0bce1cd2, 0x19f1b984, 0x01c15e80, 0x78e10f0a, 0xd03c38bb,
      0xa8d1bd68, 0xec4531e8, 0x19933d19, 0x2ae4dc2b, 0x1dbd0129, 0x5847f3a2, 0x8da7f134,
      0xbb1561aa, 0x99284265] =
      0x46f6f0b3"
    by (simp add: rotr_def Let_def sha256_next_def)
  have r41: "sha256_round [0xb88e788f, 0xe7170168, 0x0536deab, 0x2a67e8b6, 0x8550b94a, 0xc0000f20, 0x7866b991, 0xac334fe0]
      0xa81a664b 0x87958a30 =
      [0x37f554f9, 0xb88e788f, 0xe7170168, 0x0536deab, 0xa98a8052, 0x8550b94a, 0xc0000f20, 0x7866b991]"
    by (simp add: rotr_def Let_def)
  have n41: "sha256_next
      [0x87958a30, 0x0bce1cd2, 0x19f1b984, 0x01c15e80, 0x78e10f0a, 0xd03c38bb, 0xa8d1bd68,
      0xec4531e8, 0x19933d19, 0x2ae4dc2b, 0x1dbd0129, 0x5847f3a2, 0x8da7f134, 0xbb1561aa,
      0x99284265, 0x46f6f0b3] =
      0xfe2d794c"
    by (simp add: rotr_def Let_def sha256_next_def)
  have r42: "sha256_round [0x37f554f9, 0xb88e788f, 0xe7170168, 0x0536deab, 0xa98a8052, 0x8550b94a, 0xc0000f20, 0x7866b991]
      0xc24b8b70 0x0bce1cd2 =
      [0x8432826e, 0x37f554f9, 0xb88e788f, 0xe7170168, 0x926b01e5, 0xa98a8052, 0x8550b94a, 0xc0000f20]"
    by (simp add: rotr_def Let_def)
  have n42: "sha256_next
      [0x0bce1cd2, 0x19f1b984, 0x01c15e80, 0x78e10f0a, 0xd03c38bb, 0xa8d1bd68, 0xec4531e8,
      0x19933d19, 0x2ae4dc2b, 0x1dbd0129, 0x5847f3a2, 0x8da7f134, 0xbb1561aa, 0x99284265,
      0x46f6f0b3, 0xfe2d794c] =
      0x35566653"
    by (simp add: rotr_def Let_def sha256_next_def)
  have r43: "sha256_round [0x8432826e, 0x37f554f9, 0xb88e788f, 0xe7170168, 0x926b01e5, 0xa98a8052, 0x8550b94a, 0xc0000f20]
      0xc76c51a3 0x19f1b984 =
      [0xf31b724d, 0x8432826e, 0x37f554f9, 0xb88e788f, 0xad0ae7a7, 0x926b01e5, 0xa98a8052, 0x8550b94a]"
    by (simp add: rotr_def Let_def)
  have n43: "sha256_next
      [0x19f1b984, 0x01c15e80, 0x78e10f0a, 0xd03c38bb, 0xa8d1bd68, 0xec4531e8, 0x19933d19,
      0x2ae4dc2b, 0x1dbd0129, 0x5847f3a2, 0x8da7f134, 0xbb1561aa, 0x99284265, 0x46f6f0b3,
      0xfe2d794c, 0x35566653] =
      0xdd85c1d0"
    by (simp add: rotr_def Let_def sha256_next_def)
  have r44: "sha256_round [0xf31b724d, 0x8432826e, 0x37f554f9, 0xb88e788f, 0xad0ae7a7, 0x926b01e5, 0xa98a8052, 0x8550b94a]
      0xd192e819 0x01c15e80 =
      [0x02f520dd, 0xf31b724d, 0x8432826e, 0x37f554f9, 0x80efd37b, 0xad0ae7a7, 0x926b01e5, 0xa98a8052]"
    by (simp add: rotr_def Let_def)
  have n44: "sha256_next
      [0x01c15e80, 0x78e10f0a, 0xd03c38bb, 0xa8d1bd68, 0xec4531e8, 0x19933d19, 0x2ae4dc2b,
      0x1dbd0129, 0x5847f3a2, 0x8da7f134, 0xbb1561aa, 0x99284265, 0x46f6f0b3, 0xfe2d794c,
      0x35566653, 0xdd85c1d0] =
      0xe7877713"
    by (simp add: rotr_def Let_def sha256_next_def)
  have r45: "sha256_round [0x02f520dd, 0xf31b724d, 0x8432826e, 0x37f554f9, 0x80efd37b, 0xad0ae7a7, 0x926b01e5, 0xa98a8052]
      0xd6990624 0x78e10f0a =
      [0x96b2c680, 0x02f520dd, 0xf31b724d, 0x8432826e, 0xb99ecd97, 0x80efd37b, 0xad0ae7a7, 0x926b01e5]"
    by (simp add: rotr_def Let_def)
  have n45: "sha256_next
      [0x78e10f0a, 0xd03c38bb, 0xa8d1bd68, 0xec4531e8, 0x19933d19, 0x2ae4dc2b, 0x1dbd0129,
      0x5847f3a2, 0x8da7f134, 0xbb1561aa, 0x99284265, 0x46f6f0b3, 0xfe2d794c, 0x35566653,
      0xdd85c1d0, 0xe7877713] =
      0xf064901f"
    by (simp add: rotr_def Let_def sha256_next_def)
  have r46: "sha256_round [0x96b2c680, 0x02f520dd, 0xf31b724d, 0x8432826e, 0xb99ecd97, 0x80efd37b, 0xad0ae7a7, 0x926b01e5]
      0xf40e3585 0xd03c38bb =
      [0x6c213fc4, 0x96b2c680, 0x02f520dd, 0xf31b724d, 0x82ee58f9, 0xb99ecd97, 0x80efd37b, 0xad0ae7a7]"
    by (simp add: rotr_def Let_def)
  have n46: "sha256_next
      [0xd03c38bb, 0xa8d1bd68, 0xec4531e8, 0x19933d19, 0x2ae4dc2b, 0x1dbd0129, 0x5847f3a2,
      0x8da7f134, 0xbb1561aa, 0x99284265, 0x46f6f0b3, 0xfe2d794c, 0x35566653, 0xdd85c1d0,
      0xe7877713, 0xf064901f] =
      0x69c8a8f1"
    by (simp add: rotr_def Let_def sha256_next_def)
  have r47: "sha256_round [0x6c213fc4, 0x96b2c680, 0x02f520dd, 0xf31b724d, 0x82ee58f9, 0xb99ecd97, 0x80efd37b, 0xad0ae7a7]
      0x106aa070 0xa8d1bd68 =
      [0xdd740f87, 0x6c213fc4, 0x96b2c680, 0x02f520dd, 0x680a1bc8, 0x82ee58f9, 0xb99ecd97, 0x80efd37b]"
    by (simp add: rotr_def Let_def)
  have n47: "sha256_next
      [0xa8d1bd68, 0xec4531e8, 0x19933d19, 0x2ae4dc2b, 0x1dbd0129, 0x5847f3a2, 0x8da7f134,
      0xbb1561aa, 0x99284265, 0x46f6f0b3, 0xfe2d794c, 0x35566653, 0xdd85c1d0, 0xe7877713,
      0xf064901f, 0x69c8a8f1] =
      0x4a22e484"
    by (simp add: rotr_def Let_def sha256_next_def)
  have r48: "sha256_round [0xdd740f87, 0x6c213fc4, 0x96b2c680, 0x02f520dd, 0x680a1bc8, 0x82ee58f9, 0xb99ecd97, 0x80efd37b]
      0x19a4c116 0xec4531e8 =
      [0xada77728, 0xdd740f87, 0x6c213fc4, 0x96b2c680, 0x790e914d, 0x680a1bc8, 0x82ee58f9, 0xb99ecd97]"
    by (simp add: rotr_def Let_def)
  have n48: "sha256_next
      [0xec4531e8, 0x19933d19, 0x2ae4dc2b, 0x1dbd0129, 0x5847f3a2, 0x8da7f134, 0xbb1561aa,
      0x99284265, 0x46f6f0b3, 0xfe2d794c, 0x35566653, 0xdd85c1d0, 0xe7877713, 0xf064901f,
      0x69c8a8f1, 0x4a22e484] =
      0x2a369ee8"
    by (simp add: rotr_def Let_def sha256_next_def)
  have r49: "sha256_round [0xada77728, 0xdd740f87, 0x6c213fc4, 0x96b2c680, 0x790e914d, 0x680a1bc8, 0x82ee58f9, 0xb99ecd97]
      0x1e376c08 0x19933d19 =
      [0x746cdfa6, 0xada77728, 0xdd740f87, 0x6c213fc4, 0x0e0a545b, 0x790e914d, 0x680a1bc8, 0x82ee58f9]"
    by (simp add: rotr_def Let_def)
  have n49: "sha256_next
      [0x19933d19, 0x2ae4dc2b, 0x1dbd0129, 0x5847f3a2, 0x8da7f134, 0xbb1561aa, 0x99284265,
      0x46f6f0b3, 0xfe2d794c, 0x35566653, 0xdd85c1d0, 0xe7877713, 0xf064901f, 0x69c8a8f1,
      0x4a22e484, 0x2a369ee8] =
      0xe1ad60dc"
    by (simp add: rotr_def Let_def sha256_next_def)
  have r50: "sha256_round [0x746cdfa6, 0xada77728, 0xdd740f87, 0x6c213fc4, 0x0e0a545b, 0x790e914d, 0x680a1bc8, 0x82ee58f9]
      0x2748774c 0x2ae4dc2b =
      [0xf053fad9, 0x746cdfa6, 0xada77728, 0xdd740f87, 0x8bbacd99, 0x0e0a545b, 0x790e914d, 0x680a1bc8]"
    by (simp add: rotr_def Let_def)
  have n50: "sha256_next
      [0x2ae4dc2b, 0x1dbd0129, 0x5847f3a2, 0x8da7f134, 0xbb1561aa, 0x99284265, 0x46f6f0b3,
      0xfe2d794c, 0x35566653, 0xdd85c1d0, 0xe7877713, 0xf064901f, 0x69c8a8f1, 0x4a22e484,
      0x2a369ee8, 0xe1ad60dc] =
      0xb6d4d93d"
    by (simp add: rotr_def Let_def sha256_next_def)
  have r51: "sha256_round [0xf053fad9, 0x746cdfa6, 0xada77728, 0xdd740f87, 0x8bbacd99, 0x0e0a545b, 0x790e914d, 0x680a1bc8]
      0x34b0bcb5 0x1dbd0129 =
      [0x16979a3d, 0xf053fad9, 0x746cdfa6, 0xada77728, 0x1a738e34, 0x8bbacd99, 0x0e0a545b, 0x790e914d]"
    by (simp add: rotr_def Let_def)
  have n51: "sha256_next
      [0x1dbd0129, 0x5847f3a2, 0x8da7f134, 0xbb1561aa, 0x99284265, 0x46f6f0b3, 0xfe2d794c,
      0x35566653, 0xdd85c1d0, 0xe7877713, 0xf064901f, 0x69c8a8f1, 0x4a22e484, 0x2a369ee8,
      0xe1ad60dc, 0xb6d4d93d] =
      0xd4e2e779"
    by (simp add: rotr_def Let_def sha256_next_def)
  have r52: "sha256_round [0x16979a3d, 0xf053fad9, 0x746cdfa6, 0xada77728, 0x1a738e34, 0x8bbacd99, 0x0e0a545b, 0x790e914d]
      0x391c0cb3 0x5847f3a2 =
      [0x86588967, 0x16979a3d, 0xf053fad9, 0x746cdfa6, 0xf5827f69, 0x1a738e34, 0x8bbacd99, 0x0e0a545b]"
    by (simp add: rotr_def Let_def)
  have n52: "sha256_next
      [0x5847f3a2, 0x8da7f134, 0xbb1561aa, 0x99284265, 0x46f6f0b3, 0xfe2d794c, 0x35566653,
      0xdd85c1d0, 0xe7877713, 0xf064901f, 0x69c8a8f1, 0x4a22e484, 0x2a369ee8, 0xe1ad60dc,
      0xb6d4d93d, 0xd4e2e779] =
      0xc523eef4"
    by (simp add: rotr_def Let_def sha256_next_def)
  have r53: "sha256_round [0x86588967, 0x16979a3d, 0xf053fad9, 0x746cdfa6, 0xf5827f69, 0x1a738e34, 0x8bbacd99, 0x0e0a545b]
      0x4ed8aa4a 0x8da7f134 =
      [0xef7fb4d2, 0x86588967, 0x16979a3d, 0xf053fad9, 0x05096b77, 0xf5827f69, 0x1a738e34, 0x8bbacd99]"
    by (simp add: rotr_def Let_def)
  have n53: "sha256_next
      [0x8da7f134, 0xbb1561aa, 0x99284265, 0x46f6f0b3, 0xfe2d794c, 0x35566653, 0xdd85c1d0,
      0xe7877713, 0xf064901f, 0x69c8a8f1, 0x4a22e484, 0x2a369ee8, 0xe1ad60dc, 0xb6d4d93d,
      0xd4e2e779, 0xc523eef4] =
      0x4155aaac"
    by (simp add: rotr_def Let_def sha256_next_def)
  have r54: "sha256_round [0xef7fb4d2, 0x86588967, 0x16979a3d, 0xf053fad9, 0x05096b77, 0xf5827f69, 0x1a738e34, 0x8bbacd99]
      0x5b9cca4f 0xbb1561aa =
      [0x621c9de0, 0xef7fb4d2, 0x86588967, 0x16979a3d, 0xe87522ce, 0x05096b77, 0xf5827f69, 0x1a738e34]"
    by (simp add: rotr_def Let_def)
  have n54: "sha256_next
      [0xbb1561aa, 0x99284265, 0x46f6f0b3, 0xfe2d794c, 0x35566653, 0xdd85c1d0, 0xe7877713,
      0xf064901f, 0x69c8a8f1, 0x4a22e484, 0x2a369ee8, 0xe1ad60dc, 0xb6d4d93d, 0xd4e2e779,
      0xc523eef4, 0x4155aaac] =
      0x585c377e"
    by (simp add: rotr_def Let_def sha256_next_def)
  have r55: "sha256_round [0x621c9de0, 0xef7fb4d2, 0x86588967, 0x16979a3d, 0xe87522ce, 0x05096b77, 0xf5827f69, 0x1a738e34]
      0x682e6ff3 0x99284265 =
      [0xf68bd144, 0x621c9de0, 0xef7fb4d2, 0x86588967, 0xa0d3178b, 0xe87522ce, 0x05096b77, 0xf5827f69]"
    by (simp add: rotr_def Let_def)
  have n55: "sha256_next
      [0x99284265, 0x46f6f0b3, 0xfe2d794c, 0x35566653, 0xdd85c1d0, 0xe7877713, 0xf064901f,
      0x69c8a8f1, 0x4a22e484, 0x2a369ee8, 0xe1ad60dc, 0xb6d4d93d, 0xd4e2e779, 0xc523eef4,
      0x4155aaac, 0x585c377e] =
      0xf5f2c181"
    by (simp add: rotr_def Let_def sha256_next_def)
  have r56: "sha256_round [0xf68bd144, 0x621c9de0, 0xef7fb4d2, 0x86588967, 0xa0d3178b, 0xe87522ce, 0x05096b77, 0xf5827f69]
      0x748f82ee 0x46f6f0b3 =
      [0x8bbedb89, 0xf68bd144, 0x621c9de0, 0xef7fb4d2, 0x93377b5b, 0xa0d3178b, 0xe87522ce, 0x05096b77]"
    by (simp add: rotr_def Let_def)
  have n56: "sha256_next
      [0x46f6f0b3, 0xfe2d794c, 0x35566653, 0xdd85c1d0, 0xe7877713, 0xf064901f, 0x69c8a8f1,
      0x4a22e484, 0x2a369ee8, 0xe1ad60dc, 0xb6d4d93d, 0xd4e2e779, 0xc523eef4, 0x4155aaac,
      0x585c377e, 0xf5f2c181] =
      0x9e560c07"
    by (simp add: rotr_def Let_def sha256_next_def)
  have r57: "sha256_round [0x8bbedb89, 0xf68bd144, 0x621c9de0, 0xef7fb4d2, 0x93377b5b, 0xa0d3178b, 0xe87522ce, 0x05096b77]
      0x78a5636f 0xfe2d794c =
      [0x2b1f1986, 0x8bbedb89, 0xf68bd144, 0x621c9de0, 0xf232275e, 0x93377b5b, 0xa0d3178b, 0xe87522ce]"
    by (simp add: rotr_def Let_def)
  have n57: "sha256_next
      [0xfe2d794c, 0x35566653, 0xdd85c1d0, 0xe7877713, 0xf064901f, 0x69c8a8f1, 0x4a22e484,
      0x2a369ee8, 0xe1ad60dc, 0xb6d4d93d, 0xd4e2e779, 0xc523eef4, 0x4155aaac, 0x585c377e,
      0xf5f2c181, 0x9e560c07] =
      0x2724b8d3"
    by (simp add: rotr_def Let_def sha256_next_def)
  have r58: "sha256_round [0x2b1f1986, 0x8bbedb89, 0xf68bd144, 0x621c9de0, 0xf232275e, 0x93377b5b, 0xa0d3178b, 0xe87522ce]
      0x84c87814 0x35566653 =
      [0xa4bcb669, 0x2b1f1986, 0x8bbedb89, 0xf68bd144, 0x20a8f490, 0xf232275e, 0x93377b5b, 0xa0d3178b]"
    by (simp add: rotr_def Let_def)
  have n58: "sha256_next
      [0x35566653, 0xdd85c1d0, 0xe7877713, 0xf064901f, 0x69c8a8f1, 0x4a22e484, 0x2a369ee8,
      0xe1ad60dc, 0xb6d4d93d, 0xd4e2e779, 0xc523eef4, 0x4155aaac, 0x585c377e, 0xf5f2c181,
      0x9e560c07, 0x2724b8d3] =
      0x9c5d7c06"
    by (simp add: rotr_def Let_def sha256_next_def)
  have r59: "sha256_round [0xa4bcb669, 0x2b1f1986, 0x8bbedb89, 0xf68bd144, 0x20a8f490, 0xf232275e, 0x93377b5b, 0xa0d3178b]
      0x8cc70208 0xdd85c1d0 =
      [0x19ce5410, 0xa4bcb669, 0x2b1f1986, 0x8bbedb89, 0x3bdfdade, 0x20a8f490, 0xf232275e, 0x93377b5b]"
    by (simp add: rotr_def Let_def)
  have n59: "sha256_next
      [0xdd85c1d0, 0xe7877713, 0xf064901f, 0x69c8a8f1, 0x4a22e484, 0x2a369ee8, 0xe1ad60dc,
      0xb6d4d93d, 0xd4e2e779, 0xc523eef4, 0x4155aaac, 0x585c377e, 0xf5f2c181, 0x9e560c07,
      0x2724b8d3, 0x9c5d7c06] =
      0x551f0909"
    by (simp add: rotr_def Let_def sha256_next_def)
  have r60: "sha256_round [0x19ce5410, 0xa4bcb669, 0x2b1f1986, 0x8bbedb89, 0x3bdfdade, 0x20a8f490, 0xf232275e, 0x93377b5b]
      0x90befffa 0xe7877713 =
      [0x822d8296, 0x19ce5410, 0xa4bcb669, 0x2b1f1986, 0x44ab2f0e, 0x3bdfdade, 0x20a8f490, 0xf232275e]"
    by (simp add: rotr_def Let_def)
  have n60: "sha256_next
      [0xe7877713, 0xf064901f, 0x69c8a8f1, 0x4a22e484, 0x2a369ee8, 0xe1ad60dc, 0xb6d4d93d,
      0xd4e2e779, 0xc523eef4, 0x4155aaac, 0x585c377e, 0xf5f2c181, 0x9e560c07, 0x2724b8d3,
      0x9c5d7c06, 0x551f0909] =
      0x406d53f3"
    by (simp add: rotr_def Let_def sha256_next_def)
  have r61: "sha256_round [0x822d8296, 0x19ce5410, 0xa4bcb669, 0x2b1f1986, 0x44ab2f0e, 0x3bdfdade, 0x20a8f490, 0xf232275e]
      0xa4506ceb 0xf064901f =
      [0xb7a27fd2, 0x822d8296, 0x19ce5410, 0xa4bcb669, 0x5fdfd787, 0x44ab2f0e, 0x3bdfdade, 0x20a8f490]"
    by (simp add: rotr_def Let_def)
  have n61: "sha256_next
      [0xf064901f, 0x69c8a8f1, 0x4a22e484, 0x2a369ee8, 0xe1ad60dc, 0xb6d4d93d, 0xd4e2e779,
      0xc523eef4, 0x4155aaac, 0x585c377e, 0xf5f2c181, 0x9e560c07, 0x2724b8d3, 0x9c5d7c06,
      0x551f0909, 0x406d53f3] =
      0x74486dc8"
    by (simp add: rotr_def Let_def sha256_next_def)
  have r62: "sha256_round [0xb7a27fd2, 0x822d8296, 0x19ce5410, 0xa4bcb669, 0x5fdfd787, 0x44ab2f0e, 0x3bdfdade, 0x20a8f490]
      0xbef9a3f7 0x69c8a8f1 =
      [0x1ea656ac, 0xb7a27fd2, 0x822d8296, 0x19ce5410, 0x55324e4a, 0x5fdfd787, 0x44ab2f0e, 0x3bdfdade]"
    by (simp add: rotr_def Let_def)
  have n62: "sha256_next
      [0x69c8a8f1, 0x4a22e484, 0x2a369ee8, 0xe1ad60dc, 0xb6d4d93d, 0xd4e2e779, 0xc523eef4,
      0x4155aaac, 0x585c377e, 0xf5f2c181, 0x9e560c07, 0x2724b8d3, 0x9c5d7c06, 0x551f0909,
      0x406d53f3, 0x74486dc8] =
      0x1c4449b2"
    by (simp add: rotr_def Let_def sha256_next_def)
  have r63: "sha256_round [0x1ea656ac, 0xb7a27fd2, 0x822d8296, 0x19ce5410, 0x55324e4a, 0x5fdfd787, 0x44ab2f0e, 0x3bdfdade]
      0xc67178f2 0x4a22e484 =
      [0xdd83112d, 0x1ea656ac, 0xb7a27fd2, 0x822d8296, 0x35173dc4, 0x55324e4a, 0x5fdfd787, 0x44ab2f0e]"
    by (simp add: rotr_def Let_def)
  have n63: "sha256_next
      [0x4a22e484, 0x2a369ee8, 0xe1ad60dc, 0xb6d4d93d, 0xd4e2e779, 0xc523eef4, 0x4155aaac,
      0x585c377e, 0xf5f2c181, 0x9e560c07, 0x2724b8d3, 0x9c5d7c06, 0x551f0909, 0x406d53f3,
      0x74486dc8, 0x1c4449b2] =
      0x9661cbae"
    by (simp add: rotr_def Let_def sha256_next_def)
  have rounds: "sha256_rounds sha256_K
     [0x6a09e667, 0xbb67ae85, 0x3c6ef372, 0xa54ff53a, 0x510e527f, 0x9b05688c, 0x1f83d9ab, 0x5be0cd19]
     [0x00000000, 0x00000000, 0x00000000, 0x00000000, 0x00000000, 0x00000000, 0x00000000,
      0x00000000, 0x00000151, 0x40000001, 0x80000000, 0x00000000, 0x00000000, 0x00000000,
      0x00000000, 0x00000140] =
     [0xdd83112d, 0x1ea656ac, 0xb7a27fd2, 0x822d8296, 0x35173dc4, 0x55324e4a, 0x5fdfd787, 0x44ab2f0e]"
    by (simp only: sha256_K_def sha256_rounds.simps list.sel append.simps
      r0 n0 r1 n1 r2 n2 r3 n3 r4 n4 r5 n5 r6 n6 r7 n7 r8 n8 r9 n9 r10 n10 r11
      n11 r12 n12 r13 n13 r14 n14 r15 n15 r16 n16 r17 n17 r18 n18 r19 n19 r20
      n20 r21 n21 r22 n22 r23 n23 r24 n24 r25 n25 r26 n26 r27 n27 r28 n28 r29
      n29 r30 n30 r31 n31 r32 n32 r33 n33 r34 n34 r35 n35 r36 n36 r37 n37 r38
      n38 r39 n39 r40 n40 r41 n41 r42 n42 r43 n43 r44 n44 r45 n45 r46 n46 r47
      n47 r48 n48 r49 n49 r50 n50 r51 n51 r52 n52 r53 n53 r54 n54 r55 n55 r56
      n56 r57 n57 r58 n58 r59 n59 r60 n60 r61 n61 r62 n62 r63 n63)
  show ?thesis
    by (simp add: sha256_def block blocks_of.simps sha256_compress_def rounds sha256_H0_def be32_def)
qed

lemma sha256_policy_mixed_step2:
  "sha256
     [0x47, 0x8c, 0xf7, 0x94, 0xda, 0x0e, 0x05, 0x31, 0xf4, 0x11, 0x73, 0x44, 0x27, 0x7d, 0x77,
      0xd0, 0x86, 0x25, 0x90, 0x43, 0xf0, 0x37, 0xb6, 0xd6, 0x7f, 0x63, 0xb1, 0x32, 0xa0, 0x8b,
      0xfc, 0x27, 0x62, 0x61, 0x72] =
   [0x27, 0xf3, 0x3f, 0x74, 0x96, 0xda, 0x10, 0x69, 0x54, 0x20, 0x7c, 0x4b, 0xc3, 0x22, 0xb0,
    0xcc, 0xcb, 0x96, 0x51, 0x6d, 0xfb, 0xf5, 0x3f, 0x82, 0xb2, 0x8e, 0x2c, 0x06, 0x99, 0x05,
    0x55, 0x8b]"
proof -
  have block: "words_of (sha_pad
     [0x47, 0x8c, 0xf7, 0x94, 0xda, 0x0e, 0x05, 0x31, 0xf4, 0x11, 0x73, 0x44, 0x27, 0x7d, 0x77,
      0xd0, 0x86, 0x25, 0x90, 0x43, 0xf0, 0x37, 0xb6, 0xd6, 0x7f, 0x63, 0xb1, 0x32, 0xa0, 0x8b,
      0xfc, 0x27, 0x62, 0x61, 0x72]) =
     [0x478cf794, 0xda0e0531, 0xf4117344, 0x277d77d0, 0x86259043, 0xf037b6d6, 0x7f63b132,
      0xa08bfc27, 0x62617280, 0x00000000, 0x00000000, 0x00000000, 0x00000000, 0x00000000,
      0x00000000, 0x00000118]"
    by (simp add: sha_pad_def be64_of_nat_def be32_def replicate_numeral)
  have r0: "sha256_round [0x6a09e667, 0xbb67ae85, 0x3c6ef372, 0xa54ff53a, 0x510e527f, 0x9b05688c, 0x1f83d9ab, 0x5be0cd19]
      0x428a2f98 0x478cf794 =
      [0x43957fe1, 0x6a09e667, 0xbb67ae85, 0x3c6ef372, 0xe054da36, 0x510e527f, 0x9b05688c, 0x1f83d9ab]"
    by (simp add: rotr_def Let_def)
  have n0: "sha256_next
      [0x478cf794, 0xda0e0531, 0xf4117344, 0x277d77d0, 0x86259043, 0xf037b6d6, 0x7f63b132,
      0xa08bfc27, 0x62617280, 0x00000000, 0x00000000, 0x00000000, 0x00000000, 0x00000000,
      0x00000000, 0x00000118] =
      0x4146a1c3"
    by (simp add: rotr_def Let_def sha256_next_def)
  have r1: "sha256_round [0x43957fe1, 0x6a09e667, 0xbb67ae85, 0x3c6ef372, 0xe054da36, 0x510e527f, 0x9b05688c, 0x1f83d9ab]
      0x71374491 0xda0e0531 =
      [0xe2158df0, 0x43957fe1, 0x6a09e667, 0xbb67ae85, 0xb96dcc20, 0xe054da36, 0x510e527f, 0x9b05688c]"
    by (simp add: rotr_def Let_def)
  have n1: "sha256_next
      [0xda0e0531, 0xf4117344, 0x277d77d0, 0x86259043, 0xf037b6d6, 0x7f63b132, 0xa08bfc27,
      0x62617280, 0x00000000, 0x00000000, 0x00000000, 0x00000000, 0x00000000, 0x00000000,
      0x00000118, 0x4146a1c3] =
      0xa67836bb"
    by (simp add: rotr_def Let_def sha256_next_def)
  have r2: "sha256_round [0xe2158df0, 0x43957fe1, 0x6a09e667, 0xbb67ae85, 0xb96dcc20, 0xe054da36, 0x510e527f, 0x9b05688c]
      0xb5c0fbcf 0xf4117344 =
      [0x387edd2c, 0xe2158df0, 0x43957fe1, 0x6a09e667, 0x909aeb78, 0xb96dcc20, 0xe054da36, 0x510e527f]"
    by (simp add: rotr_def Let_def)
  have n2: "sha256_next
      [0xf4117344, 0x277d77d0, 0x86259043, 0xf037b6d6, 0x7f63b132, 0xa08bfc27, 0x62617280,
      0x00000000, 0x00000000, 0x00000000, 0x00000000, 0x00000000, 0x00000000, 0x00000118,
      0x4146a1c3, 0xa67836bb] =
      0x72306a31"
    by (simp add: rotr_def Let_def sha256_next_def)
  have r3: "sha256_round [0x387edd2c, 0xe2158df0, 0x43957fe1, 0x6a09e667, 0x909aeb78, 0xb96dcc20, 0xe054da36, 0x510e527f]
      0xe9b5dba5 0x277d77d0 =
      [0x90d4e50e, 0x387edd2c, 0xe2158df0, 0x43957fe1, 0x7cbe2939, 0x909aeb78, 0xb96dcc20, 0xe054da36]"
    by (simp add: rotr_def Let_def)
  have n3: "sha256_next
      [0x277d77d0, 0x86259043, 0xf037b6d6, 0x7f63b132, 0xa08bfc27, 0x62617280, 0x00000000,
      0x00000000, 0x00000000, 0x00000000, 0x00000000, 0x00000000, 0x00000118, 0x4146a1c3,
      0xa67836bb, 0x72306a31] =
      0x38f8ca6f"
    by (simp add: rotr_def Let_def sha256_next_def)
  have r4: "sha256_round [0x90d4e50e, 0x387edd2c, 0xe2158df0, 0x43957fe1, 0x7cbe2939, 0x909aeb78, 0xb96dcc20, 0xe054da36]
      0x3956c25b 0x86259043 =
      [0x5fa160be, 0x90d4e50e, 0x387edd2c, 0xe2158df0, 0x130c8dcc, 0x7cbe2939, 0x909aeb78, 0xb96dcc20]"
    by (simp add: rotr_def Let_def)
  have n4: "sha256_next
      [0x86259043, 0xf037b6d6, 0x7f63b132, 0xa08bfc27, 0x62617280, 0x00000000, 0x00000000,
      0x00000000, 0x00000000, 0x00000000, 0x00000000, 0x00000118, 0x4146a1c3, 0xa67836bb,
      0x72306a31, 0x38f8ca6f] =
      0x1cbad141"
    by (simp add: rotr_def Let_def sha256_next_def)
  have r5: "sha256_round [0x5fa160be, 0x90d4e50e, 0x387edd2c, 0xe2158df0, 0x130c8dcc, 0x7cbe2939, 0x909aeb78, 0xb96dcc20]
      0x59f111f1 0xf037b6d6 =
      [0xd44af756, 0x5fa160be, 0x90d4e50e, 0x387edd2c, 0x85d343be, 0x130c8dcc, 0x7cbe2939, 0x909aeb78]"
    by (simp add: rotr_def Let_def)
  have n5: "sha256_next
      [0xf037b6d6, 0x7f63b132, 0xa08bfc27, 0x62617280, 0x00000000, 0x00000000, 0x00000000,
      0x00000000, 0x00000000, 0x00000000, 0x00000118, 0x4146a1c3, 0xa67836bb, 0x72306a31,
      0x38f8ca6f, 0x1cbad141] =
      0xf40a2ac3"
    by (simp add: rotr_def Let_def sha256_next_def)
  have r6: "sha256_round [0xd44af756, 0x5fa160be, 0x90d4e50e, 0x387edd2c, 0x85d343be, 0x130c8dcc, 0x7cbe2939, 0x909aeb78]
      0x923f82a4 0x7f63b132 =
      [0x790a9af0, 0xd44af756, 0x5fa160be, 0x90d4e50e, 0xb84f4e2b, 0x85d343be, 0x130c8dcc, 0x7cbe2939]"
    by (simp add: rotr_def Let_def)
  have n6: "sha256_next
      [0x7f63b132, 0xa08bfc27, 0x62617280, 0x00000000, 0x00000000, 0x00000000, 0x00000000,
      0x00000000, 0x00000000, 0x00000118, 0x4146a1c3, 0xa67836bb, 0x72306a31, 0x38f8ca6f,
      0x1cbad141, 0xf40a2ac3] =
      0x564cb626"
    by (simp add: rotr_def Let_def sha256_next_def)
  have r7: "sha256_round [0x790a9af0, 0xd44af756, 0x5fa160be, 0x90d4e50e, 0xb84f4e2b, 0x85d343be, 0x130c8dcc, 0x7cbe2939]
      0xab1c5ed5 0xa08bfc27 =
      [0xd8910b32, 0x790a9af0, 0xd44af756, 0x5fa160be, 0x28b04e3e, 0xb84f4e2b, 0x85d343be, 0x130c8dcc]"
    by (simp add: rotr_def Let_def)
  have n7: "sha256_next
      [0xa08bfc27, 0x62617280, 0x00000000, 0x00000000, 0x00000000, 0x00000000, 0x00000000,
      0x00000000, 0x00000118, 0x4146a1c3, 0xa67836bb, 0x72306a31, 0x38f8ca6f, 0x1cbad141,
      0xf40a2ac3, 0x564cb626] =
      0x82001825"
    by (simp add: rotr_def Let_def sha256_next_def)
  have r8: "sha256_round [0xd8910b32, 0x790a9af0, 0xd44af756, 0x5fa160be, 0x28b04e3e, 0xb84f4e2b, 0x85d343be, 0x130c8dcc]
      0xd807aa98 0x62617280 =
      [0xe5a2ab4b, 0xd8910b32, 0x790a9af0, 0xd44af756, 0xc19b2371, 0x28b04e3e, 0xb84f4e2b, 0x85d343be]"
    by (simp add: rotr_def Let_def)
  have n8: "sha256_next
      [0x62617280, 0x00000000, 0x00000000, 0x00000000, 0x00000000, 0x00000000, 0x00000000,
      0x00000118, 0x4146a1c3, 0xa67836bb, 0x72306a31, 0x38f8ca6f, 0x1cbad141, 0xf40a2ac3,
      0x564cb626, 0x82001825] =
      0xd69c1bfd"
    by (simp add: rotr_def Let_def sha256_next_def)
  have r9: "sha256_round [0xe5a2ab4b, 0xd8910b32, 0x790a9af0, 0xd44af756, 0xc19b2371, 0x28b04e3e, 0xb84f4e2b, 0x85d343be]
      0x12835b01 0x00000000 =
      [0x58f807c5, 0xe5a2ab4b, 0xd8910b32, 0x790a9af0, 0x0a25cb58, 0xc19b2371, 0x28b04e3e, 0xb84f4e2b]"
    by (simp add: rotr_def Let_def)
  have n9: "sha256_next
      [0x00000000, 0x00000000, 0x00000000, 0x00000000, 0x00000000, 0x00000000, 0x00000118,
      0x4146a1c3, 0xa67836bb, 0x72306a31, 0x38f8ca6f, 0x1cbad141, 0xf40a2ac3, 0x564cb626,
      0x82001825, 0xd69c1bfd] =
      0x81675b77"
    by (simp add: rotr_def Let_def sha256_next_def)
  have r10: "sha256_round [0x58f807c5, 0xe5a2ab4b, 0xd8910b32, 0x790a9af0, 0x0a25cb58, 0xc19b2371, 0x28b04e3e, 0xb84f4e2b]
      0x243185be 0x00000000 =
      [0x779a3985, 0x58f807c5, 0xe5a2ab4b, 0xd8910b32, 0x8fe8f5e0, 0x0a25cb58, 0xc19b2371, 0x28b04e3e]"
    by (simp add: rotr_def Let_def)
  have n10: "sha256_next
      [0x00000000, 0x00000000, 0x00000000, 0x00000000, 0x00000000, 0x00000118, 0x4146a1c3,
      0xa67836bb, 0x72306a31, 0x38f8ca6f, 0x1cbad141, 0xf40a2ac3, 0x564cb626, 0x82001825,
      0xd69c1bfd, 0x81675b77] =
      0xc7adc10a"
    by (simp add: rotr_def Let_def sha256_next_def)
  have r11: "sha256_round [0x779a3985, 0x58f807c5, 0xe5a2ab4b, 0xd8910b32, 0x8fe8f5e0, 0x0a25cb58, 0xc19b2371, 0x28b04e3e]
      0x550c7dc3 0x00000000 =
      [0x012a9113, 0x779a3985, 0x58f807c5, 0xe5a2ab4b, 0x6ad64912, 0x8fe8f5e0, 0x0a25cb58, 0xc19b2371]"
    by (simp add: rotr_def Let_def)
  have n11: "sha256_next
      [0x00000000, 0x00000000, 0x00000000, 0x00000000, 0x00000118, 0x4146a1c3, 0xa67836bb,
      0x72306a31, 0x38f8ca6f, 0x1cbad141, 0xf40a2ac3, 0x564cb626, 0x82001825, 0xd69c1bfd,
      0x81675b77, 0xc7adc10a] =
      0x63b03a8a"
    by (simp add: rotr_def Let_def sha256_next_def)
  have r12: "sha256_round [0x012a9113, 0x779a3985, 0x58f807c5, 0xe5a2ab4b, 0x6ad64912, 0x8fe8f5e0, 0x0a25cb58, 0xc19b2371]
      0x72be5d74 0x00000000 =
      [0x744ec19e, 0x012a9113, 0x779a3985, 0x58f807c5, 0x25a07a50, 0x6ad64912, 0x8fe8f5e0, 0x0a25cb58]"
    by (simp add: rotr_def Let_def)
  have n12: "sha256_next
      [0x00000000, 0x00000000, 0x00000000, 0x00000118, 0x4146a1c3, 0xa67836bb, 0x72306a31,
      0x38f8ca6f, 0x1cbad141, 0xf40a2ac3, 0x564cb626, 0x82001825, 0xd69c1bfd, 0x81675b77,
      0xc7adc10a, 0x63b03a8a] =
      0x4c9ffb16"
    by (simp add: rotr_def Let_def sha256_next_def)
  have r13: "sha256_round [0x744ec19e, 0x012a9113, 0x779a3985, 0x58f807c5, 0x25a07a50, 0x6ad64912, 0x8fe8f5e0, 0x0a25cb58]
      0x80deb1fe 0x00000000 =
      [0x306d6651, 0x744ec19e, 0x012a9113, 0x779a3985, 0x697470bf, 0x25a07a50, 0x6ad64912, 0x8fe8f5e0]"
    by (simp add: rotr_def Let_def)
  have n13: "sha256_next
      [0x00000000, 0x00000000, 0x00000118, 0x4146a1c3, 0xa67836bb, 0x72306a31, 0x38f8ca6f,
      0x1cbad141, 0xf40a2ac3, 0x564cb626, 0x82001825, 0xd69c1bfd, 0x81675b77, 0xc7adc10a,
      0x63b03a8a, 0x4c9ffb16] =
      0x705947c6"
    by (simp add: rotr_def Let_def sha256_next_def)
  have r14: "sha256_round [0x306d6651, 0x744ec19e, 0x012a9113, 0x779a3985, 0x697470bf, 0x25a07a50, 0x6ad64912, 0x8fe8f5e0]
      0x9bdc06a7 0x00000000 =
      [0x9b5275e0, 0x306d6651, 0x744ec19e, 0x012a9113, 0x17725014, 0x697470bf, 0x25a07a50, 0x6ad64912]"
    by (simp add: rotr_def Let_def)
  have n14: "sha256_next
      [0x00000000, 0x00000118, 0x4146a1c3, 0xa67836bb, 0x72306a31, 0x38f8ca6f, 0x1cbad141,
      0xf40a2ac3, 0x564cb626, 0x82001825, 0xd69c1bfd, 0x81675b77, 0xc7adc10a, 0x63b03a8a,
      0x4c9ffb16, 0x705947c6] =
      0xb540e068"
    by (simp add: rotr_def Let_def sha256_next_def)
  have r15: "sha256_round [0x9b5275e0, 0x306d6651, 0x744ec19e, 0x012a9113, 0x17725014, 0x697470bf, 0x25a07a50, 0x6ad64912]
      0xc19bf174 0x00000118 =
      [0x2ab00e49, 0x9b5275e0, 0x306d6651, 0x744ec19e, 0x3b847406, 0x17725014, 0x697470bf, 0x25a07a50]"
    by (simp add: rotr_def Let_def)
  have n15: "sha256_next
      [0x00000118, 0x4146a1c3, 0xa67836bb, 0x72306a31, 0x38f8ca6f, 0x1cbad141, 0xf40a2ac3,
      0x564cb626, 0x82001825, 0xd69c1bfd, 0x81675b77, 0xc7adc10a, 0x63b03a8a, 0x4c9ffb16,
      0x705947c6, 0xb540e068] =
      0x887e86b5"
    by (simp add: rotr_def Let_def sha256_next_def)
  have r16: "sha256_round [0x2ab00e49, 0x9b5275e0, 0x306d6651, 0x744ec19e, 0x3b847406, 0x17725014, 0x697470bf, 0x25a07a50]
      0xe49b69c1 0x4146a1c3 =
      [0x2c5311cd, 0x2ab00e49, 0x9b5275e0, 0x306d6651, 0x6d54fa72, 0x3b847406, 0x17725014, 0x697470bf]"
    by (simp add: rotr_def Let_def)
  have n16: "sha256_next
      [0x4146a1c3, 0xa67836bb, 0x72306a31, 0x38f8ca6f, 0x1cbad141, 0xf40a2ac3, 0x564cb626,
      0x82001825, 0xd69c1bfd, 0x81675b77, 0xc7adc10a, 0x63b03a8a, 0x4c9ffb16, 0x705947c6,
      0xb540e068, 0x887e86b5] =
      0x9cef388e"
    by (simp add: rotr_def Let_def sha256_next_def)
  have r17: "sha256_round [0x2c5311cd, 0x2ab00e49, 0x9b5275e0, 0x306d6651, 0x6d54fa72, 0x3b847406, 0x17725014, 0x697470bf]
      0xefbe4786 0xa67836bb =
      [0x1be3c769, 0x2c5311cd, 0x2ab00e49, 0x9b5275e0, 0x98c48597, 0x6d54fa72, 0x3b847406, 0x17725014]"
    by (simp add: rotr_def Let_def)
  have n17: "sha256_next
      [0xa67836bb, 0x72306a31, 0x38f8ca6f, 0x1cbad141, 0xf40a2ac3, 0x564cb626, 0x82001825,
      0xd69c1bfd, 0x81675b77, 0xc7adc10a, 0x63b03a8a, 0x4c9ffb16, 0x705947c6, 0xb540e068,
      0x887e86b5, 0x9cef388e] =
      0x78029374"
    by (simp add: rotr_def Let_def sha256_next_def)
  have r18: "sha256_round [0x1be3c769, 0x2c5311cd, 0x2ab00e49, 0x9b5275e0, 0x98c48597, 0x6d54fa72, 0x3b847406, 0x17725014]
      0x0fc19dc6 0x72306a31 =
      [0x711c9b5b, 0x1be3c769, 0x2c5311cd, 0x2ab00e49, 0xeece7f47, 0x98c48597, 0x6d54fa72, 0x3b847406]"
    by (simp add: rotr_def Let_def)
  have n18: "sha256_next
      [0x72306a31, 0x38f8ca6f, 0x1cbad141, 0xf40a2ac3, 0x564cb626, 0x82001825, 0xd69c1bfd,
      0x81675b77, 0xc7adc10a, 0x63b03a8a, 0x4c9ffb16, 0x705947c6, 0xb540e068, 0x887e86b5,
      0x9cef388e, 0x78029374] =
      0x3d4771c6"
    by (simp add: rotr_def Let_def sha256_next_def)
  have r19: "sha256_round [0x711c9b5b, 0x1be3c769, 0x2c5311cd, 0x2ab00e49, 0xeece7f47, 0x98c48597, 0x6d54fa72, 0x3b847406]
      0x240ca1cc 0x38f8ca6f =
      [0x611d007c, 0x711c9b5b, 0x1be3c769, 0x2c5311cd, 0xdd87b786, 0xeece7f47, 0x98c48597, 0x6d54fa72]"
    by (simp add: rotr_def Let_def)
  have n19: "sha256_next
      [0x38f8ca6f, 0x1cbad141, 0xf40a2ac3, 0x564cb626, 0x82001825, 0xd69c1bfd, 0x81675b77,
      0xc7adc10a, 0x63b03a8a, 0x4c9ffb16, 0x705947c6, 0xb540e068, 0x887e86b5, 0x9cef388e,
      0x78029374, 0x3d4771c6] =
      0xd761e1ce"
    by (simp add: rotr_def Let_def sha256_next_def)
  have r20: "sha256_round [0x611d007c, 0x711c9b5b, 0x1be3c769, 0x2c5311cd, 0xdd87b786, 0xeece7f47, 0x98c48597, 0x6d54fa72]
      0x2de92c6f 0x1cbad141 =
      [0x8df8d96b, 0x611d007c, 0x711c9b5b, 0x1be3c769, 0xd988ae4c, 0xdd87b786, 0xeece7f47, 0x98c48597]"
    by (simp add: rotr_def Let_def)
  have n20: "sha256_next
      [0x1cbad141, 0xf40a2ac3, 0x564cb626, 0x82001825, 0xd69c1bfd, 0x81675b77, 0xc7adc10a,
      0x63b03a8a, 0x4c9ffb16, 0x705947c6, 0xb540e068, 0x887e86b5, 0x9cef388e, 0x78029374,
      0x3d4771c6, 0xd761e1ce] =
      0xf7c24ded"
    by (simp add: rotr_def Let_def sha256_next_def)
  have r21: "sha256_round [0x8df8d96b, 0x611d007c, 0x711c9b5b, 0x1be3c769, 0xd988ae4c, 0xdd87b786, 0xeece7f47, 0x98c48597]
      0x4a7484aa 0xf40a2ac3 =
      [0x4218f2f1, 0x8df8d96b, 0x611d007c, 0x711c9b5b, 0x31982934, 0xd988ae4c, 0xdd87b786, 0xeece7f47]"
    by (simp add: rotr_def Let_def)
  have n21: "sha256_next
      [0xf40a2ac3, 0x564cb626, 0x82001825, 0xd69c1bfd, 0x81675b77, 0xc7adc10a, 0x63b03a8a,
      0x4c9ffb16, 0x705947c6, 0xb540e068, 0x887e86b5, 0x9cef388e, 0x78029374, 0x3d4771c6,
      0xd761e1ce, 0xf7c24ded] =
      0xe2230e8a"
    by (simp add: rotr_def Let_def sha256_next_def)
  have r22: "sha256_round [0x4218f2f1, 0x8df8d96b, 0x611d007c, 0x711c9b5b, 0x31982934, 0xd988ae4c, 0xdd87b786, 0xeece7f47]
      0x5cb0a9dc 0x564cb626 =
      [0x9f912174, 0x4218f2f1, 0x8df8d96b, 0x611d007c, 0x2acd02e3, 0x31982934, 0xd988ae4c, 0xdd87b786]"
    by (simp add: rotr_def Let_def)
  have n22: "sha256_next
      [0x564cb626, 0x82001825, 0xd69c1bfd, 0x81675b77, 0xc7adc10a, 0x63b03a8a, 0x4c9ffb16,
      0x705947c6, 0xb540e068, 0x887e86b5, 0x9cef388e, 0x78029374, 0x3d4771c6, 0xd761e1ce,
      0xf7c24ded, 0xe2230e8a] =
      0xab8f5619"
    by (simp add: rotr_def Let_def sha256_next_def)
  have r23: "sha256_round [0x9f912174, 0x4218f2f1, 0x8df8d96b, 0x611d007c, 0x2acd02e3, 0x31982934, 0xd988ae4c, 0xdd87b786]
      0x76f988da 0x82001825 =
      [0x76b7790a, 0x9f912174, 0x4218f2f1, 0x8df8d96b, 0xdf76216b, 0x2acd02e3, 0x31982934, 0xd988ae4c]"
    by (simp add: rotr_def Let_def)
  have n23: "sha256_next
      [0x82001825, 0xd69c1bfd, 0x81675b77, 0xc7adc10a, 0x63b03a8a, 0x4c9ffb16, 0x705947c6,
      0xb540e068, 0x887e86b5, 0x9cef388e, 0x78029374, 0x3d4771c6, 0xd761e1ce, 0xf7c24ded,
      0xe2230e8a, 0xab8f5619] =
      0xed1dc538"
    by (simp add: rotr_def Let_def sha256_next_def)
  have r24: "sha256_round [0x76b7790a, 0x9f912174, 0x4218f2f1, 0x8df8d96b, 0xdf76216b, 0x2acd02e3, 0x31982934, 0xd988ae4c]
      0x983e5152 0xd69c1bfd =
      [0x8af15b53, 0x76b7790a, 0x9f912174, 0x4218f2f1, 0x3a3e812b, 0xdf76216b, 0x2acd02e3, 0x31982934]"
    by (simp add: rotr_def Let_def)
  have n24: "sha256_next
      [0xd69c1bfd, 0x81675b77, 0xc7adc10a, 0x63b03a8a, 0x4c9ffb16, 0x705947c6, 0xb540e068,
      0x887e86b5, 0x9cef388e, 0x78029374, 0x3d4771c6, 0xd761e1ce, 0xf7c24ded, 0xe2230e8a,
      0xab8f5619, 0xed1dc538] =
      0xba777855"
    by (simp add: rotr_def Let_def sha256_next_def)
  have r25: "sha256_round [0x8af15b53, 0x76b7790a, 0x9f912174, 0x4218f2f1, 0x3a3e812b, 0xdf76216b, 0x2acd02e3, 0x31982934]
      0xa831c66d 0x81675b77 =
      [0xa8f64013, 0x8af15b53, 0x76b7790a, 0x9f912174, 0x4f106a3d, 0x3a3e812b, 0xdf76216b, 0x2acd02e3]"
    by (simp add: rotr_def Let_def)
  have n25: "sha256_next
      [0x81675b77, 0xc7adc10a, 0x63b03a8a, 0x4c9ffb16, 0x705947c6, 0xb540e068, 0x887e86b5,
      0x9cef388e, 0x78029374, 0x3d4771c6, 0xd761e1ce, 0xf7c24ded, 0xe2230e8a, 0xab8f5619,
      0xed1dc538, 0xba777855] =
      0x95e74be1"
    by (simp add: rotr_def Let_def sha256_next_def)
  have r26: "sha256_round [0xa8f64013, 0x8af15b53, 0x76b7790a, 0x9f912174, 0x4f106a3d, 0x3a3e812b, 0xdf76216b, 0x2acd02e3]
      0xb00327c8 0xc7adc10a =
      [0x562c9c4a, 0xa8f64013, 0x8af15b53, 0x76b7790a, 0x1725cb96, 0x4f106a3d, 0x3a3e812b, 0xdf76216b]"
    by (simp add: rotr_def Let_def)
  have n26: "sha256_next
      [0xc7adc10a, 0x63b03a8a, 0x4c9ffb16, 0x705947c6, 0xb540e068, 0x887e86b5, 0x9cef388e,
      0x78029374, 0x3d4771c6, 0xd761e1ce, 0xf7c24ded, 0xe2230e8a, 0xab8f5619, 0xed1dc538,
      0xba777855, 0x95e74be1] =
      0x08329a4b"
    by (simp add: rotr_def Let_def sha256_next_def)
  have r27: "sha256_round [0x562c9c4a, 0xa8f64013, 0x8af15b53, 0x76b7790a, 0x1725cb96, 0x4f106a3d, 0x3a3e812b, 0xdf76216b]
      0xbf597fc7 0x63b03a8a =
      [0x3ab2f616, 0x562c9c4a, 0xa8f64013, 0x8af15b53, 0x60cd579f, 0x1725cb96, 0x4f106a3d, 0x3a3e812b]"
    by (simp add: rotr_def Let_def)
  have n27: "sha256_next
      [0x63b03a8a, 0x4c9ffb16, 0x705947c6, 0xb540e068, 0x887e86b5, 0x9cef388e, 0x78029374,
      0x3d4771c6, 0xd761e1ce, 0xf7c24ded, 0xe2230e8a, 0xab8f5619, 0xed1dc538, 0xba777855,
      0x95e74be1, 0x08329a4b] =
      0x83eb5dc7"
    by (simp add: rotr_def Let_def sha256_next_def)
  have r28: "sha256_round [0x3ab2f616, 0x562c9c4a, 0xa8f64013, 0x8af15b53, 0x60cd579f, 0x1725cb96, 0x4f106a3d, 0x3a3e812b]
      0xc6e00bf3 0x4c9ffb16 =
      [0x7614dc38, 0x3ab2f616, 0x562c9c4a, 0xa8f64013, 0xd08a3281, 0x60cd579f, 0x1725cb96, 0x4f106a3d]"
    by (simp add: rotr_def Let_def)
  have n28: "sha256_next
      [0x4c9ffb16, 0x705947c6, 0xb540e068, 0x887e86b5, 0x9cef388e, 0x78029374, 0x3d4771c6,
      0xd761e1ce, 0xf7c24ded, 0xe2230e8a, 0xab8f5619, 0xed1dc538, 0xba777855, 0x95e74be1,
      0x08329a4b, 0x83eb5dc7] =
      0x204bf9ba"
    by (simp add: rotr_def Let_def sha256_next_def)
  have r29: "sha256_round [0x7614dc38, 0x3ab2f616, 0x562c9c4a, 0xa8f64013, 0xd08a3281, 0x60cd579f, 0x1725cb96, 0x4f106a3d]
      0xd5a79147 0x705947c6 =
      [0x148bdacf, 0x7614dc38, 0x3ab2f616, 0x562c9c4a, 0x9816d858, 0xd08a3281, 0x60cd579f, 0x1725cb96]"
    by (simp add: rotr_def Let_def)
  have n29: "sha256_next
      [0x705947c6, 0xb540e068, 0x887e86b5, 0x9cef388e, 0x78029374, 0x3d4771c6, 0xd761e1ce,
      0xf7c24ded, 0xe2230e8a, 0xab8f5619, 0xed1dc538, 0xba777855, 0x95e74be1, 0x08329a4b,
      0x83eb5dc7, 0x204bf9ba] =
      0xe13d19db"
    by (simp add: rotr_def Let_def sha256_next_def)
  have r30: "sha256_round [0x148bdacf, 0x7614dc38, 0x3ab2f616, 0x562c9c4a, 0x9816d858, 0xd08a3281, 0x60cd579f, 0x1725cb96]
      0x06ca6351 0xb540e068 =
      [0x98dfe9a9, 0x148bdacf, 0x7614dc38, 0x3ab2f616, 0x7c483916, 0x9816d858, 0xd08a3281, 0x60cd579f]"
    by (simp add: rotr_def Let_def)
  have n30: "sha256_next
      [0xb540e068, 0x887e86b5, 0x9cef388e, 0x78029374, 0x3d4771c6, 0xd761e1ce, 0xf7c24ded,
      0xe2230e8a, 0xab8f5619, 0xed1dc538, 0xba777855, 0x95e74be1, 0x08329a4b, 0x83eb5dc7,
      0x204bf9ba, 0xe13d19db] =
      0x01f33c36"
    by (simp add: rotr_def Let_def sha256_next_def)
  have r31: "sha256_round [0x98dfe9a9, 0x148bdacf, 0x7614dc38, 0x3ab2f616, 0x7c483916, 0x9816d858, 0xd08a3281, 0x60cd579f]
      0x14292967 0x887e86b5 =
      [0x5e96b8c8, 0x98dfe9a9, 0x148bdacf, 0x7614dc38, 0x2fcc3b3f, 0x7c483916, 0x9816d858, 0xd08a3281]"
    by (simp add: rotr_def Let_def)
  have n31: "sha256_next
      [0x887e86b5, 0x9cef388e, 0x78029374, 0x3d4771c6, 0xd761e1ce, 0xf7c24ded, 0xe2230e8a,
      0xab8f5619, 0xed1dc538, 0xba777855, 0x95e74be1, 0x08329a4b, 0x83eb5dc7, 0x204bf9ba,
      0xe13d19db, 0x01f33c36] =
      0x336c6164"
    by (simp add: rotr_def Let_def sha256_next_def)
  have r32: "sha256_round [0x5e96b8c8, 0x98dfe9a9, 0x148bdacf, 0x7614dc38, 0x2fcc3b3f, 0x7c483916, 0x9816d858, 0xd08a3281]
      0x27b70a85 0x9cef388e =
      [0x76773aac, 0x5e96b8c8, 0x98dfe9a9, 0x148bdacf, 0x44e7a21e, 0x2fcc3b3f, 0x7c483916, 0x9816d858]"
    by (simp add: rotr_def Let_def)
  have n32: "sha256_next
      [0x9cef388e, 0x78029374, 0x3d4771c6, 0xd761e1ce, 0xf7c24ded, 0xe2230e8a, 0xab8f5619,
      0xed1dc538, 0xba777855, 0x95e74be1, 0x08329a4b, 0x83eb5dc7, 0x204bf9ba, 0xe13d19db,
      0x01f33c36, 0x336c6164] =
      0x6fa189bf"
    by (simp add: rotr_def Let_def sha256_next_def)
  have r33: "sha256_round [0x76773aac, 0x5e96b8c8, 0x98dfe9a9, 0x148bdacf, 0x44e7a21e, 0x2fcc3b3f, 0x7c483916, 0x9816d858]
      0x2e1b2138 0x78029374 =
      [0x36f75af3, 0x76773aac, 0x5e96b8c8, 0x98dfe9a9, 0xd896b04f, 0x44e7a21e, 0x2fcc3b3f, 0x7c483916]"
    by (simp add: rotr_def Let_def)
  have n33: "sha256_next
      [0x78029374, 0x3d4771c6, 0xd761e1ce, 0xf7c24ded, 0xe2230e8a, 0xab8f5619, 0xed1dc538,
      0xba777855, 0x95e74be1, 0x08329a4b, 0x83eb5dc7, 0x204bf9ba, 0xe13d19db, 0x01f33c36,
      0x336c6164, 0x6fa189bf] =
      0x946b620c"
    by (simp add: rotr_def Let_def sha256_next_def)
  have r34: "sha256_round [0x36f75af3, 0x76773aac, 0x5e96b8c8, 0x98dfe9a9, 0xd896b04f, 0x44e7a21e, 0x2fcc3b3f, 0x7c483916]
      0x4d2c6dfc 0x3d4771c6 =
      [0x2a931cd6, 0x36f75af3, 0x76773aac, 0x5e96b8c8, 0x852c1dba, 0xd896b04f, 0x44e7a21e, 0x2fcc3b3f]"
    by (simp add: rotr_def Let_def)
  have n34: "sha256_next
      [0x3d4771c6, 0xd761e1ce, 0xf7c24ded, 0xe2230e8a, 0xab8f5619, 0xed1dc538, 0xba777855,
      0x95e74be1, 0x08329a4b, 0x83eb5dc7, 0x204bf9ba, 0xe13d19db, 0x01f33c36, 0x336c6164,
      0x6fa189bf, 0x946b620c] =
      0xb657cbf5"
    by (simp add: rotr_def Let_def sha256_next_def)
  have r35: "sha256_round [0x2a931cd6, 0x36f75af3, 0x76773aac, 0x5e96b8c8, 0x852c1dba, 0xd896b04f, 0x44e7a21e, 0x2fcc3b3f]
      0x53380d13 0xd761e1ce =
      [0x3dd68ae2, 0x2a931cd6, 0x36f75af3, 0x76773aac, 0x450f5dad, 0x852c1dba, 0xd896b04f, 0x44e7a21e]"
    by (simp add: rotr_def Let_def)
  have n35: "sha256_next
      [0xd761e1ce, 0xf7c24ded, 0xe2230e8a, 0xab8f5619, 0xed1dc538, 0xba777855, 0x95e74be1,
      0x08329a4b, 0x83eb5dc7, 0x204bf9ba, 0xe13d19db, 0x01f33c36, 0x336c6164, 0x6fa189bf,
      0x946b620c, 0xb657cbf5] =
      0x2b7d4ebe"
    by (simp add: rotr_def Let_def sha256_next_def)
  have r36: "sha256_round [0x3dd68ae2, 0x2a931cd6, 0x36f75af3, 0x76773aac, 0x450f5dad, 0x852c1dba, 0xd896b04f, 0x44e7a21e]
      0x650a7354 0xf7c24ded =
      [0x878a4b75, 0x3dd68ae2, 0x2a931cd6, 0x36f75af3, 0x3cdaa634, 0x450f5dad, 0x852c1dba, 0xd896b04f]"
    by (simp add: rotr_def Let_def)
  have n36: "sha256_next
      [0xf7c24ded, 0xe2230e8a, 0xab8f5619, 0xed1dc538, 0xba777855, 0x95e74be1, 0x08329a4b,
      0x83eb5dc7, 0x204bf9ba, 0xe13d19db, 0x01f33c36, 0x336c6164, 0x6fa189bf, 0x946b620c,
      0xb657cbf5, 0x2b7d4ebe] =
      0xbfcbff1f"
    by (simp add: rotr_def Let_def sha256_next_def)
  have r37: "sha256_round [0x878a4b75, 0x3dd68ae2, 0x2a931cd6, 0x36f75af3, 0x3cdaa634, 0x450f5dad, 0x852c1dba, 0xd896b04f]
      0x766a0abb 0xe2230e8a =
      [0x746f569b, 0x878a4b75, 0x3dd68ae2, 0x2a931cd6, 0x68712e07, 0x3cdaa634, 0x450f5dad, 0x852c1dba]"
    by (simp add: rotr_def Let_def)
  have n37: "sha256_next
      [0xe2230e8a, 0xab8f5619, 0xed1dc538, 0xba777855, 0x95e74be1, 0x08329a4b, 0x83eb5dc7,
      0x204bf9ba, 0xe13d19db, 0x01f33c36, 0x336c6164, 0x6fa189bf, 0x946b620c, 0xb657cbf5,
      0x2b7d4ebe, 0xbfcbff1f] =
      0xe638f8ce"
    by (simp add: rotr_def Let_def sha256_next_def)
  have r38: "sha256_round [0x746f569b, 0x878a4b75, 0x3dd68ae2, 0x2a931cd6, 0x68712e07, 0x3cdaa634, 0x450f5dad, 0x852c1dba]
      0x81c2c92e 0xab8f5619 =
      [0xd020e3d6, 0x746f569b, 0x878a4b75, 0x3dd68ae2, 0xf04b9aac, 0x68712e07, 0x3cdaa634, 0x450f5dad]"
    by (simp add: rotr_def Let_def)
  have n38: "sha256_next
      [0xab8f5619, 0xed1dc538, 0xba777855, 0x95e74be1, 0x08329a4b, 0x83eb5dc7, 0x204bf9ba,
      0xe13d19db, 0x01f33c36, 0x336c6164, 0x6fa189bf, 0x946b620c, 0xb657cbf5, 0x2b7d4ebe,
      0xbfcbff1f, 0xe638f8ce] =
      0x7c774aca"
    by (simp add: rotr_def Let_def sha256_next_def)
  have r39: "sha256_round [0xd020e3d6, 0x746f569b, 0x878a4b75, 0x3dd68ae2, 0xf04b9aac, 0x68712e07, 0x3cdaa634, 0x450f5dad]
      0x92722c85 0xed1dc538 =
      [0xf25f1568, 0xd020e3d6, 0x746f569b, 0x878a4b75, 0x32d979c1, 0xf04b9aac, 0x68712e07, 0x3cdaa634]"
    by (simp add: rotr_def Let_def)
  have n39: "sha256_next
      [0xed1dc538, 0xba777855, 0x95e74be1, 0x08329a4b, 0x83eb5dc7, 0x204bf9ba, 0xe13d19db,
      0x01f33c36, 0x336c6164, 0x6fa189bf, 0x946b620c, 0xb657cbf5, 0x2b7d4ebe, 0xbfcbff1f,
      0xe638f8ce, 0x7c774aca] =
      0x2235e043"
    by (simp add: rotr_def Let_def sha256_next_def)
  have r40: "sha256_round [0xf25f1568, 0xd020e3d6, 0x746f569b, 0x878a4b75, 0x32d979c1, 0xf04b9aac, 0x68712e07, 0x3cdaa634]
      0xa2bfe8a1 0xba777855 =
      [0x3ec25046, 0xf25f1568, 0xd020e3d6, 0x746f569b, 0xea574f76, 0x32d979c1, 0xf04b9aac, 0x68712e07]"
    by (simp add: rotr_def Let_def)
  have n40: "sha256_next
      [0xba777855, 0x95e74be1, 0x08329a4b, 0x83eb5dc7, 0x204bf9ba, 0xe13d19db, 0x01f33c36,
      0x336c6164, 0x6fa189bf, 0x946b620c, 0xb657cbf5, 0x2b7d4ebe, 0xbfcbff1f, 0xe638f8ce,
      0x7c774aca, 0x2235e043] =
      0x9e75895a"
    by (simp add: rotr_def Let_def sha256_next_def)
  have r41: "sha256_round [0x3ec25046, 0xf25f1568, 0xd020e3d6, 0x746f569b, 0xea574f76, 0x32d979c1, 0xf04b9aac, 0x68712e07]
      0xa81a664b 0x95e74be1 =
      [0xeea332da, 0x3ec25046, 0xf25f1568, 0xd020e3d6, 0x6c0fbd37, 0xea574f76, 0x32d979c1, 0xf04b9aac]"
    by (simp add: rotr_def Let_def)
  have n41: "sha256_next
      [0x95e74be1, 0x08329a4b, 0x83eb5dc7, 0x204bf9ba, 0xe13d19db, 0x01f33c36, 0x336c6164,
      0x6fa189bf, 0x946b620c, 0xb657cbf5, 0x2b7d4ebe, 0xbfcbff1f, 0xe638f8ce, 0x7c774aca,
      0x2235e043, 0x9e75895a] =
      0xc9e5846b"
    by (simp add: rotr_def Let_def sha256_next_def)
  have r42: "sha256_round [0xeea332da, 0x3ec25046, 0xf25f1568, 0xd020e3d6, 0x6c0fbd37, 0xea574f76, 0x32d979c1, 0xf04b9aac]
      0xc24b8b70 0x08329a4b =
      [0x529c1571, 0xeea332da, 0x3ec25046, 0xf25f1568, 0x824516e8, 0x6c0fbd37, 0xea574f76, 0x32d979c1]"
    by (simp add: rotr_def Let_def)
  have n42: "sha256_next
      [0x08329a4b, 0x83eb5dc7, 0x204bf9ba, 0xe13d19db, 0x01f33c36, 0x336c6164, 0x6fa189bf,
      0x946b620c, 0xb657cbf5, 0x2b7d4ebe, 0xbfcbff1f, 0xe638f8ce, 0x7c774aca, 0x2235e043,
      0x9e75895a, 0xc9e5846b] =
      0xf15cc898"
    by (simp add: rotr_def Let_def sha256_next_def)
  have r43: "sha256_round [0x529c1571, 0xeea332da, 0x3ec25046, 0xf25f1568, 0x824516e8, 0x6c0fbd37, 0xea574f76, 0x32d979c1]
      0xc76c51a3 0x83eb5dc7 =
      [0x51d51461, 0x529c1571, 0xeea332da, 0x3ec25046, 0x3639c481, 0x824516e8, 0x6c0fbd37, 0xea574f76]"
    by (simp add: rotr_def Let_def)
  have n43: "sha256_next
      [0x83eb5dc7, 0x204bf9ba, 0xe13d19db, 0x01f33c36, 0x336c6164, 0x6fa189bf, 0x946b620c,
      0xb657cbf5, 0x2b7d4ebe, 0xbfcbff1f, 0xe638f8ce, 0x7c774aca, 0x2235e043, 0x9e75895a,
      0xc9e5846b, 0xf15cc898] =
      0x4469a26b"
    by (simp add: rotr_def Let_def sha256_next_def)
  have r44: "sha256_round [0x51d51461, 0x529c1571, 0xeea332da, 0x3ec25046, 0x3639c481, 0x824516e8, 0x6c0fbd37, 0xea574f76]
      0xd192e819 0x204bf9ba =
      [0xa41d3318, 0x51d51461, 0x529c1571, 0xeea332da, 0xed1c1ff6, 0x3639c481, 0x824516e8, 0x6c0fbd37]"
    by (simp add: rotr_def Let_def)
  have n44: "sha256_next
      [0x204bf9ba, 0xe13d19db, 0x01f33c36, 0x336c6164, 0x6fa189bf, 0x946b620c, 0xb657cbf5,
      0x2b7d4ebe, 0xbfcbff1f, 0xe638f8ce, 0x7c774aca, 0x2235e043, 0x9e75895a, 0xc9e5846b,
      0xf15cc898, 0x4469a26b] =
      0xf17b4586"
    by (simp add: rotr_def Let_def sha256_next_def)
  have r45: "sha256_round [0xa41d3318, 0x51d51461, 0x529c1571, 0xeea332da, 0xed1c1ff6, 0x3639c481, 0x824516e8, 0x6c0fbd37]
      0xd6990624 0xe13d19db =
      [0x0b502e78, 0xa41d3318, 0x51d51461, 0x529c1571, 0xe4483d22, 0xed1c1ff6, 0x3639c481, 0x824516e8]"
    by (simp add: rotr_def Let_def)
  have n45: "sha256_next
      [0xe13d19db, 0x01f33c36, 0x336c6164, 0x6fa189bf, 0x946b620c, 0xb657cbf5, 0x2b7d4ebe,
      0xbfcbff1f, 0xe638f8ce, 0x7c774aca, 0x2235e043, 0x9e75895a, 0xc9e5846b, 0xf15cc898,
      0x4469a26b, 0xf17b4586] =
      0xe64e36f8"
    by (simp add: rotr_def Let_def sha256_next_def)
  have r46: "sha256_round [0x0b502e78, 0xa41d3318, 0x51d51461, 0x529c1571, 0xe4483d22, 0xed1c1ff6, 0x3639c481, 0x824516e8]
      0xf40e3585 0x01f33c36 =
      [0xad568671, 0x0b502e78, 0xa41d3318, 0x51d51461, 0xccefb438, 0xe4483d22, 0xed1c1ff6, 0x3639c481]"
    by (simp add: rotr_def Let_def)
  have n46: "sha256_next
      [0x01f33c36, 0x336c6164, 0x6fa189bf, 0x946b620c, 0xb657cbf5, 0x2b7d4ebe, 0xbfcbff1f,
      0xe638f8ce, 0x7c774aca, 0x2235e043, 0x9e75895a, 0xc9e5846b, 0xf15cc898, 0x4469a26b,
      0xf17b4586, 0xe64e36f8] =
      0xc4cb6cf1"
    by (simp add: rotr_def Let_def sha256_next_def)
  have r47: "sha256_round [0xad568671, 0x0b502e78, 0xa41d3318, 0x51d51461, 0xccefb438, 0xe4483d22, 0xed1c1ff6, 0x3639c481]
      0x106aa070 0x336c6164 =
      [0x236e7990, 0xad568671, 0x0b502e78, 0xa41d3318, 0xc52e59dc, 0xccefb438, 0xe4483d22, 0xed1c1ff6]"
    by (simp add: rotr_def Let_def)
  have n47: "sha256_next
      [0x336c6164, 0x6fa189bf, 0x946b620c, 0xb657cbf5, 0x2b7d4ebe, 0xbfcbff1f, 0xe638f8ce,
      0x7c774aca, 0x2235e043, 0x9e75895a, 0xc9e5846b, 0xf15cc898, 0x4469a26b, 0xf17b4586,
      0xe64e36f8, 0xc4cb6cf1] =
      0xc0c190ed"
    by (simp add: rotr_def Let_def sha256_next_def)
  have r48: "sha256_round [0x236e7990, 0xad568671, 0x0b502e78, 0xa41d3318, 0xc52e59dc, 0xccefb438, 0xe4483d22, 0xed1c1ff6]
      0x19a4c116 0x6fa189bf =
      [0xe38485dd, 0x236e7990, 0xad568671, 0x0b502e78, 0xde8ec4eb, 0xc52e59dc, 0xccefb438, 0xe4483d22]"
    by (simp add: rotr_def Let_def)
  have n48: "sha256_next
      [0x6fa189bf, 0x946b620c, 0xb657cbf5, 0x2b7d4ebe, 0xbfcbff1f, 0xe638f8ce, 0x7c774aca,
      0x2235e043, 0x9e75895a, 0xc9e5846b, 0xf15cc898, 0x4469a26b, 0xf17b4586, 0xe64e36f8,
      0xc4cb6cf1, 0xc0c190ed] =
      0xe88595f0"
    by (simp add: rotr_def Let_def sha256_next_def)
  have r49: "sha256_round [0xe38485dd, 0x236e7990, 0xad568671, 0x0b502e78, 0xde8ec4eb, 0xc52e59dc, 0xccefb438, 0xe4483d22]
      0x1e376c08 0x946b620c =
      [0xb81debe0, 0xe38485dd, 0x236e7990, 0xad568671, 0xdc0e49aa, 0xde8ec4eb, 0xc52e59dc, 0xccefb438]"
    by (simp add: rotr_def Let_def)
  have n49: "sha256_next
      [0x946b620c, 0xb657cbf5, 0x2b7d4ebe, 0xbfcbff1f, 0xe638f8ce, 0x7c774aca, 0x2235e043,
      0x9e75895a, 0xc9e5846b, 0xf15cc898, 0x4469a26b, 0xf17b4586, 0xe64e36f8, 0xc4cb6cf1,
      0xc0c190ed, 0xe88595f0] =
      0x8f7ece3c"
    by (simp add: rotr_def Let_def sha256_next_def)
  have r50: "sha256_round [0xb81debe0, 0xe38485dd, 0x236e7990, 0xad568671, 0xdc0e49aa, 0xde8ec4eb, 0xc52e59dc, 0xccefb438]
      0x2748774c 0xb657cbf5 =
      [0xca87d8bf, 0xb81debe0, 0xe38485dd, 0x236e7990, 0xce243c69, 0xdc0e49aa, 0xde8ec4eb, 0xc52e59dc]"
    by (simp add: rotr_def Let_def)
  have n50: "sha256_next
      [0xb657cbf5, 0x2b7d4ebe, 0xbfcbff1f, 0xe638f8ce, 0x7c774aca, 0x2235e043, 0x9e75895a,
      0xc9e5846b, 0xf15cc898, 0x4469a26b, 0xf17b4586, 0xe64e36f8, 0xc4cb6cf1, 0xc0c190ed,
      0xe88595f0, 0x8f7ece3c] =
      0x9dd4902c"
    by (simp add: rotr_def Let_def sha256_next_def)
  have r51: "sha256_round [0xca87d8bf, 0xb81debe0, 0xe38485dd, 0x236e7990, 0xce243c69, 0xdc0e49aa, 0xde8ec4eb, 0xc52e59dc]
      0x34b0bcb5 0x2b7d4ebe =
      [0x4ccdb5c2, 0xca87d8bf, 0xb81debe0, 0xe38485dd, 0x5d79081a, 0xce243c69, 0xdc0e49aa, 0xde8ec4eb]"
    by (simp add: rotr_def Let_def)
  have n51: "sha256_next
      [0x2b7d4ebe, 0xbfcbff1f, 0xe638f8ce, 0x7c774aca, 0x2235e043, 0x9e75895a, 0xc9e5846b,
      0xf15cc898, 0x4469a26b, 0xf17b4586, 0xe64e36f8, 0xc4cb6cf1, 0xc0c190ed, 0xe88595f0,
      0x8f7ece3c, 0x9dd4902c] =
      0xb333a616"
    by (simp add: rotr_def Let_def sha256_next_def)
  have r52: "sha256_round [0x4ccdb5c2, 0xca87d8bf, 0xb81debe0, 0xe38485dd, 0x5d79081a, 0xce243c69, 0xdc0e49aa, 0xde8ec4eb]
      0x391c0cb3 0xbfcbff1f =
      [0x4edb5ca4, 0x4ccdb5c2, 0xca87d8bf, 0xb81debe0, 0x5ddbe671, 0x5d79081a, 0xce243c69, 0xdc0e49aa]"
    by (simp add: rotr_def Let_def)
  have n52: "sha256_next
      [0xbfcbff1f, 0xe638f8ce, 0x7c774aca, 0x2235e043, 0x9e75895a, 0xc9e5846b, 0xf15cc898,
      0x4469a26b, 0xf17b4586, 0xe64e36f8, 0xc4cb6cf1, 0xc0c190ed, 0xe88595f0, 0x8f7ece3c,
      0x9dd4902c, 0xb333a616] =
      0x3f87b5f1"
    by (simp add: rotr_def Let_def sha256_next_def)
  have r53: "sha256_round [0x4edb5ca4, 0x4ccdb5c2, 0xca87d8bf, 0xb81debe0, 0x5ddbe671, 0x5d79081a, 0xce243c69, 0xdc0e49aa]
      0x4ed8aa4a 0xe638f8ce =
      [0xc202fe93, 0x4edb5ca4, 0x4ccdb5c2, 0xca87d8bf, 0x8f6add05, 0x5ddbe671, 0x5d79081a, 0xce243c69]"
    by (simp add: rotr_def Let_def)
  have n53: "sha256_next
      [0xe638f8ce, 0x7c774aca, 0x2235e043, 0x9e75895a, 0xc9e5846b, 0xf15cc898, 0x4469a26b,
      0xf17b4586, 0xe64e36f8, 0xc4cb6cf1, 0xc0c190ed, 0xe88595f0, 0x8f7ece3c, 0x9dd4902c,
      0xb333a616, 0x3f87b5f1] =
      0x9cae41a6"
    by (simp add: rotr_def Let_def sha256_next_def)
  have r54: "sha256_round [0xc202fe93, 0x4edb5ca4, 0x4ccdb5c2, 0xca87d8bf, 0x8f6add05, 0x5ddbe671, 0x5d79081a, 0xce243c69]
      0x5b9cca4f 0x7c774aca =
      [0x6627b7c2, 0xc202fe93, 0x4edb5ca4, 0x4ccdb5c2, 0xd1feb344, 0x8f6add05, 0x5ddbe671, 0x5d79081a]"
    by (simp add: rotr_def Let_def)
  have n54: "sha256_next
      [0x7c774aca, 0x2235e043, 0x9e75895a, 0xc9e5846b, 0xf15cc898, 0x4469a26b, 0xf17b4586,
      0xe64e36f8, 0xc4cb6cf1, 0xc0c190ed, 0xe88595f0, 0x8f7ece3c, 0x9dd4902c, 0xb333a616,
      0x3f87b5f1, 0x9cae41a6] =
      0x639454da"
    by (simp add: rotr_def Let_def sha256_next_def)
  have r55: "sha256_round [0x6627b7c2, 0xc202fe93, 0x4edb5ca4, 0x4ccdb5c2, 0xd1feb344, 0x8f6add05, 0x5ddbe671, 0x5d79081a]
      0x682e6ff3 0x2235e043 =
      [0xf91768cf, 0x6627b7c2, 0xc202fe93, 0x4edb5ca4, 0x469b4aba, 0xd1feb344, 0x8f6add05, 0x5ddbe671]"
    by (simp add: rotr_def Let_def)
  have n55: "sha256_next
      [0x2235e043, 0x9e75895a, 0xc9e5846b, 0xf15cc898, 0x4469a26b, 0xf17b4586, 0xe64e36f8,
      0xc4cb6cf1, 0xc0c190ed, 0xe88595f0, 0x8f7ece3c, 0x9dd4902c, 0xb333a616, 0x3f87b5f1,
      0x9cae41a6, 0x639454da] =
      0xb8212a29"
    by (simp add: rotr_def Let_def sha256_next_def)
  have r56: "sha256_round [0xf91768cf, 0x6627b7c2, 0xc202fe93, 0x4edb5ca4, 0x469b4aba, 0xd1feb344, 0x8f6add05, 0x5ddbe671]
      0x748f82ee 0x9e75895a =
      [0xf674994d, 0xf91768cf, 0x6627b7c2, 0xc202fe93, 0x7daec9c2, 0x469b4aba, 0xd1feb344, 0x8f6add05]"
    by (simp add: rotr_def Let_def)
  have n56: "sha256_next
      [0x9e75895a, 0xc9e5846b, 0xf15cc898, 0x4469a26b, 0xf17b4586, 0xe64e36f8, 0xc4cb6cf1,
      0xc0c190ed, 0xe88595f0, 0x8f7ece3c, 0x9dd4902c, 0xb333a616, 0x3f87b5f1, 0x9cae41a6,
      0x639454da, 0xb8212a29] =
      0x7e987a3f"
    by (simp add: rotr_def Let_def sha256_next_def)
  have r57: "sha256_round [0xf674994d, 0xf91768cf, 0x6627b7c2, 0xc202fe93, 0x7daec9c2, 0x469b4aba, 0xd1feb344, 0x8f6add05]
      0x78a5636f 0xc9e5846b =
      [0xd97d8b22, 0xf674994d, 0xf91768cf, 0x6627b7c2, 0x3fb12db8, 0x7daec9c2, 0x469b4aba, 0xd1feb344]"
    by (simp add: rotr_def Let_def)
  have n57: "sha256_next
      [0xc9e5846b, 0xf15cc898, 0x4469a26b, 0xf17b4586, 0xe64e36f8, 0xc4cb6cf1, 0xc0c190ed,
      0xe88595f0, 0x8f7ece3c, 0x9dd4902c, 0xb333a616, 0x3f87b5f1, 0x9cae41a6, 0x639454da,
      0xb8212a29, 0x7e987a3f] =
      0x362914ca"
    by (simp add: rotr_def Let_def sha256_next_def)
  have r58: "sha256_round [0xd97d8b22, 0xf674994d, 0xf91768cf, 0x6627b7c2, 0x3fb12db8, 0x7daec9c2, 0x469b4aba, 0xd1feb344]
      0x84c87814 0xf15cc898 =
      [0x6818d98e, 0xd97d8b22, 0xf674994d, 0xf91768cf, 0xbb65e5c0, 0x3fb12db8, 0x7daec9c2, 0x469b4aba]"
    by (simp add: rotr_def Let_def)
  have n58: "sha256_next
      [0xf15cc898, 0x4469a26b, 0xf17b4586, 0xe64e36f8, 0xc4cb6cf1, 0xc0c190ed, 0xe88595f0,
      0x8f7ece3c, 0x9dd4902c, 0xb333a616, 0x3f87b5f1, 0x9cae41a6, 0x639454da, 0xb8212a29,
      0x7e987a3f, 0x362914ca] =
      0x8d779b42"
    by (simp add: rotr_def Let_def sha256_next_def)
  have r59: "sha256_round [0x6818d98e, 0xd97d8b22, 0xf674994d, 0xf91768cf, 0xbb65e5c0, 0x3fb12db8, 0x7daec9c2, 0x469b4aba]
      0x8cc70208 0x4469a26b =
      [0xcd0f2038, 0x6818d98e, 0xd97d8b22, 0xf674994d, 0x9896a0f4, 0xbb65e5c0, 0x3fb12db8, 0x7daec9c2]"
    by (simp add: rotr_def Let_def)
  have n59: "sha256_next
      [0x4469a26b, 0xf17b4586, 0xe64e36f8, 0xc4cb6cf1, 0xc0c190ed, 0xe88595f0, 0x8f7ece3c,
      0x9dd4902c, 0xb333a616, 0x3f87b5f1, 0x9cae41a6, 0x639454da, 0xb8212a29, 0x7e987a3f,
      0x362914ca, 0x8d779b42] =
      0xef8f5255"
    by (simp add: rotr_def Let_def sha256_next_def)
  have r60: "sha256_round [0xcd0f2038, 0x6818d98e, 0xd97d8b22, 0xf674994d, 0x9896a0f4, 0xbb65e5c0, 0x3fb12db8, 0x7daec9c2]
      0x90befffa 0xf17b4586 =
      [0x1dd2bb92, 0xcd0f2038, 0x6818d98e, 0xd97d8b22, 0x3d248872, 0x9896a0f4, 0xbb65e5c0, 0x3fb12db8]"
    by (simp add: rotr_def Let_def)
  have n60: "sha256_next
      [0xf17b4586, 0xe64e36f8, 0xc4cb6cf1, 0xc0c190ed, 0xe88595f0, 0x8f7ece3c, 0x9dd4902c,
      0xb333a616, 0x3f87b5f1, 0x9cae41a6, 0x639454da, 0xb8212a29, 0x7e987a3f, 0x362914ca,
      0x8d779b42, 0xef8f5255] =
      0x2dcf3540"
    by (simp add: rotr_def Let_def sha256_next_def)
  have r61: "sha256_round [0x1dd2bb92, 0xcd0f2038, 0x6818d98e, 0xd97d8b22, 0x3d248872, 0x9896a0f4, 0xbb65e5c0, 0x3fb12db8]
      0xa4506ceb 0xe64e36f8 =
      [0x17b188d9, 0x1dd2bb92, 0xcd0f2038, 0x6818d98e, 0x930a525b, 0x3d248872, 0x9896a0f4, 0xbb65e5c0]"
    by (simp add: rotr_def Let_def)
  have n61: "sha256_next
      [0xe64e36f8, 0xc4cb6cf1, 0xc0c190ed, 0xe88595f0, 0x8f7ece3c, 0x9dd4902c, 0xb333a616,
      0x3f87b5f1, 0x9cae41a6, 0x639454da, 0xb8212a29, 0x7e987a3f, 0x362914ca, 0x8d779b42,
      0xef8f5255, 0x2dcf3540] =
      0xad6ac029"
    by (simp add: rotr_def Let_def sha256_next_def)
  have r62: "sha256_round [0x17b188d9, 0x1dd2bb92, 0xcd0f2038, 0x6818d98e, 0x930a525b, 0x3d248872, 0x9896a0f4, 0xbb65e5c0]
      0xbef9a3f7 0xc4cb6cf1 =
      [0xdb7261e4, 0x17b188d9, 0x1dd2bb92, 0xcd0f2038, 0x60efd6f6, 0x930a525b, 0x3d248872, 0x9896a0f4]"
    by (simp add: rotr_def Let_def)
  have n62: "sha256_next
      [0xc4cb6cf1, 0xc0c190ed, 0xe88595f0, 0x8f7ece3c, 0x9dd4902c, 0xb333a616, 0x3f87b5f1,
      0x9cae41a6, 0x639454da, 0xb8212a29, 0x7e987a3f, 0x362914ca, 0x8d779b42, 0xef8f5255,
      0x2dcf3540, 0xad6ac029] =
      0xa092b8b9"
    by (simp add: rotr_def Let_def sha256_next_def)
  have r63: "sha256_round [0xdb7261e4, 0x17b188d9, 0x1dd2bb92, 0xcd0f2038, 0x60efd6f6, 0x930a525b, 0x3d248872, 0x9896a0f4]
      0xc67178f2 0xc0c190ed =
      [0xbde9590d, 0xdb7261e4, 0x17b188d9, 0x1dd2bb92, 0x7a87feee, 0x60efd6f6, 0x930a525b, 0x3d248872]"
    by (simp add: rotr_def Let_def)
  have n63: "sha256_next
      [0xc0c190ed, 0xe88595f0, 0x8f7ece3c, 0x9dd4902c, 0xb333a616, 0x3f87b5f1, 0x9cae41a6,
      0x639454da, 0xb8212a29, 0x7e987a3f, 0x362914ca, 0x8d779b42, 0xef8f5255, 0x2dcf3540,
      0xad6ac029, 0xa092b8b9] =
      0x11524888"
    by (simp add: rotr_def Let_def sha256_next_def)
  have rounds: "sha256_rounds sha256_K
     [0x6a09e667, 0xbb67ae85, 0x3c6ef372, 0xa54ff53a, 0x510e527f, 0x9b05688c, 0x1f83d9ab, 0x5be0cd19]
     [0x478cf794, 0xda0e0531, 0xf4117344, 0x277d77d0, 0x86259043, 0xf037b6d6, 0x7f63b132,
      0xa08bfc27, 0x62617280, 0x00000000, 0x00000000, 0x00000000, 0x00000000, 0x00000000,
      0x00000000, 0x00000118] =
     [0xbde9590d, 0xdb7261e4, 0x17b188d9, 0x1dd2bb92, 0x7a87feee, 0x60efd6f6, 0x930a525b, 0x3d248872]"
    by (simp only: sha256_K_def sha256_rounds.simps list.sel append.simps
      r0 n0 r1 n1 r2 n2 r3 n3 r4 n4 r5 n5 r6 n6 r7 n7 r8 n8 r9 n9 r10 n10 r11
      n11 r12 n12 r13 n13 r14 n14 r15 n15 r16 n16 r17 n17 r18 n18 r19 n19 r20
      n20 r21 n21 r22 n22 r23 n23 r24 n24 r25 n25 r26 n26 r27 n27 r28 n28 r29
      n29 r30 n30 r31 n31 r32 n32 r33 n33 r34 n34 r35 n35 r36 n36 r37 n37 r38
      n38 r39 n39 r40 n40 r41 n41 r42 n42 r43 n43 r44 n44 r45 n45 r46 n46 r47
      n47 r48 n48 r49 n49 r50 n50 r51 n51 r52 n52 r53 n53 r54 n54 r55 n55 r56
      n56 r57 n57 r58 n58 r59 n59 r60 n60 r61 n61 r62 n62 r63 n63)
  show ?thesis
    by (simp add: sha256_def block blocks_of.simps sha256_compress_def rounds sha256_H0_def be32_def)
qed

lemma sha256_policy_mixed_step3:
  "sha256
     [0x27, 0xf3, 0x3f, 0x74, 0x96, 0xda, 0x10, 0x69, 0x54, 0x20, 0x7c, 0x4b, 0xc3, 0x22, 0xb0,
      0xcc, 0xcb, 0x96, 0x51, 0x6d, 0xfb, 0xf5, 0x3f, 0x82, 0xb2, 0x8e, 0x2c, 0x06, 0x99, 0x05,
      0x55, 0x8b, 0x00, 0x00, 0x01, 0x6b] =
   [0x6e, 0x89, 0x6f, 0x81, 0xd4, 0x16, 0xd6, 0xa8, 0x47, 0x69, 0x27, 0xf9, 0x68, 0xbf, 0x1e,
    0xc9, 0x31, 0x11, 0xfa, 0x5f, 0xed, 0x24, 0xd0, 0x06, 0x96, 0x80, 0x28, 0xdf, 0x5a, 0x58,
    0x01, 0xf5]"
proof -
  have block: "words_of (sha_pad
     [0x27, 0xf3, 0x3f, 0x74, 0x96, 0xda, 0x10, 0x69, 0x54, 0x20, 0x7c, 0x4b, 0xc3, 0x22, 0xb0,
      0xcc, 0xcb, 0x96, 0x51, 0x6d, 0xfb, 0xf5, 0x3f, 0x82, 0xb2, 0x8e, 0x2c, 0x06, 0x99, 0x05,
      0x55, 0x8b, 0x00, 0x00, 0x01, 0x6b]) =
     [0x27f33f74, 0x96da1069, 0x54207c4b, 0xc322b0cc, 0xcb96516d, 0xfbf53f82, 0xb28e2c06,
      0x9905558b, 0x0000016b, 0x80000000, 0x00000000, 0x00000000, 0x00000000, 0x00000000,
      0x00000000, 0x00000120]"
    by (simp add: sha_pad_def be64_of_nat_def be32_def replicate_numeral)
  have r0: "sha256_round [0x6a09e667, 0xbb67ae85, 0x3c6ef372, 0xa54ff53a, 0x510e527f, 0x9b05688c, 0x1f83d9ab, 0x5be0cd19]
      0x428a2f98 0x27f33f74 =
      [0x23fbc7c1, 0x6a09e667, 0xbb67ae85, 0x3c6ef372, 0xc0bb2216, 0x510e527f, 0x9b05688c, 0x1f83d9ab]"
    by (simp add: rotr_def Let_def)
  have n0: "sha256_next
      [0x27f33f74, 0x96da1069, 0x54207c4b, 0xc322b0cc, 0xcb96516d, 0xfbf53f82, 0xb28e2c06,
      0x9905558b, 0x0000016b, 0x80000000, 0x00000000, 0x00000000, 0x00000000, 0x00000000,
      0x00000000, 0x00000120] =
      0xeddfd30f"
    by (simp add: rotr_def Let_def sha256_next_def)
  have r1: "sha256_round [0x23fbc7c1, 0x6a09e667, 0xbb67ae85, 0x3c6ef372, 0xc0bb2216, 0x510e527f, 0x9b05688c, 0x1f83d9ab]
      0x71374491 0x96da1069 =
      [0x8c443b35, 0x23fbc7c1, 0x6a09e667, 0xbb67ae85, 0x035e5d41, 0xc0bb2216, 0x510e527f, 0x9b05688c]"
    by (simp add: rotr_def Let_def)
  have n1: "sha256_next
      [0x96da1069, 0x54207c4b, 0xc322b0cc, 0xcb96516d, 0xfbf53f82, 0xb28e2c06, 0x9905558b,
      0x0000016b, 0x80000000, 0x00000000, 0x00000000, 0x00000000, 0x00000000, 0x00000000,
      0x00000120, 0xeddfd30f] =
      0x1accaae2"
    by (simp add: rotr_def Let_def sha256_next_def)
  have r2: "sha256_round [0x8c443b35, 0x23fbc7c1, 0x6a09e667, 0xbb67ae85, 0x035e5d41, 0xc0bb2216, 0x510e527f, 0x9b05688c]
      0xb5c0fbcf 0x54207c4b =
      [0xcca03765, 0x8c443b35, 0x23fbc7c1, 0x6a09e667, 0xb36c43a8, 0x035e5d41, 0xc0bb2216, 0x510e527f]"
    by (simp add: rotr_def Let_def)
  have n2: "sha256_next
      [0x54207c4b, 0xc322b0cc, 0xcb96516d, 0xfbf53f82, 0xb28e2c06, 0x9905558b, 0x0000016b,
      0x80000000, 0x00000000, 0x00000000, 0x00000000, 0x00000000, 0x00000000, 0x00000120,
      0xeddfd30f, 0x1accaae2] =
      0x95cf1c9b"
    by (simp add: rotr_def Let_def sha256_next_def)
  have r3: "sha256_round [0xcca03765, 0x8c443b35, 0x23fbc7c1, 0x6a09e667, 0xb36c43a8, 0x035e5d41, 0xc0bb2216, 0x510e527f]
      0xe9b5dba5 0xc322b0cc =
      [0x797c8034, 0xcca03765, 0x8c443b35, 0x23fbc7c1, 0x0dca2f4c, 0xb36c43a8, 0x035e5d41, 0xc0bb2216]"
    by (simp add: rotr_def Let_def)
  have n3: "sha256_next
      [0xc322b0cc, 0xcb96516d, 0xfbf53f82, 0xb28e2c06, 0x9905558b, 0x0000016b, 0x80000000,
      0x00000000, 0x00000000, 0x00000000, 0x00000000, 0x00000000, 0x00000120, 0xeddfd30f,
      0x1accaae2, 0x95cf1c9b] =
      0xda0d424b"
    by (simp add: rotr_def Let_def sha256_next_def)
  have r4: "sha256_round [0x797c8034, 0xcca03765, 0x8c443b35, 0x23fbc7c1, 0x0dca2f4c, 0xb36c43a8, 0x035e5d41, 0xc0bb2216]
      0x3956c25b 0xcb96516d =
      [0xc0062e26, 0x797c8034, 0xcca03765, 0x8c443b35, 0x29a188a6, 0x0dca2f4c, 0xb36c43a8, 0x035e5d41]"
    by (simp add: rotr_def Let_def)
  have n4: "sha256_next
      [0xcb96516d, 0xfbf53f82, 0xb28e2c06, 0x9905558b, 0x0000016b, 0x80000000, 0x00000000,
      0x00000000, 0x00000000, 0x00000000, 0x00000000, 0x00000120, 0xeddfd30f, 0x1accaae2,
      0x95cf1c9b, 0xda0d424b] =
      0x8efc1078"
    by (simp add: rotr_def Let_def sha256_next_def)
  have r5: "sha256_round [0xc0062e26, 0x797c8034, 0xcca03765, 0x8c443b35, 0x29a188a6, 0x0dca2f4c, 0xb36c43a8, 0x035e5d41]
      0x59f111f1 0xfbf53f82 =
      [0xf36c11a3, 0xc0062e26, 0x797c8034, 0xcca03765, 0xddfd15fc, 0x29a188a6, 0x0dca2f4c, 0xb36c43a8]"
    by (simp add: rotr_def Let_def)
  have n5: "sha256_next
      [0xfbf53f82, 0xb28e2c06, 0x9905558b, 0x0000016b, 0x80000000, 0x00000000, 0x00000000,
      0x00000000, 0x00000000, 0x00000000, 0x00000120, 0xeddfd30f, 0x1accaae2, 0x95cf1c9b,
      0xda0d424b, 0x8efc1078] =
      0x9584ca14"
    by (simp add: rotr_def Let_def sha256_next_def)
  have r6: "sha256_round [0xf36c11a3, 0xc0062e26, 0x797c8034, 0xcca03765, 0xddfd15fc, 0x29a188a6, 0x0dca2f4c, 0xb36c43a8]
      0x923f82a4 0xb28e2c06 =
      [0x6731e37c, 0xf36c11a3, 0xc0062e26, 0x797c8034, 0x80e409f6, 0xddfd15fc, 0x29a188a6, 0x0dca2f4c]"
    by (simp add: rotr_def Let_def)
  have n6: "sha256_next
      [0xb28e2c06, 0x9905558b, 0x0000016b, 0x80000000, 0x00000000, 0x00000000, 0x00000000,
      0x00000000, 0x00000000, 0x00000120, 0xeddfd30f, 0x1accaae2, 0x95cf1c9b, 0xda0d424b,
      0x8efc1078, 0x9584ca14] =
      0x8e0f5d26"
    by (simp add: rotr_def Let_def sha256_next_def)
  have r7: "sha256_round [0x6731e37c, 0xf36c11a3, 0xc0062e26, 0x797c8034, 0x80e409f6, 0xddfd15fc, 0x29a188a6, 0x0dca2f4c]
      0xab1c5ed5 0x9905558b =
      [0x3b6fb178, 0x6731e37c, 0xf36c11a3, 0xc0062e26, 0x0c255dba, 0x80e409f6, 0xddfd15fc, 0x29a188a6]"
    by (simp add: rotr_def Let_def)
  have n7: "sha256_next
      [0x9905558b, 0x0000016b, 0x80000000, 0x00000000, 0x00000000, 0x00000000, 0x00000000,
      0x00000000, 0x00000120, 0xeddfd30f, 0x1accaae2, 0x95cf1c9b, 0xda0d424b, 0x8efc1078,
      0x9584ca14, 0x8e0f5d26] =
      0x59ada209"
    by (simp add: rotr_def Let_def sha256_next_def)
  have r8: "sha256_round [0x3b6fb178, 0x6731e37c, 0xf36c11a3, 0xc0062e26, 0x0c255dba, 0x80e409f6, 0xddfd15fc, 0x29a188a6]
      0xd807aa98 0x0000016b =
      [0xd0d294c0, 0x3b6fb178, 0x6731e37c, 0xf36c11a3, 0xe18b39a0, 0x0c255dba, 0x80e409f6, 0xddfd15fc]"
    by (simp add: rotr_def Let_def)
  have n8: "sha256_next
      [0x0000016b, 0x80000000, 0x00000000, 0x00000000, 0x00000000, 0x00000000, 0x00000000,
      0x00000120, 0xeddfd30f, 0x1accaae2, 0x95cf1c9b, 0xda0d424b, 0x8efc1078, 0x9584ca14,
      0x8e0f5d26, 0x59ada209] =
      0x70e0e15e"
    by (simp add: rotr_def Let_def sha256_next_def)
  have r9: "sha256_round [0xd0d294c0, 0x3b6fb178, 0x6731e37c, 0xf36c11a3, 0xe18b39a0, 0x0c255dba, 0x80e409f6, 0xddfd15fc]
      0x12835b01 0x80000000 =
      [0x2ec12b43, 0xd0d294c0, 0x3b6fb178, 0x6731e37c, 0xd6586a87, 0xe18b39a0, 0x0c255dba, 0x80e409f6]"
    by (simp add: rotr_def Let_def)
  have n9: "sha256_next
      [0x80000000, 0x00000000, 0x00000000, 0x00000000, 0x00000000, 0x00000000, 0x00000120,
      0xeddfd30f, 0x1accaae2, 0x95cf1c9b, 0xda0d424b, 0x8efc1078, 0x9584ca14, 0x8e0f5d26,
      0x59ada209, 0x70e0e15e] =
      0x7b230926"
    by (simp add: rotr_def Let_def sha256_next_def)
  have r10: "sha256_round [0x2ec12b43, 0xd0d294c0, 0x3b6fb178, 0x6731e37c, 0xd6586a87, 0xe18b39a0, 0x0c255dba, 0x80e409f6]
      0x243185be 0x00000000 =
      [0xa0a1985a, 0x2ec12b43, 0xd0d294c0, 0x3b6fb178, 0x380b9a34, 0xd6586a87, 0xe18b39a0, 0x0c255dba]"
    by (simp add: rotr_def Let_def)
  have n10: "sha256_next
      [0x00000000, 0x00000000, 0x00000000, 0x00000000, 0x00000000, 0x00000120, 0xeddfd30f,
      0x1accaae2, 0x95cf1c9b, 0xda0d424b, 0x8efc1078, 0x9584ca14, 0x8e0f5d26, 0x59ada209,
      0x70e0e15e, 0x7b230926] =
      0x46a6109f"
    by (simp add: rotr_def Let_def sha256_next_def)
  have r11: "sha256_round [0xa0a1985a, 0x2ec12b43, 0xd0d294c0, 0x3b6fb178, 0x380b9a34, 0xd6586a87, 0xe18b39a0, 0x0c255dba]
      0x550c7dc3 0x00000000 =
      [0x53c1dde2, 0xa0a1985a, 0x2ec12b43, 0xd0d294c0, 0x01d3ed80, 0x380b9a34, 0xd6586a87, 0xe18b39a0]"
    by (simp add: rotr_def Let_def)
  have n11: "sha256_next
      [0x00000000, 0x00000000, 0x00000000, 0x00000000, 0x00000120, 0xeddfd30f, 0x1accaae2,
      0x95cf1c9b, 0xda0d424b, 0x8efc1078, 0x9584ca14, 0x8e0f5d26, 0x59ada209, 0x70e0e15e,
      0x7b230926, 0x46a6109f] =
      0x74a54aaf"
    by (simp add: rotr_def Let_def sha256_next_def)
  have r12: "sha256_round [0x53c1dde2, 0xa0a1985a, 0x2ec12b43, 0xd0d294c0, 0x01d3ed80, 0x380b9a34, 0xd6586a87, 0xe18b39a0]
      0x72be5d74 0x00000000 =
      [0x239dd061, 0x53c1dde2, 0xa0a1985a, 0x2ec12b43, 0x55196ba6, 0x01d3ed80, 0x380b9a34, 0xd6586a87]"
    by (simp add: rotr_def Let_def)
  have n12: "sha256_next
      [0x00000000, 0x00000000, 0x00000000, 0x00000120, 0xeddfd30f, 0x1accaae2, 0x95cf1c9b,
      0xda0d424b, 0x8efc1078, 0x9584ca14, 0x8e0f5d26, 0x59ada209, 0x70e0e15e, 0x7b230926,
      0x46a6109f, 0x74a54aaf] =
      0x5fd2ac17"
    by (simp add: rotr_def Let_def sha256_next_def)
  have r13: "sha256_round [0x239dd061, 0x53c1dde2, 0xa0a1985a, 0x2ec12b43, 0x55196ba6, 0x01d3ed80, 0x380b9a34, 0xd6586a87]
      0x80deb1fe 0x00000000 =
      [0xc1a7f098, 0x239dd061, 0x53c1dde2, 0xa0a1985a, 0x10375701, 0x55196ba6, 0x01d3ed80, 0x380b9a34]"
    by (simp add: rotr_def Let_def)
  have n13: "sha256_next
      [0x00000000, 0x00000000, 0x00000120, 0xeddfd30f, 0x1accaae2, 0x95cf1c9b, 0xda0d424b,
      0x8efc1078, 0x9584ca14, 0x8e0f5d26, 0x59ada209, 0x70e0e15e, 0x7b230926, 0x46a6109f,
      0x74a54aaf, 0x5fd2ac17] =
      0x9a2edaba"
    by (simp add: rotr_def Let_def sha256_next_def)
  have r14: "sha256_round [0xc1a7f098, 0x239dd061, 0x53c1dde2, 0xa0a1985a, 0x10375701, 0x55196ba6, 0x01d3ed80, 0x380b9a34]
      0x9bdc06a7 0x00000000 =
      [0x54764a98, 0xc1a7f098, 0x239dd061, 0x53c1dde2, 0x86247ff3, 0x10375701, 0x55196ba6, 0x01d3ed80]"
    by (simp add: rotr_def Let_def)
  have n14: "sha256_next
      [0x00000000, 0x00000120, 0xeddfd30f, 0x1accaae2, 0x95cf1c9b, 0xda0d424b, 0x8efc1078,
      0x9584ca14, 0x8e0f5d26, 0x59ada209, 0x70e0e15e, 0x7b230926, 0x46a6109f, 0x74a54aaf,
      0x5fd2ac17, 0x9a2edaba] =
      0x9d9452e7"
    by (simp add: rotr_def Let_def sha256_next_def)
  have r15: "sha256_round [0x54764a98, 0xc1a7f098, 0x239dd061, 0x53c1dde2, 0x86247ff3, 0x10375701, 0x55196ba6, 0x01d3ed80]
      0xc19bf174 0x00000120 =
      [0x11b204a9, 0x54764a98, 0xc1a7f098, 0x239dd061, 0x8ac6c1ae, 0x86247ff3, 0x10375701, 0x55196ba6]"
    by (simp add: rotr_def Let_def)
  have n15: "sha256_next
      [0x00000120, 0xeddfd30f, 0x1accaae2, 0x95cf1c9b, 0xda0d424b, 0x8efc1078, 0x9584ca14,
      0x8e0f5d26, 0x59ada209, 0x70e0e15e, 0x7b230926, 0x46a6109f, 0x74a54aaf, 0x5fd2ac17,
      0x9a2edaba, 0x9d9452e7] =
      0x1db13712"
    by (simp add: rotr_def Let_def sha256_next_def)
  have r16: "sha256_round [0x11b204a9, 0x54764a98, 0xc1a7f098, 0x239dd061, 0x8ac6c1ae, 0x86247ff3, 0x10375701, 0x55196ba6]
      0xe49b69c1 0xeddfd30f =
      [0xa1517e48, 0x11b204a9, 0x54764a98, 0xc1a7f098, 0xca026515, 0x8ac6c1ae, 0x86247ff3, 0x10375701]"
    by (simp add: rotr_def Let_def)
  have n16: "sha256_next
      [0xeddfd30f, 0x1accaae2, 0x95cf1c9b, 0xda0d424b, 0x8efc1078, 0x9584ca14, 0x8e0f5d26,
      0x59ada209, 0x70e0e15e, 0x7b230926, 0x46a6109f, 0x74a54aaf, 0x5fd2ac17, 0x9a2edaba,
      0x9d9452e7, 0x1db13712] =
      0xf9dfbf5b"
    by (simp add: rotr_def Let_def sha256_next_def)
  have r17: "sha256_round [0xa1517e48, 0x11b204a9, 0x54764a98, 0xc1a7f098, 0xca026515, 0x8ac6c1ae, 0x86247ff3, 0x10375701]
      0xefbe4786 0x1accaae2 =
      [0x4ee72eb0, 0xa1517e48, 0x11b204a9, 0x54764a98, 0x5f345924, 0xca026515, 0x8ac6c1ae, 0x86247ff3]"
    by (simp add: rotr_def Let_def)
  have n17: "sha256_next
      [0x1accaae2, 0x95cf1c9b, 0xda0d424b, 0x8efc1078, 0x9584ca14, 0x8e0f5d26, 0x59ada209,
      0x70e0e15e, 0x7b230926, 0x46a6109f, 0x74a54aaf, 0x5fd2ac17, 0x9a2edaba, 0x9d9452e7,
      0x1db13712, 0xf9dfbf5b] =
      0x0193757d"
    by (simp add: rotr_def Let_def sha256_next_def)
  have r18: "sha256_round [0x4ee72eb0, 0xa1517e48, 0x11b204a9, 0x54764a98, 0x5f345924, 0xca026515, 0x8ac6c1ae, 0x86247ff3]
      0x0fc19dc6 0x95cf1c9b =
      [0x22c84df8, 0x4ee72eb0, 0xa1517e48, 0x11b204a9, 0x7ac9ec3a, 0x5f345924, 0xca026515, 0x8ac6c1ae]"
    by (simp add: rotr_def Let_def)
  have n18: "sha256_next
      [0x95cf1c9b, 0xda0d424b, 0x8efc1078, 0x9584ca14, 0x8e0f5d26, 0x59ada209, 0x70e0e15e,
      0x7b230926, 0x46a6109f, 0x74a54aaf, 0x5fd2ac17, 0x9a2edaba, 0x9d9452e7, 0x1db13712,
      0xf9dfbf5b, 0x0193757d] =
      0x0f549fd3"
    by (simp add: rotr_def Let_def sha256_next_def)
  have r19: "sha256_round [0x22c84df8, 0x4ee72eb0, 0xa1517e48, 0x11b204a9, 0x7ac9ec3a, 0x5f345924, 0xca026515, 0x8ac6c1ae]
      0x240ca1cc 0xda0d424b =
      [0xd63ba749, 0x22c84df8, 0x4ee72eb0, 0xa1517e48, 0x7ee75743, 0x7ac9ec3a, 0x5f345924, 0xca026515]"
    by (simp add: rotr_def Let_def)
  have n19: "sha256_next
      [0xda0d424b, 0x8efc1078, 0x9584ca14, 0x8e0f5d26, 0x59ada209, 0x70e0e15e, 0x7b230926,
      0x46a6109f, 0x74a54aaf, 0x5fd2ac17, 0x9a2edaba, 0x9d9452e7, 0x1db13712, 0xf9dfbf5b,
      0x0193757d, 0x0f549fd3] =
      0xf2cd8c18"
    by (simp add: rotr_def Let_def sha256_next_def)
  have r20: "sha256_round [0xd63ba749, 0x22c84df8, 0x4ee72eb0, 0xa1517e48, 0x7ee75743, 0x7ac9ec3a, 0x5f345924, 0xca026515]
      0x2de92c6f 0x8efc1078 =
      [0x81417d79, 0xd63ba749, 0x22c84df8, 0x4ee72eb0, 0x3a4a4c72, 0x7ee75743, 0x7ac9ec3a, 0x5f345924]"
    by (simp add: rotr_def Let_def)
  have n20: "sha256_next
      [0x8efc1078, 0x9584ca14, 0x8e0f5d26, 0x59ada209, 0x70e0e15e, 0x7b230926, 0x46a6109f,
      0x74a54aaf, 0x5fd2ac17, 0x9a2edaba, 0x9d9452e7, 0x1db13712, 0xf9dfbf5b, 0x0193757d,
      0x0f549fd3, 0xf2cd8c18] =
      0x0e59d450"
    by (simp add: rotr_def Let_def sha256_next_def)
  have r21: "sha256_round [0x81417d79, 0xd63ba749, 0x22c84df8, 0x4ee72eb0, 0x3a4a4c72, 0x7ee75743, 0x7ac9ec3a, 0x5f345924]
      0x4a7484aa 0x9584ca14 =
      [0x2e2d065a, 0x81417d79, 0xd63ba749, 0x22c84df8, 0x6c611441, 0x3a4a4c72, 0x7ee75743, 0x7ac9ec3a]"
    by (simp add: rotr_def Let_def)
  have n21: "sha256_next
      [0x9584ca14, 0x8e0f5d26, 0x59ada209, 0x70e0e15e, 0x7b230926, 0x46a6109f, 0x74a54aaf,
      0x5fd2ac17, 0x9a2edaba, 0x9d9452e7, 0x1db13712, 0xf9dfbf5b, 0x0193757d, 0x0f549fd3,
      0xf2cd8c18, 0x0e59d450] =
      0x366147f4"
    by (simp add: rotr_def Let_def sha256_next_def)
  have r22: "sha256_round [0x2e2d065a, 0x81417d79, 0xd63ba749, 0x22c84df8, 0x6c611441, 0x3a4a4c72, 0x7ee75743, 0x7ac9ec3a]
      0x5cb0a9dc 0x8e0f5d26 =
      [0xf0d2e2e2, 0x2e2d065a, 0x81417d79, 0xd63ba749, 0x802eb13b, 0x6c611441, 0x3a4a4c72, 0x7ee75743]"
    by (simp add: rotr_def Let_def)
  have n22: "sha256_next
      [0x8e0f5d26, 0x59ada209, 0x70e0e15e, 0x7b230926, 0x46a6109f, 0x74a54aaf, 0x5fd2ac17,
      0x9a2edaba, 0x9d9452e7, 0x1db13712, 0xf9dfbf5b, 0x0193757d, 0x0f549fd3, 0xf2cd8c18,
      0x0e59d450, 0x366147f4] =
      0xed66de38"
    by (simp add: rotr_def Let_def sha256_next_def)
  have r23: "sha256_round [0xf0d2e2e2, 0x2e2d065a, 0x81417d79, 0xd63ba749, 0x802eb13b, 0x6c611441, 0x3a4a4c72, 0x7ee75743]
      0x76f988da 0x59ada209 =
      [0xe9011d9f, 0xf0d2e2e2, 0x2e2d065a, 0x81417d79, 0x3e52a882, 0x802eb13b, 0x6c611441, 0x3a4a4c72]"
    by (simp add: rotr_def Let_def)
  have n23: "sha256_next
      [0x59ada209, 0x70e0e15e, 0x7b230926, 0x46a6109f, 0x74a54aaf, 0x5fd2ac17, 0x9a2edaba,
      0x9d9452e7, 0x1db13712, 0xf9dfbf5b, 0x0193757d, 0x0f549fd3, 0xf2cd8c18, 0x0e59d450,
      0x366147f4, 0xed66de38] =
      0x6940a8e2"
    by (simp add: rotr_def Let_def sha256_next_def)
  have r24: "sha256_round [0xe9011d9f, 0xf0d2e2e2, 0x2e2d065a, 0x81417d79, 0x3e52a882, 0x802eb13b, 0x6c611441, 0x3a4a4c72]
      0x983e5152 0x70e0e15e =
      [0xb0426cf2, 0xe9011d9f, 0xf0d2e2e2, 0x2e2d065a, 0x36b972c6, 0x3e52a882, 0x802eb13b, 0x6c611441]"
    by (simp add: rotr_def Let_def)
  have n24: "sha256_next
      [0x70e0e15e, 0x7b230926, 0x46a6109f, 0x74a54aaf, 0x5fd2ac17, 0x9a2edaba, 0x9d9452e7,
      0x1db13712, 0xf9dfbf5b, 0x0193757d, 0x0f549fd3, 0xf2cd8c18, 0x0e59d450, 0x366147f4,
      0xed66de38, 0x6940a8e2] =
      0xa9304381"
    by (simp add: rotr_def Let_def sha256_next_def)
  have r25: "sha256_round [0xb0426cf2, 0xe9011d9f, 0xf0d2e2e2, 0x2e2d065a, 0x36b972c6, 0x3e52a882, 0x802eb13b, 0x6c611441]
      0xa831c66d 0x7b230926 =
      [0x14eb186d, 0xb0426cf2, 0xe9011d9f, 0xf0d2e2e2, 0x909edde7, 0x36b972c6, 0x3e52a882, 0x802eb13b]"
    by (simp add: rotr_def Let_def)
  have n25: "sha256_next
      [0x7b230926, 0x46a6109f, 0x74a54aaf, 0x5fd2ac17, 0x9a2edaba, 0x9d9452e7, 0x1db13712,
      0xf9dfbf5b, 0x0193757d, 0x0f549fd3, 0xf2cd8c18, 0x0e59d450, 0x366147f4, 0xed66de38,
      0x6940a8e2, 0xa9304381] =
      0x7e6d3236"
    by (simp add: rotr_def Let_def sha256_next_def)
  have r26: "sha256_round [0x14eb186d, 0xb0426cf2, 0xe9011d9f, 0xf0d2e2e2, 0x909edde7, 0x36b972c6, 0x3e52a882, 0x802eb13b]
      0xb00327c8 0x46a6109f =
      [0xfe05e7db, 0x14eb186d, 0xb0426cf2, 0xe9011d9f, 0x1461d8ae, 0x909edde7, 0x36b972c6, 0x3e52a882]"
    by (simp add: rotr_def Let_def)
  have n26: "sha256_next
      [0x46a6109f, 0x74a54aaf, 0x5fd2ac17, 0x9a2edaba, 0x9d9452e7, 0x1db13712, 0xf9dfbf5b,
      0x0193757d, 0x0f549fd3, 0xf2cd8c18, 0x0e59d450, 0x366147f4, 0xed66de38, 0x6940a8e2,
      0xa9304381, 0x7e6d3236] =
      0x65e4894e"
    by (simp add: rotr_def Let_def sha256_next_def)
  have r27: "sha256_round [0xfe05e7db, 0x14eb186d, 0xb0426cf2, 0xe9011d9f, 0x1461d8ae, 0x909edde7, 0x36b972c6, 0x3e52a882]
      0xbf597fc7 0x74a54aaf =
      [0xcd6f1d4d, 0xfe05e7db, 0x14eb186d, 0xb0426cf2, 0x2b6ae7d0, 0x1461d8ae, 0x909edde7, 0x36b972c6]"
    by (simp add: rotr_def Let_def)
  have n27: "sha256_next
      [0x74a54aaf, 0x5fd2ac17, 0x9a2edaba, 0x9d9452e7, 0x1db13712, 0xf9dfbf5b, 0x0193757d,
      0x0f549fd3, 0xf2cd8c18, 0x0e59d450, 0x366147f4, 0xed66de38, 0x6940a8e2, 0xa9304381,
      0x7e6d3236, 0x65e4894e] =
      0x5081b1e4"
    by (simp add: rotr_def Let_def sha256_next_def)
  have r28: "sha256_round [0xcd6f1d4d, 0xfe05e7db, 0x14eb186d, 0xb0426cf2, 0x2b6ae7d0, 0x1461d8ae, 0x909edde7, 0x36b972c6]
      0xc6e00bf3 0x5fd2ac17 =
      [0xffebeab8, 0xcd6f1d4d, 0xfe05e7db, 0x14eb186d, 0xae7e9f3f, 0x2b6ae7d0, 0x1461d8ae, 0x909edde7]"
    by (simp add: rotr_def Let_def)
  have n28: "sha256_next
      [0x5fd2ac17, 0x9a2edaba, 0x9d9452e7, 0x1db13712, 0xf9dfbf5b, 0x0193757d, 0x0f549fd3,
      0xf2cd8c18, 0x0e59d450, 0x366147f4, 0xed66de38, 0x6940a8e2, 0xa9304381, 0x7e6d3236,
      0x65e4894e, 0x5081b1e4] =
      0x3caa9be0"
    by (simp add: rotr_def Let_def sha256_next_def)
  have r29: "sha256_round [0xffebeab8, 0xcd6f1d4d, 0xfe05e7db, 0x14eb186d, 0xae7e9f3f, 0x2b6ae7d0, 0x1461d8ae, 0x909edde7]
      0xd5a79147 0x9a2edaba =
      [0x25ec91d7, 0xffebeab8, 0xcd6f1d4d, 0xfe05e7db, 0x75cfd45d, 0xae7e9f3f, 0x2b6ae7d0, 0x1461d8ae]"
    by (simp add: rotr_def Let_def)
  have n29: "sha256_next
      [0x9a2edaba, 0x9d9452e7, 0x1db13712, 0xf9dfbf5b, 0x0193757d, 0x0f549fd3, 0xf2cd8c18,
      0x0e59d450, 0x366147f4, 0xed66de38, 0x6940a8e2, 0xa9304381, 0x7e6d3236, 0x65e4894e,
      0x5081b1e4, 0x3caa9be0] =
      0x3ea080ca"
    by (simp add: rotr_def Let_def sha256_next_def)
  have r30: "sha256_round [0x25ec91d7, 0xffebeab8, 0xcd6f1d4d, 0xfe05e7db, 0x75cfd45d, 0xae7e9f3f, 0x2b6ae7d0, 0x1461d8ae]
      0x06ca6351 0x9d9452e7 =
      [0xe437dff7, 0x25ec91d7, 0xffebeab8, 0xcd6f1d4d, 0xfec8d66f, 0x75cfd45d, 0xae7e9f3f, 0x2b6ae7d0]"
    by (simp add: rotr_def Let_def)
  have n30: "sha256_next
      [0x9d9452e7, 0x1db13712, 0xf9dfbf5b, 0x0193757d, 0x0f549fd3, 0xf2cd8c18, 0x0e59d450,
      0x366147f4, 0xed66de38, 0x6940a8e2, 0xa9304381, 0x7e6d3236, 0x65e4894e, 0x5081b1e4,
      0x3caa9be0, 0x3ea080ca] =
      0x8fa1f30f"
    by (simp add: rotr_def Let_def sha256_next_def)
  have r31: "sha256_round [0xe437dff7, 0x25ec91d7, 0xffebeab8, 0xcd6f1d4d, 0xfec8d66f, 0x75cfd45d, 0xae7e9f3f, 0x2b6ae7d0]
      0x14292967 0x1db13712 =
      [0xa870d92c, 0xe437dff7, 0x25ec91d7, 0xffebeab8, 0xb62310af, 0xfec8d66f, 0x75cfd45d, 0xae7e9f3f]"
    by (simp add: rotr_def Let_def)
  have n31: "sha256_next
      [0x1db13712, 0xf9dfbf5b, 0x0193757d, 0x0f549fd3, 0xf2cd8c18, 0x0e59d450, 0x366147f4,
      0xed66de38, 0x6940a8e2, 0xa9304381, 0x7e6d3236, 0x65e4894e, 0x5081b1e4, 0x3caa9be0,
      0x3ea080ca, 0x8fa1f30f] =
      0x5e742219"
    by (simp add: rotr_def Let_def sha256_next_def)
  have r32: "sha256_round [0xa870d92c, 0xe437dff7, 0x25ec91d7, 0xffebeab8, 0xb62310af, 0xfec8d66f, 0x75cfd45d, 0xae7e9f3f]
      0x27b70a85 0xf9dfbf5b =
      [0x471afefc, 0xa870d92c, 0xe437dff7, 0x25ec91d7, 0x82744851, 0xb62310af, 0xfec8d66f, 0x75cfd45d]"
    by (simp add: rotr_def Let_def)
  have n32: "sha256_next
      [0xf9dfbf5b, 0x0193757d, 0x0f549fd3, 0xf2cd8c18, 0x0e59d450, 0x366147f4, 0xed66de38,
      0x6940a8e2, 0xa9304381, 0x7e6d3236, 0x65e4894e, 0x5081b1e4, 0x3caa9be0, 0x3ea080ca,
      0x8fa1f30f, 0x5e742219] =
      0x6780d80a"
    by (simp add: rotr_def Let_def sha256_next_def)
  have r33: "sha256_round [0x471afefc, 0xa870d92c, 0xe437dff7, 0x25ec91d7, 0x82744851, 0xb62310af, 0xfec8d66f, 0x75cfd45d]
      0x2e1b2138 0x0193757d =
      [0x8c570f1a, 0x471afefc, 0xa870d92c, 0xe437dff7, 0x40314a81, 0x82744851, 0xb62310af, 0xfec8d66f]"
    by (simp add: rotr_def Let_def)
  have n33: "sha256_next
      [0x0193757d, 0x0f549fd3, 0xf2cd8c18, 0x0e59d450, 0x366147f4, 0xed66de38, 0x6940a8e2,
      0xa9304381, 0x7e6d3236, 0x65e4894e, 0x5081b1e4, 0x3caa9be0, 0x3ea080ca, 0x8fa1f30f,
      0x5e742219, 0x6780d80a] =
      0x7cd111d7"
    by (simp add: rotr_def Let_def sha256_next_def)
  have r34: "sha256_round [0x8c570f1a, 0x471afefc, 0xa870d92c, 0xe437dff7, 0x40314a81, 0x82744851, 0xb62310af, 0xfec8d66f]
      0x4d2c6dfc 0x0f549fd3 =
      [0x735a6a9b, 0x8c570f1a, 0x471afefc, 0xa870d92c, 0x4341a007, 0x40314a81, 0x82744851, 0xb62310af]"
    by (simp add: rotr_def Let_def)
  have n34: "sha256_next
      [0x0f549fd3, 0xf2cd8c18, 0x0e59d450, 0x366147f4, 0xed66de38, 0x6940a8e2, 0xa9304381,
      0x7e6d3236, 0x65e4894e, 0x5081b1e4, 0x3caa9be0, 0x3ea080ca, 0x8fa1f30f, 0x5e742219,
      0x6780d80a, 0x7cd111d7] =
      0x23ae06e5"
    by (simp add: rotr_def Let_def sha256_next_def)
  have r35: "sha256_round [0x735a6a9b, 0x8c570f1a, 0x471afefc, 0xa870d92c, 0x4341a007, 0x40314a81, 0x82744851, 0xb62310af]
      0x53380d13 0xf2cd8c18 =
      [0xa2953b92, 0x735a6a9b, 0x8c570f1a, 0x471afefc, 0x2204386c, 0x4341a007, 0x40314a81, 0x82744851]"
    by (simp add: rotr_def Let_def)
  have n35: "sha256_next
      [0xf2cd8c18, 0x0e59d450, 0x366147f4, 0xed66de38, 0x6940a8e2, 0xa9304381, 0x7e6d3236,
      0x65e4894e, 0x5081b1e4, 0x3caa9be0, 0x3ea080ca, 0x8fa1f30f, 0x5e742219, 0x6780d80a,
      0x7cd111d7, 0x23ae06e5] =
      0xaf0a1862"
    by (simp add: rotr_def Let_def sha256_next_def)
  have r36: "sha256_round [0xa2953b92, 0x735a6a9b, 0x8c570f1a, 0x471afefc, 0x2204386c, 0x4341a007, 0x40314a81, 0x82744851]
      0x650a7354 0x0e59d450 =
      [0xba4f9552, 0xa2953b92, 0x735a6a9b, 0x8c570f1a, 0x3e3557ed, 0x2204386c, 0x4341a007, 0x40314a81]"
    by (simp add: rotr_def Let_def)
  have n36: "sha256_next
      [0x0e59d450, 0x366147f4, 0xed66de38, 0x6940a8e2, 0xa9304381, 0x7e6d3236, 0x65e4894e,
      0x5081b1e4, 0x3caa9be0, 0x3ea080ca, 0x8fa1f30f, 0x5e742219, 0x6780d80a, 0x7cd111d7,
      0x23ae06e5, 0xaf0a1862] =
      0xcfff1b26"
    by (simp add: rotr_def Let_def sha256_next_def)
  have r37: "sha256_round [0xba4f9552, 0xa2953b92, 0x735a6a9b, 0x8c570f1a, 0x3e3557ed, 0x2204386c, 0x4341a007, 0x40314a81]
      0x766a0abb 0x366147f4 =
      [0x90e8ec5b, 0xba4f9552, 0xa2953b92, 0x735a6a9b, 0x308d4222, 0x3e3557ed, 0x2204386c, 0x4341a007]"
    by (simp add: rotr_def Let_def)
  have n37: "sha256_next
      [0x366147f4, 0xed66de38, 0x6940a8e2, 0xa9304381, 0x7e6d3236, 0x65e4894e, 0x5081b1e4,
      0x3caa9be0, 0x3ea080ca, 0x8fa1f30f, 0x5e742219, 0x6780d80a, 0x7cd111d7, 0x23ae06e5,
      0xaf0a1862, 0xcfff1b26] =
      0xf1122907"
    by (simp add: rotr_def Let_def sha256_next_def)
  have r38: "sha256_round [0x90e8ec5b, 0xba4f9552, 0xa2953b92, 0x735a6a9b, 0x308d4222, 0x3e3557ed, 0x2204386c, 0x4341a007]
      0x81c2c92e 0xed66de38 =
      [0x46bb86f5, 0x90e8ec5b, 0xba4f9552, 0xa2953b92, 0xe1f0622c, 0x308d4222, 0x3e3557ed, 0x2204386c]"
    by (simp add: rotr_def Let_def)
  have n38: "sha256_next
      [0xed66de38, 0x6940a8e2, 0xa9304381, 0x7e6d3236, 0x65e4894e, 0x5081b1e4, 0x3caa9be0,
      0x3ea080ca, 0x8fa1f30f, 0x5e742219, 0x6780d80a, 0x7cd111d7, 0x23ae06e5, 0xaf0a1862,
      0xcfff1b26, 0xf1122907] =
      0x9e615034"
    by (simp add: rotr_def Let_def sha256_next_def)
  have r39: "sha256_round [0x46bb86f5, 0x90e8ec5b, 0xba4f9552, 0xa2953b92, 0xe1f0622c, 0x308d4222, 0x3e3557ed, 0x2204386c]
      0x92722c85 0x6940a8e2 =
      [0x8571d576, 0x46bb86f5, 0x90e8ec5b, 0xba4f9552, 0x0cfc8b3a, 0xe1f0622c, 0x308d4222, 0x3e3557ed]"
    by (simp add: rotr_def Let_def)
  have n39: "sha256_next
      [0x6940a8e2, 0xa9304381, 0x7e6d3236, 0x65e4894e, 0x5081b1e4, 0x3caa9be0, 0x3ea080ca,
      0x8fa1f30f, 0x5e742219, 0x6780d80a, 0x7cd111d7, 0x23ae06e5, 0xaf0a1862, 0xcfff1b26,
      0xf1122907, 0x9e615034] =
      0x28f4c5c8"
    by (simp add: rotr_def Let_def sha256_next_def)
  have r40: "sha256_round [0x8571d576, 0x46bb86f5, 0x90e8ec5b, 0xba4f9552, 0x0cfc8b3a, 0xe1f0622c, 0x308d4222, 0x3e3557ed]
      0xa2bfe8a1 0xa9304381 =
      [0xff06002f, 0x8571d576, 0x46bb86f5, 0x90e8ec5b, 0x669e4c44, 0x0cfc8b3a, 0xe1f0622c, 0x308d4222]"
    by (simp add: rotr_def Let_def)
  have n40: "sha256_next
      [0xa9304381, 0x7e6d3236, 0x65e4894e, 0x5081b1e4, 0x3caa9be0, 0x3ea080ca, 0x8fa1f30f,
      0x5e742219, 0x6780d80a, 0x7cd111d7, 0x23ae06e5, 0xaf0a1862, 0xcfff1b26, 0xf1122907,
      0x9e615034, 0x28f4c5c8] =
      0xd7f97db9"
    by (simp add: rotr_def Let_def sha256_next_def)
  have r41: "sha256_round [0xff06002f, 0x8571d576, 0x46bb86f5, 0x90e8ec5b, 0x669e4c44, 0x0cfc8b3a, 0xe1f0622c, 0x308d4222]
      0xa81a664b 0x7e6d3236 =
      [0x6133d9d4, 0xff06002f, 0x8571d576, 0x46bb86f5, 0x442a79f1, 0x669e4c44, 0x0cfc8b3a, 0xe1f0622c]"
    by (simp add: rotr_def Let_def)
  have n41: "sha256_next
      [0x7e6d3236, 0x65e4894e, 0x5081b1e4, 0x3caa9be0, 0x3ea080ca, 0x8fa1f30f, 0x5e742219,
      0x6780d80a, 0x7cd111d7, 0x23ae06e5, 0xaf0a1862, 0xcfff1b26, 0xf1122907, 0x9e615034,
      0x28f4c5c8, 0xd7f97db9] =
      0x4e9726b2"
    by (simp add: rotr_def Let_def sha256_next_def)
  have r42: "sha256_round [0x6133d9d4, 0xff06002f, 0x8571d576, 0x46bb86f5, 0x442a79f1, 0x669e4c44, 0x0cfc8b3a, 0xe1f0622c]
      0xc24b8b70 0x65e4894e =
      [0x43c09523, 0x6133d9d4, 0xff06002f, 0x8571d576, 0x8bbf9c33, 0x442a79f1, 0x669e4c44, 0x0cfc8b3a]"
    by (simp add: rotr_def Let_def)
  have n42: "sha256_next
      [0x65e4894e, 0x5081b1e4, 0x3caa9be0, 0x3ea080ca, 0x8fa1f30f, 0x5e742219, 0x6780d80a,
      0x7cd111d7, 0x23ae06e5, 0xaf0a1862, 0xcfff1b26, 0xf1122907, 0x9e615034, 0x28f4c5c8,
      0xd7f97db9, 0x4e9726b2] =
      0x5514f28b"
    by (simp add: rotr_def Let_def sha256_next_def)
  have r43: "sha256_round [0x43c09523, 0x6133d9d4, 0xff06002f, 0x8571d576, 0x8bbf9c33, 0x442a79f1, 0x669e4c44, 0x0cfc8b3a]
      0xc76c51a3 0x5081b1e4 =
      [0xff67bee6, 0x43c09523, 0x6133d9d4, 0xff06002f, 0xa6184cf2, 0x8bbf9c33, 0x442a79f1, 0x669e4c44]"
    by (simp add: rotr_def Let_def)
  have n43: "sha256_next
      [0x5081b1e4, 0x3caa9be0, 0x3ea080ca, 0x8fa1f30f, 0x5e742219, 0x6780d80a, 0x7cd111d7,
      0x23ae06e5, 0xaf0a1862, 0xcfff1b26, 0xf1122907, 0x9e615034, 0x28f4c5c8, 0xd7f97db9,
      0x4e9726b2, 0x5514f28b] =
      0xf931a1bb"
    by (simp add: rotr_def Let_def sha256_next_def)
  have r44: "sha256_round [0xff67bee6, 0x43c09523, 0x6133d9d4, 0xff06002f, 0xa6184cf2, 0x8bbf9c33, 0x442a79f1, 0x669e4c44]
      0xd192e819 0x3caa9be0 =
      [0xc97a1638, 0xff67bee6, 0x43c09523, 0x6133d9d4, 0x8f06e908, 0xa6184cf2, 0x8bbf9c33, 0x442a79f1]"
    by (simp add: rotr_def Let_def)
  have n44: "sha256_next
      [0x3caa9be0, 0x3ea080ca, 0x8fa1f30f, 0x5e742219, 0x6780d80a, 0x7cd111d7, 0x23ae06e5,
      0xaf0a1862, 0xcfff1b26, 0xf1122907, 0x9e615034, 0x28f4c5c8, 0xd7f97db9, 0x4e9726b2,
      0x5514f28b, 0xf931a1bb] =
      0xc85a28ab"
    by (simp add: rotr_def Let_def sha256_next_def)
  have r45: "sha256_round [0xc97a1638, 0xff67bee6, 0x43c09523, 0x6133d9d4, 0x8f06e908, 0xa6184cf2, 0x8bbf9c33, 0x442a79f1]
      0xd6990624 0x3ea080ca =
      [0x97999fed, 0xc97a1638, 0xff67bee6, 0x43c09523, 0xc1aab624, 0x8f06e908, 0xa6184cf2, 0x8bbf9c33]"
    by (simp add: rotr_def Let_def)
  have n45: "sha256_next
      [0x3ea080ca, 0x8fa1f30f, 0x5e742219, 0x6780d80a, 0x7cd111d7, 0x23ae06e5, 0xaf0a1862,
      0xcfff1b26, 0xf1122907, 0x9e615034, 0x28f4c5c8, 0xd7f97db9, 0x4e9726b2, 0x5514f28b,
      0xf931a1bb, 0xc85a28ab] =
      0x33ff3f43"
    by (simp add: rotr_def Let_def sha256_next_def)
  have r46: "sha256_round [0x97999fed, 0xc97a1638, 0xff67bee6, 0x43c09523, 0xc1aab624, 0x8f06e908, 0xa6184cf2, 0x8bbf9c33]
      0xf40e3585 0x8fa1f30f =
      [0x15b947dc, 0x97999fed, 0xc97a1638, 0xff67bee6, 0x7d08d0aa, 0xc1aab624, 0x8f06e908, 0xa6184cf2]"
    by (simp add: rotr_def Let_def)
  have n46: "sha256_next
      [0x8fa1f30f, 0x5e742219, 0x6780d80a, 0x7cd111d7, 0x23ae06e5, 0xaf0a1862, 0xcfff1b26,
      0xf1122907, 0x9e615034, 0x28f4c5c8, 0xd7f97db9, 0x4e9726b2, 0x5514f28b, 0xf931a1bb,
      0xc85a28ab, 0x33ff3f43] =
      0x3bfd801d"
    by (simp add: rotr_def Let_def sha256_next_def)
  have r47: "sha256_round [0x15b947dc, 0x97999fed, 0xc97a1638, 0xff67bee6, 0x7d08d0aa, 0xc1aab624, 0x8f06e908, 0xa6184cf2]
      0x106aa070 0x5e742219 =
      [0x85244468, 0x15b947dc, 0x97999fed, 0xc97a1638, 0x10415ee7, 0x7d08d0aa, 0xc1aab624, 0x8f06e908]"
    by (simp add: rotr_def Let_def)
  have n47: "sha256_next
      [0x5e742219, 0x6780d80a, 0x7cd111d7, 0x23ae06e5, 0xaf0a1862, 0xcfff1b26, 0xf1122907,
      0x9e615034, 0x28f4c5c8, 0xd7f97db9, 0x4e9726b2, 0x5514f28b, 0xf931a1bb, 0xc85a28ab,
      0x33ff3f43, 0x3bfd801d] =
      0xdcf02372"
    by (simp add: rotr_def Let_def sha256_next_def)
  have r48: "sha256_round [0x85244468, 0x15b947dc, 0x97999fed, 0xc97a1638, 0x10415ee7, 0x7d08d0aa, 0xc1aab624, 0x8f06e908]
      0x19a4c116 0x6780d80a =
      [0x6ab9d3ba, 0x85244468, 0x15b947dc, 0x97999fed, 0x0b5e07da, 0x10415ee7, 0x7d08d0aa, 0xc1aab624]"
    by (simp add: rotr_def Let_def)
  have n48: "sha256_next
      [0x6780d80a, 0x7cd111d7, 0x23ae06e5, 0xaf0a1862, 0xcfff1b26, 0xf1122907, 0x9e615034,
      0x28f4c5c8, 0xd7f97db9, 0x4e9726b2, 0x5514f28b, 0xf931a1bb, 0xc85a28ab, 0x33ff3f43,
      0x3bfd801d, 0xdcf02372] =
      0x0b3223ca"
    by (simp add: rotr_def Let_def sha256_next_def)
  have r49: "sha256_round [0x6ab9d3ba, 0x85244468, 0x15b947dc, 0x97999fed, 0x0b5e07da, 0x10415ee7, 0x7d08d0aa, 0xc1aab624]
      0x1e376c08 0x7cd111d7 =
      [0xf3511a41, 0x6ab9d3ba, 0x85244468, 0x15b947dc, 0xa4fda9ac, 0x0b5e07da, 0x10415ee7, 0x7d08d0aa]"
    by (simp add: rotr_def Let_def)
  have n49: "sha256_next
      [0x7cd111d7, 0x23ae06e5, 0xaf0a1862, 0xcfff1b26, 0xf1122907, 0x9e615034, 0x28f4c5c8,
      0xd7f97db9, 0x4e9726b2, 0x5514f28b, 0xf931a1bb, 0xc85a28ab, 0x33ff3f43, 0x3bfd801d,
      0xdcf02372, 0x0b3223ca] =
      0x3751e28a"
    by (simp add: rotr_def Let_def sha256_next_def)
  have r50: "sha256_round [0xf3511a41, 0x6ab9d3ba, 0x85244468, 0x15b947dc, 0xa4fda9ac, 0x0b5e07da, 0x10415ee7, 0x7d08d0aa]
      0x2748774c 0x23ae06e5 =
      [0xa0139424, 0xf3511a41, 0x6ab9d3ba, 0x85244468, 0xe7e8adc3, 0xa4fda9ac, 0x0b5e07da, 0x10415ee7]"
    by (simp add: rotr_def Let_def)
  have n50: "sha256_next
      [0x23ae06e5, 0xaf0a1862, 0xcfff1b26, 0xf1122907, 0x9e615034, 0x28f4c5c8, 0xd7f97db9,
      0x4e9726b2, 0x5514f28b, 0xf931a1bb, 0xc85a28ab, 0x33ff3f43, 0x3bfd801d, 0xdcf02372,
      0x0b3223ca, 0x3751e28a] =
      0xc9262e15"
    by (simp add: rotr_def Let_def sha256_next_def)
  have r51: "sha256_round [0xa0139424, 0xf3511a41, 0x6ab9d3ba, 0x85244468, 0xe7e8adc3, 0xa4fda9ac, 0x0b5e07da, 0x10415ee7]
      0x34b0bcb5 0xaf0a1862 =
      [0x8e33a71c, 0xa0139424, 0xf3511a41, 0x6ab9d3ba, 0x69d4e24f, 0xe7e8adc3, 0xa4fda9ac, 0x0b5e07da]"
    by (simp add: rotr_def Let_def)
  have n51: "sha256_next
      [0xaf0a1862, 0xcfff1b26, 0xf1122907, 0x9e615034, 0x28f4c5c8, 0xd7f97db9, 0x4e9726b2,
      0x5514f28b, 0xf931a1bb, 0xc85a28ab, 0x33ff3f43, 0x3bfd801d, 0xdcf02372, 0x0b3223ca,
      0x3751e28a, 0xc9262e15] =
      0xd72778f4"
    by (simp add: rotr_def Let_def sha256_next_def)
  have r52: "sha256_round [0x8e33a71c, 0xa0139424, 0xf3511a41, 0x6ab9d3ba, 0x69d4e24f, 0xe7e8adc3, 0xa4fda9ac, 0x0b5e07da]
      0x391c0cb3 0xcfff1b26 =
      [0x10a6a89d, 0x8e33a71c, 0xa0139424, 0xf3511a41, 0x0357fbf1, 0x69d4e24f, 0xe7e8adc3, 0xa4fda9ac]"
    by (simp add: rotr_def Let_def)
  have n52: "sha256_next
      [0xcfff1b26, 0xf1122907, 0x9e615034, 0x28f4c5c8, 0xd7f97db9, 0x4e9726b2, 0x5514f28b,
      0xf931a1bb, 0xc85a28ab, 0x33ff3f43, 0x3bfd801d, 0xdcf02372, 0x0b3223ca, 0x3751e28a,
      0xc9262e15, 0xd72778f4] =
      0x727a0bdb"
    by (simp add: rotr_def Let_def sha256_next_def)
  have r53: "sha256_round [0x10a6a89d, 0x8e33a71c, 0xa0139424, 0xf3511a41, 0x0357fbf1, 0x69d4e24f, 0xe7e8adc3, 0xa4fda9ac]
      0x4ed8aa4a 0xf1122907 =
      [0xf74d303d, 0x10a6a89d, 0x8e33a71c, 0xa0139424, 0xd0074b12, 0x0357fbf1, 0x69d4e24f, 0xe7e8adc3]"
    by (simp add: rotr_def Let_def)
  have n53: "sha256_next
      [0xf1122907, 0x9e615034, 0x28f4c5c8, 0xd7f97db9, 0x4e9726b2, 0x5514f28b, 0xf931a1bb,
      0xc85a28ab, 0x33ff3f43, 0x3bfd801d, 0xdcf02372, 0x0b3223ca, 0x3751e28a, 0xc9262e15,
      0xd72778f4, 0x727a0bdb] =
      0xaf5eb10b"
    by (simp add: rotr_def Let_def sha256_next_def)
  have r54: "sha256_round [0xf74d303d, 0x10a6a89d, 0x8e33a71c, 0xa0139424, 0xd0074b12, 0x0357fbf1, 0x69d4e24f, 0xe7e8adc3]
      0x5b9cca4f 0x9e615034 =
      [0x95a1ea28, 0xf74d303d, 0x10a6a89d, 0x8e33a71c, 0xd691dc74, 0xd0074b12, 0x0357fbf1, 0x69d4e24f]"
    by (simp add: rotr_def Let_def)
  have n54: "sha256_next
      [0x9e615034, 0x28f4c5c8, 0xd7f97db9, 0x4e9726b2, 0x5514f28b, 0xf931a1bb, 0xc85a28ab,
      0x33ff3f43, 0x3bfd801d, 0xdcf02372, 0x0b3223ca, 0x3751e28a, 0xc9262e15, 0xd72778f4,
      0x727a0bdb, 0xaf5eb10b] =
      0x641938a5"
    by (simp add: rotr_def Let_def sha256_next_def)
  have r55: "sha256_round [0x95a1ea28, 0xf74d303d, 0x10a6a89d, 0x8e33a71c, 0xd691dc74, 0xd0074b12, 0x0357fbf1, 0x69d4e24f]
      0x682e6ff3 0x28f4c5c8 =
      [0x6a9850cc, 0x95a1ea28, 0xf74d303d, 0x10a6a89d, 0x6fa1d9d8, 0xd691dc74, 0xd0074b12, 0x0357fbf1]"
    by (simp add: rotr_def Let_def)
  have n55: "sha256_next
      [0x28f4c5c8, 0xd7f97db9, 0x4e9726b2, 0x5514f28b, 0xf931a1bb, 0xc85a28ab, 0x33ff3f43,
      0x3bfd801d, 0xdcf02372, 0x0b3223ca, 0x3751e28a, 0xc9262e15, 0xd72778f4, 0x727a0bdb,
      0xaf5eb10b, 0x641938a5] =
      0xf8f5082c"
    by (simp add: rotr_def Let_def sha256_next_def)
  have r56: "sha256_round [0x6a9850cc, 0x95a1ea28, 0xf74d303d, 0x10a6a89d, 0x6fa1d9d8, 0xd691dc74, 0xd0074b12, 0x0357fbf1]
      0x748f82ee 0xd7f97db9 =
      [0xa5d857dc, 0x6a9850cc, 0x95a1ea28, 0xf74d303d, 0xc16f1ef2, 0x6fa1d9d8, 0xd691dc74, 0xd0074b12]"
    by (simp add: rotr_def Let_def)
  have n56: "sha256_next
      [0xd7f97db9, 0x4e9726b2, 0x5514f28b, 0xf931a1bb, 0xc85a28ab, 0x33ff3f43, 0x3bfd801d,
      0xdcf02372, 0x0b3223ca, 0x3751e28a, 0xc9262e15, 0xd72778f4, 0x727a0bdb, 0xaf5eb10b,
      0x641938a5, 0xf8f5082c] =
      0x6f8dd242"
    by (simp add: rotr_def Let_def sha256_next_def)
  have r57: "sha256_round [0xa5d857dc, 0x6a9850cc, 0x95a1ea28, 0xf74d303d, 0xc16f1ef2, 0x6fa1d9d8, 0xd691dc74, 0xd0074b12]
      0x78a5636f 0x4e9726b2 =
      [0x2e2d336d, 0xa5d857dc, 0x6a9850cc, 0x95a1ea28, 0x8915c73c, 0xc16f1ef2, 0x6fa1d9d8, 0xd691dc74]"
    by (simp add: rotr_def Let_def)
  have n57: "sha256_next
      [0x4e9726b2, 0x5514f28b, 0xf931a1bb, 0xc85a28ab, 0x33ff3f43, 0x3bfd801d, 0xdcf02372,
      0x0b3223ca, 0x3751e28a, 0xc9262e15, 0xd72778f4, 0x727a0bdb, 0xaf5eb10b, 0x641938a5,
      0xf8f5082c, 0x6f8dd242] =
      0x5d9595de"
    by (simp add: rotr_def Let_def sha256_next_def)
  have r58: "sha256_round [0x2e2d336d, 0xa5d857dc, 0x6a9850cc, 0x95a1ea28, 0x8915c73c, 0xc16f1ef2, 0x6fa1d9d8, 0xd691dc74]
      0x84c87814 0x5514f28b =
      [0xca332eb9, 0x2e2d336d, 0xa5d857dc, 0x6a9850cc, 0xcd0d3c0b, 0x8915c73c, 0xc16f1ef2, 0x6fa1d9d8]"
    by (simp add: rotr_def Let_def)
  have n58: "sha256_next
      [0x5514f28b, 0xf931a1bb, 0xc85a28ab, 0x33ff3f43, 0x3bfd801d, 0xdcf02372, 0x0b3223ca,
      0x3751e28a, 0xc9262e15, 0xd72778f4, 0x727a0bdb, 0xaf5eb10b, 0x641938a5, 0xf8f5082c,
      0x6f8dd242, 0x5d9595de] =
      0x8069adfa"
    by (simp add: rotr_def Let_def sha256_next_def)
  have r59: "sha256_round [0xca332eb9, 0x2e2d336d, 0xa5d857dc, 0x6a9850cc, 0xcd0d3c0b, 0x8915c73c, 0xc16f1ef2, 0x6fa1d9d8]
      0x8cc70208 0xf931a1bb =
      [0x2206ca60, 0xca332eb9, 0x2e2d336d, 0xa5d857dc, 0x126d6610, 0xcd0d3c0b, 0x8915c73c, 0xc16f1ef2]"
    by (simp add: rotr_def Let_def)
  have n59: "sha256_next
      [0xf931a1bb, 0xc85a28ab, 0x33ff3f43, 0x3bfd801d, 0xdcf02372, 0x0b3223ca, 0x3751e28a,
      0xc9262e15, 0xd72778f4, 0x727a0bdb, 0xaf5eb10b, 0x641938a5, 0xf8f5082c, 0x6f8dd242,
      0x5d9595de, 0x8069adfa] =
      0xa8a03105"
    by (simp add: rotr_def Let_def sha256_next_def)
  have r60: "sha256_round [0x2206ca60, 0xca332eb9, 0x2e2d336d, 0xa5d857dc, 0x126d6610, 0xcd0d3c0b, 0x8915c73c, 0xc16f1ef2]
      0x90befffa 0xc85a28ab =
      [0xc36f298f, 0x2206ca60, 0xca332eb9, 0x2e2d336d, 0xfe7734dc, 0x126d6610, 0xcd0d3c0b, 0x8915c73c]"
    by (simp add: rotr_def Let_def)
  have n60: "sha256_next
      [0xc85a28ab, 0x33ff3f43, 0x3bfd801d, 0xdcf02372, 0x0b3223ca, 0x3751e28a, 0xc9262e15,
      0xd72778f4, 0x727a0bdb, 0xaf5eb10b, 0x641938a5, 0xf8f5082c, 0x6f8dd242, 0x5d9595de,
      0x8069adfa, 0xa8a03105] =
      0xaae3b971"
    by (simp add: rotr_def Let_def sha256_next_def)
  have r61: "sha256_round [0xc36f298f, 0x2206ca60, 0xca332eb9, 0x2e2d336d, 0xfe7734dc, 0x126d6610, 0xcd0d3c0b, 0x8915c73c]
      0xa4506ceb 0x33ff3f43 =
      [0x0afa3487, 0xc36f298f, 0x2206ca60, 0xca332eb9, 0x76fc4f34, 0xfe7734dc, 0x126d6610, 0xcd0d3c0b]"
    by (simp add: rotr_def Let_def)
  have n61: "sha256_next
      [0x33ff3f43, 0x3bfd801d, 0xdcf02372, 0x0b3223ca, 0x3751e28a, 0xc9262e15, 0xd72778f4,
      0x727a0bdb, 0xaf5eb10b, 0x641938a5, 0xf8f5082c, 0x6f8dd242, 0x5d9595de, 0x8069adfa,
      0xa8a03105, 0xaae3b971] =
      0x13afc72c"
    by (simp add: rotr_def Let_def sha256_next_def)
  have r62: "sha256_round [0x0afa3487, 0xc36f298f, 0x2206ca60, 0xca332eb9, 0x76fc4f34, 0xfe7734dc, 0x126d6610, 0xcd0d3c0b]
      0xbef9a3f7 0x3bfd801d =
      [0x18af2823, 0x0afa3487, 0xc36f298f, 0x2206ca60, 0x521f677a, 0x76fc4f34, 0xfe7734dc, 0x126d6610]"
    by (simp add: rotr_def Let_def)
  have n62: "sha256_next
      [0x3bfd801d, 0xdcf02372, 0x0b3223ca, 0x3751e28a, 0xc9262e15, 0xd72778f4, 0x727a0bdb,
      0xaf5eb10b, 0x641938a5, 0xf8f5082c, 0x6f8dd242, 0x5d9595de, 0x8069adfa, 0xa8a03105,
      0xaae3b971, 0x13afc72c] =
      0xd7aa3420"
    by (simp add: rotr_def Let_def sha256_next_def)
  have r63: "sha256_round [0x18af2823, 0x0afa3487, 0xc36f298f, 0x2206ca60, 0x521f677a, 0x76fc4f34, 0xfe7734dc, 0x126d6610]
      0xc67178f2 0xdcf02372 =
      [0x047f891a, 0x18af2823, 0x0afa3487, 0xc36f298f, 0xe003a7e0, 0x521f677a, 0x76fc4f34, 0xfe7734dc]"
    by (simp add: rotr_def Let_def)
  have n63: "sha256_next
      [0xdcf02372, 0x0b3223ca, 0x3751e28a, 0xc9262e15, 0xd72778f4, 0x727a0bdb, 0xaf5eb10b,
      0x641938a5, 0xf8f5082c, 0x6f8dd242, 0x5d9595de, 0x8069adfa, 0xa8a03105, 0xaae3b971,
      0x13afc72c, 0xd7aa3420] =
      0x8577f8f9"
    by (simp add: rotr_def Let_def sha256_next_def)
  have rounds: "sha256_rounds sha256_K
     [0x6a09e667, 0xbb67ae85, 0x3c6ef372, 0xa54ff53a, 0x510e527f, 0x9b05688c, 0x1f83d9ab, 0x5be0cd19]
     [0x27f33f74, 0x96da1069, 0x54207c4b, 0xc322b0cc, 0xcb96516d, 0xfbf53f82, 0xb28e2c06,
      0x9905558b, 0x0000016b, 0x80000000, 0x00000000, 0x00000000, 0x00000000, 0x00000000,
      0x00000000, 0x00000120] =
     [0x047f891a, 0x18af2823, 0x0afa3487, 0xc36f298f, 0xe003a7e0, 0x521f677a, 0x76fc4f34, 0xfe7734dc]"
    by (simp only: sha256_K_def sha256_rounds.simps list.sel append.simps
      r0 n0 r1 n1 r2 n2 r3 n3 r4 n4 r5 n5 r6 n6 r7 n7 r8 n8 r9 n9 r10 n10 r11
      n11 r12 n12 r13 n13 r14 n14 r15 n15 r16 n16 r17 n17 r18 n18 r19 n19 r20
      n20 r21 n21 r22 n22 r23 n23 r24 n24 r25 n25 r26 n26 r27 n27 r28 n28 r29
      n29 r30 n30 r31 n31 r32 n32 r33 n33 r34 n34 r35 n35 r36 n36 r37 n37 r38
      n38 r39 n39 r40 n40 r41 n41 r42 n42 r43 n43 r44 n44 r45 n45 r46 n46 r47
      n47 r48 n48 r49 n49 r50 n50 r51 n51 r52 n52 r53 n53 r54 n54 r55 n55 r56
      n56 r57 n57 r58 n58 r59 n59 r60 n60 r61 n61 r62 n62 r63 n63)
  show ?thesis
    by (simp add: sha256_def block blocks_of.simps sha256_compress_def rounds sha256_H0_def be32_def)
qed

lemma sha256_policy_mixed_step4:
  "sha256
     [0x6e, 0x89, 0x6f, 0x81, 0xd4, 0x16, 0xd6, 0xa8, 0x47, 0x69, 0x27, 0xf9, 0x68, 0xbf, 0x1e,
      0xc9, 0x31, 0x11, 0xfa, 0x5f, 0xed, 0x24, 0xd0, 0x06, 0x96, 0x80, 0x28, 0xdf, 0x5a, 0x58,
      0x01, 0xf5, 0x00, 0x00, 0x01, 0x6c, 0x00, 0x00, 0x01, 0x3b] =
   [0x42, 0x6d, 0xf7, 0xdd, 0xd0, 0x7d, 0xbf, 0xaa, 0x40, 0x02, 0x37, 0xf7, 0x73, 0xda, 0x80,
    0x1e, 0x46, 0x4e, 0xf2, 0x76, 0x60, 0x84, 0x96, 0x6b, 0x04, 0xd8, 0xb4, 0xdf, 0xc0, 0xfe,
    0xee, 0xe5]"
proof -
  have block: "words_of (sha_pad
     [0x6e, 0x89, 0x6f, 0x81, 0xd4, 0x16, 0xd6, 0xa8, 0x47, 0x69, 0x27, 0xf9, 0x68, 0xbf, 0x1e,
      0xc9, 0x31, 0x11, 0xfa, 0x5f, 0xed, 0x24, 0xd0, 0x06, 0x96, 0x80, 0x28, 0xdf, 0x5a, 0x58,
      0x01, 0xf5, 0x00, 0x00, 0x01, 0x6c, 0x00, 0x00, 0x01, 0x3b]) =
     [0x6e896f81, 0xd416d6a8, 0x476927f9, 0x68bf1ec9, 0x3111fa5f, 0xed24d006, 0x968028df,
      0x5a5801f5, 0x0000016c, 0x0000013b, 0x80000000, 0x00000000, 0x00000000, 0x00000000,
      0x00000000, 0x00000140]"
    by (simp add: sha_pad_def be64_of_nat_def be32_def replicate_numeral)
  have r0: "sha256_round [0x6a09e667, 0xbb67ae85, 0x3c6ef372, 0xa54ff53a, 0x510e527f, 0x9b05688c, 0x1f83d9ab, 0x5be0cd19]
      0x428a2f98 0x6e896f81 =
      [0x6a91f7ce, 0x6a09e667, 0xbb67ae85, 0x3c6ef372, 0x07515223, 0x510e527f, 0x9b05688c, 0x1f83d9ab]"
    by (simp add: rotr_def Let_def)
  have n0: "sha256_next
      [0x6e896f81, 0xd416d6a8, 0x476927f9, 0x68bf1ec9, 0x3111fa5f, 0xed24d006, 0x968028df,
      0x5a5801f5, 0x0000016c, 0x0000013b, 0x80000000, 0x00000000, 0x00000000, 0x00000000,
      0x00000000, 0x00000140] =
      0x6d0a3339"
    by (simp add: rotr_def Let_def sha256_next_def)
  have r1: "sha256_round [0x6a91f7ce, 0x6a09e667, 0xbb67ae85, 0x3c6ef372, 0x07515223, 0x510e527f, 0x9b05688c, 0x1f83d9ab]
      0x71374491 0xd416d6a8 =
      [0x2bb52611, 0x6a91f7ce, 0x6a09e667, 0xbb67ae85, 0x9b1a21e6, 0x07515223, 0x510e527f, 0x9b05688c]"
    by (simp add: rotr_def Let_def)
  have n1: "sha256_next
      [0xd416d6a8, 0x476927f9, 0x68bf1ec9, 0x3111fa5f, 0xed24d006, 0x968028df, 0x5a5801f5,
      0x0000016c, 0x0000013b, 0x80000000, 0x00000000, 0x00000000, 0x00000000, 0x00000000,
      0x00000140, 0x6d0a3339] =
      0x083c7e12"
    by (simp add: rotr_def Let_def sha256_next_def)
  have r2: "sha256_round [0x2bb52611, 0x6a91f7ce, 0x6a09e667, 0xbb67ae85, 0x9b1a21e6, 0x07515223, 0x510e527f, 0x9b05688c]
      0xb5c0fbcf 0x476927f9 =
      [0x20820de7, 0x2bb52611, 0x6a91f7ce, 0x6a09e667, 0xc25b85a2, 0x9b1a21e6, 0x07515223, 0x510e527f]"
    by (simp add: rotr_def Let_def)
  have n2: "sha256_next
      [0x476927f9, 0x68bf1ec9, 0x3111fa5f, 0xed24d006, 0x968028df, 0x5a5801f5, 0x0000016c,
      0x0000013b, 0x80000000, 0x00000000, 0x00000000, 0x00000000, 0x00000000, 0x00000140,
      0x6d0a3339, 0x083c7e12] =
      0xffbec96c"
    by (simp add: rotr_def Let_def sha256_next_def)
  have r3: "sha256_round [0x20820de7, 0x2bb52611, 0x6a91f7ce, 0x6a09e667, 0xc25b85a2, 0x9b1a21e6, 0x07515223, 0x510e527f]
      0xe9b5dba5 0x68bf1ec9 =
      [0x16f0d849, 0x20820de7, 0x2bb52611, 0x6a91f7ce, 0xa73b7afe, 0xc25b85a2, 0x9b1a21e6, 0x07515223]"
    by (simp add: rotr_def Let_def)
  have n3: "sha256_next
      [0x68bf1ec9, 0x3111fa5f, 0xed24d006, 0x968028df, 0x5a5801f5, 0x0000016c, 0x0000013b,
      0x80000000, 0x00000000, 0x00000000, 0x00000000, 0x00000000, 0x00000140, 0x6d0a3339,
      0x083c7e12, 0xffbec96c] =
      0xe06039ca"
    by (simp add: rotr_def Let_def sha256_next_def)
  have r4: "sha256_round [0x16f0d849, 0x20820de7, 0x2bb52611, 0x6a91f7ce, 0xa73b7afe, 0xc25b85a2, 0x9b1a21e6, 0x07515223]
      0x3956c25b 0x3111fa5f =
      [0xac103866, 0x16f0d849, 0x20820de7, 0x2bb52611, 0xaf5c7e24, 0xa73b7afe, 0xc25b85a2, 0x9b1a21e6]"
    by (simp add: rotr_def Let_def)
  have n4: "sha256_next
      [0x3111fa5f, 0xed24d006, 0x968028df, 0x5a5801f5, 0x0000016c, 0x0000013b, 0x80000000,
      0x00000000, 0x00000000, 0x00000000, 0x00000000, 0x00000140, 0x6d0a3339, 0x083c7e12,
      0xffbec96c, 0xe06039ca] =
      0x133572e2"
    by (simp add: rotr_def Let_def sha256_next_def)
  have r5: "sha256_round [0xac103866, 0x16f0d849, 0x20820de7, 0x2bb52611, 0xaf5c7e24, 0xa73b7afe, 0xc25b85a2, 0x9b1a21e6]
      0x59f111f1 0xed24d006 =
      [0x0ec49432, 0xac103866, 0x16f0d849, 0x20820de7, 0xed18adb4, 0xaf5c7e24, 0xa73b7afe, 0xc25b85a2]"
    by (simp add: rotr_def Let_def)
  have n5: "sha256_next
      [0xed24d006, 0x968028df, 0x5a5801f5, 0x0000016c, 0x0000013b, 0x80000000, 0x00000000,
      0x00000000, 0x00000000, 0x00000000, 0x00000140, 0x6d0a3339, 0x083c7e12, 0xffbec96c,
      0xe06039ca, 0x133572e2] =
      0xb0d3e522"
    by (simp add: rotr_def Let_def sha256_next_def)
  have r6: "sha256_round [0x0ec49432, 0xac103866, 0x16f0d849, 0x20820de7, 0xed18adb4, 0xaf5c7e24, 0xa73b7afe, 0xc25b85a2]
      0x923f82a4 0x968028df =
      [0xc317fedd, 0x0ec49432, 0xac103866, 0x16f0d849, 0xa457d94f, 0xed18adb4, 0xaf5c7e24, 0xa73b7afe]"
    by (simp add: rotr_def Let_def)
  have n6: "sha256_next
      [0x968028df, 0x5a5801f5, 0x0000016c, 0x0000013b, 0x80000000, 0x00000000, 0x00000000,
      0x00000000, 0x00000000, 0x00000140, 0x6d0a3339, 0x083c7e12, 0xffbec96c, 0xe06039ca,
      0x133572e2, 0xb0d3e522] =
      0x8f2c976a"
    by (simp add: rotr_def Let_def sha256_next_def)
  have r7: "sha256_round [0xc317fedd, 0x0ec49432, 0xac103866, 0x16f0d849, 0xa457d94f, 0xed18adb4, 0xaf5c7e24, 0xa73b7afe]
      0xab1c5ed5 0x5a5801f5 =
      [0x003749b2, 0xc317fedd, 0x0ec49432, 0xac103866, 0xaf42d581, 0xa457d94f, 0xed18adb4, 0xaf5c7e24]"
    by (simp add: rotr_def Let_def)
  have n7: "sha256_next
      [0x5a5801f5, 0x0000016c, 0x0000013b, 0x80000000, 0x00000000, 0x00000000, 0x00000000,
      0x00000000, 0x00000140, 0x6d0a3339, 0x083c7e12, 0xffbec96c, 0xe06039ca, 0x133572e2,
      0xb0d3e522, 0x8f2c976a] =
      0x2dd66fe7"
    by (simp add: rotr_def Let_def sha256_next_def)
  have r8: "sha256_round [0x003749b2, 0xc317fedd, 0x0ec49432, 0xac103866, 0xaf42d581, 0xa457d94f, 0xed18adb4, 0xaf5c7e24]
      0xd807aa98 0x0000016c =
      [0x96743fc0, 0x003749b2, 0xc317fedd, 0x0ec49432, 0x2fb17f9e, 0xaf42d581, 0xa457d94f, 0xed18adb4]"
    by (simp add: rotr_def Let_def)
  have n8: "sha256_next
      [0x0000016c, 0x0000013b, 0x80000000, 0x00000000, 0x00000000, 0x00000000, 0x00000000,
      0x00000140, 0x6d0a3339, 0x083c7e12, 0xffbec96c, 0xe06039ca, 0x133572e2, 0xb0d3e522,
      0x8f2c976a, 0x2dd66fe7] =
      0x58071cf9"
    by (simp add: rotr_def Let_def sha256_next_def)
  have r9: "sha256_round [0x96743fc0, 0x003749b2, 0xc317fedd, 0x0ec49432, 0x2fb17f9e, 0xaf42d581, 0xa457d94f, 0xed18adb4]
      0x12835b01 0x0000013b =
      [0x90461a4f, 0x96743fc0, 0x003749b2, 0xc317fedd, 0x116c70a9, 0x2fb17f9e, 0xaf42d581, 0xa457d94f]"
    by (simp add: rotr_def Let_def)
  have n9: "sha256_next
      [0x0000013b, 0x80000000, 0x00000000, 0x00000000, 0x00000000, 0x00000000, 0x00000140,
      0x6d0a3339, 0x083c7e12, 0xffbec96c, 0xe06039ca, 0x133572e2, 0xb0d3e522, 0x8f2c976a,
      0x2dd66fe7, 0x58071cf9] =
      0x0ac2f171"
    by (simp add: rotr_def Let_def sha256_next_def)
  have r10: "sha256_round [0x90461a4f, 0x96743fc0, 0x003749b2, 0xc317fedd, 0x116c70a9, 0x2fb17f9e, 0xaf42d581, 0xa457d94f]
      0x243185be 0x80000000 =
      [0xbd8673fd, 0x90461a4f, 0x96743fc0, 0x003749b2, 0xc2241c36, 0x116c70a9, 0x2fb17f9e, 0xaf42d581]"
    by (simp add: rotr_def Let_def)
  have n10: "sha256_next
      [0x80000000, 0x00000000, 0x00000000, 0x00000000, 0x00000000, 0x00000140, 0x6d0a3339,
      0x083c7e12, 0xffbec96c, 0xe06039ca, 0x133572e2, 0xb0d3e522, 0x8f2c976a, 0x2dd66fe7,
      0x58071cf9, 0x0ac2f171] =
      0xce55c08e"
    by (simp add: rotr_def Let_def sha256_next_def)
  have r11: "sha256_round [0xbd8673fd, 0x90461a4f, 0x96743fc0, 0x003749b2, 0xc2241c36, 0x116c70a9, 0x2fb17f9e, 0xaf42d581]
      0x550c7dc3 0x00000000 =
      [0xff6d5885, 0xbd8673fd, 0x90461a4f, 0x96743fc0, 0x821ae030, 0xc2241c36, 0x116c70a9, 0x2fb17f9e]"
    by (simp add: rotr_def Let_def)
  have n11: "sha256_next
      [0x00000000, 0x00000000, 0x00000000, 0x00000000, 0x00000140, 0x6d0a3339, 0x083c7e12,
      0xffbec96c, 0xe06039ca, 0x133572e2, 0xb0d3e522, 0x8f2c976a, 0x2dd66fe7, 0x58071cf9,
      0x0ac2f171, 0xce55c08e] =
      0x39c98767"
    by (simp add: rotr_def Let_def sha256_next_def)
  have r12: "sha256_round [0xff6d5885, 0xbd8673fd, 0x90461a4f, 0x96743fc0, 0x821ae030, 0xc2241c36, 0x116c70a9, 0x2fb17f9e]
      0x72be5d74 0x00000000 =
      [0xcb1933eb, 0xff6d5885, 0xbd8673fd, 0x90461a4f, 0x95b05e28, 0x821ae030, 0xc2241c36, 0x116c70a9]"
    by (simp add: rotr_def Let_def)
  have n12: "sha256_next
      [0x00000000, 0x00000000, 0x00000000, 0x00000140, 0x6d0a3339, 0x083c7e12, 0xffbec96c,
      0xe06039ca, 0x133572e2, 0xb0d3e522, 0x8f2c976a, 0x2dd66fe7, 0x58071cf9, 0x0ac2f171,
      0xce55c08e, 0x39c98767] =
      0x093910b2"
    by (simp add: rotr_def Let_def sha256_next_def)
  have r13: "sha256_round [0xcb1933eb, 0xff6d5885, 0xbd8673fd, 0x90461a4f, 0x95b05e28, 0x821ae030, 0xc2241c36, 0x116c70a9]
      0x80deb1fe 0x00000000 =
      [0x1c2ff522, 0xcb1933eb, 0xff6d5885, 0xbd8673fd, 0xa410e065, 0x95b05e28, 0x821ae030, 0xc2241c36]"
    by (simp add: rotr_def Let_def)
  have n13: "sha256_next
      [0x00000000, 0x00000000, 0x00000140, 0x6d0a3339, 0x083c7e12, 0xffbec96c, 0xe06039ca,
      0x133572e2, 0xb0d3e522, 0x8f2c976a, 0x2dd66fe7, 0x58071cf9, 0x0ac2f171, 0xce55c08e,
      0x39c98767, 0x093910b2] =
      0x827da126"
    by (simp add: rotr_def Let_def sha256_next_def)
  have r14: "sha256_round [0x1c2ff522, 0xcb1933eb, 0xff6d5885, 0xbd8673fd, 0xa410e065, 0x95b05e28, 0x821ae030, 0xc2241c36]
      0x9bdc06a7 0x00000000 =
      [0xe76c5c46, 0x1c2ff522, 0xcb1933eb, 0xff6d5885, 0x33f5ca59, 0xa410e065, 0x95b05e28, 0x821ae030]"
    by (simp add: rotr_def Let_def)
  have n14: "sha256_next
      [0x00000000, 0x00000140, 0x6d0a3339, 0x083c7e12, 0xffbec96c, 0xe06039ca, 0x133572e2,
      0xb0d3e522, 0x8f2c976a, 0x2dd66fe7, 0x58071cf9, 0x0ac2f171, 0xce55c08e, 0x39c98767,
      0x093910b2, 0x827da126] =
      0x58737c10"
    by (simp add: rotr_def Let_def sha256_next_def)
  have r15: "sha256_round [0xe76c5c46, 0x1c2ff522, 0xcb1933eb, 0xff6d5885, 0x33f5ca59, 0xa410e065, 0x95b05e28, 0x821ae030]
      0xc19bf174 0x00000140 =
      [0x769ed99e, 0xe76c5c46, 0x1c2ff522, 0xcb1933eb, 0xbc4184d3, 0x33f5ca59, 0xa410e065, 0x95b05e28]"
    by (simp add: rotr_def Let_def)
  have n15: "sha256_next
      [0x00000140, 0x6d0a3339, 0x083c7e12, 0xffbec96c, 0xe06039ca, 0x133572e2, 0xb0d3e522,
      0x8f2c976a, 0x2dd66fe7, 0x58071cf9, 0x0ac2f171, 0xce55c08e, 0x39c98767, 0x093910b2,
      0x827da126, 0x58737c10] =
      0xb0533595"
    by (simp add: rotr_def Let_def sha256_next_def)
  have r16: "sha256_round [0x769ed99e, 0xe76c5c46, 0x1c2ff522, 0xcb1933eb, 0xbc4184d3, 0x33f5ca59, 0xa410e065, 0x95b05e28]
      0xe49b69c1 0x6d0a3339 =
      [0xac4e1be5, 0x769ed99e, 0xe76c5c46, 0x1c2ff522, 0xd705f77f, 0xbc4184d3, 0x33f5ca59, 0xa410e065]"
    by (simp add: rotr_def Let_def)
  have n16: "sha256_next
      [0x6d0a3339, 0x083c7e12, 0xffbec96c, 0xe06039ca, 0x133572e2, 0xb0d3e522, 0x8f2c976a,
      0x2dd66fe7, 0x58071cf9, 0x0ac2f171, 0xce55c08e, 0x39c98767, 0x093910b2, 0x827da126,
      0x58737c10, 0xb0533595] =
      0x83fcd5c3"
    by (simp add: rotr_def Let_def sha256_next_def)
  have r17: "sha256_round [0xac4e1be5, 0x769ed99e, 0xe76c5c46, 0x1c2ff522, 0xd705f77f, 0xbc4184d3, 0x33f5ca59, 0xa410e065]
      0xefbe4786 0x083c7e12 =
      [0x55fa46d6, 0xac4e1be5, 0x769ed99e, 0xe76c5c46, 0xff8a6ffa, 0xd705f77f, 0xbc4184d3, 0x33f5ca59]"
    by (simp add: rotr_def Let_def)
  have n17: "sha256_next
      [0x083c7e12, 0xffbec96c, 0xe06039ca, 0x133572e2, 0xb0d3e522, 0x8f2c976a, 0x2dd66fe7,
      0x58071cf9, 0x0ac2f171, 0xce55c08e, 0x39c98767, 0x093910b2, 0x827da126, 0x58737c10,
      0xb0533595, 0x83fcd5c3] =
      0x473a54de"
    by (simp add: rotr_def Let_def sha256_next_def)
  have r18: "sha256_round [0x55fa46d6, 0xac4e1be5, 0x769ed99e, 0xe76c5c46, 0xff8a6ffa, 0xd705f77f, 0xbc4184d3, 0x33f5ca59]
      0x0fc19dc6 0xffbec96c =
      [0xac040199, 0x55fa46d6, 0xac4e1be5, 0x769ed99e, 0xd3ba9ad9, 0xff8a6ffa, 0xd705f77f, 0xbc4184d3]"
    by (simp add: rotr_def Let_def)
  have n18: "sha256_next
      [0xffbec96c, 0xe06039ca, 0x133572e2, 0xb0d3e522, 0x8f2c976a, 0x2dd66fe7, 0x58071cf9,
      0x0ac2f171, 0xce55c08e, 0x39c98767, 0x093910b2, 0x827da126, 0x58737c10, 0xb0533595,
      0x83fcd5c3, 0x473a54de] =
      0xb1c01ed9"
    by (simp add: rotr_def Let_def sha256_next_def)
  have r19: "sha256_round [0xac040199, 0x55fa46d6, 0xac4e1be5, 0x769ed99e, 0xd3ba9ad9, 0xff8a6ffa, 0xd705f77f, 0xbc4184d3]
      0x240ca1cc 0xe06039ca =
      [0x9d8fcd03, 0xac040199, 0x55fa46d6, 0xac4e1be5, 0xf0169bd6, 0xd3ba9ad9, 0xff8a6ffa, 0xd705f77f]"
    by (simp add: rotr_def Let_def)
  have n19: "sha256_next
      [0xe06039ca, 0x133572e2, 0xb0d3e522, 0x8f2c976a, 0x2dd66fe7, 0x58071cf9, 0x0ac2f171,
      0xce55c08e, 0x39c98767, 0x093910b2, 0x827da126, 0x58737c10, 0xb0533595, 0x83fcd5c3,
      0x473a54de, 0xb1c01ed9] =
      0xe576b0df"
    by (simp add: rotr_def Let_def sha256_next_def)
  have r20: "sha256_round [0x9d8fcd03, 0xac040199, 0x55fa46d6, 0xac4e1be5, 0xf0169bd6, 0xd3ba9ad9, 0xff8a6ffa, 0xd705f77f]
      0x2de92c6f 0x133572e2 =
      [0x6feca067, 0x9d8fcd03, 0xac040199, 0x55fa46d6, 0xce616571, 0xf0169bd6, 0xd3ba9ad9, 0xff8a6ffa]"
    by (simp add: rotr_def Let_def)
  have n20: "sha256_next
      [0x133572e2, 0xb0d3e522, 0x8f2c976a, 0x2dd66fe7, 0x58071cf9, 0x0ac2f171, 0xce55c08e,
      0x39c98767, 0x093910b2, 0x827da126, 0x58737c10, 0xb0533595, 0x83fcd5c3, 0x473a54de,
      0xb1c01ed9, 0xe576b0df] =
      0x4c822a41"
    by (simp add: rotr_def Let_def sha256_next_def)
  have r21: "sha256_round [0x6feca067, 0x9d8fcd03, 0xac040199, 0x55fa46d6, 0xce616571, 0xf0169bd6, 0xd3ba9ad9, 0xff8a6ffa]
      0x4a7484aa 0xb0d3e522 =
      [0x3deeb2c2, 0x6feca067, 0x9d8fcd03, 0xac040199, 0x7c1aadd2, 0xce616571, 0xf0169bd6, 0xd3ba9ad9]"
    by (simp add: rotr_def Let_def)
  have n21: "sha256_next
      [0xb0d3e522, 0x8f2c976a, 0x2dd66fe7, 0x58071cf9, 0x0ac2f171, 0xce55c08e, 0x39c98767,
      0x093910b2, 0x827da126, 0x58737c10, 0xb0533595, 0x83fcd5c3, 0x473a54de, 0xb1c01ed9,
      0xe576b0df, 0x4c822a41] =
      0x78b61cf3"
    by (simp add: rotr_def Let_def sha256_next_def)
  have r22: "sha256_round [0x3deeb2c2, 0x6feca067, 0x9d8fcd03, 0xac040199, 0x7c1aadd2, 0xce616571, 0xf0169bd6, 0xd3ba9ad9]
      0x5cb0a9dc 0x8f2c976a =
      [0x6c14ffc4, 0x3deeb2c2, 0x6feca067, 0x9d8fcd03, 0x368915e8, 0x7c1aadd2, 0xce616571, 0xf0169bd6]"
    by (simp add: rotr_def Let_def)
  have n22: "sha256_next
      [0x8f2c976a, 0x2dd66fe7, 0x58071cf9, 0x0ac2f171, 0xce55c08e, 0x39c98767, 0x093910b2,
      0x827da126, 0x58737c10, 0xb0533595, 0x83fcd5c3, 0x473a54de, 0xb1c01ed9, 0xe576b0df,
      0x4c822a41, 0x78b61cf3] =
      0xe01426b0"
    by (simp add: rotr_def Let_def sha256_next_def)
  have r23: "sha256_round [0x6c14ffc4, 0x3deeb2c2, 0x6feca067, 0x9d8fcd03, 0x368915e8, 0x7c1aadd2, 0xce616571, 0xf0169bd6]
      0x76f988da 0x2dd66fe7 =
      [0x0f6afd82, 0x6c14ffc4, 0x3deeb2c2, 0x6feca067, 0x8834c8d9, 0x368915e8, 0x7c1aadd2, 0xce616571]"
    by (simp add: rotr_def Let_def)
  have n23: "sha256_next
      [0x2dd66fe7, 0x58071cf9, 0x0ac2f171, 0xce55c08e, 0x39c98767, 0x093910b2, 0x827da126,
      0x58737c10, 0xb0533595, 0x83fcd5c3, 0x473a54de, 0xb1c01ed9, 0xe576b0df, 0x4c822a41,
      0x78b61cf3, 0xe01426b0] =
      0xbe5c001b"
    by (simp add: rotr_def Let_def sha256_next_def)
  have r24: "sha256_round [0x0f6afd82, 0x6c14ffc4, 0x3deeb2c2, 0x6feca067, 0x8834c8d9, 0x368915e8, 0x7c1aadd2, 0xce616571]
      0x983e5152 0x58071cf9 =
      [0x8bd27ed0, 0x0f6afd82, 0x6c14ffc4, 0x3deeb2c2, 0x0a13536b, 0x8834c8d9, 0x368915e8, 0x7c1aadd2]"
    by (simp add: rotr_def Let_def)
  have n24: "sha256_next
      [0x58071cf9, 0x0ac2f171, 0xce55c08e, 0x39c98767, 0x093910b2, 0x827da126, 0x58737c10,
      0xb0533595, 0x83fcd5c3, 0x473a54de, 0xb1c01ed9, 0xe576b0df, 0x4c822a41, 0x78b61cf3,
      0xe01426b0, 0xbe5c001b] =
      0x96097454"
    by (simp add: rotr_def Let_def sha256_next_def)
  have r25: "sha256_round [0x8bd27ed0, 0x0f6afd82, 0x6c14ffc4, 0x3deeb2c2, 0x0a13536b, 0x8834c8d9, 0x368915e8, 0x7c1aadd2]
      0xa831c66d 0x0ac2f171 =
      [0xe166e7e3, 0x8bd27ed0, 0x0f6afd82, 0x6c14ffc4, 0x727717dd, 0x0a13536b, 0x8834c8d9, 0x368915e8]"
    by (simp add: rotr_def Let_def)
  have n25: "sha256_next
      [0x0ac2f171, 0xce55c08e, 0x39c98767, 0x093910b2, 0x827da126, 0x58737c10, 0xb0533595,
      0x83fcd5c3, 0x473a54de, 0xb1c01ed9, 0xe576b0df, 0x4c822a41, 0x78b61cf3, 0xe01426b0,
      0xbe5c001b, 0x96097454] =
      0xb119f034"
    by (simp add: rotr_def Let_def sha256_next_def)
  have r26: "sha256_round [0xe166e7e3, 0x8bd27ed0, 0x0f6afd82, 0x6c14ffc4, 0x727717dd, 0x0a13536b, 0x8834c8d9, 0x368915e8]
      0xb00327c8 0xce55c08e =
      [0xdd1e9297, 0xe166e7e3, 0x8bd27ed0, 0x0f6afd82, 0x60f7554f, 0x727717dd, 0x0a13536b, 0x8834c8d9]"
    by (simp add: rotr_def Let_def)
  have n26: "sha256_next
      [0xce55c08e, 0x39c98767, 0x093910b2, 0x827da126, 0x58737c10, 0xb0533595, 0x83fcd5c3,
      0x473a54de, 0xb1c01ed9, 0xe576b0df, 0x4c822a41, 0x78b61cf3, 0xe01426b0, 0xbe5c001b,
      0x96097454, 0xb119f034] =
      0xf0e53a95"
    by (simp add: rotr_def Let_def sha256_next_def)
  have r27: "sha256_round [0xdd1e9297, 0xe166e7e3, 0x8bd27ed0, 0x0f6afd82, 0x60f7554f, 0x727717dd, 0x0a13536b, 0x8834c8d9]
      0xbf597fc7 0x39c98767 =
      [0xbe9e557b, 0xdd1e9297, 0xe166e7e3, 0x8bd27ed0, 0xeaff4905, 0x60f7554f, 0x727717dd, 0x0a13536b]"
    by (simp add: rotr_def Let_def)
  have n27: "sha256_next
      [0x39c98767, 0x093910b2, 0x827da126, 0x58737c10, 0xb0533595, 0x83fcd5c3, 0x473a54de,
      0xb1c01ed9, 0xe576b0df, 0x4c822a41, 0x78b61cf3, 0xe01426b0, 0xbe5c001b, 0x96097454,
      0xb119f034, 0xf0e53a95] =
      0x6d960cf4"
    by (simp add: rotr_def Let_def sha256_next_def)
  have r28: "sha256_round [0xbe9e557b, 0xdd1e9297, 0xe166e7e3, 0x8bd27ed0, 0xeaff4905, 0x60f7554f, 0x727717dd, 0x0a13536b]
      0xc6e00bf3 0x093910b2 =
      [0xce244f6e, 0xbe9e557b, 0xdd1e9297, 0xe166e7e3, 0x1fa866f5, 0xeaff4905, 0x60f7554f, 0x727717dd]"
    by (simp add: rotr_def Let_def)
  have n28: "sha256_next
      [0x093910b2, 0x827da126, 0x58737c10, 0xb0533595, 0x83fcd5c3, 0x473a54de, 0xb1c01ed9,
      0xe576b0df, 0x4c822a41, 0x78b61cf3, 0xe01426b0, 0xbe5c001b, 0x96097454, 0xb119f034,
      0xf0e53a95, 0x6d960cf4] =
      0xf1169cbe"
    by (simp add: rotr_def Let_def sha256_next_def)
  have r29: "sha256_round [0xce244f6e, 0xbe9e557b, 0xdd1e9297, 0xe166e7e3, 0x1fa866f5, 0xeaff4905, 0x60f7554f, 0x727717dd]
      0xd5a79147 0x827da126 =
      [0x4c6afab1, 0xce244f6e, 0xbe9e557b, 0xdd1e9297, 0xf5f0b154, 0x1fa866f5, 0xeaff4905, 0x60f7554f]"
    by (simp add: rotr_def Let_def)
  have n29: "sha256_next
      [0x827da126, 0x58737c10, 0xb0533595, 0x83fcd5c3, 0x473a54de, 0xb1c01ed9, 0xe576b0df,
      0x4c822a41, 0x78b61cf3, 0xe01426b0, 0xbe5c001b, 0x96097454, 0xb119f034, 0xf0e53a95,
      0x6d960cf4, 0xf1169cbe] =
      0x1f4c4636"
    by (simp add: rotr_def Let_def sha256_next_def)
  have r30: "sha256_round [0x4c6afab1, 0xce244f6e, 0xbe9e557b, 0xdd1e9297, 0xf5f0b154, 0x1fa866f5, 0xeaff4905, 0x60f7554f]
      0x06ca6351 0x58737c10 =
      [0x5c9eebf3, 0x4c6afab1, 0xce244f6e, 0xbe9e557b, 0x3e150645, 0xf5f0b154, 0x1fa866f5, 0xeaff4905]"
    by (simp add: rotr_def Let_def)
  have n30: "sha256_next
      [0x58737c10, 0xb0533595, 0x83fcd5c3, 0x473a54de, 0xb1c01ed9, 0xe576b0df, 0x4c822a41,
      0x78b61cf3, 0xe01426b0, 0xbe5c001b, 0x96097454, 0xb119f034, 0xf0e53a95, 0x6d960cf4,
      0xf1169cbe, 0x1f4c4636] =
      0xa4d40c06"
    by (simp add: rotr_def Let_def sha256_next_def)
  have r31: "sha256_round [0x5c9eebf3, 0x4c6afab1, 0xce244f6e, 0xbe9e557b, 0x3e150645, 0xf5f0b154, 0x1fa866f5, 0xeaff4905]
      0x14292967 0xb0533595 =
      [0xfb523c87, 0x5c9eebf3, 0x4c6afab1, 0xce244f6e, 0x7aaf1296, 0x3e150645, 0xf5f0b154, 0x1fa866f5]"
    by (simp add: rotr_def Let_def)
  have n31: "sha256_next
      [0xb0533595, 0x83fcd5c3, 0x473a54de, 0xb1c01ed9, 0xe576b0df, 0x4c822a41, 0x78b61cf3,
      0xe01426b0, 0xbe5c001b, 0x96097454, 0xb119f034, 0xf0e53a95, 0x6d960cf4, 0xf1169cbe,
      0x1f4c4636, 0xa4d40c06] =
      0x943f4d33"
    by (simp add: rotr_def Let_def sha256_next_def)
  have r32: "sha256_round [0xfb523c87, 0x5c9eebf3, 0x4c6afab1, 0xce244f6e, 0x7aaf1296, 0x3e150645, 0xf5f0b154, 0x1fa866f5]
      0x27b70a85 0x83fcd5c3 =
      [0x95d2d226, 0xfb523c87, 0x5c9eebf3, 0x4c6afab1, 0xb582dc84, 0x7aaf1296, 0x3e150645, 0xf5f0b154]"
    by (simp add: rotr_def Let_def)
  have n32: "sha256_next
      [0x83fcd5c3, 0x473a54de, 0xb1c01ed9, 0xe576b0df, 0x4c822a41, 0x78b61cf3, 0xe01426b0,
      0xbe5c001b, 0x96097454, 0xb119f034, 0xf0e53a95, 0x6d960cf4, 0xf1169cbe, 0x1f4c4636,
      0xa4d40c06, 0x943f4d33] =
      0xde2029e6"
    by (simp add: rotr_def Let_def sha256_next_def)
  have r33: "sha256_round [0x95d2d226, 0xfb523c87, 0x5c9eebf3, 0x4c6afab1, 0xb582dc84, 0x7aaf1296, 0x3e150645, 0xf5f0b154]
      0x2e1b2138 0x473a54de =
      [0x45e7ae91, 0x95d2d226, 0xfb523c87, 0x5c9eebf3, 0x35772e53, 0xb582dc84, 0x7aaf1296, 0x3e150645]"
    by (simp add: rotr_def Let_def)
  have n33: "sha256_next
      [0x473a54de, 0xb1c01ed9, 0xe576b0df, 0x4c822a41, 0x78b61cf3, 0xe01426b0, 0xbe5c001b,
      0x96097454, 0xb119f034, 0xf0e53a95, 0x6d960cf4, 0xf1169cbe, 0x1f4c4636, 0xa4d40c06,
      0x943f4d33, 0xde2029e6] =
      0x2a283654"
    by (simp add: rotr_def Let_def sha256_next_def)
  have r34: "sha256_round [0x45e7ae91, 0x95d2d226, 0xfb523c87, 0x5c9eebf3, 0x35772e53, 0xb582dc84, 0x7aaf1296, 0x3e150645]
      0x4d2c6dfc 0xb1c01ed9 =
      [0x8acc4b79, 0x45e7ae91, 0x95d2d226, 0xfb523c87, 0x564ef757, 0x35772e53, 0xb582dc84, 0x7aaf1296]"
    by (simp add: rotr_def Let_def)
  have n34: "sha256_next
      [0xb1c01ed9, 0xe576b0df, 0x4c822a41, 0x78b61cf3, 0xe01426b0, 0xbe5c001b, 0x96097454,
      0xb119f034, 0xf0e53a95, 0x6d960cf4, 0xf1169cbe, 0x1f4c4636, 0xa4d40c06, 0x943f4d33,
      0xde2029e6, 0x2a283654] =
      0x40a22ad2"
    by (simp add: rotr_def Let_def sha256_next_def)
  have r35: "sha256_round [0x8acc4b79, 0x45e7ae91, 0x95d2d226, 0xfb523c87, 0x564ef757, 0x35772e53, 0xb582dc84, 0x7aaf1296]
      0x53380d13 0xe576b0df =
      [0x8805c5cb, 0x8acc4b79, 0x45e7ae91, 0x95d2d226, 0xf53e958a, 0x564ef757, 0x35772e53, 0xb582dc84]"
    by (simp add: rotr_def Let_def)
  have n35: "sha256_next
      [0xe576b0df, 0x4c822a41, 0x78b61cf3, 0xe01426b0, 0xbe5c001b, 0x96097454, 0xb119f034,
      0xf0e53a95, 0x6d960cf4, 0xf1169cbe, 0x1f4c4636, 0xa4d40c06, 0x943f4d33, 0xde2029e6,
      0x2a283654, 0x40a22ad2] =
      0xf6107a35"
    by (simp add: rotr_def Let_def sha256_next_def)
  have r36: "sha256_round [0x8805c5cb, 0x8acc4b79, 0x45e7ae91, 0x95d2d226, 0xf53e958a, 0x564ef757, 0x35772e53, 0xb582dc84]
      0x650a7354 0x4c822a41 =
      [0x252fc1bf, 0x8805c5cb, 0x8acc4b79, 0x45e7ae91, 0x56f2a490, 0xf53e958a, 0x564ef757, 0x35772e53]"
    by (simp add: rotr_def Let_def)
  have n36: "sha256_next
      [0x4c822a41, 0x78b61cf3, 0xe01426b0, 0xbe5c001b, 0x96097454, 0xb119f034, 0xf0e53a95,
      0x6d960cf4, 0xf1169cbe, 0x1f4c4636, 0xa4d40c06, 0x943f4d33, 0xde2029e6, 0x2a283654,
      0x40a22ad2, 0xf6107a35] =
      0x2acd22d0"
    by (simp add: rotr_def Let_def sha256_next_def)
  have r37: "sha256_round [0x252fc1bf, 0x8805c5cb, 0x8acc4b79, 0x45e7ae91, 0x56f2a490, 0xf53e958a, 0x564ef757, 0x35772e53]
      0x766a0abb 0x78b61cf3 =
      [0x269b7235, 0x252fc1bf, 0x8805c5cb, 0x8acc4b79, 0x68c13946, 0x56f2a490, 0xf53e958a, 0x564ef757]"
    by (simp add: rotr_def Let_def)
  have n37: "sha256_next
      [0x78b61cf3, 0xe01426b0, 0xbe5c001b, 0x96097454, 0xb119f034, 0xf0e53a95, 0x6d960cf4,
      0xf1169cbe, 0x1f4c4636, 0xa4d40c06, 0x943f4d33, 0xde2029e6, 0x2a283654, 0x40a22ad2,
      0xf6107a35, 0x2acd22d0] =
      0xc45a7f6b"
    by (simp add: rotr_def Let_def sha256_next_def)
  have r38: "sha256_round [0x269b7235, 0x252fc1bf, 0x8805c5cb, 0x8acc4b79, 0x68c13946, 0x56f2a490, 0xf53e958a, 0x564ef757]
      0x81c2c92e 0xe01426b0 =
      [0xb9ee4a3e, 0x269b7235, 0x252fc1bf, 0x8805c5cb, 0x6ae3972c, 0x68c13946, 0x56f2a490, 0xf53e958a]"
    by (simp add: rotr_def Let_def)
  have n38: "sha256_next
      [0xe01426b0, 0xbe5c001b, 0x96097454, 0xb119f034, 0xf0e53a95, 0x6d960cf4, 0xf1169cbe,
      0x1f4c4636, 0xa4d40c06, 0x943f4d33, 0xde2029e6, 0x2a283654, 0x40a22ad2, 0xf6107a35,
      0x2acd22d0, 0xc45a7f6b] =
      0xca3deeee"
    by (simp add: rotr_def Let_def sha256_next_def)
  have r39: "sha256_round [0xb9ee4a3e, 0x269b7235, 0x252fc1bf, 0x8805c5cb, 0x6ae3972c, 0x68c13946, 0x56f2a490, 0xf53e958a]
      0x92722c85 0xbe5c001b =
      [0x55212132, 0xb9ee4a3e, 0x269b7235, 0x252fc1bf, 0x70d0fda4, 0x6ae3972c, 0x68c13946, 0x56f2a490]"
    by (simp add: rotr_def Let_def)
  have n39: "sha256_next
      [0xbe5c001b, 0x96097454, 0xb119f034, 0xf0e53a95, 0x6d960cf4, 0xf1169cbe, 0x1f4c4636,
      0xa4d40c06, 0x943f4d33, 0xde2029e6, 0x2a283654, 0x40a22ad2, 0xf6107a35, 0x2acd22d0,
      0xc45a7f6b, 0xca3deeee] =
      0xf3ddd01a"
    by (simp add: rotr_def Let_def sha256_next_def)
  have r40: "sha256_round [0x55212132, 0xb9ee4a3e, 0x269b7235, 0x252fc1bf, 0x70d0fda4, 0x6ae3972c, 0x68c13946, 0x56f2a490]
      0xa2bfe8a1 0x96097454 =
      [0x93baad03, 0x55212132, 0xb9ee4a3e, 0x269b7235, 0x6ae0e47b, 0x70d0fda4, 0x6ae3972c, 0x68c13946]"
    by (simp add: rotr_def Let_def)
  have n40: "sha256_next
      [0x96097454, 0xb119f034, 0xf0e53a95, 0x6d960cf4, 0xf1169cbe, 0x1f4c4636, 0xa4d40c06,
      0x943f4d33, 0xde2029e6, 0x2a283654, 0x40a22ad2, 0xf6107a35, 0x2acd22d0, 0xc45a7f6b,
      0xca3deeee, 0xf3ddd01a] =
      0x0e15ff6a"
    by (simp add: rotr_def Let_def sha256_next_def)
  have r41: "sha256_round [0x93baad03, 0x55212132, 0xb9ee4a3e, 0x269b7235, 0x6ae0e47b, 0x70d0fda4, 0x6ae3972c, 0x68c13946]
      0xa81a664b 0xb119f034 =
      [0x2d5ecb2e, 0x93baad03, 0x55212132, 0xb9ee4a3e, 0x5c09db56, 0x6ae0e47b, 0x70d0fda4, 0x6ae3972c]"
    by (simp add: rotr_def Let_def)
  have n41: "sha256_next
      [0xb119f034, 0xf0e53a95, 0x6d960cf4, 0xf1169cbe, 0x1f4c4636, 0xa4d40c06, 0x943f4d33,
      0xde2029e6, 0x2a283654, 0x40a22ad2, 0xf6107a35, 0x2acd22d0, 0xc45a7f6b, 0xca3deeee,
      0xf3ddd01a, 0x0e15ff6a] =
      0xbf46fd05"
    by (simp add: rotr_def Let_def sha256_next_def)
  have r42: "sha256_round [0x2d5ecb2e, 0x93baad03, 0x55212132, 0xb9ee4a3e, 0x5c09db56, 0x6ae0e47b, 0x70d0fda4, 0x6ae3972c]
      0xc24b8b70 0xf0e53a95 =
      [0x7c805945, 0x2d5ecb2e, 0x93baad03, 0x55212132, 0x782999d9, 0x5c09db56, 0x6ae0e47b, 0x70d0fda4]"
    by (simp add: rotr_def Let_def)
  have n42: "sha256_next
      [0xf0e53a95, 0x6d960cf4, 0xf1169cbe, 0x1f4c4636, 0xa4d40c06, 0x943f4d33, 0xde2029e6,
      0x2a283654, 0x40a22ad2, 0xf6107a35, 0x2acd22d0, 0xc45a7f6b, 0xca3deeee, 0xf3ddd01a,
      0x0e15ff6a, 0xbf46fd05] =
      0x8da66f63"
    by (simp add: rotr_def Let_def sha256_next_def)
  have r43: "sha256_round [0x7c805945, 0x2d5ecb2e, 0x93baad03, 0x55212132, 0x782999d9, 0x5c09db56, 0x6ae0e47b, 0x70d0fda4]
      0xc76c51a3 0x6d960cf4 =
      [0x1caa5a3d, 0x7c805945, 0x2d5ecb2e, 0x93baad03, 0x9fc1cac7, 0x782999d9, 0x5c09db56, 0x6ae0e47b]"
    by (simp add: rotr_def Let_def)
  have n43: "sha256_next
      [0x6d960cf4, 0xf1169cbe, 0x1f4c4636, 0xa4d40c06, 0x943f4d33, 0xde2029e6, 0x2a283654,
      0x40a22ad2, 0xf6107a35, 0x2acd22d0, 0xc45a7f6b, 0xca3deeee, 0xf3ddd01a, 0x0e15ff6a,
      0xbf46fd05, 0x8da66f63] =
      0xfe602ca3"
    by (simp add: rotr_def Let_def sha256_next_def)
  have r44: "sha256_round [0x1caa5a3d, 0x7c805945, 0x2d5ecb2e, 0x93baad03, 0x9fc1cac7, 0x782999d9, 0x5c09db56, 0x6ae0e47b]
      0xd192e819 0xf1169cbe =
      [0xa83282dc, 0x1caa5a3d, 0x7c805945, 0x2d5ecb2e, 0xbfb84d03, 0x9fc1cac7, 0x782999d9, 0x5c09db56]"
    by (simp add: rotr_def Let_def)
  have n44: "sha256_next
      [0xf1169cbe, 0x1f4c4636, 0xa4d40c06, 0x943f4d33, 0xde2029e6, 0x2a283654, 0x40a22ad2,
      0xf6107a35, 0x2acd22d0, 0xc45a7f6b, 0xca3deeee, 0xf3ddd01a, 0x0e15ff6a, 0xbf46fd05,
      0x8da66f63, 0xfe602ca3] =
      0x2e4a92be"
    by (simp add: rotr_def Let_def sha256_next_def)
  have r45: "sha256_round [0xa83282dc, 0x1caa5a3d, 0x7c805945, 0x2d5ecb2e, 0xbfb84d03, 0x9fc1cac7, 0x782999d9, 0x5c09db56]
      0xd6990624 0x1f4c4636 =
      [0xd7a5864d, 0xa83282dc, 0x1caa5a3d, 0x7c805945, 0xd17f639b, 0xbfb84d03, 0x9fc1cac7, 0x782999d9]"
    by (simp add: rotr_def Let_def)
  have n45: "sha256_next
      [0x1f4c4636, 0xa4d40c06, 0x943f4d33, 0xde2029e6, 0x2a283654, 0x40a22ad2, 0xf6107a35,
      0x2acd22d0, 0xc45a7f6b, 0xca3deeee, 0xf3ddd01a, 0x0e15ff6a, 0xbf46fd05, 0x8da66f63,
      0xfe602ca3, 0x2e4a92be] =
      0x1856cec8"
    by (simp add: rotr_def Let_def sha256_next_def)
  have r46: "sha256_round [0xd7a5864d, 0xa83282dc, 0x1caa5a3d, 0x7c805945, 0xd17f639b, 0xbfb84d03, 0x9fc1cac7, 0x782999d9]
      0xf40e3585 0xa4d40c06 =
      [0xc2943273, 0xd7a5864d, 0xa83282dc, 0x1caa5a3d, 0xd0d31d7a, 0xd17f639b, 0xbfb84d03, 0x9fc1cac7]"
    by (simp add: rotr_def Let_def)
  have n46: "sha256_next
      [0xa4d40c06, 0x943f4d33, 0xde2029e6, 0x2a283654, 0x40a22ad2, 0xf6107a35, 0x2acd22d0,
      0xc45a7f6b, 0xca3deeee, 0xf3ddd01a, 0x0e15ff6a, 0xbf46fd05, 0x8da66f63, 0xfe602ca3,
      0x2e4a92be, 0x1856cec8] =
      0x5a988e9b"
    by (simp add: rotr_def Let_def sha256_next_def)
  have r47: "sha256_round [0xc2943273, 0xd7a5864d, 0xa83282dc, 0x1caa5a3d, 0xd0d31d7a, 0xd17f639b, 0xbfb84d03, 0x9fc1cac7]
      0x106aa070 0x943f4d33 =
      [0x68263e97, 0xc2943273, 0xd7a5864d, 0xa83282dc, 0x8e293f40, 0xd0d31d7a, 0xd17f639b, 0xbfb84d03]"
    by (simp add: rotr_def Let_def)
  have n47: "sha256_next
      [0x943f4d33, 0xde2029e6, 0x2a283654, 0x40a22ad2, 0xf6107a35, 0x2acd22d0, 0xc45a7f6b,
      0xca3deeee, 0xf3ddd01a, 0x0e15ff6a, 0xbf46fd05, 0x8da66f63, 0xfe602ca3, 0x2e4a92be,
      0x1856cec8, 0x5a988e9b] =
      0x3d125a16"
    by (simp add: rotr_def Let_def sha256_next_def)
  have r48: "sha256_round [0x68263e97, 0xc2943273, 0xd7a5864d, 0xa83282dc, 0x8e293f40, 0xd0d31d7a, 0xd17f639b, 0xbfb84d03]
      0x19a4c116 0xde2029e6 =
      [0x00782102, 0x68263e97, 0xc2943273, 0xd7a5864d, 0x2fbdda53, 0x8e293f40, 0xd0d31d7a, 0xd17f639b]"
    by (simp add: rotr_def Let_def)
  have n48: "sha256_next
      [0xde2029e6, 0x2a283654, 0x40a22ad2, 0xf6107a35, 0x2acd22d0, 0xc45a7f6b, 0xca3deeee,
      0xf3ddd01a, 0x0e15ff6a, 0xbf46fd05, 0x8da66f63, 0xfe602ca3, 0x2e4a92be, 0x1856cec8,
      0x5a988e9b, 0x3d125a16] =
      0x9473e353"
    by (simp add: rotr_def Let_def sha256_next_def)
  have r49: "sha256_round [0x00782102, 0x68263e97, 0xc2943273, 0xd7a5864d, 0x2fbdda53, 0x8e293f40, 0xd0d31d7a, 0xd17f639b]
      0x1e376c08 0x2a283654 =
      [0x793e8437, 0x00782102, 0x68263e97, 0xc2943273, 0xa825d4f1, 0x2fbdda53, 0x8e293f40, 0xd0d31d7a]"
    by (simp add: rotr_def Let_def)
  have n49: "sha256_next
      [0x2a283654, 0x40a22ad2, 0xf6107a35, 0x2acd22d0, 0xc45a7f6b, 0xca3deeee, 0xf3ddd01a,
      0x0e15ff6a, 0xbf46fd05, 0x8da66f63, 0xfe602ca3, 0x2e4a92be, 0x1856cec8, 0x5a988e9b,
      0x3d125a16, 0x9473e353] =
      0x4436d49b"
    by (simp add: rotr_def Let_def sha256_next_def)
  have r50: "sha256_round [0x793e8437, 0x00782102, 0x68263e97, 0xc2943273, 0xa825d4f1, 0x2fbdda53, 0x8e293f40, 0xd0d31d7a]
      0x2748774c 0x40a22ad2 =
      [0x1f8e7f5a, 0x793e8437, 0x00782102, 0x68263e97, 0x73ffd899, 0xa825d4f1, 0x2fbdda53, 0x8e293f40]"
    by (simp add: rotr_def Let_def)
  have n50: "sha256_next
      [0x40a22ad2, 0xf6107a35, 0x2acd22d0, 0xc45a7f6b, 0xca3deeee, 0xf3ddd01a, 0x0e15ff6a,
      0xbf46fd05, 0x8da66f63, 0xfe602ca3, 0x2e4a92be, 0x1856cec8, 0x5a988e9b, 0x3d125a16,
      0x9473e353, 0x4436d49b] =
      0x388c4dfa"
    by (simp add: rotr_def Let_def sha256_next_def)
  have r51: "sha256_round [0x1f8e7f5a, 0x793e8437, 0x00782102, 0x68263e97, 0x73ffd899, 0xa825d4f1, 0x2fbdda53, 0x8e293f40]
      0x34b0bcb5 0xf6107a35 =
      [0xcc2a460a, 0x1f8e7f5a, 0x793e8437, 0x00782102, 0xd64453b4, 0x73ffd899, 0xa825d4f1, 0x2fbdda53]"
    by (simp add: rotr_def Let_def)
  have n51: "sha256_next
      [0xf6107a35, 0x2acd22d0, 0xc45a7f6b, 0xca3deeee, 0xf3ddd01a, 0x0e15ff6a, 0xbf46fd05,
      0x8da66f63, 0xfe602ca3, 0x2e4a92be, 0x1856cec8, 0x5a988e9b, 0x3d125a16, 0x9473e353,
      0x4436d49b, 0x388c4dfa] =
      0xc2e308c7"
    by (simp add: rotr_def Let_def sha256_next_def)
  have r52: "sha256_round [0xcc2a460a, 0x1f8e7f5a, 0x793e8437, 0x00782102, 0xd64453b4, 0x73ffd899, 0xa825d4f1, 0x2fbdda53]
      0x391c0cb3 0x2acd22d0 =
      [0x1d6a0450, 0xcc2a460a, 0x1f8e7f5a, 0x793e8437, 0x966f0358, 0xd64453b4, 0x73ffd899, 0xa825d4f1]"
    by (simp add: rotr_def Let_def)
  have n52: "sha256_next
      [0x2acd22d0, 0xc45a7f6b, 0xca3deeee, 0xf3ddd01a, 0x0e15ff6a, 0xbf46fd05, 0x8da66f63,
      0xfe602ca3, 0x2e4a92be, 0x1856cec8, 0x5a988e9b, 0x3d125a16, 0x9473e353, 0x4436d49b,
      0x388c4dfa, 0xc2e308c7] =
      0x434973e1"
    by (simp add: rotr_def Let_def sha256_next_def)
  have r53: "sha256_round [0x1d6a0450, 0xcc2a460a, 0x1f8e7f5a, 0x793e8437, 0x966f0358, 0xd64453b4, 0x73ffd899, 0xa825d4f1]
      0x4ed8aa4a 0xc45a7f6b =
      [0x9cee2868, 0x1d6a0450, 0xcc2a460a, 0x1f8e7f5a, 0x6b373c14, 0x966f0358, 0xd64453b4, 0x73ffd899]"
    by (simp add: rotr_def Let_def)
  have n53: "sha256_next
      [0xc45a7f6b, 0xca3deeee, 0xf3ddd01a, 0x0e15ff6a, 0xbf46fd05, 0x8da66f63, 0xfe602ca3,
      0x2e4a92be, 0x1856cec8, 0x5a988e9b, 0x3d125a16, 0x9473e353, 0x4436d49b, 0x388c4dfa,
      0xc2e308c7, 0x434973e1] =
      0xc3a72484"
    by (simp add: rotr_def Let_def sha256_next_def)
  have r54: "sha256_round [0x9cee2868, 0x1d6a0450, 0xcc2a460a, 0x1f8e7f5a, 0x6b373c14, 0x966f0358, 0xd64453b4, 0x73ffd899]
      0x5b9cca4f 0xca3deeee =
      [0xf24a5908, 0x9cee2868, 0x1d6a0450, 0xcc2a460a, 0x98900502, 0x6b373c14, 0x966f0358, 0xd64453b4]"
    by (simp add: rotr_def Let_def)
  have n54: "sha256_next
      [0xca3deeee, 0xf3ddd01a, 0x0e15ff6a, 0xbf46fd05, 0x8da66f63, 0xfe602ca3, 0x2e4a92be,
      0x1856cec8, 0x5a988e9b, 0x3d125a16, 0x9473e353, 0x4436d49b, 0x388c4dfa, 0xc2e308c7,
      0x434973e1, 0xc3a72484] =
      0xfe8761e9"
    by (simp add: rotr_def Let_def sha256_next_def)
  have r55: "sha256_round [0xf24a5908, 0x9cee2868, 0x1d6a0450, 0xcc2a460a, 0x98900502, 0x6b373c14, 0x966f0358, 0xd64453b4]
      0x682e6ff3 0xf3ddd01a =
      [0x9d1e9d92, 0xf24a5908, 0x9cee2868, 0x1d6a0450, 0xef2db37b, 0x98900502, 0x6b373c14, 0x966f0358]"
    by (simp add: rotr_def Let_def)
  have n55: "sha256_next
      [0xf3ddd01a, 0x0e15ff6a, 0xbf46fd05, 0x8da66f63, 0xfe602ca3, 0x2e4a92be, 0x1856cec8,
      0x5a988e9b, 0x3d125a16, 0x9473e353, 0x4436d49b, 0x388c4dfa, 0xc2e308c7, 0x434973e1,
      0xc3a72484, 0xfe8761e9] =
      0xa937db71"
    by (simp add: rotr_def Let_def sha256_next_def)
  have r56: "sha256_round [0x9d1e9d92, 0xf24a5908, 0x9cee2868, 0x1d6a0450, 0xef2db37b, 0x98900502, 0x6b373c14, 0x966f0358]
      0x748f82ee 0x0e15ff6a =
      [0x8532a02e, 0x9d1e9d92, 0xf24a5908, 0x9cee2868, 0xd4a98592, 0xef2db37b, 0x98900502, 0x6b373c14]"
    by (simp add: rotr_def Let_def)
  have n56: "sha256_next
      [0x0e15ff6a, 0xbf46fd05, 0x8da66f63, 0xfe602ca3, 0x2e4a92be, 0x1856cec8, 0x5a988e9b,
      0x3d125a16, 0x9473e353, 0x4436d49b, 0x388c4dfa, 0xc2e308c7, 0x434973e1, 0xc3a72484,
      0xfe8761e9, 0xa937db71] =
      0x531a72db"
    by (simp add: rotr_def Let_def sha256_next_def)
  have r57: "sha256_round [0x8532a02e, 0x9d1e9d92, 0xf24a5908, 0x9cee2868, 0xd4a98592, 0xef2db37b, 0x98900502, 0x6b373c14]
      0x78a5636f 0xbf46fd05 =
      [0x1cfaec7a, 0x8532a02e, 0x9d1e9d92, 0xf24a5908, 0xba16404e, 0xd4a98592, 0xef2db37b, 0x98900502]"
    by (simp add: rotr_def Let_def)
  have n57: "sha256_next
      [0xbf46fd05, 0x8da66f63, 0xfe602ca3, 0x2e4a92be, 0x1856cec8, 0x5a988e9b, 0x3d125a16,
      0x9473e353, 0x4436d49b, 0x388c4dfa, 0xc2e308c7, 0x434973e1, 0xc3a72484, 0xfe8761e9,
      0xa937db71, 0x531a72db] =
      0x5c4759a5"
    by (simp add: rotr_def Let_def sha256_next_def)
  have r58: "sha256_round [0x1cfaec7a, 0x8532a02e, 0x9d1e9d92, 0xf24a5908, 0xba16404e, 0xd4a98592, 0xef2db37b, 0x98900502]
      0x84c87814 0x8da66f63 =
      [0x64e23d34, 0x1cfaec7a, 0x8532a02e, 0x9d1e9d92, 0xaa923548, 0xba16404e, 0xd4a98592, 0xef2db37b]"
    by (simp add: rotr_def Let_def)
  have n58: "sha256_next
      [0x8da66f63, 0xfe602ca3, 0x2e4a92be, 0x1856cec8, 0x5a988e9b, 0x3d125a16, 0x9473e353,
      0x4436d49b, 0x388c4dfa, 0xc2e308c7, 0x434973e1, 0xc3a72484, 0xfe8761e9, 0xa937db71,
      0x531a72db, 0x5c4759a5] =
      0x1ac3b7f1"
    by (simp add: rotr_def Let_def sha256_next_def)
  have r59: "sha256_round [0x64e23d34, 0x1cfaec7a, 0x8532a02e, 0x9d1e9d92, 0xaa923548, 0xba16404e, 0xd4a98592, 0xef2db37b]
      0x8cc70208 0xfe602ca3 =
      [0xb89847d3, 0x64e23d34, 0x1cfaec7a, 0x8532a02e, 0xd854bf58, 0xaa923548, 0xba16404e, 0xd4a98592]"
    by (simp add: rotr_def Let_def)
  have n59: "sha256_next
      [0xfe602ca3, 0x2e4a92be, 0x1856cec8, 0x5a988e9b, 0x3d125a16, 0x9473e353, 0x4436d49b,
      0x388c4dfa, 0xc2e308c7, 0x434973e1, 0xc3a72484, 0xfe8761e9, 0xa937db71, 0x531a72db,
      0x5c4759a5, 0x1ac3b7f1] =
      0x66d501e1"
    by (simp add: rotr_def Let_def sha256_next_def)
  have r60: "sha256_round [0xb89847d3, 0x64e23d34, 0x1cfaec7a, 0x8532a02e, 0xd854bf58, 0xaa923548, 0xba16404e, 0xd4a98592]
      0x90befffa 0x2e4a92be =
      [0xce8a8ae4, 0xb89847d3, 0x64e23d34, 0x1cfaec7a, 0x651e21cc, 0xd854bf58, 0xaa923548, 0xba16404e]"
    by (simp add: rotr_def Let_def)
  have n60: "sha256_next
      [0x2e4a92be, 0x1856cec8, 0x5a988e9b, 0x3d125a16, 0x9473e353, 0x4436d49b, 0x388c4dfa,
      0xc2e308c7, 0x434973e1, 0xc3a72484, 0xfe8761e9, 0xa937db71, 0x531a72db, 0x5c4759a5,
      0x1ac3b7f1, 0x66d501e1] =
      0xbf7a4867"
    by (simp add: rotr_def Let_def sha256_next_def)
  have r61: "sha256_round [0xce8a8ae4, 0xb89847d3, 0x64e23d34, 0x1cfaec7a, 0x651e21cc, 0xd854bf58, 0xaa923548, 0xba16404e]
      0xa4506ceb 0x1856cec8 =
      [0x03934485, 0xce8a8ae4, 0xb89847d3, 0x64e23d34, 0xe554db34, 0x651e21cc, 0xd854bf58, 0xaa923548]"
    by (simp add: rotr_def Let_def)
  have n61: "sha256_next
      [0x1856cec8, 0x5a988e9b, 0x3d125a16, 0x9473e353, 0x4436d49b, 0x388c4dfa, 0xc2e308c7,
      0x434973e1, 0xc3a72484, 0xfe8761e9, 0xa937db71, 0x531a72db, 0x5c4759a5, 0x1ac3b7f1,
      0x66d501e1, 0xbf7a4867] =
      0x55f45209"
    by (simp add: rotr_def Let_def sha256_next_def)
  have r62: "sha256_round [0x03934485, 0xce8a8ae4, 0xb89847d3, 0x64e23d34, 0xe554db34, 0x651e21cc, 0xd854bf58, 0xaa923548]
      0xbef9a3f7 0x5a988e9b =
      [0x15161125, 0x03934485, 0xce8a8ae4, 0xb89847d3, 0xc57f2ddf, 0xe554db34, 0x651e21cc, 0xd854bf58]"
    by (simp add: rotr_def Let_def)
  have n62: "sha256_next
      [0x5a988e9b, 0x3d125a16, 0x9473e353, 0x4436d49b, 0x388c4dfa, 0xc2e308c7, 0x434973e1,
      0xc3a72484, 0xfe8761e9, 0xa937db71, 0x531a72db, 0x5c4759a5, 0x1ac3b7f1, 0x66d501e1,
      0xbf7a4867, 0x55f45209] =
      0x2e3f417e"
    by (simp add: rotr_def Let_def sha256_next_def)
  have r63: "sha256_round [0x15161125, 0x03934485, 0xce8a8ae4, 0xb89847d3, 0xc57f2ddf, 0xe554db34, 0x651e21cc, 0xd854bf58]
      0xc67178f2 0x3d125a16 =
      [0xd8641176, 0x15161125, 0x03934485, 0xce8a8ae4, 0xf5409ff7, 0xc57f2ddf, 0xe554db34, 0x651e21cc]"
    by (simp add: rotr_def Let_def)
  have n63: "sha256_next
      [0x3d125a16, 0x9473e353, 0x4436d49b, 0x388c4dfa, 0xc2e308c7, 0x434973e1, 0xc3a72484,
      0xfe8761e9, 0xa937db71, 0x531a72db, 0x5c4759a5, 0x1ac3b7f1, 0x66d501e1, 0xbf7a4867,
      0x55f45209, 0x2e3f417e] =
      0x80f048f1"
    by (simp add: rotr_def Let_def sha256_next_def)
  have rounds: "sha256_rounds sha256_K
     [0x6a09e667, 0xbb67ae85, 0x3c6ef372, 0xa54ff53a, 0x510e527f, 0x9b05688c, 0x1f83d9ab, 0x5be0cd19]
     [0x6e896f81, 0xd416d6a8, 0x476927f9, 0x68bf1ec9, 0x3111fa5f, 0xed24d006, 0x968028df,
      0x5a5801f5, 0x0000016c, 0x0000013b, 0x80000000, 0x00000000, 0x00000000, 0x00000000,
      0x00000000, 0x00000140] =
     [0xd8641176, 0x15161125, 0x03934485, 0xce8a8ae4, 0xf5409ff7, 0xc57f2ddf, 0xe554db34, 0x651e21cc]"
    by (simp only: sha256_K_def sha256_rounds.simps list.sel append.simps
      r0 n0 r1 n1 r2 n2 r3 n3 r4 n4 r5 n5 r6 n6 r7 n7 r8 n8 r9 n9 r10 n10 r11
      n11 r12 n12 r13 n13 r14 n14 r15 n15 r16 n16 r17 n17 r18 n18 r19 n19 r20
      n20 r21 n21 r22 n22 r23 n23 r24 n24 r25 n25 r26 n26 r27 n27 r28 n28 r29
      n29 r30 n30 r31 n31 r32 n32 r33 n33 r34 n34 r35 n35 r36 n36 r37 n37 r38
      n38 r39 n39 r40 n40 r41 n41 r42 n42 r43 n43 r44 n44 r45 n45 r46 n46 r47
      n47 r48 n48 r49 n49 r50 n50 r51 n51 r52 n52 r53 n53 r54 n54 r55 n55 r56
      n56 r57 n57 r58 n58 r59 n59 r60 n60 r61 n61 r62 n62 r63 n63)
  show ?thesis
    by (simp add: sha256_def block blocks_of.simps sha256_compress_def rounds sha256_H0_def be32_def)
qed

lemma sha1_policy_mixed_step1:
  "sha1
     [0x00, 0x00, 0x00, 0x00, 0x00, 0x00, 0x00, 0x00, 0x00, 0x00, 0x00, 0x00, 0x00, 0x00, 0x00,
      0x00, 0x00, 0x00, 0x00, 0x00, 0x00, 0x00, 0x01, 0x51, 0x40, 0x00, 0x00, 0x01] =
   [0x47, 0x0b, 0xa5, 0xe2, 0x79, 0xef, 0x63, 0xae, 0x32, 0x83, 0x5a, 0x3d, 0x86, 0x44, 0xb0,
    0x9d, 0x02, 0x6b, 0xd6, 0x6d]"
proof -
  have block: "words_of (sha_pad
     [0x00, 0x00, 0x00, 0x00, 0x00, 0x00, 0x00, 0x00, 0x00, 0x00, 0x00, 0x00, 0x00, 0x00, 0x00,
      0x00, 0x00, 0x00, 0x00, 0x00, 0x00, 0x00, 0x01, 0x51, 0x40, 0x00, 0x00, 0x01]) =
     [0x00000000, 0x00000000, 0x00000000, 0x00000000, 0x00000000, 0x00000151, 0x40000001,
      0x80000000, 0x00000000, 0x00000000, 0x00000000, 0x00000000, 0x00000000, 0x00000000,
      0x00000000, 0x000000e0]"
    by (simp add: sha_pad_def be64_of_nat_def be32_def replicate_numeral)
  have r0: "sha1_round [0x67452301, 0xefcdab89, 0x98badcfe, 0x10325476, 0xc3d2e1f0]
      (Ch, 0x5a827999) 0x00000000 =
      [0x9fb498b3, 0x67452301, 0x7bf36ae2, 0x98badcfe, 0x10325476]"
    by (simp add: rotl_def)
  have n0: "sha1_next
      [0x00000000, 0x00000000, 0x00000000, 0x00000000, 0x00000000, 0x00000151, 0x40000001,
      0x80000000, 0x00000000, 0x00000000, 0x00000000, 0x00000000, 0x00000000, 0x00000000,
      0x00000000, 0x000000e0] =
      0x00000000"
    by (simp add: rotl_def sha1_next_def)
  have r1: "sha1_round [0x9fb498b3, 0x67452301, 0x7bf36ae2, 0x98badcfe, 0x10325476]
      (Ch, 0x5a827999) 0x00000000 =
      [0x5d43e380, 0x9fb498b3, 0x59d148c0, 0x7bf36ae2, 0x98badcfe]"
    by (simp add: rotl_def)
  have n1: "sha1_next
      [0x00000000, 0x00000000, 0x00000000, 0x00000000, 0x00000151, 0x40000001, 0x80000000,
      0x00000000, 0x00000000, 0x00000000, 0x00000000, 0x00000000, 0x00000000, 0x00000000,
      0x000000e0, 0x00000000] =
      0x00000000"
    by (simp add: rotl_def sha1_next_def)
  have r2: "sha1_round [0x5d43e380, 0x9fb498b3, 0x59d148c0, 0x7bf36ae2, 0x98badcfe]
      (Ch, 0x5a827999) 0x00000000 =
      [0x158d3162, 0x5d43e380, 0xe7ed262c, 0x59d148c0, 0x7bf36ae2]"
    by (simp add: rotl_def)
  have n2: "sha1_next
      [0x00000000, 0x00000000, 0x00000000, 0x00000151, 0x40000001, 0x80000000, 0x00000000,
      0x00000000, 0x00000000, 0x00000000, 0x00000000, 0x00000000, 0x00000000, 0x000000e0,
      0x00000000, 0x00000000] =
      0x000001c0"
    by (simp add: rotl_def sha1_next_def)
  have r3: "sha1_round [0x158d3162, 0x5d43e380, 0xe7ed262c, 0x59d148c0, 0x7bf36ae2]
      (Ch, 0x5a827999) 0x00000000 =
      [0xcded3afd, 0x158d3162, 0x1750f8e0, 0xe7ed262c, 0x59d148c0]"
    by (simp add: rotl_def)
  have n3: "sha1_next
      [0x00000000, 0x00000000, 0x00000151, 0x40000001, 0x80000000, 0x00000000, 0x00000000,
      0x00000000, 0x00000000, 0x00000000, 0x00000000, 0x00000000, 0x000000e0, 0x00000000,
      0x00000000, 0x000001c0] =
      0x000002a2"
    by (simp add: rotl_def sha1_next_def)
  have r4: "sha1_round [0xcded3afd, 0x158d3162, 0x1750f8e0, 0xe7ed262c, 0x59d148c0]
      (Ch, 0x5a827999) 0x00000000 =
      [0x695b587e, 0xcded3afd, 0x85634c58, 0x1750f8e0, 0xe7ed262c]"
    by (simp add: rotl_def)
  have n4: "sha1_next
      [0x00000000, 0x00000151, 0x40000001, 0x80000000, 0x00000000, 0x00000000, 0x00000000,
      0x00000000, 0x00000000, 0x00000000, 0x00000000, 0x000000e0, 0x00000000, 0x00000000,
      0x000001c0, 0x000002a2] =
      0x80000002"
    by (simp add: rotl_def sha1_next_def)
  have r5: "sha1_round [0x695b587e, 0xcded3afd, 0x85634c58, 0x1750f8e0, 0xe7ed262c]
      (Ch, 0x5a827999) 0x00000151 =
      [0x054c793b, 0x695b587e, 0x737b4ebf, 0x85634c58, 0x1750f8e0]"
    by (simp add: rotl_def)
  have n5: "sha1_next
      [0x00000151, 0x40000001, 0x80000000, 0x00000000, 0x00000000, 0x00000000, 0x00000000,
      0x00000000, 0x00000000, 0x00000000, 0x000000e0, 0x00000000, 0x00000000, 0x000001c0,
      0x000002a2, 0x80000002] =
      0x00000123"
    by (simp add: rotl_def sha1_next_def)
  have r6: "sha1_round [0x054c793b, 0x695b587e, 0x737b4ebf, 0x85634c58, 0x1750f8e0]
      (Ch, 0x5a827999) 0x40000001 =
      [0x40dde618, 0x054c793b, 0x9a56d61f, 0x737b4ebf, 0x85634c58]"
    by (simp add: rotl_def)
  have n6: "sha1_next
      [0x40000001, 0x80000000, 0x00000000, 0x00000000, 0x00000000, 0x00000000, 0x00000000,
      0x00000000, 0x00000000, 0x000000e0, 0x00000000, 0x00000000, 0x000001c0, 0x000002a2,
      0x80000002, 0x00000123] =
      0x80000546"
    by (simp add: rotl_def sha1_next_def)
  have r7: "sha1_round [0x40dde618, 0x054c793b, 0x9a56d61f, 0x737b4ebf, 0x85634c58]
      (Ch, 0x5a827999) 0x80000000 =
      [0xee19df98, 0x40dde618, 0xc1531e4e, 0x9a56d61f, 0x737b4ebf]"
    by (simp add: rotl_def)
  have n7: "sha1_next
      [0x80000000, 0x00000000, 0x00000000, 0x00000000, 0x00000000, 0x00000000, 0x00000000,
      0x00000000, 0x000000e0, 0x00000000, 0x00000000, 0x000001c0, 0x000002a2, 0x80000002,
      0x00000123, 0x80000546] =
      0x000001c4"
    by (simp add: rotl_def sha1_next_def)
  have r8: "sha1_round [0xee19df98, 0x40dde618, 0xc1531e4e, 0x9a56d61f, 0x737b4ebf]
      (Ch, 0x5a827999) 0x00000000 =
      [0x6b8cd184, 0xee19df98, 0x10377986, 0xc1531e4e, 0x9a56d61f]"
    by (simp add: rotl_def)
  have n8: "sha1_next
      [0x00000000, 0x00000000, 0x00000000, 0x00000000, 0x00000000, 0x00000000, 0x00000000,
      0x000000e0, 0x00000000, 0x00000000, 0x000001c0, 0x000002a2, 0x80000002, 0x00000123,
      0x80000546, 0x000001c4] =
      0x00000246"
    by (simp add: rotl_def sha1_next_def)
  have r9: "sha1_round [0x6b8cd184, 0xee19df98, 0x10377986, 0xc1531e4e, 0x9a56d61f]
      (Ch, 0x5a827999) 0x00000000 =
      [0x67c6da0b, 0x6b8cd184, 0x3b8677e6, 0x10377986, 0xc1531e4e]"
    by (simp add: rotl_def)
  have n9: "sha1_next
      [0x00000000, 0x00000000, 0x00000000, 0x00000000, 0x00000000, 0x00000000, 0x000000e0,
      0x00000000, 0x00000000, 0x000001c0, 0x000002a2, 0x80000002, 0x00000123, 0x80000546,
      0x000001c4, 0x00000246] =
      0x00000a8d"
    by (simp add: rotl_def sha1_next_def)
  have r10: "sha1_round [0x67c6da0b, 0x6b8cd184, 0x3b8677e6, 0x10377986, 0xc1531e4e]
      (Ch, 0x5a827999) 0x00000000 =
      [0x506852d9, 0x67c6da0b, 0x1ae33461, 0x3b8677e6, 0x10377986]"
    by (simp add: rotl_def)
  have n10: "sha1_next
      [0x00000000, 0x00000000, 0x00000000, 0x00000000, 0x00000000, 0x000000e0, 0x00000000,
      0x00000000, 0x000001c0, 0x000002a2, 0x80000002, 0x00000123, 0x80000546, 0x000001c4,
      0x00000246, 0x00000a8d] =
      0x00000008"
    by (simp add: rotl_def sha1_next_def)
  have r11: "sha1_round [0x506852d9, 0x67c6da0b, 0x1ae33461, 0x3b8677e6, 0x10377986]
      (Ch, 0x5a827999) 0x00000000 =
      [0x9286842e, 0x506852d9, 0xd9f1b682, 0x1ae33461, 0x3b8677e6]"
    by (simp add: rotl_def)
  have n11: "sha1_next
      [0x00000000, 0x00000000, 0x00000000, 0x00000000, 0x000000e0, 0x00000000, 0x00000000,
      0x000001c0, 0x000002a2, 0x80000002, 0x00000123, 0x80000546, 0x000001c4, 0x00000246,
      0x00000a8d, 0x00000008] =
      0x000001c8"
    by (simp add: rotl_def sha1_next_def)
  have r12: "sha1_round [0x9286842e, 0x506852d9, 0xd9f1b682, 0x1ae33461, 0x3b8677e6]
      (Ch, 0x5a827999) 0x00000000 =
      [0x41bcadf1, 0x9286842e, 0x541a14b6, 0xd9f1b682, 0x1ae33461]"
    by (simp add: rotl_def)
  have n12: "sha1_next
      [0x00000000, 0x00000000, 0x00000000, 0x000000e0, 0x00000000, 0x00000000, 0x000001c0,
      0x000002a2, 0x80000002, 0x00000123, 0x80000546, 0x000001c4, 0x00000246, 0x00000a8d,
      0x00000008, 0x000001c8] =
      0x0000151f"
    by (simp add: rotl_def sha1_next_def)
  have r13: "sha1_round [0x41bcadf1, 0x9286842e, 0x541a14b6, 0xd9f1b682, 0x1ae33461]
      (Ch, 0x5a827999) 0x00000000 =
      [0x066ea2c8, 0x41bcadf1, 0xa4a1a10b, 0x541a14b6, 0xd9f1b682]"
    by (simp add: rotl_def)
  have n13: "sha1_next
      [0x00000000, 0x00000000, 0x000000e0, 0x00000000, 0x00000000, 0x000001c0, 0x000002a2,
      0x80000002, 0x00000123, 0x80000546, 0x000001c4, 0x00000246, 0x00000a8d, 0x00000008,
      0x000001c8, 0x0000151f] =
      0x00000396"
    by (simp add: rotl_def sha1_next_def)
  have r14: "sha1_round [0x066ea2c8, 0x41bcadf1, 0xa4a1a10b, 0x541a14b6, 0xd9f1b682]
      (Ch, 0x5a827999) 0x00000000 =
      [0x16eb3a22, 0x066ea2c8, 0x506f2b7c, 0xa4a1a10b, 0x541a14b6]"
    by (simp add: rotl_def)
  have n14: "sha1_next
      [0x00000000, 0x000000e0, 0x00000000, 0x00000000, 0x000001c0, 0x000002a2, 0x80000002,
      0x00000123, 0x80000546, 0x000001c4, 0x00000246, 0x00000a8d, 0x00000008, 0x000001c8,
      0x0000151f, 0x00000396] =
      0x0000091d"
    by (simp add: rotl_def sha1_next_def)
  have r15: "sha1_round [0x16eb3a22, 0x066ea2c8, 0x506f2b7c, 0xa4a1a10b, 0x541a14b6]
      (Ch, 0x5a827999) 0x000000e0 =
      [0x2cf2f6bc, 0x16eb3a22, 0x019ba8b2, 0x506f2b7c, 0xa4a1a10b]"
    by (simp add: rotl_def)
  have n15: "sha1_next
      [0x000000e0, 0x00000000, 0x00000000, 0x000001c0, 0x000002a2, 0x80000002, 0x00000123,
      0x80000546, 0x000001c4, 0x00000246, 0x00000a8d, 0x00000008, 0x000001c8, 0x0000151f,
      0x00000396, 0x0000091d] =
      0x00002876"
    by (simp add: rotl_def sha1_next_def)
  have r16: "sha1_round [0x2cf2f6bc, 0x16eb3a22, 0x019ba8b2, 0x506f2b7c, 0xa4a1a10b]
      (Ch, 0x5a827999) 0x00000000 =
      [0xde121ba7, 0x2cf2f6bc, 0x85bace88, 0x019ba8b2, 0x506f2b7c]"
    by (simp add: rotl_def)
  have n16: "sha1_next
      [0x00000000, 0x00000000, 0x000001c0, 0x000002a2, 0x80000002, 0x00000123, 0x80000546,
      0x000001c4, 0x00000246, 0x00000a8d, 0x00000008, 0x000001c8, 0x0000151f, 0x00000396,
      0x0000091d, 0x00002876] =
      0x00000020"
    by (simp add: rotl_def sha1_next_def)
  have r17: "sha1_round [0xde121ba7, 0x2cf2f6bc, 0x85bace88, 0x019ba8b2, 0x506f2b7c]
      (Ch, 0x5a827999) 0x00000000 =
      [0x72f0e89a, 0xde121ba7, 0x0b3cbdaf, 0x85bace88, 0x019ba8b2]"
    by (simp add: rotl_def)
  have n17: "sha1_next
      [0x00000000, 0x000001c0, 0x000002a2, 0x80000002, 0x00000123, 0x80000546, 0x000001c4,
      0x00000246, 0x00000a8d, 0x00000008, 0x000001c8, 0x0000151f, 0x00000396, 0x0000091d,
      0x00002876, 0x00000020] =
      0x00000264"
    by (simp add: rotl_def sha1_next_def)
  have r18: "sha1_round [0x72f0e89a, 0xde121ba7, 0x0b3cbdaf, 0x85bace88, 0x019ba8b2]
      (Ch, 0x5a827999) 0x000001c0 =
      [0xc5f41508, 0x72f0e89a, 0xf78486e9, 0x0b3cbdaf, 0x85bace88]"
    by (simp add: rotl_def)
  have n18: "sha1_next
      [0x000001c0, 0x000002a2, 0x80000002, 0x00000123, 0x80000546, 0x000001c4, 0x00000246,
      0x00000a8d, 0x00000008, 0x000001c8, 0x0000151f, 0x00000396, 0x0000091d, 0x00002876,
      0x00000020, 0x00000264] =
      0x00005379"
    by (simp add: rotl_def sha1_next_def)
  have r19: "sha1_round [0xc5f41508, 0x72f0e89a, 0xf78486e9, 0x0b3cbdaf, 0x85bace88]
      (Ch, 0x5a827999) 0x000002a2 =
      [0x1a4c8188, 0xc5f41508, 0x9cbc3a26, 0xf78486e9, 0x0b3cbdaf]"
    by (simp add: rotl_def)
  have n19: "sha1_next
      [0x000002a2, 0x80000002, 0x00000123, 0x80000546, 0x000001c4, 0x00000246, 0x00000a8d,
      0x00000008, 0x000001c8, 0x0000151f, 0x00000396, 0x0000091d, 0x00002876, 0x00000020,
      0x00000264, 0x00005379] =
      0x000004d2"
    by (simp add: rotl_def sha1_next_def)
  have r20: "sha1_round [0x1a4c8188, 0xc5f41508, 0x9cbc3a26, 0xf78486e9, 0x0b3cbdaf]
      (Parity, 0x6ed9eba1) 0x80000002 =
      [0xf273841c, 0x1a4c8188, 0x317d0542, 0x9cbc3a26, 0xf78486e9]"
    by (simp add: rotl_def)
  have n20: "sha1_next
      [0x80000002, 0x00000123, 0x80000546, 0x000001c4, 0x00000246, 0x00000a8d, 0x00000008,
      0x000001c8, 0x0000151f, 0x00000396, 0x0000091d, 0x00002876, 0x00000020, 0x00000264,
      0x00005379, 0x000004d2] =
      0x0000247e"
    by (simp add: rotl_def sha1_next_def)
  have r21: "sha1_round [0xf273841c, 0x1a4c8188, 0x317d0542, 0x9cbc3a26, 0xf78486e9]
      (Parity, 0x6ed9eba1) 0x00000123 =
      [0x6c5cb637, 0xf273841c, 0x06932062, 0x317d0542, 0x9cbc3a26]"
    by (simp add: rotl_def)
  have n21: "sha1_next
      [0x00000123, 0x80000546, 0x000001c4, 0x00000246, 0x00000a8d, 0x00000008, 0x000001c8,
      0x0000151f, 0x00000396, 0x0000091d, 0x00002876, 0x00000020, 0x00000264, 0x00005379,
      0x000004d2, 0x0000247e] =
      0x0000a010"
    by (simp add: rotl_def sha1_next_def)
  have r22: "sha1_round [0x6c5cb637, 0xf273841c, 0x06932062, 0x317d0542, 0x9cbc3a26]
      (Parity, 0x6ed9eba1) 0x80000546 =
      [0xdcca9336, 0x6c5cb637, 0x3c9ce107, 0x06932062, 0x317d0542]"
    by (simp add: rotl_def)
  have n22: "sha1_next
      [0x80000546, 0x000001c4, 0x00000246, 0x00000a8d, 0x00000008, 0x000001c8, 0x0000151f,
      0x00000396, 0x0000091d, 0x00002876, 0x00000020, 0x00000264, 0x00005379, 0x000004d2,
      0x0000247e, 0x0000a010] =
      0x0000159f"
    by (simp add: rotl_def sha1_next_def)
  have r23: "sha1_round [0xdcca9336, 0x6c5cb637, 0x3c9ce107, 0x06932062, 0x317d0542]
      (Parity, 0x6ed9eba1) 0x000001c4 =
      [0x8ffcd0d4, 0xdcca9336, 0xdb172d8d, 0x3c9ce107, 0x06932062]"
    by (simp add: rotl_def)
  have n23: "sha1_next
      [0x000001c4, 0x00000246, 0x00000a8d, 0x00000008, 0x000001c8, 0x0000151f, 0x00000396,
      0x0000091d, 0x00002876, 0x00000020, 0x00000264, 0x00005379, 0x000004d2, 0x0000247e,
      0x0000a010, 0x0000159f] =
      0x00000e82"
    by (simp add: rotl_def sha1_next_def)
  have r24: "sha1_round [0x8ffcd0d4, 0xdcca9336, 0xdb172d8d, 0x3c9ce107, 0x06932062]
      (Parity, 0x6ed9eba1) 0x00000246 =
      [0xb0488896, 0x8ffcd0d4, 0xb732a4cd, 0xdb172d8d, 0x3c9ce107]"
    by (simp add: rotl_def)
  have n24: "sha1_next
      [0x00000246, 0x00000a8d, 0x00000008, 0x000001c8, 0x0000151f, 0x00000396, 0x0000091d,
      0x00002876, 0x00000020, 0x00000264, 0x00005379, 0x000004d2, 0x0000247e, 0x0000a010,
      0x0000159f, 0x00000e82] =
      0x000144fc"
    by (simp add: rotl_def sha1_next_def)
  have r25: "sha1_round [0xb0488896, 0x8ffcd0d4, 0xb732a4cd, 0xdb172d8d, 0x3c9ce107]
      (Parity, 0x6ed9eba1) 0x00000a8d =
      [0x9861439f, 0xb0488896, 0x23ff3435, 0xb732a4cd, 0xdb172d8d]"
    by (simp add: rotl_def)
  have n25: "sha1_next
      [0x00000a8d, 0x00000008, 0x000001c8, 0x0000151f, 0x00000396, 0x0000091d, 0x00002876,
      0x00000020, 0x00000264, 0x00005379, 0x000004d2, 0x0000247e, 0x0000a010, 0x0000159f,
      0x00000e82, 0x000144fc] =
      0x0000397c"
    by (simp add: rotl_def sha1_next_def)
  have r26: "sha1_round [0x9861439f, 0xb0488896, 0x23ff3435, 0xb732a4cd, 0xdb172d8d]
      (Parity, 0x6ed9eba1) 0x00000008 =
      [0x7a9ea597, 0x9861439f, 0xac122225, 0x23ff3435, 0xb732a4cd]"
    by (simp add: rotl_def)
  have n26: "sha1_next
      [0x00000008, 0x000001c8, 0x0000151f, 0x00000396, 0x0000091d, 0x00002876, 0x00000020,
      0x00000264, 0x00005379, 0x000004d2, 0x0000247e, 0x0000a010, 0x0000159f, 0x00000e82,
      0x000144fc, 0x0000397c] =
      0x000091d8"
    by (simp add: rotl_def sha1_next_def)
  have r27: "sha1_round [0x7a9ea597, 0x9861439f, 0xac122225, 0x23ff3435, 0xb732a4cd]
      (Parity, 0x6ed9eba1) 0x000001c8 =
      [0x916d9ab4, 0x7a9ea597, 0xe61850e7, 0xac122225, 0x23ff3435]"
    by (simp add: rotl_def)
  have n27: "sha1_next
      [0x000001c8, 0x0000151f, 0x00000396, 0x0000091d, 0x00002876, 0x00000020, 0x00000264,
      0x00005379, 0x000004d2, 0x0000247e, 0x0000a010, 0x0000159f, 0x00000e82, 0x000144fc,
      0x0000397c, 0x000091d8] =
      0x000284e0"
    by (simp add: rotl_def sha1_next_def)
  have r28: "sha1_round [0x916d9ab4, 0x7a9ea597, 0xe61850e7, 0xac122225, 0x23ff3435]
      (Parity, 0x6ed9eba1) 0x0000151f =
      [0xf12162dc, 0x916d9ab4, 0xdea7a965, 0xe61850e7, 0xac122225]"
    by (simp add: rotl_def)
  have n28: "sha1_next
      [0x0000151f, 0x00000396, 0x0000091d, 0x00002876, 0x00000020, 0x00000264, 0x00005379,
      0x000004d2, 0x0000247e, 0x0000a010, 0x0000159f, 0x00000e82, 0x000144fc, 0x0000397c,
      0x000091d8, 0x000284e0] =
      0x00000200"
    by (simp add: rotl_def sha1_next_def)
  have r29: "sha1_round [0xf12162dc, 0x916d9ab4, 0xdea7a965, 0xe61850e7, 0xac122225]
      (Parity, 0x6ed9eba1) 0x00000396 =
      [0xe8ead030, 0xf12162dc, 0x245b66ad, 0xdea7a965, 0xe61850e7]"
    by (simp add: rotl_def)
  have n29: "sha1_next
      [0x00000396, 0x0000091d, 0x00002876, 0x00000020, 0x00000264, 0x00005379, 0x000004d2,
      0x0000247e, 0x0000a010, 0x0000159f, 0x00000e82, 0x000144fc, 0x0000397c, 0x000091d8,
      0x000284e0, 0x00000200] =
      0x00003450"
    by (simp add: rotl_def sha1_next_def)
  have r30: "sha1_round [0xe8ead030, 0xf12162dc, 0x245b66ad, 0xdea7a965, 0xe61850e7]
      (Parity, 0x6ed9eba1) 0x0000091d =
      [0x7e29f8d6, 0xe8ead030, 0x3c4858b7, 0x245b66ad, 0xdea7a965]"
    by (simp add: rotl_def)
  have n30: "sha1_next
      [0x0000091d, 0x00002876, 0x00000020, 0x00000264, 0x00005379, 0x000004d2, 0x0000247e,
      0x0000a010, 0x0000159f, 0x00000e82, 0x000144fc, 0x0000397c, 0x000091d8, 0x000284e0,
      0x00000200, 0x00003450] =
      0x00053084"
    by (simp add: rotl_def sha1_next_def)
  have r31: "sha1_round [0x7e29f8d6, 0xe8ead030, 0x3c4858b7, 0x245b66ad, 0xdea7a965]
      (Parity, 0x6ed9eba1) 0x00002876 =
      [0x03bac675, 0x7e29f8d6, 0x3a3ab40c, 0x3c4858b7, 0x245b66ad]"
    by (simp add: rotl_def)
  have n31: "sha1_next
      [0x00002876, 0x00000020, 0x00000264, 0x00005379, 0x000004d2, 0x0000247e, 0x0000a010,
      0x0000159f, 0x00000e82, 0x000144fc, 0x0000397c, 0x000091d8, 0x000284e0, 0x00000200,
      0x00003450, 0x00053084] =
      0x00004d20"
    by (simp add: rotl_def sha1_next_def)
  have r32: "sha1_round [0x03bac675, 0x7e29f8d6, 0x3a3ab40c, 0x3c4858b7, 0x245b66ad]
      (Parity, 0x6ed9eba1) 0x00000020 =
      [0x82e9357b, 0x03bac675, 0x9f8a7e35, 0x3a3ab40c, 0x3c4858b7]"
    by (simp add: rotl_def)
  have n32: "sha1_next
      [0x00000020, 0x00000264, 0x00005379, 0x000004d2, 0x0000247e, 0x0000a010, 0x0000159f,
      0x00000e82, 0x000144fc, 0x0000397c, 0x000091d8, 0x000284e0, 0x00000200, 0x00003450,
      0x00053084, 0x00004d20] =
      0x000247ea"
    by (simp add: rotl_def sha1_next_def)
  have r33: "sha1_round [0x82e9357b, 0x03bac675, 0x9f8a7e35, 0x3a3ab40c, 0x3c4858b7]
      (Parity, 0x6ed9eba1) 0x00000264 =
      [0xae530278, 0x82e9357b, 0x40eeb19d, 0x9f8a7e35, 0x3a3ab40c]"
    by (simp add: rotl_def)
  have n33: "sha1_next
      [0x00000264, 0x00005379, 0x000004d2, 0x0000247e, 0x0000a010, 0x0000159f, 0x00000e82,
      0x000144fc, 0x0000397c, 0x000091d8, 0x000284e0, 0x00000200, 0x00003450, 0x00053084,
      0x00004d20, 0x000247ea] =
      0x000a1e9c"
    by (simp add: rotl_def sha1_next_def)
  have r34: "sha1_round [0xae530278, 0x82e9357b, 0x40eeb19d, 0x9f8a7e35, 0x3a3ab40c]
      (Parity, 0x6ed9eba1) 0x00005379 =
      [0xd1033d0e, 0xae530278, 0xe0ba4d5e, 0x40eeb19d, 0x9f8a7e35]"
    by (simp add: rotl_def)
  have n34: "sha1_next
      [0x00005379, 0x000004d2, 0x0000247e, 0x0000a010, 0x0000159f, 0x00000e82, 0x000144fc,
      0x0000397c, 0x000091d8, 0x000284e0, 0x00000200, 0x00003450, 0x00053084, 0x00004d20,
      0x000247ea, 0x000a1e9c] =
      0x000157fe"
    by (simp add: rotl_def sha1_next_def)
  have r35: "sha1_round [0xd1033d0e, 0xae530278, 0xe0ba4d5e, 0x40eeb19d, 0x9f8a7e35]
      (Parity, 0x6ed9eba1) 0x000004d2 =
      [0x3cd40f3d, 0xd1033d0e, 0x2b94c09e, 0xe0ba4d5e, 0x40eeb19d]"
    by (simp add: rotl_def)
  have n35: "sha1_next
      [0x000004d2, 0x0000247e, 0x0000a010, 0x0000159f, 0x00000e82, 0x000144fc, 0x0000397c,
      0x000091d8, 0x000284e0, 0x00000200, 0x00003450, 0x00053084, 0x00004d20, 0x000247ea,
      0x000a1e9c, 0x000157fe] =
      0x0000cf90"
    by (simp add: rotl_def sha1_next_def)
  have r36: "sha1_round [0x3cd40f3d, 0xd1033d0e, 0x2b94c09e, 0xe0ba4d5e, 0x40eeb19d]
      (Parity, 0x6ed9eba1) 0x0000247e =
      [0x64785a31, 0x3cd40f3d, 0xb440cf43, 0x2b94c09e, 0xe0ba4d5e]"
    by (simp add: rotl_def)
  have n36: "sha1_next
      [0x0000247e, 0x0000a010, 0x0000159f, 0x00000e82, 0x000144fc, 0x0000397c, 0x000091d8,
      0x000284e0, 0x00000200, 0x00003450, 0x00053084, 0x00004d20, 0x000247ea, 0x000a1e9c,
      0x000157fe, 0x0000cf90] =
      0x00145afa"
    by (simp add: rotl_def sha1_next_def)
  have r37: "sha1_round [0x64785a31, 0x3cd40f3d, 0xb440cf43, 0x2b94c09e, 0xe0ba4d5e]
      (Parity, 0x6ed9eba1) 0x0000a010 =
      [0x81a0201b, 0x64785a31, 0x4f3503cf, 0xb440cf43, 0x2b94c09e]"
    by (simp add: rotl_def)
  have n37: "sha1_next
      [0x0000a010, 0x0000159f, 0x00000e82, 0x000144fc, 0x0000397c, 0x000091d8, 0x000284e0,
      0x00000200, 0x00003450, 0x00053084, 0x00004d20, 0x000247ea, 0x000a1e9c, 0x000157fe,
      0x0000cf90, 0x00145afa] =
      0x00039a78"
    by (simp add: rotl_def sha1_next_def)
  have r38: "sha1_round [0x81a0201b, 0x64785a31, 0x4f3503cf, 0xb440cf43, 0x2b94c09e]
      (Parity, 0x6ed9eba1) 0x0000159f =
      [0x6d805c0b, 0x81a0201b, 0x591e168c, 0x4f3503cf, 0xb440cf43]"
    by (simp add: rotl_def)
  have n38: "sha1_next
      [0x0000159f, 0x00000e82, 0x000144fc, 0x0000397c, 0x000091d8, 0x000284e0, 0x00000200,
      0x00003450, 0x00053084, 0x00004d20, 0x000247ea, 0x000a1e9c, 0x000157fe, 0x0000cf90,
      0x00145afa, 0x00039a78] =
      0x00095cee"
    by (simp add: rotl_def sha1_next_def)
  have r39: "sha1_round [0x6d805c0b, 0x81a0201b, 0x591e168c, 0x4f3503cf, 0xb440cf43]
      (Parity, 0x6ed9eba1) 0x00000e82 =
      [0x6ab1802b, 0x6d805c0b, 0xe0680806, 0x591e168c, 0x4f3503cf]"
    by (simp add: rotl_def)
  have n39: "sha1_next
      [0x00000e82, 0x000144fc, 0x0000397c, 0x000091d8, 0x000284e0, 0x00000200, 0x00003450,
      0x00053084, 0x00004d20, 0x000247ea, 0x000a1e9c, 0x000157fe, 0x0000cf90, 0x00145afa,
      0x00039a78, 0x00095cee] =
      0x00284048"
    by (simp add: rotl_def sha1_next_def)
  have r40: "sha1_round [0x6ab1802b, 0x6d805c0b, 0xe0680806, 0x591e168c, 0x4f3503cf]
      (Maj, 0x8f1bbcdc) 0x000144fc =
      [0x9d8a2722, 0x6ab1802b, 0xdb601702, 0xe0680806, 0x591e168c]"
    by (simp add: rotl_def)
  have n40: "sha1_next
      [0x000144fc, 0x0000397c, 0x000091d8, 0x000284e0, 0x00000200, 0x00003450, 0x00053084,
      0x00004d20, 0x000247ea, 0x000a1e9c, 0x000157fe, 0x0000cf90, 0x00145afa, 0x00039a78,
      0x00095cee, 0x00284048] =
      0x0000116c"
    by (simp add: rotl_def sha1_next_def)
  have r41: "sha1_round [0x9d8a2722, 0x6ab1802b, 0xdb601702, 0xe0680806, 0x591e168c]
      (Maj, 0x8f1bbcdc) 0x0000397c =
      [0x83def139, 0x9d8a2722, 0xdaac600a, 0xdb601702, 0xe0680806]"
    by (simp add: rotl_def)
  have n41: "sha1_next
      [0x0000397c, 0x000091d8, 0x000284e0, 0x00000200, 0x00003450, 0x00053084, 0x00004d20,
      0x000247ea, 0x000a1e9c, 0x000157fe, 0x0000cf90, 0x00145afa, 0x00039a78, 0x00095cee,
      0x00284048, 0x0000116c] =
      0x0003ffdc"
    by (simp add: rotl_def sha1_next_def)
  have r42: "sha1_round [0x83def139, 0x9d8a2722, 0xdaac600a, 0xdb601702, 0xe0680806]
      (Maj, 0x8f1bbcdc) 0x000091d8 =
      [0xc70aa4ec, 0x83def139, 0xa76289c8, 0xdaac600a, 0xdb601702]"
    by (simp add: rotl_def)
  have n42: "sha1_next
      [0x000091d8, 0x000284e0, 0x00000200, 0x00003450, 0x00053084, 0x00004d20, 0x000247ea,
      0x000a1e9c, 0x000157fe, 0x0000cf90, 0x00145afa, 0x00039a78, 0x00095cee, 0x00284048,
      0x0000116c, 0x0003ffdc] =
      0x005308dc"
    by (simp add: rotl_def sha1_next_def)
  have r43: "sha1_round [0xc70aa4ec, 0x83def139, 0xa76289c8, 0xdaac600a, 0xdb601702]
      (Maj, 0x8f1bbcdc) 0x000284e0 =
      [0xcfc1d75e, 0xc70aa4ec, 0x60f7bc4e, 0xa76289c8, 0xdaac600a]"
    by (simp add: rotl_def)
  have n43: "sha1_next
      [0x000284e0, 0x00000200, 0x00003450, 0x00053084, 0x00004d20, 0x000247ea, 0x000a1e9c,
      0x000157fe, 0x0000cf90, 0x00145afa, 0x00039a78, 0x00095cee, 0x00284048, 0x0000116c,
      0x0003ffdc, 0x005308dc] =
      0x0004dc98"
    by (simp add: rotl_def sha1_next_def)
  have r44: "sha1_round [0xcfc1d75e, 0xc70aa4ec, 0x60f7bc4e, 0xa76289c8, 0xdaac600a]
      (Maj, 0x8f1bbcdc) 0x00000200 =
      [0x4965b78b, 0xcfc1d75e, 0x31c2a93b, 0x60f7bc4e, 0xa76289c8]"
    by (simp add: rotl_def)
  have n44: "sha1_next
      [0x00000200, 0x00003450, 0x00053084, 0x00004d20, 0x000247ea, 0x000a1e9c, 0x000157fe,
      0x0000cf90, 0x00145afa, 0x00039a78, 0x00095cee, 0x00284048, 0x0000116c, 0x0003ffdc,
      0x005308dc, 0x0004dc98] =
      0x00252f44"
    by (simp add: rotl_def sha1_next_def)
  have r45: "sha1_round [0x4965b78b, 0xcfc1d75e, 0x31c2a93b, 0x60f7bc4e, 0xa76289c8]
      (Maj, 0x8f1bbcdc) 0x00003450 =
      [0xc4f929bb, 0x4965b78b, 0xb3f075d7, 0x31c2a93b, 0x60f7bc4e]"
    by (simp add: rotl_def)
  have n45: "sha1_next
      [0x00003450, 0x00053084, 0x00004d20, 0x000247ea, 0x000a1e9c, 0x000157fe, 0x0000cf90,
      0x00145afa, 0x00039a78, 0x00095cee, 0x00284048, 0x0000116c, 0x0003ffdc, 0x005308dc,
      0x0004dc98, 0x00252f44] =
      0x00a1d7a8"
    by (simp add: rotl_def sha1_next_def)
  have r46: "sha1_round [0xc4f929bb, 0x4965b78b, 0xb3f075d7, 0x31c2a93b, 0x60f7bc4e]
      (Maj, 0x8f1bbcdc) 0x00053084 =
      [0xc11e96c1, 0xc4f929bb, 0xd2596de2, 0xb3f075d7, 0x31c2a93b]"
    by (simp add: rotl_def)
  have n46: "sha1_next
      [0x00053084, 0x00004d20, 0x000247ea, 0x000a1e9c, 0x000157fe, 0x0000cf90, 0x00145afa,
      0x00039a78, 0x00095cee, 0x00284048, 0x0000116c, 0x0003ffdc, 0x005308dc, 0x0004dc98,
      0x00252f44, 0x00a1d7a8] =
      0x0015ee30"
    by (simp add: rotl_def sha1_next_def)
  have r47: "sha1_round [0xc11e96c1, 0xc4f929bb, 0xd2596de2, 0xb3f075d7, 0x31c2a93b]
      (Maj, 0x8f1bbcdc) 0x00004d20 =
      [0xb7aaf962, 0xc11e96c1, 0xf13e4a6e, 0xd2596de2, 0xb3f075d7]"
    by (simp add: rotl_def)
  have n47: "sha1_next
      [0x00004d20, 0x000247ea, 0x000a1e9c, 0x000157fe, 0x0000cf90, 0x00145afa, 0x00039a78,
      0x00095cee, 0x00284048, 0x0000116c, 0x0003ffdc, 0x005308dc, 0x0004dc98, 0x00252f44,
      0x00a1d7a8, 0x0015ee30] =
      0x000e7960"
    by (simp add: rotl_def sha1_next_def)
  have r48: "sha1_round [0xb7aaf962, 0xc11e96c1, 0xf13e4a6e, 0xd2596de2, 0xb3f075d7]
      (Maj, 0x8f1bbcdc) 0x000247ea =
      [0x098bf5d5, 0xb7aaf962, 0x7047a5b0, 0xf13e4a6e, 0xd2596de2]"
    by (simp add: rotl_def)
  have n48: "sha1_next
      [0x000247ea, 0x000a1e9c, 0x000157fe, 0x0000cf90, 0x00145afa, 0x00039a78, 0x00095cee,
      0x00284048, 0x0000116c, 0x0003ffdc, 0x005308dc, 0x0004dc98, 0x00252f44, 0x00a1d7a8,
      0x0015ee30, 0x000e7960] =
      0x0145ada0"
    by (simp add: rotl_def sha1_next_def)
  have r49: "sha1_round [0x098bf5d5, 0xb7aaf962, 0x7047a5b0, 0xf13e4a6e, 0xd2596de2]
      (Maj, 0x8f1bbcdc) 0x000a1e9c =
      [0x842ced5d, 0x098bf5d5, 0xadeabe58, 0x7047a5b0, 0xf13e4a6e]"
    by (simp add: rotl_def)
  have n49: "sha1_next
      [0x000a1e9c, 0x000157fe, 0x0000cf90, 0x00145afa, 0x00039a78, 0x00095cee, 0x00284048,
      0x0000116c, 0x0003ffdc, 0x005308dc, 0x0004dc98, 0x00252f44, 0x00a1d7a8, 0x0015ee30,
      0x000e7960, 0x0145ada0] =
      0x003981c0"
    by (simp add: rotl_def sha1_next_def)
  have r50: "sha1_round [0x842ced5d, 0x098bf5d5, 0xadeabe58, 0x7047a5b0, 0xf13e4a6e]
      (Maj, 0x8f1bbcdc) 0x000157fe =
      [0x2fc4c0c8, 0x842ced5d, 0x4262fd75, 0xadeabe58, 0x7047a5b0]"
    by (simp add: rotl_def)
  have n50: "sha1_next
      [0x000157fe, 0x0000cf90, 0x00145afa, 0x00039a78, 0x00095cee, 0x00284048, 0x0000116c,
      0x0003ffdc, 0x005308dc, 0x0004dc98, 0x00252f44, 0x00a1d7a8, 0x0015ee30, 0x000e7960,
      0x0145ada0, 0x003981c0] =
      0x0090f970"
    by (simp add: rotl_def sha1_next_def)
  have r51: "sha1_round [0x2fc4c0c8, 0x842ced5d, 0x4262fd75, 0xadeabe58, 0x7047a5b0]
      (Maj, 0x8f1bbcdc) 0x0000cf90 =
      [0x7c67487e, 0x2fc4c0c8, 0x610b3b57, 0x4262fd75, 0xadeabe58]"
    by (simp add: rotl_def)
  have n51: "sha1_next
      [0x0000cf90, 0x00145afa, 0x00039a78, 0x00095cee, 0x00284048, 0x0000116c, 0x0003ffdc,
      0x005308dc, 0x0004dc98, 0x00252f44, 0x00a1d7a8, 0x0015ee30, 0x000e7960, 0x0145ada0,
      0x003981c0, 0x0090f970] =
      0x028449a0"
    by (simp add: rotl_def sha1_next_def)
  have r52: "sha1_round [0x7c67487e, 0x2fc4c0c8, 0x610b3b57, 0x4262fd75, 0xadeabe58]
      (Maj, 0x8f1bbcdc) 0x00145afa =
      [0x2d46df52, 0x7c67487e, 0x0bf13032, 0x610b3b57, 0x4262fd75]"
    by (simp add: rotl_def)
  have n52: "sha1_next
      [0x00145afa, 0x00039a78, 0x00095cee, 0x00284048, 0x0000116c, 0x0003ffdc, 0x005308dc,
      0x0004dc98, 0x00252f44, 0x00a1d7a8, 0x0015ee30, 0x000e7960, 0x0145ada0, 0x003981c0,
      0x0090f970, 0x028449a0] =
      0x00035120"
    by (simp add: rotl_def sha1_next_def)
  have r53: "sha1_round [0x2d46df52, 0x7c67487e, 0x0bf13032, 0x610b3b57, 0x4262fd75]
      (Maj, 0x8f1bbcdc) 0x00039a78 =
      [0xe3c17784, 0x2d46df52, 0x9f19d21f, 0x0bf13032, 0x610b3b57]"
    by (simp add: rotl_def)
  have n53: "sha1_next
      [0x00039a78, 0x00095cee, 0x00284048, 0x0000116c, 0x0003ffdc, 0x005308dc, 0x0004dc98,
      0x00252f44, 0x00a1d7a8, 0x0015ee30, 0x000e7960, 0x0145ada0, 0x003981c0, 0x0090f970,
      0x028449a0, 0x00035120] =
      0x0035e9d0"
    by (simp add: rotl_def sha1_next_def)
  have r54: "sha1_round [0xe3c17784, 0x2d46df52, 0x9f19d21f, 0x0bf13032, 0x610b3b57]
      (Maj, 0x8f1bbcdc) 0x00095cee =
      [0x77b117cf, 0xe3c17784, 0x8b51b7d4, 0x9f19d21f, 0x0bf13032]"
    by (simp add: rotl_def)
  have n54: "sha1_next
      [0x00095cee, 0x00284048, 0x0000116c, 0x0003ffdc, 0x005308dc, 0x0004dc98, 0x00252f44,
      0x00a1d7a8, 0x0015ee30, 0x000e7960, 0x0145ada0, 0x003981c0, 0x0090f970, 0x028449a0,
      0x00035120, 0x0035e9d0] =
      0x0531d424"
    by (simp add: rotl_def sha1_next_def)
  have r55: "sha1_round [0x77b117cf, 0xe3c17784, 0x8b51b7d4, 0x9f19d21f, 0x0bf13032]
      (Maj, 0x8f1bbcdc) 0x00284048 =
      [0x1caa1ed8, 0x77b117cf, 0x38f05de1, 0x8b51b7d4, 0x9f19d21f]"
    by (simp add: rotl_def)
  have n55: "sha1_next
      [0x00284048, 0x0000116c, 0x0003ffdc, 0x005308dc, 0x0004dc98, 0x00252f44, 0x00a1d7a8,
      0x0015ee30, 0x000e7960, 0x0145ada0, 0x003981c0, 0x0090f970, 0x028449a0, 0x00035120,
      0x0035e9d0, 0x0531d424] =
      0x004d2fa8"
    by (simp add: rotl_def sha1_next_def)
  have r56: "sha1_round [0x1caa1ed8, 0x77b117cf, 0x38f05de1, 0x8b51b7d4, 0x9f19d21f]
      (Maj, 0x8f1bbcdc) 0x0000116c =
      [0xff6a932f, 0x1caa1ed8, 0xddec45f3, 0x38f05de1, 0x8b51b7d4]"
    by (simp add: rotl_def)
  have n56: "sha1_next
      [0x0000116c, 0x0003ffdc, 0x005308dc, 0x0004dc98, 0x00252f44, 0x00a1d7a8, 0x0015ee30,
      0x000e7960, 0x0145ada0, 0x003981c0, 0x0090f970, 0x028449a0, 0x00035120, 0x0035e9d0,
      0x0531d424, 0x004d2fa8] =
      0x0246bb80"
    by (simp add: rotl_def sha1_next_def)
  have r57: "sha1_round [0xff6a932f, 0x1caa1ed8, 0xddec45f3, 0x38f05de1, 0x8b51b7d4]
      (Maj, 0x8f1bbcdc) 0x0003ffdc =
      [0x24ac387c, 0xff6a932f, 0x072a87b6, 0xddec45f3, 0x38f05de1]"
    by (simp add: rotl_def)
  have n57: "sha1_next
      [0x0003ffdc, 0x005308dc, 0x0004dc98, 0x00252f44, 0x00a1d7a8, 0x0015ee30, 0x000e7960,
      0x0145ada0, 0x003981c0, 0x0090f970, 0x028449a0, 0x00035120, 0x0035e9d0, 0x0531d424,
      0x004d2fa8, 0x0246bb80] =
      0x0a1eed40"
    by (simp add: rotl_def sha1_next_def)
  have r58: "sha1_round [0x24ac387c, 0xff6a932f, 0x072a87b6, 0xddec45f3, 0x38f05de1]
      (Maj, 0x8f1bbcdc) 0x005308dc =
      [0x3d50bad4, 0x24ac387c, 0xffdaa4cb, 0x072a87b6, 0xddec45f3]"
    by (simp add: rotl_def)
  have n58: "sha1_next
      [0x005308dc, 0x0004dc98, 0x00252f44, 0x00a1d7a8, 0x0015ee30, 0x000e7960, 0x0145ada0,
      0x003981c0, 0x0090f970, 0x028449a0, 0x00035120, 0x0035e9d0, 0x0531d424, 0x004d2fa8,
      0x0246bb80, 0x0a1eed40] =
      0x0157e280"
    by (simp add: rotl_def sha1_next_def)
  have r59: "sha1_round [0x3d50bad4, 0x24ac387c, 0xffdaa4cb, 0x072a87b6, 0xddec45f3]
      (Maj, 0x8f1bbcdc) 0x0004dc98 =
      [0x3ecedeec, 0x3d50bad4, 0x092b0e1f, 0xffdaa4cb, 0x072a87b6]"
    by (simp add: rotl_def)
  have n59: "sha1_next
      [0x0004dc98, 0x00252f44, 0x00a1d7a8, 0x0015ee30, 0x000e7960, 0x0145ada0, 0x003981c0,
      0x0090f970, 0x028449a0, 0x00035120, 0x0035e9d0, 0x0531d424, 0x004d2fa8, 0x0246bb80,
      0x0a1eed40, 0x0157e280] =
      0x00cff220"
    by (simp add: rotl_def sha1_next_def)
  have r60: "sha1_round [0x3ecedeec, 0x3d50bad4, 0x092b0e1f, 0xffdaa4cb, 0x072a87b6]
      (Parity, 0xca62c1d6) 0x00252f44 =
      [0x772f6657, 0x3ecedeec, 0x0f542eb5, 0x092b0e1f, 0xffdaa4cb]"
    by (simp add: rotl_def)
  have n60: "sha1_next
      [0x00252f44, 0x00a1d7a8, 0x0015ee30, 0x000e7960, 0x0145ada0, 0x003981c0, 0x0090f970,
      0x028449a0, 0x00035120, 0x0035e9d0, 0x0531d424, 0x004d2fa8, 0x0246bb80, 0x0a1eed40,
      0x0157e280, 0x00cff220] =
      0x145afa28"
    by (simp add: rotl_def sha1_next_def)
  have r61: "sha1_round [0x772f6657, 0x3ecedeec, 0x0f542eb5, 0x092b0e1f, 0xffdaa4cb]
      (Parity, 0xca62c1d6) 0x00a1d7a8 =
      [0xe97e077d, 0x772f6657, 0x0fb3b7bb, 0x0f542eb5, 0x092b0e1f]"
    by (simp add: rotl_def)
  have n61: "sha1_next
      [0x00a1d7a8, 0x0015ee30, 0x000e7960, 0x0145ada0, 0x003981c0, 0x0090f970, 0x028449a0,
      0x00035120, 0x0035e9d0, 0x0531d424, 0x004d2fa8, 0x0246bb80, 0x0a1eed40, 0x0157e280,
      0x00cff220, 0x145afa28] =
      0x039b4b30"
    by (simp add: rotl_def sha1_next_def)
  have r62: "sha1_round [0xe97e077d, 0x772f6657, 0x0fb3b7bb, 0x0f542eb5, 0x092b0e1f]
      (Parity, 0xca62c1d6) 0x0015ee30 =
      [0x7b2dad3b, 0xe97e077d, 0xddcbd995, 0x0fb3b7bb, 0x0f542eb5]"
    by (simp add: rotl_def)
  have n62: "sha1_next
      [0x0015ee30, 0x000e7960, 0x0145ada0, 0x003981c0, 0x0090f970, 0x028449a0, 0x00035120,
      0x0035e9d0, 0x0531d424, 0x004d2fa8, 0x0246bb80, 0x0a1eed40, 0x0157e280, 0x00cff220,
      0x145afa28, 0x039b4b30] =
      0x095ccb28"
    by (simp add: rotl_def sha1_next_def)
  have r63: "sha1_round [0x7b2dad3b, 0xe97e077d, 0xddcbd995, 0x0fb3b7bb, 0x0f542eb5]
      (Parity, 0xca62c1d6) 0x000e7960 =
      [0x7a817aad, 0x7b2dad3b, 0x7a5f81df, 0xddcbd995, 0x0fb3b7bb]"
    by (simp add: rotl_def)
  have n63: "sha1_next
      [0x000e7960, 0x0145ada0, 0x003981c0, 0x0090f970, 0x028449a0, 0x00035120, 0x0035e9d0,
      0x0531d424, 0x004d2fa8, 0x0246bb80, 0x0a1eed40, 0x0157e280, 0x00cff220, 0x145afa28,
      0x039b4b30, 0x095ccb28] =
      0x28405a40"
    by (simp add: rotl_def sha1_next_def)
  have r64: "sha1_round [0x7a817aad, 0x7b2dad3b, 0x7a5f81df, 0xddcbd995, 0x0fb3b7bb]
      (Parity, 0xca62c1d6) 0x0145ada0 =
      [0x08457251, 0x7a817aad, 0xdecb6b4e, 0x7a5f81df, 0xddcbd995]"
    by (simp add: rotl_def)
  have n64: "sha1_next
      [0x0145ada0, 0x003981c0, 0x0090f970, 0x028449a0, 0x00035120, 0x0035e9d0, 0x0531d424,
      0x004d2fa8, 0x0246bb80, 0x0a1eed40, 0x0157e280, 0x00cff220, 0x145afa28, 0x039b4b30,
      0x095ccb28, 0x28405a40] =
      0x001148c0"
    by (simp add: rotl_def sha1_next_def)
  have r65: "sha1_round [0x08457251, 0x7a817aad, 0xdecb6b4e, 0x7a5f81df, 0xddcbd995]
      (Parity, 0xca62c1d6) 0x003981c0 =
      [0x8f2bf788, 0x08457251, 0x5ea05eab, 0xdecb6b4e, 0x7a5f81df]"
    by (simp add: rotl_def)
  have n65: "sha1_next
      [0x003981c0, 0x0090f970, 0x028449a0, 0x00035120, 0x0035e9d0, 0x0531d424, 0x004d2fa8,
      0x0246bb80, 0x0a1eed40, 0x0157e280, 0x00cff220, 0x145afa28, 0x039b4b30, 0x095ccb28,
      0x28405a40, 0x001148c0] =
      0x03ffdc10"
    by (simp add: rotl_def sha1_next_def)
  have r66: "sha1_round [0x8f2bf788, 0x08457251, 0x5ea05eab, 0xdecb6b4e, 0x7a5f81df]
      (Parity, 0xca62c1d6) 0x0090f970 =
      [0xb30075ea, 0x8f2bf788, 0x42115c94, 0x5ea05eab, 0xdecb6b4e]"
    by (simp add: rotl_def)
  have n66: "sha1_next
      [0x0090f970, 0x028449a0, 0x00035120, 0x0035e9d0, 0x0531d424, 0x004d2fa8, 0x0246bb80,
      0x0a1eed40, 0x0157e280, 0x00cff220, 0x145afa28, 0x039b4b30, 0x095ccb28, 0x28405a40,
      0x001148c0, 0x03ffdc10] =
      0x53082120"
    by (simp add: rotl_def sha1_next_def)
  have r67: "sha1_round [0xb30075ea, 0x8f2bf788, 0x42115c94, 0x5ea05eab, 0xdecb6b4e]
      (Parity, 0xca62c1d6) 0x028449a0 =
      [0x9f5c29d1, 0xb30075ea, 0x23cafde2, 0x42115c94, 0x5ea05eab]"
    by (simp add: rotl_def)
  have n67: "sha1_next
      [0x028449a0, 0x00035120, 0x0035e9d0, 0x0531d424, 0x004d2fa8, 0x0246bb80, 0x0a1eed40,
      0x0157e280, 0x00cff220, 0x145afa28, 0x039b4b30, 0x095ccb28, 0x28405a40, 0x001148c0,
      0x03ffdc10, 0x53082120] =
      0x04de3520"
    by (simp add: rotl_def sha1_next_def)
  have r68: "sha1_round [0x9f5c29d1, 0xb30075ea, 0x23cafde2, 0x42115c94, 0x5ea05eab]
      (Parity, 0xca62c1d6) 0x00035120 =
      [0xe7678070, 0x9f5c29d1, 0xacc01d7a, 0x23cafde2, 0x42115c94]"
    by (simp add: rotl_def)
  have n68: "sha1_next
      [0x00035120, 0x0035e9d0, 0x0531d424, 0x004d2fa8, 0x0246bb80, 0x0a1eed40, 0x0157e280,
      0x00cff220, 0x145afa28, 0x039b4b30, 0x095ccb28, 0x28405a40, 0x001148c0, 0x03ffdc10,
      0x53082120, 0x04de3520] =
      0x252f4678"
    by (simp add: rotl_def sha1_next_def)
  have r69: "sha1_round [0xe7678070, 0x9f5c29d1, 0xacc01d7a, 0x23cafde2, 0x42115c94]
      (Parity, 0xca62c1d6) 0x0035e9d0 =
      [0x09f0df9f, 0xe7678070, 0x67d70a74, 0xacc01d7a, 0x23cafde2]"
    by (simp add: rotl_def)
  have n69: "sha1_next
      [0x0035e9d0, 0x0531d424, 0x004d2fa8, 0x0246bb80, 0x0a1eed40, 0x0157e280, 0x00cff220,
      0x145afa28, 0x039b4b30, 0x095ccb28, 0x28405a40, 0x001148c0, 0x03ffdc10, 0x53082120,
      0x04de3520, 0x252f4678] =
      0xa1d758d0"
    by (simp add: rotl_def sha1_next_def)
  have r70: "sha1_round [0x09f0df9f, 0xe7678070, 0x67d70a74, 0xacc01d7a, 0x23cafde2]
      (Parity, 0xca62c1d6) 0x0531d424 =
      [0x5dec1f3b, 0x09f0df9f, 0x39d9e01c, 0x67d70a74, 0xacc01d7a]"
    by (simp add: rotl_def)
  have n70: "sha1_next
      [0x0531d424, 0x004d2fa8, 0x0246bb80, 0x0a1eed40, 0x0157e280, 0x00cff220, 0x145afa28,
      0x039b4b30, 0x095ccb28, 0x28405a40, 0x001148c0, 0x03ffdc10, 0x53082120, 0x04de3520,
      0x252f4678, 0xa1d758d0] =
      0x15eb2358"
    by (simp add: rotl_def sha1_next_def)
  have r71: "sha1_round [0x5dec1f3b, 0x09f0df9f, 0x39d9e01c, 0x67d70a74, 0xacc01d7a]
      (Parity, 0xca62c1d6) 0x004d2fa8 =
      [0x8cf22c5a, 0x5dec1f3b, 0xc27c37e7, 0x39d9e01c, 0x67d70a74]"
    by (simp add: rotl_def)
  have n71: "sha1_next
      [0x004d2fa8, 0x0246bb80, 0x0a1eed40, 0x0157e280, 0x00cff220, 0x145afa28, 0x039b4b30,
      0x095ccb28, 0x28405a40, 0x001148c0, 0x03ffdc10, 0x53082120, 0x04de3520, 0x252f4678,
      0xa1d758d0, 0x15eb2358] =
      0x0e79bda0"
    by (simp add: rotl_def sha1_next_def)
  have r72: "sha1_round [0x8cf22c5a, 0x5dec1f3b, 0xc27c37e7, 0x39d9e01c, 0x67d70a74]
      (Parity, 0xca62c1d6) 0x0246bb80 =
      [0x790fdbdb, 0x8cf22c5a, 0xd77b07ce, 0xc27c37e7, 0x39d9e01c]"
    by (simp add: rotl_def)
  have n72: "sha1_next
      [0x0246bb80, 0x0a1eed40, 0x0157e280, 0x00cff220, 0x145afa28, 0x039b4b30, 0x095ccb28,
      0x28405a40, 0x001148c0, 0x03ffdc10, 0x53082120, 0x04de3520, 0x252f4678, 0xa1d758d0,
      0x15eb2358, 0x0e79bda0] =
      0x45ae9221"
    by (simp add: rotl_def sha1_next_def)
  have r73: "sha1_round [0x790fdbdb, 0x8cf22c5a, 0xd77b07ce, 0xc27c37e7, 0x39d9e01c]
      (Parity, 0xca62c1d6) 0x0a1eed40 =
      [0xca4c2714, 0x790fdbdb, 0xa33c8b16, 0xd77b07ce, 0xc27c37e7]"
    by (simp add: rotl_def)
  have n73: "sha1_next
      [0x0a1eed40, 0x0157e280, 0x00cff220, 0x145afa28, 0x039b4b30, 0x095ccb28, 0x28405a40,
      0x001148c0, 0x03ffdc10, 0x53082120, 0x04de3520, 0x252f4678, 0xa1d758d0, 0x15eb2358,
      0x0e79bda0, 0x45ae9221] =
      0x398bc050"
    by (simp add: rotl_def sha1_next_def)
  have r74: "sha1_round [0xca4c2714, 0x790fdbdb, 0xa33c8b16, 0xd77b07ce, 0xc27c37e7]
      (Parity, 0xca62c1d6) 0x0157e280 =
      [0xe50415d9, 0xca4c2714, 0xde43f6f6, 0xa33c8b16, 0xd77b07ce]"
    by (simp add: rotl_def)
  have n74: "sha1_next
      [0x0157e280, 0x00cff220, 0x145afa28, 0x039b4b30, 0x095ccb28, 0x28405a40, 0x001148c0,
      0x03ffdc10, 0x53082120, 0x04de3520, 0x252f4678, 0xa1d758d0, 0x15eb2358, 0x0e79bda0,
      0x45ae9221, 0x398bc050] =
      0x90f90850"
    by (simp add: rotl_def sha1_next_def)
  have r75: "sha1_round [0xe50415d9, 0xca4c2714, 0xde43f6f6, 0xa33c8b16, 0xd77b07ce]
      (Parity, 0xca62c1d6) 0x00cff220 =
      [0xfa63d1f4, 0xe50415d9, 0x329309c5, 0xde43f6f6, 0xa33c8b16]"
    by (simp add: rotl_def)
  have n75: "sha1_next
      [0x00cff220, 0x145afa28, 0x039b4b30, 0x095ccb28, 0x28405a40, 0x001148c0, 0x03ffdc10,
      0x53082120, 0x04de3520, 0x252f4678, 0xa1d758d0, 0x15eb2358, 0x0e79bda0, 0x45ae9221,
      0x398bc050, 0x90f90850] =
      0x84483c22"
    by (simp add: rotl_def sha1_next_def)
  have r76: "sha1_round [0xfa63d1f4, 0xe50415d9, 0x329309c5, 0xde43f6f6, 0xa33c8b16]
      (Parity, 0xca62c1d6) 0x145afa28 =
      [0xd849709d, 0xfa63d1f4, 0x79410576, 0x329309c5, 0xde43f6f6]"
    by (simp add: rotl_def)
  have n76: "sha1_next
      [0x145afa28, 0x039b4b30, 0x095ccb28, 0x28405a40, 0x001148c0, 0x03ffdc10, 0x53082120,
      0x04de3520, 0x252f4678, 0xa1d758d0, 0x15eb2358, 0x0e79bda0, 0x45ae9221, 0x398bc050,
      0x90f90850, 0x84483c22] =
      0x03456e50"
    by (simp add: rotl_def sha1_next_def)
  have r77: "sha1_round [0xd849709d, 0xfa63d1f4, 0x79410576, 0x329309c5, 0xde43f6f6]
      (Parity, 0xca62c1d6) 0x039b4b30 =
      [0x6721f4fe, 0xd849709d, 0x3e98f47d, 0x79410576, 0x329309c5]"
    by (simp add: rotl_def)
  have n77: "sha1_next
      [0x039b4b30, 0x095ccb28, 0x28405a40, 0x001148c0, 0x03ffdc10, 0x53082120, 0x04de3520,
      0x252f4678, 0xa1d758d0, 0x15eb2358, 0x0e79bda0, 0x45ae9221, 0x398bc050, 0x90f90850,
      0x84483c22, 0x03456e50] =
      0x35ea83e0"
    by (simp add: rotl_def sha1_next_def)
  have r78: "sha1_round [0x6721f4fe, 0xd849709d, 0x3e98f47d, 0x79410576, 0x329309c5]
      (Parity, 0xca62c1d6) 0x095ccb28 =
      [0x8a21b825, 0x6721f4fe, 0x76125c27, 0x3e98f47d, 0x79410576]"
    by (simp add: rotl_def)
  have n78: "sha1_next
      [0x095ccb28, 0x28405a40, 0x001148c0, 0x03ffdc10, 0x53082120, 0x04de3520, 0x252f4678,
      0xa1d758d0, 0x15eb2358, 0x0e79bda0, 0x45ae9221, 0x398bc050, 0x90f90850, 0x84483c22,
      0x03456e50, 0x35ea83e0] =
      0x31dd3925"
    by (simp add: rotl_def sha1_next_def)
  have r79: "sha1_round [0x8a21b825, 0x6721f4fe, 0x76125c27, 0x3e98f47d, 0x79410576]
      (Parity, 0xca62c1d6) 0x28405a40 =
      [0xdfc682e1, 0x8a21b825, 0x99c87d3f, 0x76125c27, 0x3e98f47d]"
    by (simp add: rotl_def)
  have n79: "sha1_next
      [0x28405a40, 0x001148c0, 0x03ffdc10, 0x53082120, 0x04de3520, 0x252f4678, 0xa1d758d0,
      0x15eb2358, 0x0e79bda0, 0x45ae9221, 0x398bc050, 0x90f90850, 0x84483c22, 0x03456e50,
      0x35ea83e0, 0x31dd3925] =
      0x4d06ab40"
    by (simp add: rotl_def sha1_next_def)
  have rounds: "sha1_rounds sha1_schedule
     [0x67452301, 0xefcdab89, 0x98badcfe, 0x10325476, 0xc3d2e1f0]
     [0x00000000, 0x00000000, 0x00000000, 0x00000000, 0x00000000, 0x00000151, 0x40000001,
      0x80000000, 0x00000000, 0x00000000, 0x00000000, 0x00000000, 0x00000000, 0x00000000,
      0x00000000, 0x000000e0] =
     [0xdfc682e1, 0x8a21b825, 0x99c87d3f, 0x76125c27, 0x3e98f47d]"
    by (simp only: sha1_schedule_def twenty_def sha1_rounds.simps list.sel append.simps
      r0 n0 r1 n1 r2 n2 r3 n3 r4 n4 r5 n5 r6 n6 r7 n7 r8 n8 r9 n9 r10 n10 r11
      n11 r12 n12 r13 n13 r14 n14 r15 n15 r16 n16 r17 n17 r18 n18 r19 n19 r20
      n20 r21 n21 r22 n22 r23 n23 r24 n24 r25 n25 r26 n26 r27 n27 r28 n28 r29
      n29 r30 n30 r31 n31 r32 n32 r33 n33 r34 n34 r35 n35 r36 n36 r37 n37 r38
      n38 r39 n39 r40 n40 r41 n41 r42 n42 r43 n43 r44 n44 r45 n45 r46 n46 r47
      n47 r48 n48 r49 n49 r50 n50 r51 n51 r52 n52 r53 n53 r54 n54 r55 n55 r56
      n56 r57 n57 r58 n58 r59 n59 r60 n60 r61 n61 r62 n62 r63 n63 r64 n64 r65
      n65 r66 n66 r67 n67 r68 n68 r69 n69 r70 n70 r71 n71 r72 n72 r73 n73 r74
      n74 r75 n75 r76 n76 r77 n77 r78 n78 r79 n79)
  show ?thesis
    by (simp add: sha1_def block blocks_of.simps sha1_compress_def rounds sha1_H0_def be32_def)
qed

lemma sha1_policy_mixed_step2:
  "sha1
     [0x47, 0x0b, 0xa5, 0xe2, 0x79, 0xef, 0x63, 0xae, 0x32, 0x83, 0x5a, 0x3d, 0x86, 0x44, 0xb0,
      0x9d, 0x02, 0x6b, 0xd6, 0x6d, 0x62, 0x61, 0x72] =
   [0x42, 0x1e, 0x78, 0x46, 0xfa, 0x70, 0xd7, 0x50, 0x1e, 0x11, 0x35, 0xd7, 0x18, 0xd6, 0x8e,
    0xd2, 0x99, 0x64, 0xa4, 0x38]"
proof -
  have block: "words_of (sha_pad
     [0x47, 0x0b, 0xa5, 0xe2, 0x79, 0xef, 0x63, 0xae, 0x32, 0x83, 0x5a, 0x3d, 0x86, 0x44, 0xb0,
      0x9d, 0x02, 0x6b, 0xd6, 0x6d, 0x62, 0x61, 0x72]) =
     [0x470ba5e2, 0x79ef63ae, 0x32835a3d, 0x8644b09d, 0x026bd66d, 0x62617280, 0x00000000,
      0x00000000, 0x00000000, 0x00000000, 0x00000000, 0x00000000, 0x00000000, 0x00000000,
      0x00000000, 0x000000b8]"
    by (simp add: sha_pad_def be64_of_nat_def be32_def replicate_numeral)
  have r0: "sha1_round [0x67452301, 0xefcdab89, 0x98badcfe, 0x10325476, 0xc3d2e1f0]
      (Ch, 0x5a827999) 0x470ba5e2 =
      [0xe6c03e95, 0x67452301, 0x7bf36ae2, 0x98badcfe, 0x10325476]"
    by (simp add: rotl_def)
  have n0: "sha1_next
      [0x470ba5e2, 0x79ef63ae, 0x32835a3d, 0x8644b09d, 0x026bd66d, 0x62617280, 0x00000000,
      0x00000000, 0x00000000, 0x00000000, 0x00000000, 0x00000000, 0x00000000, 0x00000000,
      0x00000000, 0x000000b8] =
      0xeb11ffbe"
    by (simp add: rotl_def sha1_next_def)
  have r1: "sha1_round [0xe6c03e95, 0x67452301, 0x7bf36ae2, 0x98badcfe, 0x10325476]
      (Ch, 0x5a827999) 0x79ef63ae =
      [0xb8a80377, 0xe6c03e95, 0x59d148c0, 0x7bf36ae2, 0x98badcfe]"
    by (simp add: rotl_def)
  have n1: "sha1_next
      [0x79ef63ae, 0x32835a3d, 0x8644b09d, 0x026bd66d, 0x62617280, 0x00000000, 0x00000000,
      0x00000000, 0x00000000, 0x00000000, 0x00000000, 0x00000000, 0x00000000, 0x00000000,
      0x000000b8, 0xeb11ffbe] =
      0xff57a667"
    by (simp add: rotl_def sha1_next_def)
  have r2: "sha1_round [0xb8a80377, 0xe6c03e95, 0x59d148c0, 0x7bf36ae2, 0x98badcfe]
      (Ch, 0x5a827999) 0x32835a3d =
      [0x94b468ad, 0xb8a80377, 0x79b00fa5, 0x59d148c0, 0x7bf36ae2]"
    by (simp add: rotl_def)
  have n2: "sha1_next
      [0x32835a3d, 0x8644b09d, 0x026bd66d, 0x62617280, 0x00000000, 0x00000000, 0x00000000,
      0x00000000, 0x00000000, 0x00000000, 0x00000000, 0x00000000, 0x00000000, 0x000000b8,
      0xeb11ffbe, 0xff57a667] =
      0x61d119d0"
    by (simp add: rotl_def sha1_next_def)
  have r3: "sha1_round [0x94b468ad, 0xb8a80377, 0x79b00fa5, 0x59d148c0, 0x7bf36ae2]
      (Ch, 0x5a827999) 0x8644b09d =
      [0x6d38f66f, 0x94b468ad, 0xee2a00dd, 0x79b00fa5, 0x59d148c0]"
    by (simp add: rotl_def)
  have n3: "sha1_next
      [0x8644b09d, 0x026bd66d, 0x62617280, 0x00000000, 0x00000000, 0x00000000, 0x00000000,
      0x00000000, 0x00000000, 0x00000000, 0x00000000, 0x00000000, 0x000000b8, 0xeb11ffbe,
      0xff57a667, 0x61d119d0] =
      0x1e687b46"
    by (simp add: rotl_def sha1_next_def)
  have r4: "sha1_round [0x6d38f66f, 0x94b468ad, 0xee2a00dd, 0x79b00fa5, 0x59d148c0]
      (Ch, 0x5a827999) 0x026bd66d =
      [0x4afe6e40, 0x6d38f66f, 0x652d1a2b, 0xee2a00dd, 0x79b00fa5]"
    by (simp add: rotl_def)
  have n4: "sha1_next
      [0x026bd66d, 0x62617280, 0x00000000, 0x00000000, 0x00000000, 0x00000000, 0x00000000,
      0x00000000, 0x00000000, 0x00000000, 0x00000000, 0x000000b8, 0xeb11ffbe, 0xff57a667,
      0x61d119d0, 0x1e687b46] =
      0xfa78e015"
    by (simp add: rotl_def sha1_next_def)
  have r5: "sha1_round [0x4afe6e40, 0x6d38f66f, 0x652d1a2b, 0xee2a00dd, 0x79b00fa5]
      (Ch, 0x5a827999) 0x62617280 =
      [0x7d8bd682, 0x4afe6e40, 0xdb4e3d9b, 0x652d1a2b, 0xee2a00dd]"
    by (simp add: rotl_def)
  have n5: "sha1_next
      [0x62617280, 0x00000000, 0x00000000, 0x00000000, 0x00000000, 0x00000000, 0x00000000,
      0x00000000, 0x00000000, 0x00000000, 0x000000b8, 0xeb11ffbe, 0xff57a667, 0x61d119d0,
      0x1e687b46, 0xfa78e015] =
      0x0760d6a0"
    by (simp add: rotl_def sha1_next_def)
  have r6: "sha1_round [0x7d8bd682, 0x4afe6e40, 0xdb4e3d9b, 0x652d1a2b, 0xee2a00dd]
      (Ch, 0x5a827999) 0x00000000 =
      [0x697686f0, 0x7d8bd682, 0x12bf9b90, 0xdb4e3d9b, 0x652d1a2b]"
    by (simp add: rotl_def)
  have n6: "sha1_next
      [0x00000000, 0x00000000, 0x00000000, 0x00000000, 0x00000000, 0x00000000, 0x00000000,
      0x00000000, 0x00000000, 0x000000b8, 0xeb11ffbe, 0xff57a667, 0x61d119d0, 0x1e687b46,
      0xfa78e015, 0x0760d6a0] =
      0x3cd0f68c"
    by (simp add: rotl_def sha1_next_def)
  have r7: "sha1_round [0x697686f0, 0x7d8bd682, 0x12bf9b90, 0xdb4e3d9b, 0x652d1a2b]
      (Ch, 0x5a827999) 0x00000000 =
      [0x81502d6a, 0x697686f0, 0x9f62f5a0, 0x12bf9b90, 0xdb4e3d9b]"
    by (simp add: rotl_def)
  have n7: "sha1_next
      [0x00000000, 0x00000000, 0x00000000, 0x00000000, 0x00000000, 0x00000000, 0x00000000,
      0x00000000, 0x000000b8, 0xeb11ffbe, 0xff57a667, 0x61d119d0, 0x1e687b46, 0xfa78e015,
      0x0760d6a0, 0x3cd0f68c] =
      0xf4f1c15b"
    by (simp add: rotl_def sha1_next_def)
  have r8: "sha1_round [0x81502d6a, 0x697686f0, 0x9f62f5a0, 0x12bf9b90, 0xdb4e3d9b]
      (Ch, 0x5a827999) 0x00000000 =
      [0x7bc20224, 0x81502d6a, 0x1a5da1bc, 0x9f62f5a0, 0x12bf9b90]"
    by (simp add: rotl_def)
  have n8: "sha1_next
      [0x00000000, 0x00000000, 0x00000000, 0x00000000, 0x00000000, 0x00000000, 0x00000000,
      0x000000b8, 0xeb11ffbe, 0xff57a667, 0x61d119d0, 0x1e687b46, 0xfa78e015, 0x0760d6a0,
      0x3cd0f68c, 0xf4f1c15b] =
      0xd8e2523d"
    by (simp add: rotl_def sha1_next_def)
  have r9: "sha1_round [0x7bc20224, 0x81502d6a, 0x1a5da1bc, 0x9f62f5a0, 0x12bf9b90]
      (Ch, 0x5a827999) 0x00000000 =
      [0x03f54b60, 0x7bc20224, 0xa0540b5a, 0x1a5da1bc, 0x9f62f5a0]"
    by (simp add: rotl_def)
  have n9: "sha1_next
      [0x00000000, 0x00000000, 0x00000000, 0x00000000, 0x00000000, 0x00000000, 0x000000b8,
      0xeb11ffbe, 0xff57a667, 0x61d119d0, 0x1e687b46, 0xfa78e015, 0x0760d6a0, 0x3cd0f68c,
      0xf4f1c15b, 0xd8e2523d] =
      0x870ea1d7"
    by (simp add: rotl_def sha1_next_def)
  have r10: "sha1_round [0x03f54b60, 0x7bc20224, 0xa0540b5a, 0x1a5da1bc, 0x9f62f5a0]
      (Ch, 0x5a827999) 0x00000000 =
      [0x98ec7ed1, 0x03f54b60, 0x1ef08089, 0xa0540b5a, 0x1a5da1bc]"
    by (simp add: rotl_def)
  have n10: "sha1_next
      [0x00000000, 0x00000000, 0x00000000, 0x00000000, 0x00000000, 0x000000b8, 0xeb11ffbe,
      0xff57a667, 0x61d119d0, 0x1e687b46, 0xfa78e015, 0x0760d6a0, 0x3cd0f68c, 0xf4f1c15b,
      0xd8e2523d, 0x870ea1d7] =
      0x2a41b117"
    by (simp add: rotl_def sha1_next_def)
  have r11: "sha1_round [0x98ec7ed1, 0x03f54b60, 0x1ef08089, 0xa0540b5a, 0x1a5da1bc]
      (Ch, 0x5a827999) 0x00000000 =
      [0x355ff5a2, 0x98ec7ed1, 0x00fd52d8, 0x1ef08089, 0xa0540b5a]"
    by (simp add: rotl_def)
  have n11: "sha1_next
      [0x00000000, 0x00000000, 0x00000000, 0x00000000, 0x000000b8, 0xeb11ffbe, 0xff57a667,
      0x61d119d0, 0x1e687b46, 0xfa78e015, 0x0760d6a0, 0x3cd0f68c, 0xf4f1c15b, 0xd8e2523d,
      0x870ea1d7, 0x2a41b117] =
      0x8d1452f7"
    by (simp add: rotl_def sha1_next_def)
  have r12: "sha1_round [0x355ff5a2, 0x98ec7ed1, 0x00fd52d8, 0x1ef08089, 0xa0540b5a]
      (Ch, 0x5a827999) 0x00000000 =
      [0xadd20c11, 0x355ff5a2, 0x663b1fb4, 0x00fd52d8, 0x1ef08089]"
    by (simp add: rotl_def)
  have n12: "sha1_next
      [0x00000000, 0x00000000, 0x00000000, 0x000000b8, 0xeb11ffbe, 0xff57a667, 0x61d119d0,
      0x1e687b46, 0xfa78e015, 0x0760d6a0, 0x3cd0f68c, 0xf4f1c15b, 0xd8e2523d, 0x870ea1d7,
      0x2a41b117, 0x8d1452f7] =
      0xfaec8384"
    by (simp add: rotl_def sha1_next_def)
  have r13: "sha1_round [0xadd20c11, 0x355ff5a2, 0x663b1fb4, 0x00fd52d8, 0x1ef08089]
      (Ch, 0x5a827999) 0x00000000 =
      [0x586f944f, 0xadd20c11, 0x8d57fd68, 0x663b1fb4, 0x00fd52d8]"
    by (simp add: rotl_def)
  have n13: "sha1_next
      [0x00000000, 0x00000000, 0x000000b8, 0xeb11ffbe, 0xff57a667, 0x61d119d0, 0x1e687b46,
      0xfa78e015, 0x0760d6a0, 0x3cd0f68c, 0xf4f1c15b, 0xd8e2523d, 0x870ea1d7, 0x2a41b117,
      0x8d1452f7, 0xfaec8384] =
      0x5a42ce1e"
    by (simp add: rotl_def sha1_next_def)
  have r14: "sha1_round [0x586f944f, 0xadd20c11, 0x8d57fd68, 0x663b1fb4, 0x00fd52d8]
      (Ch, 0x5a827999) 0x00000000 =
      [0x38ed7600, 0x586f944f, 0x6b748304, 0x8d57fd68, 0x663b1fb4]"
    by (simp add: rotl_def)
  have n14: "sha1_next
      [0x00000000, 0x000000b8, 0xeb11ffbe, 0xff57a667, 0x61d119d0, 0x1e687b46, 0xfa78e015,
      0x0760d6a0, 0x3cd0f68c, 0xf4f1c15b, 0xd8e2523d, 0x870ea1d7, 0x2a41b117, 0x8d1452f7,
      0xfaec8384, 0x5a42ce1e] =
      0xb5aab78a"
    by (simp add: rotl_def sha1_next_def)
  have r15: "sha1_round [0x38ed7600, 0x586f944f, 0x6b748304, 0x8d57fd68, 0x663b1fb4]
      (Ch, 0x5a827999) 0x000000b8 =
      [0xabe14330, 0x38ed7600, 0xd61be513, 0x6b748304, 0x8d57fd68]"
    by (simp add: rotl_def)
  have n15: "sha1_next
      [0x000000b8, 0xeb11ffbe, 0xff57a667, 0x61d119d0, 0x1e687b46, 0xfa78e015, 0x0760d6a0,
      0x3cd0f68c, 0xf4f1c15b, 0xd8e2523d, 0x870ea1d7, 0x2a41b117, 0x8d1452f7, 0xfaec8384,
      0x5a42ce1e, 0xb5aab78a] =
      0xe295c801"
    by (simp add: rotl_def sha1_next_def)
  have r16: "sha1_round [0xabe14330, 0x38ed7600, 0xd61be513, 0x6b748304, 0x8d57fd68]
      (Ch, 0x5a827999) 0xeb11ffbe =
      [0xa22ec1d8, 0xabe14330, 0x0e3b5d80, 0xd61be513, 0x6b748304]"
    by (simp add: rotl_def)
  have n16: "sha1_next
      [0xeb11ffbe, 0xff57a667, 0x61d119d0, 0x1e687b46, 0xfa78e015, 0x0760d6a0, 0x3cd0f68c,
      0xf4f1c15b, 0xd8e2523d, 0x870ea1d7, 0x2a41b117, 0x8d1452f7, 0xfaec8384, 0x5a42ce1e,
      0xb5aab78a, 0xe295c801] =
      0x10c0f49a"
    by (simp add: rotl_def sha1_next_def)
  have r17: "sha1_round [0xa22ec1d8, 0xabe14330, 0x0e3b5d80, 0xd61be513, 0x6b748304]
      (Ch, 0x5a827999) 0xff57a667 =
      [0x6962c31b, 0xa22ec1d8, 0x2af850cc, 0x0e3b5d80, 0xd61be513]"
    by (simp add: rotl_def)
  have n17: "sha1_next
      [0xff57a667, 0x61d119d0, 0x1e687b46, 0xfa78e015, 0x0760d6a0, 0x3cd0f68c, 0xf4f1c15b,
      0xd8e2523d, 0x870ea1d7, 0x2a41b117, 0x8d1452f7, 0xfaec8384, 0x5a42ce1e, 0xb5aab78a,
      0xe295c801, 0x10c0f49a] =
      0xa73796f9"
    by (simp add: rotl_def sha1_next_def)
  have r18: "sha1_round [0x6962c31b, 0xa22ec1d8, 0x2af850cc, 0x0e3b5d80, 0xd61be513]
      (Ch, 0x5a827999) 0x61d119d0 =
      [0xed0138b1, 0x6962c31b, 0x288bb076, 0x2af850cc, 0x0e3b5d80]"
    by (simp add: rotl_def)
  have n18: "sha1_next
      [0x61d119d0, 0x1e687b46, 0xfa78e015, 0x0760d6a0, 0x3cd0f68c, 0xf4f1c15b, 0xd8e2523d,
      0x870ea1d7, 0x2a41b117, 0x8d1452f7, 0xfaec8384, 0x5a42ce1e, 0xb5aab78a, 0xe295c801,
      0x10c0f49a, 0xa73796f9] =
      0xa6fb01a6"
    by (simp add: rotl_def sha1_next_def)
  have r19: "sha1_round [0xed0138b1, 0x6962c31b, 0x288bb076, 0x2af850cc, 0x0e3b5d80]
      (Ch, 0x5a827999) 0x1e687b46 =
      [0x51e7f972, 0xed0138b1, 0xda58b0c6, 0x288bb076, 0x2af850cc]"
    by (simp add: rotl_def)
  have n19: "sha1_next
      [0x1e687b46, 0xfa78e015, 0x0760d6a0, 0x3cd0f68c, 0xf4f1c15b, 0xd8e2523d, 0x870ea1d7,
      0x2a41b117, 0x8d1452f7, 0xfaec8384, 0x5a42ce1e, 0xb5aab78a, 0xe295c801, 0x10c0f49a,
      0xa73796f9, 0xa6fb01a6] =
      0x09b81717"
    by (simp add: rotl_def sha1_next_def)
  have r20: "sha1_round [0x51e7f972, 0xed0138b1, 0xda58b0c6, 0x288bb076, 0x2af850cc]
      (Parity, 0x6ed9eba1) 0xfa78e015 =
      [0xf11c82cd, 0x51e7f972, 0x7b404e2c, 0xda58b0c6, 0x288bb076]"
    by (simp add: rotl_def)
  have n20: "sha1_next
      [0xfa78e015, 0x0760d6a0, 0x3cd0f68c, 0xf4f1c15b, 0xd8e2523d, 0x870ea1d7, 0x2a41b117,
      0x8d1452f7, 0xfaec8384, 0x5a42ce1e, 0xb5aab78a, 0xe295c801, 0x10c0f49a, 0xa73796f9,
      0xa6fb01a6, 0x09b81717] =
      0x36e607c9"
    by (simp add: rotl_def sha1_next_def)
  have r21: "sha1_round [0xf11c82cd, 0x51e7f972, 0x7b404e2c, 0xda58b0c6, 0x288bb076]
      (Parity, 0x6ed9eba1) 0x0760d6a0 =
      [0xb355d40d, 0xf11c82cd, 0x9479fe5c, 0x7b404e2c, 0xda58b0c6]"
    by (simp add: rotl_def)
  have n21: "sha1_next
      [0x0760d6a0, 0x3cd0f68c, 0xf4f1c15b, 0xd8e2523d, 0x870ea1d7, 0x2a41b117, 0x8d1452f7,
      0xfaec8384, 0x5a42ce1e, 0xb5aab78a, 0xe295c801, 0x10c0f49a, 0xa73796f9, 0xa6fb01a6,
      0x09b81717, 0x36e607c9] =
      0x1e51b086"
    by (simp add: rotl_def sha1_next_def)
  have r22: "sha1_round [0xb355d40d, 0xf11c82cd, 0x9479fe5c, 0x7b404e2c, 0xda58b0c6]
      (Parity, 0x6ed9eba1) 0x3cd0f68c =
      [0x0ee34766, 0xb355d40d, 0x7c4720b3, 0x9479fe5c, 0x7b404e2c]"
    by (simp add: rotl_def)
  have n22: "sha1_next
      [0x3cd0f68c, 0xf4f1c15b, 0xd8e2523d, 0x870ea1d7, 0x2a41b117, 0x8d1452f7, 0xfaec8384,
      0x5a42ce1e, 0xb5aab78a, 0xe295c801, 0x10c0f49a, 0xa73796f9, 0xa6fb01a6, 0x09b81717,
      0x36e607c9, 0x1e51b086] =
      0xb0400858"
    by (simp add: rotl_def sha1_next_def)
  have r23: "sha1_round [0x0ee34766, 0xb355d40d, 0x7c4720b3, 0x9479fe5c, 0x7b404e2c]
      (Parity, 0x6ed9eba1) 0xf4f1c15b =
      [0x16dff2cb, 0x0ee34766, 0x6cd57503, 0x7c4720b3, 0x9479fe5c]"
    by (simp add: rotl_def)
  have n23: "sha1_next
      [0xf4f1c15b, 0xd8e2523d, 0x870ea1d7, 0x2a41b117, 0x8d1452f7, 0xfaec8384, 0x5a42ce1e,
      0xb5aab78a, 0xe295c801, 0x10c0f49a, 0xa73796f9, 0xa6fb01a6, 0x09b81717, 0x36e607c9,
      0x1e51b086, 0xb0400858] =
      0x4f195e89"
    by (simp add: rotl_def sha1_next_def)
  have r24: "sha1_round [0x16dff2cb, 0x0ee34766, 0x6cd57503, 0x7c4720b3, 0x9479fe5c]
      (Parity, 0x6ed9eba1) 0xd8e2523d =
      [0xd6a5a872, 0x16dff2cb, 0x83b8d1d9, 0x6cd57503, 0x7c4720b3]"
    by (simp add: rotl_def)
  have n24: "sha1_next
      [0xd8e2523d, 0x870ea1d7, 0x2a41b117, 0x8d1452f7, 0xfaec8384, 0x5a42ce1e, 0xb5aab78a,
      0xe295c801, 0x10c0f49a, 0xa73796f9, 0xa6fb01a6, 0x09b81717, 0x36e607c9, 0x1e51b086,
      0xb0400858, 0x4f195e89] =
      0xf8654e6d"
    by (simp add: rotl_def sha1_next_def)
  have r25: "sha1_round [0xd6a5a872, 0x16dff2cb, 0x83b8d1d9, 0x6cd57503, 0x7c4720b3]
      (Parity, 0x6ed9eba1) 0x870ea1d7 =
      [0x40971296, 0xd6a5a872, 0xc5b7fcb2, 0x83b8d1d9, 0x6cd57503]"
    by (simp add: rotl_def)
  have n25: "sha1_next
      [0x870ea1d7, 0x2a41b117, 0x8d1452f7, 0xfaec8384, 0x5a42ce1e, 0xb5aab78a, 0xe295c801,
      0x10c0f49a, 0xa73796f9, 0xa6fb01a6, 0x09b81717, 0x36e607c9, 0x1e51b086, 0xb0400858,
      0x4f195e89, 0xf8654e6d] =
      0x3adadb02"
    by (simp add: rotl_def sha1_next_def)
  have r26: "sha1_round [0x40971296, 0xd6a5a872, 0xc5b7fcb2, 0x83b8d1d9, 0x6cd57503]
      (Parity, 0x6ed9eba1) 0x2a41b117 =
      [0xa97de99c, 0x40971296, 0xb5a96a1c, 0xc5b7fcb2, 0x83b8d1d9]"
    by (simp add: rotl_def)
  have n26: "sha1_next
      [0x2a41b117, 0x8d1452f7, 0xfaec8384, 0x5a42ce1e, 0xb5aab78a, 0xe295c801, 0x10c0f49a,
      0xa73796f9, 0xa6fb01a6, 0x09b81717, 0x36e607c9, 0x1e51b086, 0xb0400858, 0x4f195e89,
      0xf8654e6d, 0x3adadb02] =
      0x729edb78"
    by (simp add: rotl_def sha1_next_def)
  have r27: "sha1_round [0xa97de99c, 0x40971296, 0xb5a96a1c, 0xc5b7fcb2, 0x83b8d1d9]
      (Parity, 0x6ed9eba1) 0x8d1452f7 =
      [0xdfedc83e, 0xa97de99c, 0x9025c4a5, 0xb5a96a1c, 0xc5b7fcb2]"
    by (simp add: rotl_def)
  have n27: "sha1_next
      [0x8d1452f7, 0xfaec8384, 0x5a42ce1e, 0xb5aab78a, 0xe295c801, 0x10c0f49a, 0xa73796f9,
      0xa6fb01a6, 0x09b81717, 0x36e607c9, 0x1e51b086, 0xb0400858, 0x4f195e89, 0xf8654e6d,
      0x3adadb02, 0x729edb78] =
      0x4d178b26"
    by (simp add: rotl_def sha1_next_def)
  have r28: "sha1_round [0xdfedc83e, 0xa97de99c, 0x9025c4a5, 0xb5a96a1c, 0xc5b7fcb2]
      (Parity, 0x6ed9eba1) 0xfaec8384 =
      [0xba28bad7, 0xdfedc83e, 0x2a5f7a67, 0x9025c4a5, 0xb5a96a1c]"
    by (simp add: rotl_def)
  have n28: "sha1_next
      [0xfaec8384, 0x5a42ce1e, 0xb5aab78a, 0xe295c801, 0x10c0f49a, 0xa73796f9, 0xa6fb01a6,
      0x09b81717, 0x36e607c9, 0x1e51b086, 0xb0400858, 0x4f195e89, 0xf8654e6d, 0x3adadb02,
      0x729edb78, 0x4d178b26] =
      0x86f5d18a"
    by (simp add: rotl_def sha1_next_def)
  have r29: "sha1_round [0xba28bad7, 0xdfedc83e, 0x2a5f7a67, 0x9025c4a5, 0xb5a96a1c]
      (Parity, 0x6ed9eba1) 0x5a42ce1e =
      [0x2974f5ce, 0xba28bad7, 0xb7fb720f, 0x2a5f7a67, 0x9025c4a5]"
    by (simp add: rotl_def)
  have n29: "sha1_next
      [0x5a42ce1e, 0xb5aab78a, 0xe295c801, 0x10c0f49a, 0xa73796f9, 0xa6fb01a6, 0x09b81717,
      0x36e607c9, 0x1e51b086, 0xb0400858, 0x4f195e89, 0xf8654e6d, 0x3adadb02, 0x729edb78,
      0x4d178b26, 0x86f5d18a] =
      0xa830dbc3"
    by (simp add: rotl_def sha1_next_def)
  have r30: "sha1_round [0x2974f5ce, 0xba28bad7, 0xb7fb720f, 0x2a5f7a67, 0x9025c4a5]
      (Parity, 0x6ed9eba1) 0xb5aab78a =
      [0x0ad5d454, 0x2974f5ce, 0xee8a2eb5, 0xb7fb720f, 0x2a5f7a67]"
    by (simp add: rotl_def)
  have n30: "sha1_next
      [0xb5aab78a, 0xe295c801, 0x10c0f49a, 0xa73796f9, 0xa6fb01a6, 0x09b81717, 0x36e607c9,
      0x1e51b086, 0xb0400858, 0x4f195e89, 0xf8654e6d, 0x3adadb02, 0x729edb78, 0x4d178b26,
      0x86f5d18a, 0xa830dbc3] =
      0xb07b80dc"
    by (simp add: rotl_def sha1_next_def)
  have r31: "sha1_round [0x0ad5d454, 0x2974f5ce, 0xee8a2eb5, 0xb7fb720f, 0x2a5f7a67]
      (Parity, 0x6ed9eba1) 0xe295c801 =
      [0x468f61fe, 0x0ad5d454, 0x8a5d3d73, 0xee8a2eb5, 0xb7fb720f]"
    by (simp add: rotl_def)
  have n31: "sha1_next
      [0xe295c801, 0x10c0f49a, 0xa73796f9, 0xa6fb01a6, 0x09b81717, 0x36e607c9, 0x1e51b086,
      0xb0400858, 0x4f195e89, 0xf8654e6d, 0x3adadb02, 0x729edb78, 0x4d178b26, 0x86f5d18a,
      0xa830dbc3, 0xb07b80dc] =
      0x189da3f7"
    by (simp add: rotl_def sha1_next_def)
  have r32: "sha1_round [0x468f61fe, 0x0ad5d454, 0x8a5d3d73, 0xee8a2eb5, 0xb7fb720f]
      (Parity, 0x6ed9eba1) 0x10c0f49a =
      [0x778559a4, 0x468f61fe, 0x02b57515, 0x8a5d3d73, 0xee8a2eb5]"
    by (simp add: rotl_def)
  have n32: "sha1_next
      [0x10c0f49a, 0xa73796f9, 0xa6fb01a6, 0x09b81717, 0x36e607c9, 0x1e51b086, 0xb0400858,
      0x4f195e89, 0xf8654e6d, 0x3adadb02, 0x729edb78, 0x4d178b26, 0x86f5d18a, 0xa830dbc3,
      0xb07b80dc, 0x189da3f7] =
      0xccdcc125"
    by (simp add: rotl_def sha1_next_def)
  have r33: "sha1_round [0x778559a4, 0x468f61fe, 0x02b57515, 0x8a5d3d73, 0xee8a2eb5]
      (Parity, 0x6ed9eba1) 0xa73796f9 =
      [0xc3ae0f75, 0x778559a4, 0x91a3d87f, 0x02b57515, 0x8a5d3d73]"
    by (simp add: rotl_def)
  have n33: "sha1_next
      [0xa73796f9, 0xa6fb01a6, 0x09b81717, 0x36e607c9, 0x1e51b086, 0xb0400858, 0x4f195e89,
      0xf8654e6d, 0x3adadb02, 0x729edb78, 0x4d178b26, 0x86f5d18a, 0xa830dbc3, 0xb07b80dc,
      0x189da3f7, 0xccdcc125] =
      0x485db460"
    by (simp add: rotl_def sha1_next_def)
  have r34: "sha1_round [0xc3ae0f75, 0x778559a4, 0x91a3d87f, 0x02b57515, 0x8a5d3d73]
      (Parity, 0x6ed9eba1) 0xa6fb01a6 =
      [0xfa880e40, 0xc3ae0f75, 0x1de15669, 0x91a3d87f, 0x02b57515]"
    by (simp add: rotl_def)
  have n34: "sha1_next
      [0xa6fb01a6, 0x09b81717, 0x36e607c9, 0x1e51b086, 0xb0400858, 0x4f195e89, 0xf8654e6d,
      0x3adadb02, 0x729edb78, 0x4d178b26, 0x86f5d18a, 0xa830dbc3, 0xb07b80dc, 0x189da3f7,
      0xccdcc125, 0x485db460] =
      0xf43cfdc1"
    by (simp add: rotl_def sha1_next_def)
  have r35: "sha1_round [0xfa880e40, 0xc3ae0f75, 0x1de15669, 0x91a3d87f, 0x02b57515]
      (Parity, 0x6ed9eba1) 0x09b81717 =
      [0x1c35c14f, 0xfa880e40, 0x70eb83dd, 0x1de15669, 0x91a3d87f]"
    by (simp add: rotl_def)
  have n35: "sha1_next
      [0x09b81717, 0x36e607c9, 0x1e51b086, 0xb0400858, 0x4f195e89, 0xf8654e6d, 0x3adadb02,
      0x729edb78, 0x4d178b26, 0x86f5d18a, 0xa830dbc3, 0xb07b80dc, 0x189da3f7, 0xccdcc125,
      0x485db460, 0xf43cfdc1] =
      0x2c45db25"
    by (simp add: rotl_def sha1_next_def)
  have r36: "sha1_round [0x1c35c14f, 0xfa880e40, 0x70eb83dd, 0x1de15669, 0x91a3d87f]
      (Parity, 0x6ed9eba1) 0x36e607c9 =
      [0x559ed1c0, 0x1c35c14f, 0x3ea20390, 0x70eb83dd, 0x1de15669]"
    by (simp add: rotl_def)
  have n36: "sha1_next
      [0x36e607c9, 0x1e51b086, 0xb0400858, 0x4f195e89, 0xf8654e6d, 0x3adadb02, 0x729edb78,
      0x4d178b26, 0x86f5d18a, 0xa830dbc3, 0xb07b80dc, 0x189da3f7, 0xccdcc125, 0x485db460,
      0xf43cfdc1, 0x2c45db25] =
      0x901cd4f6"
    by (simp add: rotl_def sha1_next_def)
  have r37: "sha1_round [0x559ed1c0, 0x1c35c14f, 0x3ea20390, 0x70eb83dd, 0x1de15669]
      (Parity, 0x6ed9eba1) 0x1e51b086 =
      [0xb1636b9c, 0x559ed1c0, 0xc70d7053, 0x3ea20390, 0x70eb83dd]"
    by (simp add: rotl_def)
  have n37: "sha1_next
      [0x1e51b086, 0xb0400858, 0x4f195e89, 0xf8654e6d, 0x3adadb02, 0x729edb78, 0x4d178b26,
      0x86f5d18a, 0xa830dbc3, 0xb07b80dc, 0x189da3f7, 0xccdcc125, 0x485db460, 0xf43cfdc1,
      0x2c45db25, 0x901cd4f6] =
      0x1a89901a"
    by (simp add: rotl_def sha1_next_def)
  have r38: "sha1_round [0xb1636b9c, 0x559ed1c0, 0xc70d7053, 0x3ea20390, 0x70eb83dd]
      (Parity, 0x6ed9eba1) 0xb0400858 =
      [0x68a48d6f, 0xb1636b9c, 0x1567b470, 0xc70d7053, 0x3ea20390]"
    by (simp add: rotl_def)
  have n38: "sha1_next
      [0xb0400858, 0x4f195e89, 0xf8654e6d, 0x3adadb02, 0x729edb78, 0x4d178b26, 0x86f5d18a,
      0xa830dbc3, 0xb07b80dc, 0x189da3f7, 0xccdcc125, 0x485db460, 0xf43cfdc1, 0x2c45db25,
      0x901cd4f6, 0x1a89901a] =
      0xa8363b99"
    by (simp add: rotl_def sha1_next_def)
  have r39: "sha1_round [0x68a48d6f, 0xb1636b9c, 0x1567b470, 0xc70d7053, 0x3ea20390]
      (Parity, 0x6ed9eba1) 0x4f195e89 =
      [0x7430ab66, 0x68a48d6f, 0x2c58dae7, 0x1567b470, 0xc70d7053]"
    by (simp add: rotl_def)
  have n39: "sha1_next
      [0x4f195e89, 0xf8654e6d, 0x3adadb02, 0x729edb78, 0x4d178b26, 0x86f5d18a, 0xa830dbc3,
      0xb07b80dc, 0x189da3f7, 0xccdcc125, 0x485db460, 0xf43cfdc1, 0x2c45db25, 0x901cd4f6,
      0x1a89901a, 0xa8363b99] =
      0xfa85e515"
    by (simp add: rotl_def sha1_next_def)
  have r40: "sha1_round [0x7430ab66, 0x68a48d6f, 0x2c58dae7, 0x1567b470, 0xc70d7053]
      (Maj, 0x8f1bbcdc) 0xf8654e6d =
      [0x010884d1, 0x7430ab66, 0xda29235b, 0x2c58dae7, 0x1567b470]"
    by (simp add: rotl_def)
  have n40: "sha1_next
      [0xf8654e6d, 0x3adadb02, 0x729edb78, 0x4d178b26, 0x86f5d18a, 0xa830dbc3, 0xb07b80dc,
      0x189da3f7, 0xccdcc125, 0x485db460, 0xf43cfdc1, 0x2c45db25, 0x901cd4f6, 0x1a89901a,
      0xa8363b99, 0xfa85e515] =
      0xb95d8854"
    by (simp add: rotl_def sha1_next_def)
  have r41: "sha1_round [0x010884d1, 0x7430ab66, 0xda29235b, 0x2c58dae7, 0x1567b470]
      (Maj, 0x8f1bbcdc) 0x3adadb02 =
      [0x7ca791d5, 0x010884d1, 0x9d0c2ad9, 0xda29235b, 0x2c58dae7]"
    by (simp add: rotl_def)
  have n41: "sha1_next
      [0x3adadb02, 0x729edb78, 0x4d178b26, 0x86f5d18a, 0xa830dbc3, 0xb07b80dc, 0x189da3f7,
      0xccdcc125, 0x485db460, 0xf43cfdc1, 0x2c45db25, 0x901cd4f6, 0x1a89901a, 0xa8363b99,
      0xfa85e515, 0xb95d8854] =
      0x2f4dbfbb"
    by (simp add: rotl_def sha1_next_def)
  have r42: "sha1_round [0x7ca791d5, 0x010884d1, 0x9d0c2ad9, 0xda29235b, 0x2c58dae7]
      (Maj, 0x8f1bbcdc) 0x729edb78 =
      [0x5c0dd0c3, 0x7ca791d5, 0x40422134, 0x9d0c2ad9, 0xda29235b]"
    by (simp add: rotl_def)
  have n42: "sha1_next
      [0x729edb78, 0x4d178b26, 0x86f5d18a, 0xa830dbc3, 0xb07b80dc, 0x189da3f7, 0xccdcc125,
      0x485db460, 0xf43cfdc1, 0x2c45db25, 0x901cd4f6, 0x1a89901a, 0xa8363b99, 0xfa85e515,
      0xb95d8854, 0x2f4dbfbb] =
      0xf5a4244d"
    by (simp add: rotl_def sha1_next_def)
  have r43: "sha1_round [0x5c0dd0c3, 0x7ca791d5, 0x40422134, 0x9d0c2ad9, 0xda29235b]
      (Maj, 0x8f1bbcdc) 0x4d178b26 =
      [0x941ca59d, 0x5c0dd0c3, 0x5f29e475, 0x40422134, 0x9d0c2ad9]"
    by (simp add: rotl_def)
  have n43: "sha1_next
      [0x4d178b26, 0x86f5d18a, 0xa830dbc3, 0xb07b80dc, 0x189da3f7, 0xccdcc125, 0x485db460,
      0xf43cfdc1, 0x2c45db25, 0x901cd4f6, 0x1a89901a, 0xa8363b99, 0xfa85e515, 0xb95d8854,
      0x2f4dbfbb, 0xf5a4244d] =
      0xe07e0728"
    by (simp add: rotl_def sha1_next_def)
  have r44: "sha1_round [0x941ca59d, 0x5c0dd0c3, 0x5f29e475, 0x40422134, 0x9d0c2ad9]
      (Maj, 0x8f1bbcdc) 0x86f5d18a =
      [0x92bc4d66, 0x941ca59d, 0xd7037430, 0x5f29e475, 0x40422134]"
    by (simp add: rotl_def)
  have n44: "sha1_next
      [0x86f5d18a, 0xa830dbc3, 0xb07b80dc, 0x189da3f7, 0xccdcc125, 0x485db460, 0xf43cfdc1,
      0x2c45db25, 0x901cd4f6, 0x1a89901a, 0xa8363b99, 0xfa85e515, 0xb95d8854, 0x2f4dbfbb,
      0xf5a4244d, 0xe07e0728] =
      0x13be7437"
    by (simp add: rotl_def sha1_next_def)
  have r45: "sha1_round [0x92bc4d66, 0x941ca59d, 0xd7037430, 0x5f29e475, 0x40422134]
      (Maj, 0x8f1bbcdc) 0xa830dbc3 =
      [0xa6224ada, 0x92bc4d66, 0x65072967, 0xd7037430, 0x5f29e475]"
    by (simp add: rotl_def)
  have n45: "sha1_next
      [0xa830dbc3, 0xb07b80dc, 0x189da3f7, 0xccdcc125, 0x485db460, 0xf43cfdc1, 0x2c45db25,
      0x901cd4f6, 0x1a89901a, 0xa8363b99, 0xfa85e515, 0xb95d8854, 0x2f4dbfbb, 0xf5a4244d,
      0xe07e0728, 0x13be7437] =
      0xbf0198c6"
    by (simp add: rotl_def sha1_next_def)
  have r46: "sha1_round [0xa6224ada, 0x92bc4d66, 0x65072967, 0xd7037430, 0x5f29e475]
      (Maj, 0x8f1bbcdc) 0xb07b80dc =
      [0x3a11eae7, 0xa6224ada, 0xa4af1359, 0x65072967, 0xd7037430]"
    by (simp add: rotl_def)
  have n46: "sha1_next
      [0xb07b80dc, 0x189da3f7, 0xccdcc125, 0x485db460, 0xf43cfdc1, 0x2c45db25, 0x901cd4f6,
      0x1a89901a, 0xa8363b99, 0xfa85e515, 0xb95d8854, 0x2f4dbfbb, 0xf5a4244d, 0xe07e0728,
      0x13be7437, 0xbf0198c6] =
      0x69defa90"
    by (simp add: rotl_def sha1_next_def)
  have r47: "sha1_round [0x3a11eae7, 0xa6224ada, 0xa4af1359, 0x65072967, 0xd7037430]
      (Maj, 0x8f1bbcdc) 0x189da3f7 =
      [0x65213d45, 0x3a11eae7, 0xa98892b6, 0xa4af1359, 0x65072967]"
    by (simp add: rotl_def)
  have n47: "sha1_next
      [0x189da3f7, 0xccdcc125, 0x485db460, 0xf43cfdc1, 0x2c45db25, 0x901cd4f6, 0x1a89901a,
      0xa8363b99, 0xfa85e515, 0xb95d8854, 0x2f4dbfbb, 0xf5a4244d, 0xe07e0728, 0x13be7437,
      0xbf0198c6, 0x69defa90] =
      0x73f70d6b"
    by (simp add: rotl_def sha1_next_def)
  have r48: "sha1_round [0x65213d45, 0x3a11eae7, 0xa98892b6, 0xa4af1359, 0x65072967]
      (Maj, 0x8f1bbcdc) 0xccdcc125 =
      [0x0db0e30b, 0x65213d45, 0xce847ab9, 0xa98892b6, 0xa4af1359]"
    by (simp add: rotl_def)
  have n48: "sha1_next
      [0xccdcc125, 0x485db460, 0xf43cfdc1, 0x2c45db25, 0x901cd4f6, 0x1a89901a, 0xa8363b99,
      0xfa85e515, 0xb95d8854, 0x2f4dbfbb, 0xf5a4244d, 0xe07e0728, 0x13be7437, 0xbf0198c6,
      0x69defa90, 0x73f70d6b] =
      0x7d7858ec"
    by (simp add: rotl_def sha1_next_def)
  have r49: "sha1_round [0x0db0e30b, 0x65213d45, 0xce847ab9, 0xa98892b6, 0xa4af1359]
      (Maj, 0x8f1bbcdc) 0x485db460 =
      [0x1fc520ab, 0x0db0e30b, 0x59484f51, 0xce847ab9, 0xa98892b6]"
    by (simp add: rotl_def)
  have n49: "sha1_next
      [0x485db460, 0xf43cfdc1, 0x2c45db25, 0x901cd4f6, 0x1a89901a, 0xa8363b99, 0xfa85e515,
      0xb95d8854, 0x2f4dbfbb, 0xf5a4244d, 0xe07e0728, 0x13be7437, 0xbf0198c6, 0x69defa90,
      0x73f70d6b, 0x7d7858ec] =
      0x451654dc"
    by (simp add: rotl_def sha1_next_def)
  have r50: "sha1_round [0x1fc520ab, 0x0db0e30b, 0x59484f51, 0xce847ab9, 0xa98892b6]
      (Maj, 0x8f1bbcdc) 0xf43cfdc1 =
      [0x7305cdcf, 0x1fc520ab, 0xc36c38c2, 0x59484f51, 0xce847ab9]"
    by (simp add: rotl_def)
  have n50: "sha1_next
      [0xf43cfdc1, 0x2c45db25, 0x901cd4f6, 0x1a89901a, 0xa8363b99, 0xfa85e515, 0xb95d8854,
      0x2f4dbfbb, 0xf5a4244d, 0xe07e0728, 0x13be7437, 0xbf0198c6, 0x69defa90, 0x73f70d6b,
      0x7d7858ec, 0x451654dc] =
      0xc4e60023"
    by (simp add: rotl_def sha1_next_def)
  have r51: "sha1_round [0x7305cdcf, 0x1fc520ab, 0xc36c38c2, 0x59484f51, 0xce847ab9]
      (Maj, 0x8f1bbcdc) 0x2c45db25 =
      [0x45ebf56b, 0x7305cdcf, 0xc7f1482a, 0xc36c38c2, 0x59484f51]"
    by (simp add: rotl_def)
  have n51: "sha1_next
      [0x2c45db25, 0x901cd4f6, 0x1a89901a, 0xa8363b99, 0xfa85e515, 0xb95d8854, 0x2f4dbfbb,
      0xf5a4244d, 0xe07e0728, 0x13be7437, 0xbf0198c6, 0x69defa90, 0x73f70d6b, 0x7d7858ec,
      0x451654dc, 0xc4e60023] =
      0x579429f7"
    by (simp add: rotl_def sha1_next_def)
  have r52: "sha1_round [0x45ebf56b, 0x7305cdcf, 0xc7f1482a, 0xc36c38c2, 0x59484f51]
      (Maj, 0x8f1bbcdc) 0x901cd4f6 =
      [0xf964d755, 0x45ebf56b, 0xdcc17373, 0xc7f1482a, 0xc36c38c2]"
    by (simp add: rotl_def)
  have n52: "sha1_next
      [0x901cd4f6, 0x1a89901a, 0xa8363b99, 0xfa85e515, 0xb95d8854, 0x2f4dbfbb, 0xf5a4244d,
      0xe07e0728, 0x13be7437, 0xbf0198c6, 0x69defa90, 0x73f70d6b, 0x7d7858ec, 0x451654dc,
      0xc4e60023, 0x579429f7] =
      0xdd059f08"
    by (simp add: rotl_def sha1_next_def)
  have r53: "sha1_round [0xf964d755, 0x45ebf56b, 0xdcc17373, 0xc7f1482a, 0xc36c38c2]
      (Maj, 0x8f1bbcdc) 0x1a89901a =
      [0x5f8de1e2, 0xf964d755, 0xd17afd5a, 0xdcc17373, 0xc7f1482a]"
    by (simp add: rotl_def)
  have n53: "sha1_next
      [0x1a89901a, 0xa8363b99, 0xfa85e515, 0xb95d8854, 0x2f4dbfbb, 0xf5a4244d, 0xe07e0728,
      0x13be7437, 0xbf0198c6, 0x69defa90, 0x73f70d6b, 0x7d7858ec, 0x451654dc, 0xc4e60023,
      0x579429f7, 0xdd059f08] =
      0x37d7dbd5"
    by (simp add: rotl_def sha1_next_def)
  have r54: "sha1_round [0x5f8de1e2, 0xf964d755, 0xd17afd5a, 0xdcc17373, 0xc7f1482a]
      (Maj, 0x8f1bbcdc) 0xa8363b99 =
      [0xca60743d, 0x5f8de1e2, 0x7e5935d5, 0xd17afd5a, 0xdcc17373]"
    by (simp add: rotl_def)
  have n54: "sha1_next
      [0xa8363b99, 0xfa85e515, 0xb95d8854, 0x2f4dbfbb, 0xf5a4244d, 0xe07e0728, 0x13be7437,
      0xbf0198c6, 0x69defa90, 0x73f70d6b, 0x7d7858ec, 0x451654dc, 0xc4e60023, 0x579429f7,
      0xdd059f08, 0x37d7dbd5] =
      0x5e42c154"
    by (simp add: rotl_def sha1_next_def)
  have r55: "sha1_round [0xca60743d, 0x5f8de1e2, 0x7e5935d5, 0xd17afd5a, 0xdcc17373]
      (Maj, 0x8f1bbcdc) 0xfa85e515 =
      [0x11cb92ef, 0xca60743d, 0x97e37878, 0x7e5935d5, 0xd17afd5a]"
    by (simp add: rotl_def)
  have n55: "sha1_next
      [0xfa85e515, 0xb95d8854, 0x2f4dbfbb, 0xf5a4244d, 0xe07e0728, 0x13be7437, 0xbf0198c6,
      0x69defa90, 0x73f70d6b, 0x7d7858ec, 0x451654dc, 0xc4e60023, 0x579429f7, 0xdd059f08,
      0x37d7dbd5, 0x5e42c154] =
      0xf675919a"
    by (simp add: rotl_def sha1_next_def)
  have r56: "sha1_round [0x11cb92ef, 0xca60743d, 0x97e37878, 0x7e5935d5, 0xd17afd5a]
      (Maj, 0x8f1bbcdc) 0xb95d8854 =
      [0x31c814e9, 0x11cb92ef, 0x72981d0f, 0x97e37878, 0x7e5935d5]"
    by (simp add: rotl_def)
  have n56: "sha1_next
      [0xb95d8854, 0x2f4dbfbb, 0xf5a4244d, 0xe07e0728, 0x13be7437, 0xbf0198c6, 0x69defa90,
      0x73f70d6b, 0x7d7858ec, 0x451654dc, 0xc4e60023, 0x579429f7, 0xdd059f08, 0x37d7dbd5,
      0x5e42c154, 0xf675919a] =
      0x0cac5e40"
    by (simp add: rotl_def sha1_next_def)
  have r57: "sha1_round [0x31c814e9, 0x11cb92ef, 0x72981d0f, 0x97e37878, 0x7e5935d5]
      (Maj, 0x8f1bbcdc) 0x2f4dbfbb =
      [0x89906801, 0x31c814e9, 0xc472e4bb, 0x72981d0f, 0x97e37878]"
    by (simp add: rotl_def)
  have n57: "sha1_next
      [0x2f4dbfbb, 0xf5a4244d, 0xe07e0728, 0x13be7437, 0xbf0198c6, 0x69defa90, 0x73f70d6b,
      0x7d7858ec, 0x451654dc, 0xc4e60023, 0x579429f7, 0xdd059f08, 0x37d7dbd5, 0x5e42c154,
      0xf675919a, 0x0cac5e40] =
      0xa8ce5a37"
    by (simp add: rotl_def sha1_next_def)
  have r58: "sha1_round [0x89906801, 0x31c814e9, 0xc472e4bb, 0x72981d0f, 0x97e37878]
      (Maj, 0x8f1bbcdc) 0xf5a4244d =
      [0xbf886e7d, 0x89906801, 0x4c72053a, 0xc472e4bb, 0x72981d0f]"
    by (simp add: rotl_def)
  have n58: "sha1_next
      [0xf5a4244d, 0xe07e0728, 0x13be7437, 0xbf0198c6, 0x69defa90, 0x73f70d6b, 0x7d7858ec,
      0x451654dc, 0xc4e60023, 0x579429f7, 0xdd059f08, 0x37d7dbd5, 0x5e42c154, 0xf675919a,
      0x0cac5e40, 0xa8ce5a37] =
      0xa9138387"
    by (simp add: rotl_def sha1_next_def)
  have r59: "sha1_round [0xbf886e7d, 0x89906801, 0x4c72053a, 0xc472e4bb, 0x72981d0f]
      (Maj, 0x8f1bbcdc) 0xe07e0728 =
      [0x9fb21505, 0xbf886e7d, 0x62641a00, 0x4c72053a, 0xc472e4bb]"
    by (simp add: rotl_def)
  have n59: "sha1_next
      [0xe07e0728, 0x13be7437, 0xbf0198c6, 0x69defa90, 0x73f70d6b, 0x7d7858ec, 0x451654dc,
      0xc4e60023, 0x579429f7, 0xdd059f08, 0x37d7dbd5, 0x5e42c154, 0xf675919a, 0x0cac5e40,
      0xa8ce5a37, 0xa9138387] =
      0x088fd0b2"
    by (simp add: rotl_def sha1_next_def)
  have r60: "sha1_round [0x9fb21505, 0xbf886e7d, 0x62641a00, 0x4c72053a, 0xc472e4bb]
      (Parity, 0xca62c1d6) 0x13be7437 =
      [0x2a752cc2, 0x9fb21505, 0x6fe21b9f, 0x62641a00, 0x4c72053a]"
    by (simp add: rotl_def)
  have n60: "sha1_next
      [0x13be7437, 0xbf0198c6, 0x69defa90, 0x73f70d6b, 0x7d7858ec, 0x451654dc, 0xc4e60023,
      0x579429f7, 0xdd059f08, 0x37d7dbd5, 0x5e42c154, 0xf675919a, 0x0cac5e40, 0xa8ce5a37,
      0xa9138387, 0x088fd0b2] =
      0x1f569730"
    by (simp add: rotl_def sha1_next_def)
  have r61: "sha1_round [0x2a752cc2, 0x9fb21505, 0x6fe21b9f, 0x62641a00, 0x4c72053a]
      (Parity, 0xca62c1d6) 0xbf0198c6 =
      [0xb6b00cb5, 0x2a752cc2, 0x67ec8541, 0x6fe21b9f, 0x62641a00]"
    by (simp add: rotl_def)
  have n61: "sha1_next
      [0xbf0198c6, 0x69defa90, 0x73f70d6b, 0x7d7858ec, 0x451654dc, 0xc4e60023, 0x579429f7,
      0xdd059f08, 0x37d7dbd5, 0x5e42c154, 0xf675919a, 0x0cac5e40, 0xa8ce5a37, 0xa9138387,
      0x088fd0b2, 0x1f569730] =
      0xa4659bfe"
    by (simp add: rotl_def sha1_next_def)
  have r62: "sha1_round [0xb6b00cb5, 0x2a752cc2, 0x67ec8541, 0x6fe21b9f, 0x62641a00]
      (Parity, 0xca62c1d6) 0x69defa90 =
      [0x8f231f38, 0xb6b00cb5, 0x8a9d4b30, 0x67ec8541, 0x6fe21b9f]"
    by (simp add: rotl_def)
  have n62: "sha1_next
      [0x69defa90, 0x73f70d6b, 0x7d7858ec, 0x451654dc, 0xc4e60023, 0x579429f7, 0xdd059f08,
      0x37d7dbd5, 0x5e42c154, 0xf675919a, 0x0cac5e40, 0xa8ce5a37, 0xa9138387, 0x088fd0b2,
      0x1f569730, 0xa4659bfe] =
      0x84d76734"
    by (simp add: rotl_def sha1_next_def)
  have r63: "sha1_round [0x8f231f38, 0xb6b00cb5, 0x8a9d4b30, 0x67ec8541, 0x6fe21b9f]
      (Parity, 0xca62c1d6) 0x73f70d6b =
      [0xee6194b5, 0x8f231f38, 0x6dac032d, 0x8a9d4b30, 0x67ec8541]"
    by (simp add: rotl_def)
  have n63: "sha1_next
      [0x73f70d6b, 0x7d7858ec, 0x451654dc, 0xc4e60023, 0x579429f7, 0xdd059f08, 0x37d7dbd5,
      0x5e42c154, 0xf675919a, 0x0cac5e40, 0xa8ce5a37, 0xa9138387, 0x088fd0b2, 0x1f569730,
      0xa4659bfe, 0x84d76734] =
      0xbf84be3b"
    by (simp add: rotl_def sha1_next_def)
  have r64: "sha1_round [0xee6194b5, 0x8f231f38, 0x6dac032d, 0x8a9d4b30, 0x67ec8541]
      (Parity, 0xca62c1d6) 0x7d7858ec =
      [0xe40c8de5, 0xee6194b5, 0x23c8c7ce, 0x6dac032d, 0x8a9d4b30]"
    by (simp add: rotl_def)
  have n64: "sha1_next
      [0x7d7858ec, 0x451654dc, 0xc4e60023, 0x579429f7, 0xdd059f08, 0x37d7dbd5, 0x5e42c154,
      0xf675919a, 0x0cac5e40, 0xa8ce5a37, 0xa9138387, 0x088fd0b2, 0x1f569730, 0xa4659bfe,
      0x84d76734, 0xbf84be3b] =
      0x22af3ae2"
    by (simp add: rotl_def sha1_next_def)
  have r65: "sha1_round [0xe40c8de5, 0xee6194b5, 0x23c8c7ce, 0x6dac032d, 0x8a9d4b30]
      (Parity, 0xca62c1d6) 0x451654dc =
      [0xbbad6ef4, 0xe40c8de5, 0x7b98652d, 0x23c8c7ce, 0x6dac032d]"
    by (simp add: rotl_def)
  have n65: "sha1_next
      [0x451654dc, 0xc4e60023, 0x579429f7, 0xdd059f08, 0x37d7dbd5, 0x5e42c154, 0xf675919a,
      0x0cac5e40, 0xa8ce5a37, 0xa9138387, 0x088fd0b2, 0x1f569730, 0xa4659bfe, 0x84d76734,
      0xbf84be3b, 0x22af3ae2] =
      0x7d368050"
    by (simp add: rotl_def sha1_next_def)
  have r66: "sha1_round [0xbbad6ef4, 0xe40c8de5, 0x7b98652d, 0x23c8c7ce, 0x6dac032d]
      (Parity, 0xca62c1d6) 0xc4e60023 =
      [0x2efed2c3, 0xbbad6ef4, 0x79032379, 0x7b98652d, 0x23c8c7ce]"
    by (simp add: rotl_def)
  have n66: "sha1_next
      [0xc4e60023, 0x579429f7, 0xdd059f08, 0x37d7dbd5, 0x5e42c154, 0xf675919a, 0x0cac5e40,
      0xa8ce5a37, 0xa9138387, 0x088fd0b2, 0x1f569730, 0xa4659bfe, 0x84d76734, 0xbf84be3b,
      0x22af3ae2, 0x7d368050] =
      0x1ee9452e"
    by (simp add: rotl_def sha1_next_def)
  have r67: "sha1_round [0x2efed2c3, 0xbbad6ef4, 0x79032379, 0x7b98652d, 0x23c8c7ce]
      (Parity, 0xca62c1d6) 0x579429f7 =
      [0xded034a0, 0x2efed2c3, 0x2eeb5bbd, 0x79032379, 0x7b98652d]"
    by (simp add: rotl_def)
  have n67: "sha1_next
      [0x579429f7, 0xdd059f08, 0x37d7dbd5, 0x5e42c154, 0xf675919a, 0x0cac5e40, 0xa8ce5a37,
      0xa9138387, 0x088fd0b2, 0x1f569730, 0xa4659bfe, 0x84d76734, 0xbf84be3b, 0x22af3ae2,
      0x7d368050, 0x1ee9452e] =
      0x94c630e4"
    by (simp add: rotl_def sha1_next_def)
  have r68: "sha1_round [0xded034a0, 0x2efed2c3, 0x2eeb5bbd, 0x79032379, 0x7b98652d]
      (Parity, 0xca62c1d6) 0xdd059f08 =
      [0x761e042d, 0xded034a0, 0xcbbfb4b0, 0x2eeb5bbd, 0x79032379]"
    by (simp add: rotl_def)
  have n68: "sha1_next
      [0xdd059f08, 0x37d7dbd5, 0x5e42c154, 0xf675919a, 0x0cac5e40, 0xa8ce5a37, 0xa9138387,
      0x088fd0b2, 0x1f569730, 0xa4659bfe, 0x84d76734, 0xbf84be3b, 0x22af3ae2, 0x7d368050,
      0x1ee9452e, 0x94c630e4] =
      0xc24e9279"
    by (simp add: rotl_def sha1_next_def)
  have r69: "sha1_round [0x761e042d, 0xded034a0, 0xcbbfb4b0, 0x2eeb5bbd, 0x79032379]
      (Parity, 0xca62c1d6) 0x37d7dbd5 =
      [0x7a83227f, 0x761e042d, 0x37b40d28, 0xcbbfb4b0, 0x2eeb5bbd]"
    by (simp add: rotl_def)
  have n69: "sha1_next
      [0x37d7dbd5, 0x5e42c154, 0xf675919a, 0x0cac5e40, 0xa8ce5a37, 0xa9138387, 0x088fd0b2,
      0x1f569730, 0xa4659bfe, 0x84d76734, 0xbf84be3b, 0x22af3ae2, 0x7d368050, 0x1ee9452e,
      0x94c630e4, 0xc24e9279] =
      0xf65d293e"
    by (simp add: rotl_def sha1_next_def)
  have r70: "sha1_round [0x7a83227f, 0x761e042d, 0x37b40d28, 0xcbbfb4b0, 0x2eeb5bbd]
      (Parity, 0xca62c1d6) 0x5e42c154 =
      [0x320aec8b, 0x7a83227f, 0x5d87810b, 0x37b40d28, 0xcbbfb4b0]"
    by (simp add: rotl_def)
  have n70: "sha1_next
      [0x5e42c154, 0xf675919a, 0x0cac5e40, 0xa8ce5a37, 0xa9138387, 0x088fd0b2, 0x1f569730,
      0xa4659bfe, 0x84d76734, 0xbf84be3b, 0x22af3ae2, 0x7d368050, 0x1ee9452e, 0x94c630e4,
      0xc24e9279, 0xf65d293e] =
      0x85ff9188"
    by (simp add: rotl_def sha1_next_def)
  have r71: "sha1_round [0x320aec8b, 0x7a83227f, 0x5d87810b, 0x37b40d28, 0xcbbfb4b0]
      (Parity, 0xca62c1d6) 0xf675919a =
      [0xdea647e2, 0x320aec8b, 0xdea0c89f, 0x5d87810b, 0x37b40d28]"
    by (simp add: rotl_def)
  have n71: "sha1_next
      [0xf675919a, 0x0cac5e40, 0xa8ce5a37, 0xa9138387, 0x088fd0b2, 0x1f569730, 0xa4659bfe,
      0x84d76734, 0xbf84be3b, 0x22af3ae2, 0x7d368050, 0x1ee9452e, 0x94c630e4, 0xc24e9279,
      0xf65d293e, 0x85ff9188] =
      0x46e3cfde"
    by (simp add: rotl_def sha1_next_def)
  have r72: "sha1_round [0xdea647e2, 0x320aec8b, 0xdea0c89f, 0x5d87810b, 0x37b40d28]
      (Parity, 0xca62c1d6) 0x0cac5e40 =
      [0x94b9ceb8, 0xdea647e2, 0xcc82bb22, 0xdea0c89f, 0x5d87810b]"
    by (simp add: rotl_def)
  have n72: "sha1_next
      [0x0cac5e40, 0xa8ce5a37, 0xa9138387, 0x088fd0b2, 0x1f569730, 0xa4659bfe, 0x84d76734,
      0xbf84be3b, 0x22af3ae2, 0x7d368050, 0x1ee9452e, 0x94c630e4, 0xc24e9279, 0xf65d293e,
      0x85ff9188, 0x46e3cfde] =
      0xe29b9c36"
    by (simp add: rotl_def sha1_next_def)
  have r73: "sha1_round [0x94b9ceb8, 0xdea647e2, 0xcc82bb22, 0xdea0c89f, 0x5d87810b]
      (Parity, 0xca62c1d6) 0xa8ce5a37 =
      [0x3476a889, 0x94b9ceb8, 0xb7a991f8, 0xcc82bb22, 0xdea0c89f]"
    by (simp add: rotl_def)
  have n73: "sha1_next
      [0xa8ce5a37, 0xa9138387, 0x088fd0b2, 0x1f569730, 0xa4659bfe, 0x84d76734, 0xbf84be3b,
      0x22af3ae2, 0x7d368050, 0x1ee9452e, 0x94c630e4, 0xc24e9279, 0xf65d293e, 0x85ff9188,
      0x46e3cfde, 0xe29b9c36] =
      0xb11136ba"
    by (simp add: rotl_def sha1_next_def)
  have r74: "sha1_round [0x3476a889, 0x94b9ceb8, 0xb7a991f8, 0xcc82bb22, 0xdea0c89f]
      (Parity, 0xca62c1d6) 0xa9138387 =
      [0xd07f0384, 0x3476a889, 0x252e73ae, 0xb7a991f8, 0xcc82bb22]"
    by (simp add: rotl_def)
  have n74: "sha1_next
      [0xa9138387, 0x088fd0b2, 0x1f569730, 0xa4659bfe, 0x84d76734, 0xbf84be3b, 0x22af3ae2,
      0x7d368050, 0x1ee9452e, 0x94c630e4, 0xc24e9279, 0xf65d293e, 0x85ff9188, 0x46e3cfde,
      0xe29b9c36, 0xb11136ba] =
      0xdc9f3c8f"
    by (simp add: rotl_def sha1_next_def)
  have r75: "sha1_round [0xd07f0384, 0x3476a889, 0x252e73ae, 0xb7a991f8, 0xcc82bb22]
      (Parity, 0xca62c1d6) 0x088fd0b2 =
      [0x56470923, 0xd07f0384, 0x4d1daa22, 0x252e73ae, 0xb7a991f8]"
    by (simp add: rotl_def)
  have n75: "sha1_next
      [0x088fd0b2, 0x1f569730, 0xa4659bfe, 0x84d76734, 0xbf84be3b, 0x22af3ae2, 0x7d368050,
      0x1ee9452e, 0x94c630e4, 0xc24e9279, 0xf65d293e, 0x85ff9188, 0x46e3cfde, 0xe29b9c36,
      0xb11136ba, 0xdc9f3c8f] =
      0xb56fcf3d"
    by (simp add: rotl_def sha1_next_def)
  have r76: "sha1_round [0x56470923, 0xd07f0384, 0x4d1daa22, 0x252e73ae, 0xb7a991f8]
      (Parity, 0xca62c1d6) 0x1f569730 =
      [0x2290e970, 0x56470923, 0x341fc0e1, 0x4d1daa22, 0x252e73ae]"
    by (simp add: rotl_def)
  have n76: "sha1_next
      [0x1f569730, 0xa4659bfe, 0x84d76734, 0xbf84be3b, 0x22af3ae2, 0x7d368050, 0x1ee9452e,
      0x94c630e4, 0xc24e9279, 0xf65d293e, 0x85ff9188, 0x46e3cfde, 0xe29b9c36, 0xb11136ba,
      0xdc9f3c8f, 0xb56fcf3d] =
      0xd1bca98f"
    by (simp add: rotl_def sha1_next_def)
  have r77: "sha1_round [0x2290e970, 0x56470923, 0x341fc0e1, 0x4d1daa22, 0x252e73ae]
      (Parity, 0xca62c1d6) 0xa4659bfe =
      [0x15596366, 0x2290e970, 0xd591c248, 0x341fc0e1, 0x4d1daa22]"
    by (simp add: rotl_def)
  have n77: "sha1_next
      [0xa4659bfe, 0x84d76734, 0xbf84be3b, 0x22af3ae2, 0x7d368050, 0x1ee9452e, 0x94c630e4,
      0xc24e9279, 0xf65d293e, 0x85ff9188, 0x46e3cfde, 0xe29b9c36, 0xb11136ba, 0xdc9f3c8f,
      0xb56fcf3d, 0xd1bca98f] =
      0x624660e8"
    by (simp add: rotl_def sha1_next_def)
  have r78: "sha1_round [0x15596366, 0x2290e970, 0xd591c248, 0x341fc0e1, 0x4d1daa22]
      (Parity, 0xca62c1d6) 0x84d76734 =
      [0x0aa32bc7, 0x15596366, 0x08a43a5c, 0xd591c248, 0x341fc0e1]"
    by (simp add: rotl_def)
  have n78: "sha1_next
      [0x84d76734, 0xbf84be3b, 0x22af3ae2, 0x7d368050, 0x1ee9452e, 0x94c630e4, 0xc24e9279,
      0xf65d293e, 0x85ff9188, 0x46e3cfde, 0xe29b9c36, 0xb11136ba, 0xdc9f3c8f, 0xb56fcf3d,
      0xd1bca98f, 0x624660e8] =
      0x2dd006c7"
    by (simp add: rotl_def sha1_next_def)
  have r79: "sha1_round [0x0aa32bc7, 0x15596366, 0x08a43a5c, 0xd591c248, 0x341fc0e1]
      (Parity, 0xca62c1d6) 0xbf84be3b =
      [0xdad95545, 0x0aa32bc7, 0x855658d9, 0x08a43a5c, 0xd591c248]"
    by (simp add: rotl_def)
  have n79: "sha1_next
      [0xbf84be3b, 0x22af3ae2, 0x7d368050, 0x1ee9452e, 0x94c630e4, 0xc24e9279, 0xf65d293e,
      0x85ff9188, 0x46e3cfde, 0xe29b9c36, 0xb11136ba, 0xdc9f3c8f, 0xb56fcf3d, 0xd1bca98f,
      0x624660e8, 0x2dd006c7] =
      0xabdab074"
    by (simp add: rotl_def sha1_next_def)
  have rounds: "sha1_rounds sha1_schedule
     [0x67452301, 0xefcdab89, 0x98badcfe, 0x10325476, 0xc3d2e1f0]
     [0x470ba5e2, 0x79ef63ae, 0x32835a3d, 0x8644b09d, 0x026bd66d, 0x62617280, 0x00000000,
      0x00000000, 0x00000000, 0x00000000, 0x00000000, 0x00000000, 0x00000000, 0x00000000,
      0x00000000, 0x000000b8] =
     [0xdad95545, 0x0aa32bc7, 0x855658d9, 0x08a43a5c, 0xd591c248]"
    by (simp only: sha1_schedule_def twenty_def sha1_rounds.simps list.sel append.simps
      r0 n0 r1 n1 r2 n2 r3 n3 r4 n4 r5 n5 r6 n6 r7 n7 r8 n8 r9 n9 r10 n10 r11
      n11 r12 n12 r13 n13 r14 n14 r15 n15 r16 n16 r17 n17 r18 n18 r19 n19 r20
      n20 r21 n21 r22 n22 r23 n23 r24 n24 r25 n25 r26 n26 r27 n27 r28 n28 r29
      n29 r30 n30 r31 n31 r32 n32 r33 n33 r34 n34 r35 n35 r36 n36 r37 n37 r38
      n38 r39 n39 r40 n40 r41 n41 r42 n42 r43 n43 r44 n44 r45 n45 r46 n46 r47
      n47 r48 n48 r49 n49 r50 n50 r51 n51 r52 n52 r53 n53 r54 n54 r55 n55 r56
      n56 r57 n57 r58 n58 r59 n59 r60 n60 r61 n61 r62 n62 r63 n63 r64 n64 r65
      n65 r66 n66 r67 n67 r68 n68 r69 n69 r70 n70 r71 n71 r72 n72 r73 n73 r74
      n74 r75 n75 r76 n76 r77 n77 r78 n78 r79 n79)
  show ?thesis
    by (simp add: sha1_def block blocks_of.simps sha1_compress_def rounds sha1_H0_def be32_def)
qed

lemma sha1_policy_mixed_step3:
  "sha1
     [0x42, 0x1e, 0x78, 0x46, 0xfa, 0x70, 0xd7, 0x50, 0x1e, 0x11, 0x35, 0xd7, 0x18, 0xd6, 0x8e,
      0xd2, 0x99, 0x64, 0xa4, 0x38, 0x00, 0x00, 0x01, 0x6b] =
   [0x51, 0x29, 0xf3, 0x04, 0x8f, 0xce, 0x01, 0xfb, 0x46, 0x3e, 0xc1, 0x37, 0x7e, 0xc9, 0xb8,
    0xd7, 0x0c, 0x6d, 0x0e, 0x39]"
proof -
  have block: "words_of (sha_pad
     [0x42, 0x1e, 0x78, 0x46, 0xfa, 0x70, 0xd7, 0x50, 0x1e, 0x11, 0x35, 0xd7, 0x18, 0xd6, 0x8e,
      0xd2, 0x99, 0x64, 0xa4, 0x38, 0x00, 0x00, 0x01, 0x6b]) =
     [0x421e7846, 0xfa70d750, 0x1e1135d7, 0x18d68ed2, 0x9964a438, 0x0000016b, 0x80000000,
      0x00000000, 0x00000000, 0x00000000, 0x00000000, 0x00000000, 0x00000000, 0x00000000,
      0x00000000, 0x000000c0]"
    by (simp add: sha_pad_def be64_of_nat_def be32_def replicate_numeral)
  have r0: "sha1_round [0x67452301, 0xefcdab89, 0x98badcfe, 0x10325476, 0xc3d2e1f0]
      (Ch, 0x5a827999) 0x421e7846 =
      [0xe1d310f9, 0x67452301, 0x7bf36ae2, 0x98badcfe, 0x10325476]"
    by (simp add: rotl_def)
  have n0: "sha1_next
      [0x421e7846, 0xfa70d750, 0x1e1135d7, 0x18d68ed2, 0x9964a438, 0x0000016b, 0x80000000,
      0x00000000, 0x00000000, 0x00000000, 0x00000000, 0x00000000, 0x00000000, 0x00000000,
      0x00000000, 0x000000c0] =
      0xb81e9b22"
    by (simp add: rotl_def sha1_next_def)
  have r1: "sha1_round [0xe1d310f9, 0x67452301, 0x7bf36ae2, 0x98badcfe, 0x10325476]
      (Ch, 0x5a827999) 0xfa70d750 =
      [0x9b83c399, 0xe1d310f9, 0x59d148c0, 0x7bf36ae2, 0x98badcfe]"
    by (simp add: rotl_def)
  have n1: "sha1_next
      [0xfa70d750, 0x1e1135d7, 0x18d68ed2, 0x9964a438, 0x0000016b, 0x80000000, 0x00000000,
      0x00000000, 0x00000000, 0x00000000, 0x00000000, 0x00000000, 0x00000000, 0x00000000,
      0x000000c0, 0xb81e9b22] =
      0xc54cb305"
    by (simp add: rotl_def sha1_next_def)
  have r2: "sha1_round [0x9b83c399, 0xe1d310f9, 0x59d148c0, 0x7bf36ae2, 0x98badcfe]
      (Ch, 0x5a827999) 0x1e1135d7 =
      [0xddb86a63, 0x9b83c399, 0x7874c43e, 0x59d148c0, 0x7bf36ae2]"
    by (simp add: rotl_def)
  have n2: "sha1_next
      [0x1e1135d7, 0x18d68ed2, 0x9964a438, 0x0000016b, 0x80000000, 0x00000000, 0x00000000,
      0x00000000, 0x00000000, 0x00000000, 0x00000000, 0x00000000, 0x00000000, 0x000000c0,
      0xb81e9b22, 0xc54cb305] =
      0x0eeb225f"
    by (simp add: rotl_def sha1_next_def)
  have r3: "sha1_round [0xddb86a63, 0x9b83c399, 0x7874c43e, 0x59d148c0, 0x7bf36ae2]
      (Ch, 0x5a827999) 0x18d68ed2 =
      [0xfeaa8820, 0xddb86a63, 0x66e0f0e6, 0x7874c43e, 0x59d148c0]"
    by (simp add: rotl_def)
  have n3: "sha1_next
      [0x18d68ed2, 0x9964a438, 0x0000016b, 0x80000000, 0x00000000, 0x00000000, 0x00000000,
      0x00000000, 0x00000000, 0x00000000, 0x00000000, 0x00000000, 0x000000c0, 0xb81e9b22,
      0xc54cb305, 0x0eeb225f] =
      0x41902937"
    by (simp add: rotl_def sha1_next_def)
  have r4: "sha1_round [0xfeaa8820, 0xddb86a63, 0x66e0f0e6, 0x7874c43e, 0x59d148c0]
      (Ch, 0x5a827999) 0x9964a438 =
      [0x87ee4f2e, 0xfeaa8820, 0xf76e1a98, 0x66e0f0e6, 0x7874c43e]"
    by (simp add: rotl_def)
  have n4: "sha1_next
      [0x9964a438, 0x0000016b, 0x80000000, 0x00000000, 0x00000000, 0x00000000, 0x00000000,
      0x00000000, 0x00000000, 0x00000000, 0x00000000, 0x000000c0, 0xb81e9b22, 0xc54cb305,
      0x0eeb225f, 0x41902937] =
      0xb8502e7b"
    by (simp add: rotl_def sha1_next_def)
  have r5: "sha1_round [0x87ee4f2e, 0xfeaa8820, 0xf76e1a98, 0x66e0f0e6, 0x7874c43e]
      (Ch, 0x5a827999) 0x0000016b =
      [0xc72b9dd8, 0x87ee4f2e, 0x3faaa208, 0xf76e1a98, 0x66e0f0e6]"
    by (simp add: rotl_def)
  have n5: "sha1_next
      [0x0000016b, 0x80000000, 0x00000000, 0x00000000, 0x00000000, 0x00000000, 0x00000000,
      0x00000000, 0x00000000, 0x00000000, 0x000000c0, 0xb81e9b22, 0xc54cb305, 0x0eeb225f,
      0x41902937, 0xb8502e7b] =
      0x1dd64668"
    by (simp add: rotl_def sha1_next_def)
  have r6: "sha1_round [0xc72b9dd8, 0x87ee4f2e, 0x3faaa208, 0xf76e1a98, 0x66e0f0e6]
      (Ch, 0x5a827999) 0x80000000 =
      [0x9e81382f, 0xc72b9dd8, 0xa1fb93cb, 0x3faaa208, 0xf76e1a98]"
    by (simp add: rotl_def)
  have n6: "sha1_next
      [0x80000000, 0x00000000, 0x00000000, 0x00000000, 0x00000000, 0x00000000, 0x00000000,
      0x00000000, 0x00000000, 0x000000c0, 0xb81e9b22, 0xc54cb305, 0x0eeb225f, 0x41902937,
      0xb8502e7b, 0x1dd64668] =
      0x8320526f"
    by (simp add: rotl_def sha1_next_def)
  have r7: "sha1_round [0x9e81382f, 0xc72b9dd8, 0xa1fb93cb, 0x3faaa208, 0xf76e1a98]
      (Ch, 0x5a827999) 0x00000000 =
      [0xdbc34dec, 0x9e81382f, 0x31cae776, 0xa1fb93cb, 0x3faaa208]"
    by (simp add: rotl_def)
  have n7: "sha1_next
      [0x00000000, 0x00000000, 0x00000000, 0x00000000, 0x00000000, 0x00000000, 0x00000000,
      0x00000000, 0x000000c0, 0xb81e9b22, 0xc54cb305, 0x0eeb225f, 0x41902937, 0xb8502e7b,
      0x1dd64668, 0x8320526f] =
      0x70a05d77"
    by (simp add: rotl_def sha1_next_def)
  have r8: "sha1_round [0xdbc34dec, 0x9e81382f, 0x31cae776, 0xa1fb93cb, 0x3faaa208]
      (Ch, 0x5a827999) 0x00000000 =
      [0x44917d22, 0xdbc34dec, 0xe7a04e0b, 0x31cae776, 0xa1fb93cb]"
    by (simp add: rotl_def)
  have n8: "sha1_next
      [0x00000000, 0x00000000, 0x00000000, 0x00000000, 0x00000000, 0x00000000, 0x00000000,
      0x000000c0, 0xb81e9b22, 0xc54cb305, 0x0eeb225f, 0x41902937, 0xb8502e7b, 0x1dd64668,
      0x8320526f, 0x70a05d77] =
      0x4b91ba95"
    by (simp add: rotl_def sha1_next_def)
  have r9: "sha1_round [0x44917d22, 0xdbc34dec, 0xe7a04e0b, 0x31cae776, 0xa1fb93cb]
      (Ch, 0x5a827999) 0x00000000 =
      [0x72369fc6, 0x44917d22, 0x36f0d37b, 0xe7a04e0b, 0x31cae776]"
    by (simp add: rotl_def)
  have n9: "sha1_next
      [0x00000000, 0x00000000, 0x00000000, 0x00000000, 0x00000000, 0x00000000, 0x000000c0,
      0xb81e9b22, 0xc54cb305, 0x0eeb225f, 0x41902937, 0xb8502e7b, 0x1dd64668, 0x8320526f,
      0x70a05d77, 0x4b91ba95] =
      0x8cd9c2d4"
    by (simp add: rotl_def sha1_next_def)
  have r10: "sha1_round [0x72369fc6, 0x44917d22, 0x36f0d37b, 0xe7a04e0b, 0x31cae776]
      (Ch, 0x5a827999) 0x00000000 =
      [0x7ad1ad08, 0x72369fc6, 0x91245f48, 0x36f0d37b, 0xe7a04e0b]"
    by (simp add: rotl_def)
  have n10: "sha1_next
      [0x00000000, 0x00000000, 0x00000000, 0x00000000, 0x00000000, 0x000000c0, 0xb81e9b22,
      0xc54cb305, 0x0eeb225f, 0x41902937, 0xb8502e7b, 0x1dd64668, 0x8320526f, 0x70a05d77,
      0x4b91ba95, 0x8cd9c2d4] =
      0xfc96fe50"
    by (simp add: rotl_def sha1_next_def)
  have r11: "sha1_round [0x7ad1ad08, 0x72369fc6, 0x91245f48, 0x36f0d37b, 0xe7a04e0b]
      (Ch, 0x5a827999) 0x00000000 =
      [0xb13cc82c, 0x7ad1ad08, 0x9c8da7f1, 0x91245f48, 0x36f0d37b]"
    by (simp add: rotl_def)
  have n11: "sha1_next
      [0x00000000, 0x00000000, 0x00000000, 0x00000000, 0x000000c0, 0xb81e9b22, 0xc54cb305,
      0x0eeb225f, 0x41902937, 0xb8502e7b, 0x1dd64668, 0x8320526f, 0x70a05d77, 0x4b91ba95,
      0x8cd9c2d4, 0xfc96fe50] =
      0x14032744"
    by (simp add: rotl_def sha1_next_def)
  have r12: "sha1_round [0xb13cc82c, 0x7ad1ad08, 0x9c8da7f1, 0x91245f48, 0x36f0d37b]
      (Ch, 0x5a827999) 0x00000000 =
      [0x52b249ea, 0xb13cc82c, 0x1eb46b42, 0x9c8da7f1, 0x91245f48]"
    by (simp add: rotl_def)
  have n12: "sha1_next
      [0x00000000, 0x00000000, 0x00000000, 0x000000c0, 0xb81e9b22, 0xc54cb305, 0x0eeb225f,
      0x41902937, 0xb8502e7b, 0x1dd64668, 0x8320526f, 0x70a05d77, 0x4b91ba95, 0x8cd9c2d4,
      0xfc96fe50, 0x14032744] =
      0x6913d95e"
    by (simp add: rotl_def sha1_next_def)
  have r13: "sha1_round [0x52b249ea, 0xb13cc82c, 0x1eb46b42, 0x9c8da7f1, 0x91245f48]
      (Ch, 0x5a827999) 0x00000000 =
      [0x5ea585fc, 0x52b249ea, 0x2c4f320b, 0x1eb46b42, 0x9c8da7f1]"
    by (simp add: rotl_def)
  have n13: "sha1_next
      [0x00000000, 0x00000000, 0x000000c0, 0xb81e9b22, 0xc54cb305, 0x0eeb225f, 0x41902937,
      0xb8502e7b, 0x1dd64668, 0x8320526f, 0x70a05d77, 0x4b91ba95, 0x8cd9c2d4, 0xfc96fe50,
      0x14032744, 0x6913d95e] =
      0xc28171f1"
    by (simp add: rotl_def sha1_next_def)
  have r14: "sha1_round [0x5ea585fc, 0x52b249ea, 0x2c4f320b, 0x1eb46b42, 0x9c8da7f1]
      (Ch, 0x5a827999) 0x00000000 =
      [0xd7c7031f, 0x5ea585fc, 0x94ac927a, 0x2c4f320b, 0x1eb46b42]"
    by (simp add: rotl_def)
  have n14: "sha1_next
      [0x00000000, 0x000000c0, 0xb81e9b22, 0xc54cb305, 0x0eeb225f, 0x41902937, 0xb8502e7b,
      0x1dd64668, 0x8320526f, 0x70a05d77, 0x4b91ba95, 0x8cd9c2d4, 0xfc96fe50, 0x14032744,
      0x6913d95e, 0xc28171f1] =
      0x5e7bdc12"
    by (simp add: rotl_def sha1_next_def)
  have r15: "sha1_round [0xd7c7031f, 0x5ea585fc, 0x94ac927a, 0x2c4f320b, 0x1eb46b42]
      (Ch, 0x5a827999) 0x000000c0 =
      [0xa705fc10, 0xd7c7031f, 0x17a9617f, 0x94ac927a, 0x2c4f320b]"
    by (simp add: rotl_def)
  have n15: "sha1_next
      [0x000000c0, 0xb81e9b22, 0xc54cb305, 0x0eeb225f, 0x41902937, 0xb8502e7b, 0x1dd64668,
      0x8320526f, 0x70a05d77, 0x4b91ba95, 0x8cd9c2d4, 0xfc96fe50, 0x14032744, 0x6913d95e,
      0xc28171f1, 0x5e7bdc12] =
      0xb9fe6fd9"
    by (simp add: rotl_def sha1_next_def)
  have r16: "sha1_round [0xa705fc10, 0xd7c7031f, 0x17a9617f, 0x94ac927a, 0x2c4f320b]
      (Ch, 0x5a827999) 0xb81e9b22 =
      [0x37595a59, 0xa705fc10, 0xf5f1c0c7, 0x17a9617f, 0x94ac927a]"
    by (simp add: rotl_def)
  have n16: "sha1_next
      [0xb81e9b22, 0xc54cb305, 0x0eeb225f, 0x41902937, 0xb8502e7b, 0x1dd64668, 0x8320526f,
      0x70a05d77, 0x4b91ba95, 0x8cd9c2d4, 0xfc96fe50, 0x14032744, 0x6913d95e, 0xc28171f1,
      0x5e7bdc12, 0xb9fe6fd9] =
      0x7fcae432"
    by (simp add: rotl_def sha1_next_def)
  have r17: "sha1_round [0x37595a59, 0xa705fc10, 0xf5f1c0c7, 0x17a9617f, 0x94ac927a]
      (Ch, 0x5a827999) 0xc54cb305 =
      [0x5550cbad, 0x37595a59, 0x29c17f04, 0xf5f1c0c7, 0x17a9617f]"
    by (simp add: rotl_def)
  have n17: "sha1_next
      [0xc54cb305, 0x0eeb225f, 0x41902937, 0xb8502e7b, 0x1dd64668, 0x8320526f, 0x70a05d77,
      0x4b91ba95, 0x8cd9c2d4, 0xfc96fe50, 0x14032744, 0x6913d95e, 0xc28171f1, 0x5e7bdc12,
      0xb9fe6fd9, 0x7fcae432] =
      0xacfd09e8"
    by (simp add: rotl_def sha1_next_def)
  have r18: "sha1_round [0x5550cbad, 0x37595a59, 0x29c17f04, 0xf5f1c0c7, 0x17a9617f]
      (Ch, 0x5a827999) 0x0eeb225f =
      [0x0d124da7, 0x5550cbad, 0x4dd65696, 0x29c17f04, 0xf5f1c0c7]"
    by (simp add: rotl_def)
  have n18: "sha1_next
      [0x0eeb225f, 0x41902937, 0xb8502e7b, 0x1dd64668, 0x8320526f, 0x70a05d77, 0x4b91ba95,
      0x8cd9c2d4, 0xfc96fe50, 0x14032744, 0x6913d95e, 0xc28171f1, 0x5e7bdc12, 0xb9fe6fd9,
      0x7fcae432, 0xacfd09e8] =
      0xe7a73b5b"
    by (simp add: rotl_def sha1_next_def)
  have r19: "sha1_round [0x0d124da7, 0x5550cbad, 0x4dd65696, 0x29c17f04, 0xf5f1c0c7]
      (Ch, 0x5a827999) 0x41902937 =
      [0xa21f8efc, 0x0d124da7, 0x555432eb, 0x4dd65696, 0x29c17f04]"
    by (simp add: rotl_def)
  have n19: "sha1_next
      [0x41902937, 0xb8502e7b, 0x1dd64668, 0x8320526f, 0x70a05d77, 0x4b91ba95, 0x8cd9c2d4,
      0xfc96fe50, 0x14032744, 0x6913d95e, 0xc28171f1, 0x5e7bdc12, 0xb9fe6fd9, 0x7fcae432,
      0xacfd09e8, 0xe7a73b5b] =
      0x6f1f5852"
    by (simp add: rotl_def sha1_next_def)
  have r20: "sha1_round [0xa21f8efc, 0x0d124da7, 0x555432eb, 0x4dd65696, 0x29c17f04]
      (Parity, 0x6ed9eba1) 0xb8502e7b =
      [0xaa6da28e, 0xa21f8efc, 0xc3449369, 0x555432eb, 0x4dd65696]"
    by (simp add: rotl_def)
  have n20: "sha1_next
      [0xb8502e7b, 0x1dd64668, 0x8320526f, 0x70a05d77, 0x4b91ba95, 0x8cd9c2d4, 0xfc96fe50,
      0x14032744, 0x6913d95e, 0xc28171f1, 0x5e7bdc12, 0xb9fe6fd9, 0x7fcae432, 0xacfd09e8,
      0xe7a73b5b, 0x6f1f5852] =
      0xfd3d5945"
    by (simp add: rotl_def sha1_next_def)
  have r21: "sha1_round [0xaa6da28e, 0xa21f8efc, 0xc3449369, 0x555432eb, 0x4dd65696]
      (Parity, 0x6ed9eba1) 0x1dd64668 =
      [0x5c4a09f2, 0xaa6da28e, 0x2887e3bf, 0xc3449369, 0x555432eb]"
    by (simp add: rotl_def)
  have n21: "sha1_next
      [0x1dd64668, 0x8320526f, 0x70a05d77, 0x4b91ba95, 0x8cd9c2d4, 0xfc96fe50, 0x14032744,
      0x6913d95e, 0xc28171f1, 0x5e7bdc12, 0xb9fe6fd9, 0x7fcae432, 0xacfd09e8, 0xe7a73b5b,
      0x6f1f5852, 0xfd3d5945] =
      0x90a0a36a"
    by (simp add: rotl_def sha1_next_def)
  have r22: "sha1_round [0x5c4a09f2, 0xaa6da28e, 0x2887e3bf, 0xc3449369, 0x555432eb]
      (Parity, 0x6ed9eba1) 0x8320526f =
      [0x123e819e, 0x5c4a09f2, 0xaa9b68a3, 0x2887e3bf, 0xc3449369]"
    by (simp add: rotl_def)
  have n22: "sha1_next
      [0x8320526f, 0x70a05d77, 0x4b91ba95, 0x8cd9c2d4, 0xfc96fe50, 0x14032744, 0x6913d95e,
      0xc28171f1, 0x5e7bdc12, 0xb9fe6fd9, 0x7fcae432, 0xacfd09e8, 0xe7a73b5b, 0x6f1f5852,
      0xfd3d5945, 0x90a0a36a] =
      0xf3aad975"
    by (simp add: rotl_def sha1_next_def)
  have r23: "sha1_round [0x123e819e, 0x5c4a09f2, 0xaa9b68a3, 0x2887e3bf, 0xc3449369]
      (Parity, 0x6ed9eba1) 0x70a05d77 =
      [0xc8e59331, 0x123e819e, 0x9712827c, 0xaa9b68a3, 0x2887e3bf]"
    by (simp add: rotl_def)
  have n23: "sha1_next
      [0x70a05d77, 0x4b91ba95, 0x8cd9c2d4, 0xfc96fe50, 0x14032744, 0x6913d95e, 0xc28171f1,
      0x5e7bdc12, 0xb9fe6fd9, 0x7fcae432, 0xacfd09e8, 0xe7a73b5b, 0x6f1f5852, 0xfd3d5945,
      0x90a0a36a, 0xf3aad975] =
      0x7175527f"
    by (simp add: rotl_def sha1_next_def)
  have r24: "sha1_round [0xc8e59331, 0x123e819e, 0x9712827c, 0xaa9b68a3, 0x2887e3bf]
      (Parity, 0x6ed9eba1) 0x4b91ba95 =
      [0x2f5d5b6f, 0xc8e59331, 0x848fa067, 0x9712827c, 0xaa9b68a3]"
    by (simp add: rotl_def)
  have n24: "sha1_next
      [0x4b91ba95, 0x8cd9c2d4, 0xfc96fe50, 0x14032744, 0x6913d95e, 0xc28171f1, 0x5e7bdc12,
      0xb9fe6fd9, 0x7fcae432, 0xacfd09e8, 0xe7a73b5b, 0x6f1f5852, 0xfd3d5945, 0x90a0a36a,
      0xf3aad975, 0x7175527f] =
      0xb0da073a"
    by (simp add: rotl_def sha1_next_def)
  have r25: "sha1_round [0x2f5d5b6f, 0xc8e59331, 0x848fa067, 0x9712827c, 0xaa9b68a3]
      (Parity, 0x6ed9eba1) 0x8cd9c2d4 =
      [0x6d733627, 0x2f5d5b6f, 0x723964cc, 0x848fa067, 0x9712827c]"
    by (simp add: rotl_def)
  have n25: "sha1_next
      [0x8cd9c2d4, 0xfc96fe50, 0x14032744, 0x6913d95e, 0xc28171f1, 0x5e7bdc12, 0xb9fe6fd9,
      0x7fcae432, 0xacfd09e8, 0xe7a73b5b, 0x6f1f5852, 0xfd3d5945, 0x90a0a36a, 0xf3aad975,
      0x7175527f, 0xb0da073a] =
      0x8f1a6a1b"
    by (simp add: rotl_def sha1_next_def)
  have r26: "sha1_round [0x6d733627, 0x2f5d5b6f, 0x723964cc, 0x848fa067, 0x9712827c]
      (Parity, 0x6ed9eba1) 0xfc96fe50 =
      [0x8ad5d11e, 0x6d733627, 0xcbd756db, 0x723964cc, 0x848fa067]"
    by (simp add: rotl_def)
  have n26: "sha1_next
      [0xfc96fe50, 0x14032744, 0x6913d95e, 0xc28171f1, 0x5e7bdc12, 0xb9fe6fd9, 0x7fcae432,
      0xacfd09e8, 0xe7a73b5b, 0x6f1f5852, 0xfd3d5945, 0x90a0a36a, 0xf3aad975, 0x7175527f,
      0xb0da073a, 0x8f1a6a1b] =
      0x06ae9c54"
    by (simp add: rotl_def sha1_next_def)
  have r27: "sha1_round [0x8ad5d11e, 0x6d733627, 0xcbd756db, 0x723964cc, 0x848fa067]
      (Parity, 0x6ed9eba1) 0x14032744 =
      [0x36c3db4d, 0x8ad5d11e, 0xdb5ccd89, 0xcbd756db, 0x723964cc]"
    by (simp add: rotl_def)
  have n27: "sha1_next
      [0x14032744, 0x6913d95e, 0xc28171f1, 0x5e7bdc12, 0xb9fe6fd9, 0x7fcae432, 0xacfd09e8,
      0xe7a73b5b, 0x6f1f5852, 0xfd3d5945, 0x90a0a36a, 0xf3aad975, 0x7175527f, 0xb0da073a,
      0x8f1a6a1b, 0x06ae9c54] =
      0x128e13ba"
    by (simp add: rotl_def sha1_next_def)
  have r28: "sha1_round [0x36c3db4d, 0x8ad5d11e, 0xdb5ccd89, 0xcbd756db, 0x723964cc]
      (Parity, 0x6ed9eba1) 0x6913d95e =
      [0xbd00ddbd, 0x36c3db4d, 0xa2b57447, 0xdb5ccd89, 0xcbd756db]"
    by (simp add: rotl_def)
  have n28: "sha1_next
      [0x6913d95e, 0xc28171f1, 0x5e7bdc12, 0xb9fe6fd9, 0x7fcae432, 0xacfd09e8, 0xe7a73b5b,
      0x6f1f5852, 0xfd3d5945, 0x90a0a36a, 0xf3aad975, 0x7175527f, 0xb0da073a, 0x8f1a6a1b,
      0x06ae9c54, 0x128e13ba] =
      0x8a9e6c24"
    by (simp add: rotl_def sha1_next_def)
  have r29: "sha1_round [0xbd00ddbd, 0x36c3db4d, 0xa2b57447, 0xdb5ccd89, 0xcbd756db]
      (Parity, 0x6ed9eba1) 0xc28171f1 =
      [0xec78cea7, 0xbd00ddbd, 0x4db0f6d3, 0xa2b57447, 0xdb5ccd89]"
    by (simp add: rotl_def)
  have n29: "sha1_next
      [0xc28171f1, 0x5e7bdc12, 0xb9fe6fd9, 0x7fcae432, 0xacfd09e8, 0xe7a73b5b, 0x6f1f5852,
      0xfd3d5945, 0x90a0a36a, 0xf3aad975, 0x7175527f, 0xb0da073a, 0x8f1a6a1b, 0x06ae9c54,
      0x128e13ba, 0x8a9e6c24] =
      0xdae2422d"
    by (simp add: rotl_def sha1_next_def)
  have r30: "sha1_round [0xec78cea7, 0xbd00ddbd, 0x4db0f6d3, 0xa2b57447, 0xdb5ccd89]
      (Parity, 0x6ed9eba1) 0x5e7bdc12 =
      [0x89d1c962, 0xec78cea7, 0x6f40376f, 0x4db0f6d3, 0xa2b57447]"
    by (simp add: rotl_def)
  have n30: "sha1_next
      [0x5e7bdc12, 0xb9fe6fd9, 0x7fcae432, 0xacfd09e8, 0xe7a73b5b, 0x6f1f5852, 0xfd3d5945,
      0x90a0a36a, 0xf3aad975, 0x7175527f, 0xb0da073a, 0x8f1a6a1b, 0x06ae9c54, 0x128e13ba,
      0x8a9e6c24, 0xdae2422d] =
      0x812be5df"
    by (simp add: rotl_def sha1_next_def)
  have r31: "sha1_round [0x89d1c962, 0xec78cea7, 0x6f40376f, 0x4db0f6d3, 0xa2b57447]
      (Parity, 0x6ed9eba1) 0xb9fe6fd9 =
      [0xd44f0b2d, 0x89d1c962, 0xfb1e33a9, 0x6f40376f, 0x4db0f6d3]"
    by (simp add: rotl_def)
  have n31: "sha1_next
      [0xb9fe6fd9, 0x7fcae432, 0xacfd09e8, 0xe7a73b5b, 0x6f1f5852, 0xfd3d5945, 0x90a0a36a,
      0xf3aad975, 0x7175527f, 0xb0da073a, 0x8f1a6a1b, 0x06ae9c54, 0x128e13ba, 0x8a9e6c24,
      0xdae2422d, 0x812be5df] =
      0xddd0b0d5"
    by (simp add: rotl_def sha1_next_def)
  have r32: "sha1_round [0xd44f0b2d, 0x89d1c962, 0xfb1e33a9, 0x6f40376f, 0x4db0f6d3]
      (Parity, 0x6ed9eba1) 0x7fcae432 =
      [0xe3c6fa04, 0xd44f0b2d, 0xa2747258, 0xfb1e33a9, 0x6f40376f]"
    by (simp add: rotl_def)
  have n32: "sha1_next
      [0x7fcae432, 0xacfd09e8, 0xe7a73b5b, 0x6f1f5852, 0xfd3d5945, 0x90a0a36a, 0xf3aad975,
      0x7175527f, 0xb0da073a, 0x8f1a6a1b, 0x06ae9c54, 0x128e13ba, 0x8a9e6c24, 0xdae2422d,
      0x812be5df, 0xddd0b0d5] =
      0xe4ab34fd"
    by (simp add: rotl_def sha1_next_def)
  have r33: "sha1_round [0xe3c6fa04, 0xd44f0b2d, 0xa2747258, 0xfb1e33a9, 0x6f40376f]
      (Parity, 0x6ed9eba1) 0xacfd09e8 =
      [0x911bb870, 0xe3c6fa04, 0x7513c2cb, 0xa2747258, 0xfb1e33a9]"
    by (simp add: rotl_def)
  have n33: "sha1_next
      [0xacfd09e8, 0xe7a73b5b, 0x6f1f5852, 0xfd3d5945, 0x90a0a36a, 0xf3aad975, 0x7175527f,
      0xb0da073a, 0x8f1a6a1b, 0x06ae9c54, 0x128e13ba, 0x8a9e6c24, 0xdae2422d, 0x812be5df,
      0xddd0b0d5, 0xe4ab34fd] =
      0x9ba7bcfd"
    by (simp add: rotl_def sha1_next_def)
  have r34: "sha1_round [0x911bb870, 0xe3c6fa04, 0x7513c2cb, 0xa2747258, 0xfb1e33a9]
      (Parity, 0x6ed9eba1) 0xe7a73b5b =
      [0xa9b7b34e, 0x911bb870, 0x38f1be81, 0x7513c2cb, 0xa2747258]"
    by (simp add: rotl_def)
  have n34: "sha1_next
      [0xe7a73b5b, 0x6f1f5852, 0xfd3d5945, 0x90a0a36a, 0xf3aad975, 0x7175527f, 0xb0da073a,
      0x8f1a6a1b, 0x06ae9c54, 0x128e13ba, 0x8a9e6c24, 0xdae2422d, 0x812be5df, 0xddd0b0d5,
      0xe4ab34fd, 0x9ba7bcfd] =
      0x83c89d3f"
    by (simp add: rotl_def sha1_next_def)
  have r35: "sha1_round [0xa9b7b34e, 0x911bb870, 0x38f1be81, 0x7513c2cb, 0xa2747258]
      (Parity, 0x6ed9eba1) 0x6f1f5852 =
      [0x945de45a, 0xa9b7b34e, 0x2446ee1c, 0x38f1be81, 0x7513c2cb]"
    by (simp add: rotl_def)
  have n35: "sha1_next
      [0x6f1f5852, 0xfd3d5945, 0x90a0a36a, 0xf3aad975, 0x7175527f, 0xb0da073a, 0x8f1a6a1b,
      0x06ae9c54, 0x128e13ba, 0x8a9e6c24, 0xdae2422d, 0x812be5df, 0xddd0b0d5, 0xe4ab34fd,
      0x9ba7bcfd, 0x83c89d3f] =
      0x1335b8fe"
    by (simp add: rotl_def sha1_next_def)
  have r36: "sha1_round [0x945de45a, 0xa9b7b34e, 0x2446ee1c, 0x38f1be81, 0x7513c2cb]
      (Parity, 0x6ed9eba1) 0xfd3d5945 =
      [0x21e876d6, 0x945de45a, 0xaa6decd3, 0x2446ee1c, 0x38f1be81]"
    by (simp add: rotl_def)
  have n36: "sha1_next
      [0xfd3d5945, 0x90a0a36a, 0xf3aad975, 0x7175527f, 0xb0da073a, 0x8f1a6a1b, 0x06ae9c54,
      0x128e13ba, 0x8a9e6c24, 0xdae2422d, 0x812be5df, 0xddd0b0d5, 0xe4ab34fd, 0x9ba7bcfd,
      0x83c89d3f, 0x1335b8fe] =
      0x3f5ca1d2"
    by (simp add: rotl_def sha1_next_def)
  have r37: "sha1_round [0x21e876d6, 0x945de45a, 0xaa6decd3, 0x2446ee1c, 0x38f1be81]
      (Parity, 0x6ed9eba1) 0x90a0a36a =
      [0x8ff20ee5, 0x21e876d6, 0xa5177916, 0xaa6decd3, 0x2446ee1c]"
    by (simp add: rotl_def)
  have n37: "sha1_next
      [0x90a0a36a, 0xf3aad975, 0x7175527f, 0xb0da073a, 0x8f1a6a1b, 0x06ae9c54, 0x128e13ba,
      0x8a9e6c24, 0xdae2422d, 0x812be5df, 0xddd0b0d5, 0xe4ab34fd, 0x9ba7bcfd, 0x83c89d3f,
      0x1335b8fe, 0x3f5ca1d2] =
      0x71fe5c0f"
    by (simp add: rotl_def sha1_next_def)
  have r38: "sha1_round [0x8ff20ee5, 0x21e876d6, 0xa5177916, 0xaa6decd3, 0x2446ee1c]
      (Parity, 0x6ed9eba1) 0xf3aad975 =
      [0xb3a072f6, 0x8ff20ee5, 0x887a1db5, 0xa5177916, 0xaa6decd3]"
    by (simp add: rotl_def)
  have n38: "sha1_next
      [0xf3aad975, 0x7175527f, 0xb0da073a, 0x8f1a6a1b, 0x06ae9c54, 0x128e13ba, 0x8a9e6c24,
      0xdae2422d, 0x812be5df, 0xddd0b0d5, 0xe4ab34fd, 0x9ba7bcfd, 0x83c89d3f, 0x1335b8fe,
      0x3f5ca1d2, 0x71fe5c0f] =
      0xa2dd06dd"
    by (simp add: rotl_def sha1_next_def)
  have r39: "sha1_round [0xb3a072f6, 0x8ff20ee5, 0x887a1db5, 0xa5177916, 0xaa6decd3]
      (Parity, 0x6ed9eba1) 0x7175527f =
      [0xa16af40f, 0xb3a072f6, 0x63fc83b9, 0x887a1db5, 0xa5177916]"
    by (simp add: rotl_def)
  have n39: "sha1_next
      [0x7175527f, 0xb0da073a, 0x8f1a6a1b, 0x06ae9c54, 0x128e13ba, 0x8a9e6c24, 0xdae2422d,
      0x812be5df, 0xddd0b0d5, 0xe4ab34fd, 0x9ba7bcfd, 0x83c89d3f, 0x1335b8fe, 0x3f5ca1d2,
      0x71fe5c0f, 0xa2dd06dd] =
      0x39c652c6"
    by (simp add: rotl_def sha1_next_def)
  have r40: "sha1_round [0xa16af40f, 0xb3a072f6, 0x63fc83b9, 0x887a1db5, 0xa5177916]
      (Maj, 0x8f1bbcdc) 0xb0da073a =
      [0xb663d2d5, 0xa16af40f, 0xace81cbd, 0x63fc83b9, 0x887a1db5]"
    by (simp add: rotl_def)
  have n40: "sha1_next
      [0xb0da073a, 0x8f1a6a1b, 0x06ae9c54, 0x128e13ba, 0x8a9e6c24, 0xdae2422d, 0x812be5df,
      0xddd0b0d5, 0xe4ab34fd, 0x9ba7bcfd, 0x83c89d3f, 0x1335b8fe, 0x3f5ca1d2, 0x71fe5c0f,
      0xa2dd06dd, 0x39c652c6] =
      0x4643e738"
    by (simp add: rotl_def sha1_next_def)
  have r41: "sha1_round [0xb663d2d5, 0xa16af40f, 0xace81cbd, 0x63fc83b9, 0x887a1db5]
      (Maj, 0x8f1bbcdc) 0x8f1a6a1b =
      [0x1513341f, 0xb663d2d5, 0xe85abd03, 0xace81cbd, 0x63fc83b9]"
    by (simp add: rotl_def)
  have n41: "sha1_next
      [0x8f1a6a1b, 0x06ae9c54, 0x128e13ba, 0x8a9e6c24, 0xdae2422d, 0x812be5df, 0xddd0b0d5,
      0xe4ab34fd, 0x9ba7bcfd, 0x83c89d3f, 0x1335b8fe, 0x3f5ca1d2, 0x71fe5c0f, 0xa2dd06dd,
      0x39c652c6, 0x4643e738] =
      0x49dd8703"
    by (simp add: rotl_def sha1_next_def)
  have r42: "sha1_round [0x1513341f, 0xb663d2d5, 0xe85abd03, 0xace81cbd, 0x63fc83b9]
      (Maj, 0x8f1bbcdc) 0x06ae9c54 =
      [0x4897fd60, 0x1513341f, 0x6d98f4b5, 0xe85abd03, 0xace81cbd]"
    by (simp add: rotl_def)
  have n42: "sha1_next
      [0x06ae9c54, 0x128e13ba, 0x8a9e6c24, 0xdae2422d, 0x812be5df, 0xddd0b0d5, 0xe4ab34fd,
      0x9ba7bcfd, 0x83c89d3f, 0x1335b8fe, 0x3f5ca1d2, 0x71fe5c0f, 0xa2dd06dd, 0x39c652c6,
      0x4643e738, 0x49dd8703] =
      0x6c7c7f12"
    by (simp add: rotl_def sha1_next_def)
  have r43: "sha1_round [0x4897fd60, 0x1513341f, 0x6d98f4b5, 0xe85abd03, 0xace81cbd]
      (Maj, 0x8f1bbcdc) 0x128e13ba =
      [0xceac4d73, 0x4897fd60, 0xc544cd07, 0x6d98f4b5, 0xe85abd03]"
    by (simp add: rotl_def)
  have n43: "sha1_next
      [0x128e13ba, 0x8a9e6c24, 0xdae2422d, 0x812be5df, 0xddd0b0d5, 0xe4ab34fd, 0x9ba7bcfd,
      0x83c89d3f, 0x1335b8fe, 0x3f5ca1d2, 0x71fe5c0f, 0xa2dd06dd, 0x39c652c6, 0x4643e738,
      0x49dd8703, 0x6c7c7f12] =
      0x3a341ca3"
    by (simp add: rotl_def sha1_next_def)
  have r44: "sha1_round [0xceac4d73, 0x4897fd60, 0xc544cd07, 0x6d98f4b5, 0xe85abd03]
      (Maj, 0x8f1bbcdc) 0x8a9e6c24 =
      [0x253391a1, 0xceac4d73, 0x1225ff58, 0xc544cd07, 0x6d98f4b5]"
    by (simp add: rotl_def)
  have n44: "sha1_next
      [0x8a9e6c24, 0xdae2422d, 0x812be5df, 0xddd0b0d5, 0xe4ab34fd, 0x9ba7bcfd, 0x83c89d3f,
      0x1335b8fe, 0x3f5ca1d2, 0x71fe5c0f, 0xa2dd06dd, 0x39c652c6, 0x4643e738, 0x49dd8703,
      0x6c7c7f12, 0x3a341ca3] =
      0xfa695e54"
    by (simp add: rotl_def sha1_next_def)
  have r45: "sha1_round [0x253391a1, 0xceac4d73, 0x1225ff58, 0xc544cd07, 0x6d98f4b5]
      (Maj, 0x8f1bbcdc) 0xdae2422d =
      [0x442df535, 0x253391a1, 0xf3ab135c, 0x1225ff58, 0xc544cd07]"
    by (simp add: rotl_def)
  have n45: "sha1_next
      [0xdae2422d, 0x812be5df, 0xddd0b0d5, 0xe4ab34fd, 0x9ba7bcfd, 0x83c89d3f, 0x1335b8fe,
      0x3f5ca1d2, 0x71fe5c0f, 0xa2dd06dd, 0x39c652c6, 0x4643e738, 0x49dd8703, 0x6c7c7f12,
      0x3a341ca3, 0xfa695e54] =
      0x3561a3ca"
    by (simp add: rotl_def sha1_next_def)
  have r46: "sha1_round [0x442df535, 0x253391a1, 0xf3ab135c, 0x1225ff58, 0xc544cd07]
      (Maj, 0x8f1bbcdc) 0x812be5df =
      [0x8e6ea9c2, 0x442df535, 0x494ce468, 0xf3ab135c, 0x1225ff58]"
    by (simp add: rotl_def)
  have n46: "sha1_next
      [0x812be5df, 0xddd0b0d5, 0xe4ab34fd, 0x9ba7bcfd, 0x83c89d3f, 0x1335b8fe, 0x3f5ca1d2,
      0x71fe5c0f, 0xa2dd06dd, 0x39c652c6, 0x4643e738, 0x49dd8703, 0x6c7c7f12, 0x3a341ca3,
      0xfa695e54, 0x3561a3ca] =
      0xfad396b9"
    by (simp add: rotl_def sha1_next_def)
  have r47: "sha1_round [0x8e6ea9c2, 0x442df535, 0x494ce468, 0xf3ab135c, 0x1225ff58]
      (Maj, 0x8f1bbcdc) 0xddd0b0d5 =
      [0x8e159ad6, 0x8e6ea9c2, 0x510b7d4d, 0x494ce468, 0xf3ab135c]"
    by (simp add: rotl_def)
  have n47: "sha1_next
      [0xddd0b0d5, 0xe4ab34fd, 0x9ba7bcfd, 0x83c89d3f, 0x1335b8fe, 0x3f5ca1d2, 0x71fe5c0f,
      0xa2dd06dd, 0x39c652c6, 0x4643e738, 0x49dd8703, 0x6c7c7f12, 0x3a341ca3, 0xfa695e54,
      0x3561a3ca, 0xfad396b9] =
      0x0bb00175"
    by (simp add: rotl_def sha1_next_def)
  have r48: "sha1_round [0x8e159ad6, 0x8e6ea9c2, 0x510b7d4d, 0x494ce468, 0xf3ab135c]
      (Maj, 0x8f1bbcdc) 0xe4ab34fd =
      [0x73744d4e, 0x8e159ad6, 0xa39baa70, 0x510b7d4d, 0x494ce468]"
    by (simp add: rotl_def)
  have n48: "sha1_next
      [0xe4ab34fd, 0x9ba7bcfd, 0x83c89d3f, 0x1335b8fe, 0x3f5ca1d2, 0x71fe5c0f, 0xa2dd06dd,
      0x39c652c6, 0x4643e738, 0x49dd8703, 0x6c7c7f12, 0x3a341ca3, 0xfa695e54, 0x3561a3ca,
      0xfad396b9, 0x0bb00175] =
      0x2883da60"
    by (simp add: rotl_def sha1_next_def)
  have r49: "sha1_round [0x73744d4e, 0x8e159ad6, 0xa39baa70, 0x510b7d4d, 0x494ce468]
      (Maj, 0x8f1bbcdc) 0x9ba7bcfd =
      [0x65b5c263, 0x73744d4e, 0xa38566b5, 0xa39baa70, 0x510b7d4d]"
    by (simp add: rotl_def)
  have n49: "sha1_next
      [0x9ba7bcfd, 0x83c89d3f, 0x1335b8fe, 0x3f5ca1d2, 0x71fe5c0f, 0xa2dd06dd, 0x39c652c6,
      0x4643e738, 0x49dd8703, 0x6c7c7f12, 0x3a341ca3, 0xfa695e54, 0x3561a3ca, 0xfad396b9,
      0x0bb00175, 0x2883da60] =
      0x77382b72"
    by (simp add: rotl_def sha1_next_def)
  have r50: "sha1_round [0x65b5c263, 0x73744d4e, 0xa38566b5, 0xa39baa70, 0x510b7d4d]
      (Maj, 0x8f1bbcdc) 0x83c89d3f =
      [0xbe3d9248, 0x65b5c263, 0x9cdd1353, 0xa38566b5, 0xa39baa70]"
    by (simp add: rotl_def)
  have n50: "sha1_next
      [0x83c89d3f, 0x1335b8fe, 0x3f5ca1d2, 0x71fe5c0f, 0xa2dd06dd, 0x39c652c6, 0x4643e738,
      0x49dd8703, 0x6c7c7f12, 0x3a341ca3, 0xfa695e54, 0x3561a3ca, 0xfad396b9, 0x0bb00175,
      0x2883da60, 0x77382b72] =
      0xb6b08515"
    by (simp add: rotl_def sha1_next_def)
  have r51: "sha1_round [0xbe3d9248, 0x65b5c263, 0x9cdd1353, 0xa38566b5, 0xa39baa70]
      (Maj, 0x8f1bbcdc) 0x1335b8fe =
      [0xb334abd4, 0xbe3d9248, 0xd96d7098, 0x9cdd1353, 0xa38566b5]"
    by (simp add: rotl_def)
  have n51: "sha1_next
      [0x1335b8fe, 0x3f5ca1d2, 0x71fe5c0f, 0xa2dd06dd, 0x39c652c6, 0x4643e738, 0x49dd8703,
      0x6c7c7f12, 0x3a341ca3, 0xfa695e54, 0x3561a3ca, 0xfad396b9, 0x0bb00175, 0x2883da60,
      0x77382b72, 0xb6b08515] =
      0xe0f84464"
    by (simp add: rotl_def sha1_next_def)
  have r52: "sha1_round [0xb334abd4, 0xbe3d9248, 0xd96d7098, 0x9cdd1353, 0xa38566b5]
      (Maj, 0x8f1bbcdc) 0x3f5ca1d2 =
      [0x75105251, 0xb334abd4, 0x2f8f6492, 0xd96d7098, 0x9cdd1353]"
    by (simp add: rotl_def)
  have n52: "sha1_next
      [0x3f5ca1d2, 0x71fe5c0f, 0xa2dd06dd, 0x39c652c6, 0x4643e738, 0x49dd8703, 0x6c7c7f12,
      0x3a341ca3, 0xfa695e54, 0x3561a3ca, 0xfad396b9, 0x0bb00175, 0x2883da60, 0x77382b72,
      0xb6b08515, 0xe0f84464] =
      0x21a1a452"
    by (simp add: rotl_def sha1_next_def)
  have r53: "sha1_round [0x75105251, 0xb334abd4, 0x2f8f6492, 0xd96d7098, 0x9cdd1353]
      (Maj, 0x8f1bbcdc) 0x71fe5c0f =
      [0xfb2ed6fc, 0x75105251, 0x2ccd2af5, 0x2f8f6492, 0xd96d7098]"
    by (simp add: rotl_def)
  have n53: "sha1_next
      [0x71fe5c0f, 0xa2dd06dd, 0x39c652c6, 0x4643e738, 0x49dd8703, 0x6c7c7f12, 0x3a341ca3,
      0xfa695e54, 0x3561a3ca, 0xfad396b9, 0x0bb00175, 0x2883da60, 0x77382b72, 0xb6b08515,
      0xe0f84464, 0x21a1a452] =
      0x97d2502d"
    by (simp add: rotl_def sha1_next_def)
  have r54: "sha1_round [0xfb2ed6fc, 0x75105251, 0x2ccd2af5, 0x2f8f6492, 0xd96d7098]
      (Maj, 0x8f1bbcdc) 0xa2dd06dd =
      [0x9ece76c1, 0xfb2ed6fc, 0x5d441494, 0x2ccd2af5, 0x2f8f6492]"
    by (simp add: rotl_def)
  have n54: "sha1_next
      [0xa2dd06dd, 0x39c652c6, 0x4643e738, 0x49dd8703, 0x6c7c7f12, 0x3a341ca3, 0xfa695e54,
      0x3561a3ca, 0xfad396b9, 0x0bb00175, 0x2883da60, 0x77382b72, 0xb6b08515, 0xe0f84464,
      0x21a1a452, 0x97d2502d] =
      0xfd6a6671"
    by (simp add: rotl_def sha1_next_def)
  have r55: "sha1_round [0x9ece76c1, 0xfb2ed6fc, 0x5d441494, 0x2ccd2af5, 0x2f8f6492]
      (Maj, 0x8f1bbcdc) 0x39c652c6 =
      [0x4f8c635b, 0x9ece76c1, 0x3ecbb5bf, 0x5d441494, 0x2ccd2af5]"
    by (simp add: rotl_def)
  have n55: "sha1_next
      [0x39c652c6, 0x4643e738, 0x49dd8703, 0x6c7c7f12, 0x3a341ca3, 0xfa695e54, 0x3561a3ca,
      0xfad396b9, 0x0bb00175, 0x2883da60, 0x77382b72, 0xb6b08515, 0xe0f84464, 0x21a1a452,
      0x97d2502d, 0xfd6a6671] =
      0xb414e1c4"
    by (simp add: rotl_def sha1_next_def)
  have r56: "sha1_round [0x4f8c635b, 0x9ece76c1, 0x3ecbb5bf, 0x5d441494, 0x2ccd2af5]
      (Maj, 0x8f1bbcdc) 0x4643e738 =
      [0x12876f07, 0x4f8c635b, 0x67b39db0, 0x3ecbb5bf, 0x5d441494]"
    by (simp add: rotl_def)
  have n56: "sha1_next
      [0x4643e738, 0x49dd8703, 0x6c7c7f12, 0x3a341ca3, 0xfa695e54, 0x3561a3ca, 0xfad396b9,
      0x0bb00175, 0x2883da60, 0x77382b72, 0xb6b08515, 0xe0f84464, 0x21a1a452, 0x97d2502d,
      0xfd6a6671, 0xb414e1c4] =
      0x2adc24cf"
    by (simp add: rotl_def sha1_next_def)
  have r57: "sha1_round [0x12876f07, 0x4f8c635b, 0x67b39db0, 0x3ecbb5bf, 0x5d441494]
      (Maj, 0x8f1bbcdc) 0x49dd8703 =
      [0xf6b6ef10, 0x12876f07, 0xd3e318d6, 0x67b39db0, 0x3ecbb5bf]"
    by (simp add: rotl_def)
  have n57: "sha1_next
      [0x49dd8703, 0x6c7c7f12, 0x3a341ca3, 0xfa695e54, 0x3561a3ca, 0xfad396b9, 0x0bb00175,
      0x2883da60, 0x77382b72, 0xb6b08515, 0xe0f84464, 0x21a1a452, 0x97d2502d, 0xfd6a6671,
      0xb414e1c4, 0x2adc24cf] =
      0xf377ad47"
    by (simp add: rotl_def sha1_next_def)
  have r58: "sha1_round [0xf6b6ef10, 0x12876f07, 0xd3e318d6, 0x67b39db0, 0x3ecbb5bf]
      (Maj, 0x8f1bbcdc) 0x6c7c7f12 =
      [0x64e4f161, 0xf6b6ef10, 0xc4a1dbc1, 0xd3e318d6, 0x67b39db0]"
    by (simp add: rotl_def)
  have n58: "sha1_next
      [0x6c7c7f12, 0x3a341ca3, 0xfa695e54, 0x3561a3ca, 0xfad396b9, 0x0bb00175, 0x2883da60,
      0x77382b72, 0xb6b08515, 0xe0f84464, 0x21a1a452, 0x97d2502d, 0xfd6a6671, 0xb414e1c4,
      0x2adc24cf, 0xf377ad47] =
      0x29628b2f"
    by (simp add: rotl_def sha1_next_def)
  have r59: "sha1_round [0x64e4f161, 0xf6b6ef10, 0xc4a1dbc1, 0xd3e318d6, 0x67b39db0]
      (Maj, 0x8f1bbcdc) 0x3a341ca3 =
      [0xa4457f2b, 0x64e4f161, 0x3dadbbc4, 0xc4a1dbc1, 0xd3e318d6]"
    by (simp add: rotl_def)
  have n59: "sha1_next
      [0x3a341ca3, 0xfa695e54, 0x3561a3ca, 0xfad396b9, 0x0bb00175, 0x2883da60, 0x77382b72,
      0xb6b08515, 0xe0f84464, 0x21a1a452, 0x97d2502d, 0xfd6a6671, 0xb414e1c4, 0x2adc24cf,
      0xf377ad47, 0x29628b2f] =
      0x8ae3bf85"
    by (simp add: rotl_def sha1_next_def)
  have r60: "sha1_round [0xa4457f2b, 0x64e4f161, 0x3dadbbc4, 0xc4a1dbc1, 0xd3e318d6]
      (Parity, 0xca62c1d6) 0xfa695e54 =
      [0xbf47afd8, 0xa4457f2b, 0x59393c58, 0x3dadbbc4, 0xc4a1dbc1]"
    by (simp add: rotl_def)
  have n60: "sha1_next
      [0xfa695e54, 0x3561a3ca, 0xfad396b9, 0x0bb00175, 0x2883da60, 0x77382b72, 0xb6b08515,
      0xe0f84464, 0x21a1a452, 0x97d2502d, 0xfd6a6671, 0xb414e1c4, 0x2adc24cf, 0xf377ad47,
      0x29628b2f, 0x8ae3bf85] =
      0xa4d983f1"
    by (simp add: rotl_def sha1_next_def)
  have r61: "sha1_round [0xbf47afd8, 0xa4457f2b, 0x59393c58, 0x3dadbbc4, 0xc4a1dbc1]
      (Parity, 0xca62c1d6) 0x3561a3ca =
      [0x6e2e352f, 0xbf47afd8, 0xe9115fca, 0x59393c58, 0x3dadbbc4]"
    by (simp add: rotl_def)
  have n61: "sha1_next
      [0x3561a3ca, 0xfad396b9, 0x0bb00175, 0x2883da60, 0x77382b72, 0xb6b08515, 0xe0f84464,
      0x21a1a452, 0x97d2502d, 0xfd6a6671, 0xb414e1c4, 0x2adc24cf, 0xf377ad47, 0x29628b2f,
      0x8ae3bf85, 0xa4d983f1] =
      0x00c2f37b"
    by (simp add: rotl_def sha1_next_def)
  have r62: "sha1_round [0x6e2e352f, 0xbf47afd8, 0xe9115fca, 0x59393c58, 0x3dadbbc4]
      (Parity, 0xca62c1d6) 0xfad396b9 =
      [0xd81a868a, 0x6e2e352f, 0x2fd1ebf6, 0xe9115fca, 0x59393c58]"
    by (simp add: rotl_def)
  have n62: "sha1_next
      [0xfad396b9, 0x0bb00175, 0x2883da60, 0x77382b72, 0xb6b08515, 0xe0f84464, 0x21a1a452,
      0x97d2502d, 0xfd6a6671, 0xb414e1c4, 0x2adc24cf, 0xf377ad47, 0x29628b2f, 0x8ae3bf85,
      0xa4d983f1, 0x00c2f37b] =
      0x4bb32a5b"
    by (simp add: rotl_def sha1_next_def)
  have r63: "sha1_round [0xd81a868a, 0x6e2e352f, 0x2fd1ebf6, 0xe9115fca, 0x59393c58]
      (Parity, 0xca62c1d6) 0x0bb00175 =
      [0xdb8b5211, 0xd81a868a, 0xdb8b8d4b, 0x2fd1ebf6, 0xe9115fca]"
    by (simp add: rotl_def)
  have n63: "sha1_next
      [0x0bb00175, 0x2883da60, 0x77382b72, 0xb6b08515, 0xe0f84464, 0x21a1a452, 0x97d2502d,
      0xfd6a6671, 0xb414e1c4, 0x2adc24cf, 0xf377ad47, 0x29628b2f, 0x8ae3bf85, 0xa4d983f1,
      0x00c2f37b, 0x4bb32a5b] =
      0xd88a9064"
    by (simp add: rotl_def sha1_next_def)
  have r64: "sha1_round [0xdb8b5211, 0xd81a868a, 0xdb8b8d4b, 0x2fd1ebf6, 0xe9115fca]
      (Parity, 0xca62c1d6) 0x2883da60 =
      [0x79a31e72, 0xdb8b5211, 0xb606a1a2, 0xdb8b8d4b, 0x2fd1ebf6]"
    by (simp add: rotl_def)
  have n64: "sha1_next
      [0x2883da60, 0x77382b72, 0xb6b08515, 0xe0f84464, 0x21a1a452, 0x97d2502d, 0xfd6a6671,
      0xb414e1c4, 0x2adc24cf, 0xf377ad47, 0x29628b2f, 0x8ae3bf85, 0xa4d983f1, 0x00c2f37b,
      0x4bb32a5b, 0xd88a9064] =
      0x685b1183"
    by (simp add: rotl_def sha1_next_def)
  have r65: "sha1_round [0x79a31e72, 0xdb8b5211, 0xb606a1a2, 0xdb8b8d4b, 0x2fd1ebf6]
      (Parity, 0xca62c1d6) 0x77382b72 =
      [0x5bd72685, 0x79a31e72, 0x76e2d484, 0xb606a1a2, 0xdb8b8d4b]"
    by (simp add: rotl_def)
  have n65: "sha1_next
      [0x77382b72, 0xb6b08515, 0xe0f84464, 0x21a1a452, 0x97d2502d, 0xfd6a6671, 0xb414e1c4,
      0x2adc24cf, 0xf377ad47, 0x29628b2f, 0x8ae3bf85, 0xa4d983f1, 0x00c2f37b, 0x4bb32a5b,
      0xd88a9064, 0x685b1183] =
      0x5e09d014"
    by (simp add: rotl_def sha1_next_def)
  have r66: "sha1_round [0x5bd72685, 0x79a31e72, 0x76e2d484, 0xb606a1a2, 0xdb8b8d4b]
      (Parity, 0xca62c1d6) 0xb6b08515 =
      [0x90cb1035, 0x5bd72685, 0x9e68c79c, 0x76e2d484, 0xb606a1a2]"
    by (simp add: rotl_def)
  have n66: "sha1_next
      [0xb6b08515, 0xe0f84464, 0x21a1a452, 0x97d2502d, 0xfd6a6671, 0xb414e1c4, 0x2adc24cf,
      0xf377ad47, 0x29628b2f, 0x8ae3bf85, 0xa4d983f1, 0x00c2f37b, 0x4bb32a5b, 0xd88a9064,
      0x685b1183, 0x5e09d014] =
      0xcdf27418"
    by (simp add: rotl_def sha1_next_def)
  have r67: "sha1_round [0x90cb1035, 0x5bd72685, 0x9e68c79c, 0x76e2d484, 0xb606a1a2]
      (Parity, 0xca62c1d6) 0xe0f84464 =
      [0x2e20e42b, 0x90cb1035, 0x56f5c9a1, 0x9e68c79c, 0x76e2d484]"
    by (simp add: rotl_def)
  have n67: "sha1_next
      [0xe0f84464, 0x21a1a452, 0x97d2502d, 0xfd6a6671, 0xb414e1c4, 0x2adc24cf, 0xf377ad47,
      0x29628b2f, 0x8ae3bf85, 0xa4d983f1, 0x00c2f37b, 0x4bb32a5b, 0xd88a9064, 0x685b1183,
      0x5e09d014, 0xcdf27418] =
      0x2b25749f"
    by (simp add: rotl_def sha1_next_def)
  have r68: "sha1_round [0x2e20e42b, 0x90cb1035, 0x56f5c9a1, 0x9e68c79c, 0x76e2d484]
      (Parity, 0xca62c1d6) 0x21a1a452 =
      [0x7f59de19, 0x2e20e42b, 0x6432c40d, 0x56f5c9a1, 0x9e68c79c]"
    by (simp add: rotl_def)
  have n68: "sha1_next
      [0x21a1a452, 0x97d2502d, 0xfd6a6671, 0xb414e1c4, 0x2adc24cf, 0xf377ad47, 0x29628b2f,
      0x8ae3bf85, 0xa4d983f1, 0x00c2f37b, 0x4bb32a5b, 0xd88a9064, 0x685b1183, 0x5e09d014,
      0xcdf27418, 0x2b25749f] =
      0x4c37238c"
    by (simp add: rotl_def sha1_next_def)
  have r69: "sha1_round [0x7f59de19, 0x2e20e42b, 0x6432c40d, 0x56f5c9a1, 0x9e68c79c]
      (Parity, 0xca62c1d6) 0x97d2502d =
      [0x08c18655, 0x7f59de19, 0xcb88390a, 0x6432c40d, 0x56f5c9a1]"
    by (simp add: rotl_def)
  have n69: "sha1_next
      [0x97d2502d, 0xfd6a6671, 0xb414e1c4, 0x2adc24cf, 0xf377ad47, 0x29628b2f, 0x8ae3bf85,
      0xa4d983f1, 0x00c2f37b, 0x4bb32a5b, 0xd88a9064, 0x685b1183, 0x5e09d014, 0xcdf27418,
      0x2b25749f, 0x4c37238c] =
      0xddec6d15"
    by (simp add: rotl_def sha1_next_def)
  have r70: "sha1_round [0x08c18655, 0x7f59de19, 0xcb88390a, 0x6432c40d, 0x56f5c9a1]
      (Parity, 0xca62c1d6) 0xfd6a6671 =
      [0x07d6dfa7, 0x08c18655, 0x5fd67786, 0xcb88390a, 0x6432c40d]"
    by (simp add: rotl_def)
  have n70: "sha1_next
      [0xfd6a6671, 0xb414e1c4, 0x2adc24cf, 0xf377ad47, 0x29628b2f, 0x8ae3bf85, 0xa4d983f1,
      0x00c2f37b, 0x4bb32a5b, 0xd88a9064, 0x685b1183, 0x5e09d014, 0xcdf27418, 0x2b25749f,
      0x4c37238c, 0xddec6d15] =
      0x6e4038f5"
    by (simp add: rotl_def sha1_next_def)
  have r71: "sha1_round [0x07d6dfa7, 0x08c18655, 0x5fd67786, 0xcb88390a, 0x6432c40d]
      (Parity, 0xca62c1d6) 0xb414e1c4 =
      [0x7a262560, 0x07d6dfa7, 0x42306195, 0x5fd67786, 0xcb88390a]"
    by (simp add: rotl_def)
  have n71: "sha1_next
      [0xb414e1c4, 0x2adc24cf, 0xf377ad47, 0x29628b2f, 0x8ae3bf85, 0xa4d983f1, 0x00c2f37b,
      0x4bb32a5b, 0xd88a9064, 0x685b1183, 0x5e09d014, 0xcdf27418, 0x2b25749f, 0x4c37238c,
      0xddec6d15, 0x6e4038f5] =
      0xa7bdfed7"
    by (simp add: rotl_def sha1_next_def)
  have r72: "sha1_round [0x7a262560, 0x07d6dfa7, 0x42306195, 0x5fd67786, 0xcb88390a]
      (Parity, 0xca62c1d6) 0x2adc24cf =
      [0x1fbc9572, 0x7a262560, 0xc1f5b7e9, 0x42306195, 0x5fd67786]"
    by (simp add: rotl_def)
  have n72: "sha1_next
      [0x2adc24cf, 0xf377ad47, 0x29628b2f, 0x8ae3bf85, 0xa4d983f1, 0x00c2f37b, 0x4bb32a5b,
      0xd88a9064, 0x685b1183, 0x5e09d014, 0xcdf27418, 0x2b25749f, 0x4c37238c, 0xddec6d15,
      0x6e4038f5, 0xa7bdfed7] =
      0x6c13a6ed"
    by (simp add: rotl_def sha1_next_def)
  have r73: "sha1_round [0x1fbc9572, 0x7a262560, 0xc1f5b7e9, 0x42306195, 0x5fd67786]
      (Parity, 0xca62c1d6) 0xf377ad47 =
      [0x0f278802, 0x1fbc9572, 0x1e898958, 0xc1f5b7e9, 0x42306195]"
    by (simp add: rotl_def)
  have n73: "sha1_next
      [0xf377ad47, 0x29628b2f, 0x8ae3bf85, 0xa4d983f1, 0x00c2f37b, 0x4bb32a5b, 0xd88a9064,
      0x685b1183, 0x5e09d014, 0xcdf27418, 0x2b25749f, 0x4c37238c, 0xddec6d15, 0x6e4038f5,
      0xa7bdfed7, 0x6c13a6ed] =
      0x93bbf446"
    by (simp add: rotl_def sha1_next_def)
  have r74: "sha1_round [0x0f278802, 0x1fbc9572, 0x1e898958, 0xc1f5b7e9, 0x42306195]
      (Parity, 0xca62c1d6) 0x29628b2f =
      [0xdba75a9e, 0x0f278802, 0x87ef255c, 0x1e898958, 0xc1f5b7e9]"
    by (simp add: rotl_def)
  have n74: "sha1_next
      [0x29628b2f, 0x8ae3bf85, 0xa4d983f1, 0x00c2f37b, 0x4bb32a5b, 0xd88a9064, 0x685b1183,
      0x5e09d014, 0xcdf27418, 0x2b25749f, 0x4c37238c, 0xddec6d15, 0x6e4038f5, 0xa7bdfed7,
      0x6c13a6ed, 0x93bbf446] =
      0xcfe90423"
    by (simp add: rotl_def sha1_next_def)
  have r75: "sha1_round [0xdba75a9e, 0x0f278802, 0x87ef255c, 0x1e898958, 0xc1f5b7e9]
      (Parity, 0xca62c1d6) 0x8ae3bf85 =
      [0x2268b125, 0xdba75a9e, 0x83c9e200, 0x87ef255c, 0x1e898958]"
    by (simp add: rotl_def)
  have n75: "sha1_next
      [0x8ae3bf85, 0xa4d983f1, 0x00c2f37b, 0x4bb32a5b, 0xd88a9064, 0x685b1183, 0x5e09d014,
      0xcdf27418, 0x2b25749f, 0x4c37238c, 0xddec6d15, 0x6e4038f5, 0xa7bdfed7, 0x6c13a6ed,
      0x93bbf446, 0xcfe90423] =
      0x9a2f3d19"
    by (simp add: rotl_def sha1_next_def)
  have r76: "sha1_round [0x2268b125, 0xdba75a9e, 0x83c9e200, 0x87ef255c, 0x1e898958]
      (Parity, 0xca62c1d6) 0xa4d983f1 =
      [0xba5d9185, 0x2268b125, 0xb6e9d6a7, 0x83c9e200, 0x87ef255c]"
    by (simp add: rotl_def)
  have n76: "sha1_next
      [0xa4d983f1, 0x00c2f37b, 0x4bb32a5b, 0xd88a9064, 0x685b1183, 0x5e09d014, 0xcdf27418,
      0x2b25749f, 0x4c37238c, 0xddec6d15, 0x6e4038f5, 0xa7bdfed7, 0x6c13a6ed, 0x93bbf446,
      0xcfe90423, 0x9a2f3d19] =
      0x61ccfcc0"
    by (simp add: rotl_def sha1_next_def)
  have r77: "sha1_round [0xba5d9185, 0x2268b125, 0xb6e9d6a7, 0x83c9e200, 0x87ef255c]
      (Parity, 0xca62c1d6) 0x00c2f37b =
      [0xb60f90e6, 0xba5d9185, 0x489a2c49, 0xb6e9d6a7, 0x83c9e200]"
    by (simp add: rotl_def)
  have n77: "sha1_next
      [0x00c2f37b, 0x4bb32a5b, 0xd88a9064, 0x685b1183, 0x5e09d014, 0xcdf27418, 0x2b25749f,
      0x4c37238c, 0xddec6d15, 0x6e4038f5, 0xa7bdfed7, 0x6c13a6ed, 0x93bbf446, 0xcfe90423,
      0x9a2f3d19, 0x61ccfcc0] =
      0x949a1453"
    by (simp add: rotl_def sha1_next_def)
  have r78: "sha1_round [0xb60f90e6, 0xba5d9185, 0x489a2c49, 0xb6e9d6a7, 0x83c9e200]
      (Parity, 0xca62c1d6) 0x4bb32a5b =
      [0xa0005672, 0xb60f90e6, 0x6e976461, 0x489a2c49, 0xb6e9d6a7]"
    by (simp add: rotl_def)
  have n78: "sha1_next
      [0x4bb32a5b, 0xd88a9064, 0x685b1183, 0x5e09d014, 0xcdf27418, 0x2b25749f, 0x4c37238c,
      0xddec6d15, 0x6e4038f5, 0xa7bdfed7, 0x6c13a6ed, 0x93bbf446, 0xcfe90423, 0x9a2f3d19,
      0x61ccfcc0, 0x949a1453] =
      0xaf0e7c69"
    by (simp add: rotl_def sha1_next_def)
  have r79: "sha1_round [0xa0005672, 0xb60f90e6, 0x6e976461, 0x489a2c49, 0xb6e9d6a7]
      (Parity, 0xca62c1d6) 0xd88a9064 =
      [0xe9e4d003, 0xa0005672, 0xad83e439, 0x6e976461, 0x489a2c49]"
    by (simp add: rotl_def)
  have n79: "sha1_next
      [0xd88a9064, 0x685b1183, 0x5e09d014, 0xcdf27418, 0x2b25749f, 0x4c37238c, 0xddec6d15,
      0x6e4038f5, 0xa7bdfed7, 0x6c13a6ed, 0x93bbf446, 0xcfe90423, 0x9a2f3d19, 0x61ccfcc0,
      0x949a1453, 0xaf0e7c69] =
      0x81e484ce"
    by (simp add: rotl_def sha1_next_def)
  have rounds: "sha1_rounds sha1_schedule
     [0x67452301, 0xefcdab89, 0x98badcfe, 0x10325476, 0xc3d2e1f0]
     [0x421e7846, 0xfa70d750, 0x1e1135d7, 0x18d68ed2, 0x9964a438, 0x0000016b, 0x80000000,
      0x00000000, 0x00000000, 0x00000000, 0x00000000, 0x00000000, 0x00000000, 0x00000000,
      0x00000000, 0x000000c0] =
     [0xe9e4d003, 0xa0005672, 0xad83e439, 0x6e976461, 0x489a2c49]"
    by (simp only: sha1_schedule_def twenty_def sha1_rounds.simps list.sel append.simps
      r0 n0 r1 n1 r2 n2 r3 n3 r4 n4 r5 n5 r6 n6 r7 n7 r8 n8 r9 n9 r10 n10 r11
      n11 r12 n12 r13 n13 r14 n14 r15 n15 r16 n16 r17 n17 r18 n18 r19 n19 r20
      n20 r21 n21 r22 n22 r23 n23 r24 n24 r25 n25 r26 n26 r27 n27 r28 n28 r29
      n29 r30 n30 r31 n31 r32 n32 r33 n33 r34 n34 r35 n35 r36 n36 r37 n37 r38
      n38 r39 n39 r40 n40 r41 n41 r42 n42 r43 n43 r44 n44 r45 n45 r46 n46 r47
      n47 r48 n48 r49 n49 r50 n50 r51 n51 r52 n52 r53 n53 r54 n54 r55 n55 r56
      n56 r57 n57 r58 n58 r59 n59 r60 n60 r61 n61 r62 n62 r63 n63 r64 n64 r65
      n65 r66 n66 r67 n67 r68 n68 r69 n69 r70 n70 r71 n71 r72 n72 r73 n73 r74
      n74 r75 n75 r76 n76 r77 n77 r78 n78 r79 n79)
  show ?thesis
    by (simp add: sha1_def block blocks_of.simps sha1_compress_def rounds sha1_H0_def be32_def)
qed

lemma sha1_policy_mixed_step4:
  "sha1
     [0x51, 0x29, 0xf3, 0x04, 0x8f, 0xce, 0x01, 0xfb, 0x46, 0x3e, 0xc1, 0x37, 0x7e, 0xc9, 0xb8,
      0xd7, 0x0c, 0x6d, 0x0e, 0x39, 0x00, 0x00, 0x01, 0x6c, 0x00, 0x00, 0x01, 0x3b] =
   [0xab, 0xdc, 0xe8, 0x3a, 0xb5, 0x0f, 0x4d, 0x5f, 0xd3, 0x78, 0x18, 0x1e, 0x21, 0xde, 0x94,
    0x86, 0x55, 0x96, 0x12, 0xd3]"
proof -
  have block: "words_of (sha_pad
     [0x51, 0x29, 0xf3, 0x04, 0x8f, 0xce, 0x01, 0xfb, 0x46, 0x3e, 0xc1, 0x37, 0x7e, 0xc9, 0xb8,
      0xd7, 0x0c, 0x6d, 0x0e, 0x39, 0x00, 0x00, 0x01, 0x6c, 0x00, 0x00, 0x01, 0x3b]) =
     [0x5129f304, 0x8fce01fb, 0x463ec137, 0x7ec9b8d7, 0x0c6d0e39, 0x0000016c, 0x0000013b,
      0x80000000, 0x00000000, 0x00000000, 0x00000000, 0x00000000, 0x00000000, 0x00000000,
      0x00000000, 0x000000e0]"
    by (simp add: sha_pad_def be64_of_nat_def be32_def replicate_numeral)
  have r0: "sha1_round [0x67452301, 0xefcdab89, 0x98badcfe, 0x10325476, 0xc3d2e1f0]
      (Ch, 0x5a827999) 0x5129f304 =
      [0xf0de8bb7, 0x67452301, 0x7bf36ae2, 0x98badcfe, 0x10325476]"
    by (simp add: rotl_def)
  have n0: "sha1_next
      [0x5129f304, 0x8fce01fb, 0x463ec137, 0x7ec9b8d7, 0x0c6d0e39, 0x0000016c, 0x0000013b,
      0x80000000, 0x00000000, 0x00000000, 0x00000000, 0x00000000, 0x00000000, 0x00000000,
      0x00000000, 0x000000e0] =
      0x2e2e6466"
    by (simp add: rotl_def sha1_next_def)
  have r1: "sha1_round [0xf0de8bb7, 0x67452301, 0x7bf36ae2, 0x98badcfe, 0x10325476]
      (Ch, 0x5a827999) 0x8fce01fb =
      [0x12504606, 0xf0de8bb7, 0x59d148c0, 0x7bf36ae2, 0x98badcfe]"
    by (simp add: rotl_def)
  have n1: "sha1_next
      [0x8fce01fb, 0x463ec137, 0x7ec9b8d7, 0x0c6d0e39, 0x0000016c, 0x0000013b, 0x80000000,
      0x00000000, 0x00000000, 0x00000000, 0x00000000, 0x00000000, 0x00000000, 0x00000000,
      0x000000e0, 0x2e2e6466] =
      0xe20f7259"
    by (simp add: rotl_def sha1_next_def)
  have r2: "sha1_round [0x12504606, 0xf0de8bb7, 0x59d148c0, 0x7bf36ae2, 0x98badcfe]
      (Ch, 0x5a827999) 0x463ec137 =
      [0xdf764150, 0x12504606, 0xfc37a2ed, 0x59d148c0, 0x7bf36ae2]"
    by (simp add: rotl_def)
  have n2: "sha1_next
      [0x463ec137, 0x7ec9b8d7, 0x0c6d0e39, 0x0000016c, 0x0000013b, 0x80000000, 0x00000000,
      0x00000000, 0x00000000, 0x00000000, 0x00000000, 0x00000000, 0x00000000, 0x000000e0,
      0x2e2e6466, 0xe20f7259] =
      0x94a79fdc"
    by (simp add: rotl_def sha1_next_def)
  have r3: "sha1_round [0xdf764150, 0x12504606, 0xfc37a2ed, 0x59d148c0, 0x7bf36ae2]
      (Ch, 0x5a827999) 0x7ec9b8d7 =
      [0x9d98d231, 0xdf764150, 0x84941181, 0xfc37a2ed, 0x59d148c0]"
    by (simp add: rotl_def)
  have n3: "sha1_next
      [0x7ec9b8d7, 0x0c6d0e39, 0x0000016c, 0x0000013b, 0x80000000, 0x00000000, 0x00000000,
      0x00000000, 0x00000000, 0x00000000, 0x00000000, 0x00000000, 0x000000e0, 0x2e2e6466,
      0xe20f7259, 0x94a79fdc] =
      0xa1cfbbba"
    by (simp add: rotl_def sha1_next_def)
  have r4: "sha1_round [0x9d98d231, 0xdf764150, 0x84941181, 0xfc37a2ed, 0x59d148c0]
      (Ch, 0x5a827999) 0x0c6d0e39 =
      [0x17f0ba72, 0x9d98d231, 0x37dd9054, 0x84941181, 0xfc37a2ed]"
    by (simp add: rotl_def)
  have n4: "sha1_next
      [0x0c6d0e39, 0x0000016c, 0x0000013b, 0x80000000, 0x00000000, 0x00000000, 0x00000000,
      0x00000000, 0x00000000, 0x00000000, 0x00000000, 0x000000e0, 0x2e2e6466, 0xe20f7259,
      0x94a79fdc, 0xa1cfbbba] =
      0xdcc4fab7"
    by (simp add: rotl_def sha1_next_def)
  have r5: "sha1_round [0x17f0ba72, 0x9d98d231, 0x37dd9054, 0x84941181, 0xfc37a2ed]
      (Ch, 0x5a827999) 0x0000016c =
      [0x6a6dfdc4, 0x17f0ba72, 0x6766348c, 0x37dd9054, 0x84941181]"
    by (simp add: rotl_def)
  have n5: "sha1_next
      [0x0000016c, 0x0000013b, 0x80000000, 0x00000000, 0x00000000, 0x00000000, 0x00000000,
      0x00000000, 0x00000000, 0x00000000, 0x000000e0, 0x2e2e6466, 0xe20f7259, 0x94a79fdc,
      0xa1cfbbba, 0xdcc4fab7] =
      0x294f3d60"
    by (simp add: rotl_def sha1_next_def)
  have r6: "sha1_round [0x6a6dfdc4, 0x17f0ba72, 0x6766348c, 0x37dd9054, 0x84941181]
      (Ch, 0x5a827999) 0x0000013b =
      [0x544374e6, 0x6a6dfdc4, 0x85fc2e9c, 0x6766348c, 0x37dd9054]"
    by (simp add: rotl_def)
  have n6: "sha1_next
      [0x0000013b, 0x80000000, 0x00000000, 0x00000000, 0x00000000, 0x00000000, 0x00000000,
      0x00000000, 0x00000000, 0x000000e0, 0x2e2e6466, 0xe20f7259, 0x94a79fdc, 0xa1cfbbba,
      0xdcc4fab7, 0x294f3d60] =
      0x439f7503"
    by (simp add: rotl_def sha1_next_def)
  have r7: "sha1_round [0x544374e6, 0x6a6dfdc4, 0x85fc2e9c, 0x6766348c, 0x37dd9054]
      (Ch, 0x5a827999) 0x80000000 =
      [0xa03cd343, 0x544374e6, 0x1a9b7f71, 0x85fc2e9c, 0x6766348c]"
    by (simp add: rotl_def)
  have n7: "sha1_next
      [0x80000000, 0x00000000, 0x00000000, 0x00000000, 0x00000000, 0x00000000, 0x00000000,
      0x00000000, 0x000000e0, 0x2e2e6466, 0xe20f7259, 0x94a79fdc, 0xa1cfbbba, 0xdcc4fab7,
      0x294f3d60, 0x439f7503] =
      0xb989f4ae"
    by (simp add: rotl_def sha1_next_def)
  have r8: "sha1_round [0xa03cd343, 0x544374e6, 0x1a9b7f71, 0x85fc2e9c, 0x6766348c]
      (Ch, 0x5a827999) 0x00000000 =
      [0x5b429511, 0xa03cd343, 0x9510dd39, 0x1a9b7f71, 0x85fc2e9c]"
    by (simp add: rotl_def)
  have n8: "sha1_next
      [0x00000000, 0x00000000, 0x00000000, 0x00000000, 0x00000000, 0x00000000, 0x00000000,
      0x000000e0, 0x2e2e6466, 0xe20f7259, 0x94a79fdc, 0xa1cfbbba, 0xdcc4fab7, 0x294f3d60,
      0x439f7503, 0xb989f4ae] =
      0x0ec2b20c"
    by (simp add: rotl_def sha1_next_def)
  have r9: "sha1_round [0x5b429511, 0xa03cd343, 0x9510dd39, 0x1a9b7f71, 0x85fc2e9c]
      (Ch, 0x5a827999) 0x00000000 =
      [0xe3654791, 0x5b429511, 0xe80f34d0, 0x9510dd39, 0x1a9b7f71]"
    by (simp add: rotl_def)
  have n9: "sha1_next
      [0x00000000, 0x00000000, 0x00000000, 0x00000000, 0x00000000, 0x00000000, 0x000000e0,
      0x2e2e6466, 0xe20f7259, 0x94a79fdc, 0xa1cfbbba, 0xdcc4fab7, 0x294f3d60, 0x439f7503,
      0xb989f4ae, 0x0ec2b20c] =
      0x43200eb5"
    by (simp add: rotl_def sha1_next_def)
  have r10: "sha1_round [0xe3654791, 0x5b429511, 0xe80f34d0, 0x9510dd39, 0x1a9b7f71]
      (Ch, 0x5a827999) 0x00000000 =
      [0xadd9477e, 0xe3654791, 0x56d0a544, 0xe80f34d0, 0x9510dd39]"
    by (simp add: rotl_def)
  have n10: "sha1_next
      [0x00000000, 0x00000000, 0x00000000, 0x00000000, 0x00000000, 0x000000e0, 0x2e2e6466,
      0xe20f7259, 0x94a79fdc, 0xa1cfbbba, 0xdcc4fab7, 0x294f3d60, 0x439f7503, 0xb989f4ae,
      0x0ec2b20c, 0x43200eb5] =
      0x5a5cd6e4"
    by (simp add: rotl_def sha1_next_def)
  have r11: "sha1_round [0xadd9477e, 0xe3654791, 0x56d0a544, 0xe80f34d0, 0x9510dd39]
      (Ch, 0x5a827999) 0x00000000 =
      [0xf5067be7, 0xadd9477e, 0x78d951e4, 0x56d0a544, 0xe80f34d0]"
    by (simp add: rotl_def)
  have n11: "sha1_next
      [0x00000000, 0x00000000, 0x00000000, 0x00000000, 0x000000e0, 0x2e2e6466, 0xe20f7259,
      0x94a79fdc, 0xa1cfbbba, 0xdcc4fab7, 0x294f3d60, 0x439f7503, 0xb989f4ae, 0x0ec2b20c,
      0x43200eb5, 0x5a5cd6e4] =
      0x5e1a136d"
    by (simp add: rotl_def sha1_next_def)
  have r12: "sha1_round [0xf5067be7, 0xadd9477e, 0x78d951e4, 0x56d0a544, 0xe80f34d0]
      (Ch, 0x5a827999) 0x00000000 =
      [0x5e3b0ccb, 0xf5067be7, 0xab7651df, 0x78d951e4, 0x56d0a544]"
    by (simp add: rotl_def)
  have n12: "sha1_next
      [0x00000000, 0x00000000, 0x00000000, 0x000000e0, 0x2e2e6466, 0xe20f7259, 0x94a79fdc,
      0xa1cfbbba, 0xdcc4fab7, 0x294f3d60, 0x439f7503, 0xb989f4ae, 0x0ec2b20c, 0x43200eb5,
      0x5a5cd6e4, 0x5e1a136d] =
      0x3fc9e805"
    by (simp add: rotl_def sha1_next_def)
  have r13: "sha1_round [0x5e3b0ccb, 0xf5067be7, 0xab7651df, 0x78d951e4, 0x56d0a544]
      (Ch, 0x5a827999) 0x00000000 =
      [0x22940a0f, 0x5e3b0ccb, 0xfd419ef9, 0xab7651df, 0x78d951e4]"
    by (simp add: rotl_def)
  have n13: "sha1_next
      [0x00000000, 0x00000000, 0x000000e0, 0x2e2e6466, 0xe20f7259, 0x94a79fdc, 0xa1cfbbba,
      0xdcc4fab7, 0x294f3d60, 0x439f7503, 0xb989f4ae, 0x0ec2b20c, 0x43200eb5, 0x5a5cd6e4,
      0x5e1a136d, 0x3fc9e805] =
      0xe627d6c8"
    by (simp add: rotl_def sha1_next_def)
  have r14: "sha1_round [0x22940a0f, 0x5e3b0ccb, 0xfd419ef9, 0xab7651df, 0x78d951e4]
      (Ch, 0x5a827999) 0x00000000 =
      [0x23226b3e, 0x22940a0f, 0xd78ec332, 0xfd419ef9, 0xab7651df]"
    by (simp add: rotl_def)
  have n14: "sha1_next
      [0x00000000, 0x000000e0, 0x2e2e6466, 0xe20f7259, 0x94a79fdc, 0xa1cfbbba, 0xdcc4fab7,
      0x294f3d60, 0x439f7503, 0xb989f4ae, 0x0ec2b20c, 0x43200eb5, 0x5a5cd6e4, 0x5e1a136d,
      0x3fc9e805, 0xe627d6c8] =
      0x67560410"
    by (simp add: rotl_def sha1_next_def)
  have r15: "sha1_round [0x23226b3e, 0x22940a0f, 0xd78ec332, 0xfd419ef9, 0xab7651df]
      (Ch, 0x5a827999) 0x000000e0 =
      [0x4a0bcb0e, 0x23226b3e, 0xc8a50283, 0xd78ec332, 0xfd419ef9]"
    by (simp add: rotl_def)
  have n15: "sha1_next
      [0x000000e0, 0x2e2e6466, 0xe20f7259, 0x94a79fdc, 0xa1cfbbba, 0xdcc4fab7, 0x294f3d60,
      0x439f7503, 0xb989f4ae, 0x0ec2b20c, 0x43200eb5, 0x5a5cd6e4, 0x5e1a136d, 0x3fc9e805,
      0xe627d6c8, 0x67560410] =
      0xc89edc24"
    by (simp add: rotl_def sha1_next_def)
  have r16: "sha1_round [0x4a0bcb0e, 0x23226b3e, 0xc8a50283, 0xd78ec332, 0xfd419ef9]
      (Ch, 0x5a827999) 0x2e2e6466 =
      [0x9c1860c3, 0x4a0bcb0e, 0x88c89acf, 0xc8a50283, 0xd78ec332]"
    by (simp add: rotl_def)
  have n16: "sha1_next
      [0x2e2e6466, 0xe20f7259, 0x94a79fdc, 0xa1cfbbba, 0xdcc4fab7, 0x294f3d60, 0x439f7503,
      0xb989f4ae, 0x0ec2b20c, 0x43200eb5, 0x5a5cd6e4, 0x5e1a136d, 0x3fc9e805, 0xe627d6c8,
      0x67560410, 0xc89edc24] =
      0xa4d93efc"
    by (simp add: rotl_def sha1_next_def)
  have r17: "sha1_round [0x9c1860c3, 0x4a0bcb0e, 0x88c89acf, 0xc8a50283, 0xd78ec332]
      (Ch, 0x5a827999) 0xe20f7259 =
      [0x1fd95226, 0x9c1860c3, 0x9282f2c3, 0x88c89acf, 0xc8a50283]"
    by (simp add: rotl_def)
  have n17: "sha1_next
      [0xe20f7259, 0x94a79fdc, 0xa1cfbbba, 0xdcc4fab7, 0x294f3d60, 0x439f7503, 0xb989f4ae,
      0x0ec2b20c, 0x43200eb5, 0x5a5cd6e4, 0x5e1a136d, 0x3fc9e805, 0xe627d6c8, 0x67560410,
      0xc89edc24, 0xa4d93efc] =
      0xcf6d868c"
    by (simp add: rotl_def sha1_next_def)
  have r18: "sha1_round [0x1fd95226, 0x9c1860c3, 0x9282f2c3, 0x88c89acf, 0xc8a50283]
      (Ch, 0x5a827999) 0x94a79fdc =
      [0x43ba5b8a, 0x1fd95226, 0xe7061830, 0x9282f2c3, 0x88c89acf]"
    by (simp add: rotl_def)
  have n18: "sha1_next
      [0x94a79fdc, 0xa1cfbbba, 0xdcc4fab7, 0x294f3d60, 0x439f7503, 0xb989f4ae, 0x0ec2b20c,
      0x43200eb5, 0x5a5cd6e4, 0x5e1a136d, 0x3fc9e805, 0xe627d6c8, 0x67560410, 0xc89edc24,
      0xa4d93efc, 0xcf6d868c] =
      0xb542df57"
    by (simp add: rotl_def sha1_next_def)
  have r19: "sha1_round [0x43ba5b8a, 0x1fd95226, 0xe7061830, 0x9282f2c3, 0x88c89acf]
      (Ch, 0x5a827999) 0xa1cfbbba =
      [0x8368f24b, 0x43ba5b8a, 0x87f65489, 0xe7061830, 0x9282f2c3]"
    by (simp add: rotl_def)
  have n19: "sha1_next
      [0xa1cfbbba, 0xdcc4fab7, 0x294f3d60, 0x439f7503, 0xb989f4ae, 0x0ec2b20c, 0x43200eb5,
      0x5a5cd6e4, 0x5e1a136d, 0x3fc9e805, 0xe627d6c8, 0x67560410, 0xc89edc24, 0xa4d93efc,
      0xcf6d868c, 0xb542df57] =
      0xe4875696"
    by (simp add: rotl_def sha1_next_def)
  have r20: "sha1_round [0x8368f24b, 0x43ba5b8a, 0x87f65489, 0xe7061830, 0x9282f2c3]
      (Parity, 0x6ed9eba1) 0xdcc4fab7 =
      [0x6e8a39be, 0x8368f24b, 0x90ee96e2, 0x87f65489, 0xe7061830]"
    by (simp add: rotl_def)
  have n20: "sha1_next
      [0xdcc4fab7, 0x294f3d60, 0x439f7503, 0xb989f4ae, 0x0ec2b20c, 0x43200eb5, 0x5a5cd6e4,
      0x5e1a136d, 0x3fc9e805, 0xe627d6c8, 0x67560410, 0xc89edc24, 0xa4d93efc, 0xcf6d868c,
      0xb542df57, 0xe4875696] =
      0xdfffc27a"
    by (simp add: rotl_def sha1_next_def)
  have r21: "sha1_round [0x6e8a39be, 0x8368f24b, 0x90ee96e2, 0x87f65489, 0xe7061830]
      (Parity, 0x6ed9eba1) 0x294f3d60 =
      [0xe4e6a91e, 0x6e8a39be, 0xe0da3c92, 0x90ee96e2, 0x87f65489]"
    by (simp add: rotl_def)
  have n21: "sha1_next
      [0x294f3d60, 0x439f7503, 0xb989f4ae, 0x0ec2b20c, 0x43200eb5, 0x5a5cd6e4, 0x5e1a136d,
      0x3fc9e805, 0xe627d6c8, 0x67560410, 0xc89edc24, 0xa4d93efc, 0xcf6d868c, 0xb542df57,
      0xe4875696, 0xdfffc27a] =
      0x874780a3"
    by (simp add: rotl_def sha1_next_def)
  have r22: "sha1_round [0xe4e6a91e, 0x6e8a39be, 0xe0da3c92, 0x90ee96e2, 0x87f65489]
      (Parity, 0x6ed9eba1) 0x439f7503 =
      [0xf6036cd7, 0xe4e6a91e, 0x9ba28e6f, 0xe0da3c92, 0x90ee96e2]"
    by (simp add: rotl_def)
  have n22: "sha1_next
      [0x439f7503, 0xb989f4ae, 0x0ec2b20c, 0x43200eb5, 0x5a5cd6e4, 0x5e1a136d, 0x3fc9e805,
      0xe627d6c8, 0x67560410, 0xc89edc24, 0xa4d93efc, 0xcf6d868c, 0xb542df57, 0xe4875696,
      0xdfffc27a, 0x874780a3] =
      0x9d192b13"
    by (simp add: rotl_def sha1_next_def)
  have r23: "sha1_round [0xf6036cd7, 0xe4e6a91e, 0x9ba28e6f, 0xe0da3c92, 0x90ee96e2]
      (Parity, 0x6ed9eba1) 0xb989f4ae =
      [0x195e2e12, 0xf6036cd7, 0xb939aa47, 0x9ba28e6f, 0xe0da3c92]"
    by (simp add: rotl_def)
  have n23: "sha1_next
      [0xb989f4ae, 0x0ec2b20c, 0x43200eb5, 0x5a5cd6e4, 0x5e1a136d, 0x3fc9e805, 0xe627d6c8,
      0x67560410, 0xc89edc24, 0xa4d93efc, 0xcf6d868c, 0xb542df57, 0xe4875696, 0xdfffc27a,
      0x874780a3, 0x9d192b13] =
      0xdb91c88b"
    by (simp add: rotl_def sha1_next_def)
  have r24: "sha1_round [0x195e2e12, 0xf6036cd7, 0xb939aa47, 0x9ba28e6f, 0xe0da3c92]
      (Parity, 0x6ed9eba1) 0x0ec2b20c =
      [0x5ed4e581, 0x195e2e12, 0xfd80db35, 0xb939aa47, 0x9ba28e6f]"
    by (simp add: rotl_def)
  have n24: "sha1_next
      [0x0ec2b20c, 0x43200eb5, 0x5a5cd6e4, 0x5e1a136d, 0x3fc9e805, 0xe627d6c8, 0x67560410,
      0xc89edc24, 0xa4d93efc, 0xcf6d868c, 0xb542df57, 0xe4875696, 0xdfffc27a, 0x874780a3,
      0x9d192b13, 0xdb91c88b] =
      0xee01b56e"
    by (simp add: rotl_def sha1_next_def)
  have r25: "sha1_round [0x5ed4e581, 0x195e2e12, 0xfd80db35, 0xb939aa47, 0x9ba28e6f]
      (Parity, 0x6ed9eba1) 0x43200eb5 =
      [0x86209850, 0x5ed4e581, 0x86578b84, 0xfd80db35, 0xb939aa47]"
    by (simp add: rotl_def)
  have n25: "sha1_next
      [0x43200eb5, 0x5a5cd6e4, 0x5e1a136d, 0x3fc9e805, 0xe627d6c8, 0x67560410, 0xc89edc24,
      0xa4d93efc, 0xcf6d868c, 0xb542df57, 0xe4875696, 0xdfffc27a, 0x874780a3, 0x9d192b13,
      0xdb91c88b, 0xee01b56e] =
      0x9e9d608e"
    by (simp add: rotl_def sha1_next_def)
  have r26: "sha1_round [0x86209850, 0x5ed4e581, 0x86578b84, 0xfd80db35, 0xb939aa47]
      (Parity, 0x6ed9eba1) 0x5a5cd6e4 =
      [0x6b872c0c, 0x86209850, 0x57b53960, 0x86578b84, 0xfd80db35]"
    by (simp add: rotl_def)
  have n26: "sha1_next
      [0x5a5cd6e4, 0x5e1a136d, 0x3fc9e805, 0xe627d6c8, 0x67560410, 0xc89edc24, 0xa4d93efc,
      0xcf6d868c, 0xb542df57, 0xe4875696, 0xdfffc27a, 0x874780a3, 0x9d192b13, 0xdb91c88b,
      0xee01b56e, 0x9e9d608e] =
      0x168c527a"
    by (simp add: rotl_def sha1_next_def)
  have r27: "sha1_round [0x6b872c0c, 0x86209850, 0x57b53960, 0x86578b84, 0xfd80db35]
      (Parity, 0x6ed9eba1) 0x5e1a136d =
      [0x931c8684, 0x6b872c0c, 0x21882614, 0x57b53960, 0x86578b84]"
    by (simp add: rotl_def)
  have n27: "sha1_next
      [0x5e1a136d, 0x3fc9e805, 0xe627d6c8, 0x67560410, 0xc89edc24, 0xa4d93efc, 0xcf6d868c,
      0xb542df57, 0xe4875696, 0xdfffc27a, 0x874780a3, 0x9d192b13, 0xdb91c88b, 0xee01b56e,
      0x9e9d608e, 0x168c527a] =
      0x65764cbb"
    by (simp add: rotl_def sha1_next_def)
  have r28: "sha1_round [0x931c8684, 0x6b872c0c, 0x21882614, 0x57b53960, 0x86578b84]
      (Parity, 0x6ed9eba1) 0x3fc9e805 =
      [0xb6466334, 0x931c8684, 0x1ae1cb03, 0x21882614, 0x57b53960]"
    by (simp add: rotl_def)
  have n28: "sha1_next
      [0x3fc9e805, 0xe627d6c8, 0x67560410, 0xc89edc24, 0xa4d93efc, 0xcf6d868c, 0xb542df57,
      0xe4875696, 0xdfffc27a, 0x874780a3, 0x9d192b13, 0xdb91c88b, 0xee01b56e, 0x9e9d608e,
      0x168c527a, 0x65764cbb] =
      0x33fa9dc2"
    by (simp add: rotl_def sha1_next_def)
  have r29: "sha1_round [0xb6466334, 0x931c8684, 0x1ae1cb03, 0x21882614, 0x57b53960]
      (Parity, 0x6ed9eba1) 0xe627d6c8 =
      [0x1df8cdf2, 0xb6466334, 0x24c721a1, 0x1ae1cb03, 0x21882614]"
    by (simp add: rotl_def)
  have n29: "sha1_next
      [0xe627d6c8, 0x67560410, 0xc89edc24, 0xa4d93efc, 0xcf6d868c, 0xb542df57, 0xe4875696,
      0xdfffc27a, 0x874780a3, 0x9d192b13, 0xdb91c88b, 0xee01b56e, 0x9e9d608e, 0x168c527a,
      0x65764cbb, 0x33fa9dc2] =
      0x7ee5b06b"
    by (simp add: rotl_def sha1_next_def)
  have r30: "sha1_round [0x1df8cdf2, 0xb6466334, 0x24c721a1, 0x1ae1cb03, 0x21882614]
      (Parity, 0x6ed9eba1) 0x67560410 =
      [0x3f325d9e, 0x1df8cdf2, 0x2d9198cd, 0x24c721a1, 0x1ae1cb03]"
    by (simp add: rotl_def)
  have n30: "sha1_next
      [0x67560410, 0xc89edc24, 0xa4d93efc, 0xcf6d868c, 0xb542df57, 0xe4875696, 0xdfffc27a,
      0x874780a3, 0x9d192b13, 0xdb91c88b, 0xee01b56e, 0x9e9d608e, 0x168c527a, 0x65764cbb,
      0x33fa9dc2, 0x7ee5b06b] =
      0x77c0ba88"
    by (simp add: rotl_def sha1_next_def)
  have r31: "sha1_round [0x3f325d9e, 0x1df8cdf2, 0x2d9198cd, 0x24c721a1, 0x1ae1cb03]
      (Parity, 0x6ed9eba1) 0xc89edc24 =
      [0x4d54bb2d, 0x3f325d9e, 0x877e337c, 0x2d9198cd, 0x24c721a1]"
    by (simp add: rotl_def)
  have n31: "sha1_next
      [0xc89edc24, 0xa4d93efc, 0xcf6d868c, 0xb542df57, 0xe4875696, 0xdfffc27a, 0x874780a3,
      0x9d192b13, 0xdb91c88b, 0xee01b56e, 0x9e9d608e, 0x168c527a, 0x65764cbb, 0x33fa9dc2,
      0x7ee5b06b, 0x77c0ba88] =
      0xdf301fc3"
    by (simp add: rotl_def sha1_next_def)
  have r32: "sha1_round [0x4d54bb2d, 0x3f325d9e, 0x877e337c, 0x2d9198cd, 0x24c721a1]
      (Parity, 0x6ed9eba1) 0xa4d93efc =
      [0x78efa816, 0x4d54bb2d, 0x8fcc9767, 0x877e337c, 0x2d9198cd]"
    by (simp add: rotl_def)
  have n32: "sha1_next
      [0xa4d93efc, 0xcf6d868c, 0xb542df57, 0xe4875696, 0xdfffc27a, 0x874780a3, 0x9d192b13,
      0xdb91c88b, 0xee01b56e, 0x9e9d608e, 0x168c527a, 0x65764cbb, 0x33fa9dc2, 0x7ee5b06b,
      0x77c0ba88, 0xdf301fc3] =
      0x02ffc95d"
    by (simp add: rotl_def sha1_next_def)
  have r33: "sha1_round [0x78efa816, 0x4d54bb2d, 0x8fcc9767, 0x877e337c, 0x2d9198cd]
      (Parity, 0x6ed9eba1) 0xcf6d868c =
      [0xcfb42cff, 0x78efa816, 0x53552ecb, 0x8fcc9767, 0x877e337c]"
    by (simp add: rotl_def)
  have n33: "sha1_next
      [0xcf6d868c, 0xb542df57, 0xe4875696, 0xdfffc27a, 0x874780a3, 0x9d192b13, 0xdb91c88b,
      0xee01b56e, 0x9e9d608e, 0x168c527a, 0x65764cbb, 0x33fa9dc2, 0x7ee5b06b, 0x77c0ba88,
      0xdf301fc3, 0x02ffc95d] =
      0x856e1439"
    by (simp add: rotl_def sha1_next_def)
  have r34: "sha1_round [0xcfb42cff, 0x78efa816, 0x53552ecb, 0x8fcc9767, 0x877e337c]
      (Parity, 0x6ed9eba1) 0xb542df57 =
      [0x4696b027, 0xcfb42cff, 0x9e3bea05, 0x53552ecb, 0x8fcc9767]"
    by (simp add: rotl_def)
  have n34: "sha1_next
      [0xb542df57, 0xe4875696, 0xdfffc27a, 0x874780a3, 0x9d192b13, 0xdb91c88b, 0xee01b56e,
      0x9e9d608e, 0x168c527a, 0x65764cbb, 0x33fa9dc2, 0x7ee5b06b, 0x77c0ba88, 0xdf301fc3,
      0x02ffc95d, 0x856e1439] =
      0x4602a129"
    by (simp add: rotl_def sha1_next_def)
  have r35: "sha1_round [0x4696b027, 0xcfb42cff, 0x9e3bea05, 0x53552ecb, 0x8fcc9767]
      (Parity, 0x6ed9eba1) 0xe4875696 =
      [0xb8dec6b7, 0x4696b027, 0xf3ed0b3f, 0x9e3bea05, 0x53552ecb]"
    by (simp add: rotl_def)
  have n35: "sha1_next
      [0xe4875696, 0xdfffc27a, 0x874780a3, 0x9d192b13, 0xdb91c88b, 0xee01b56e, 0x9e9d608e,
      0x168c527a, 0x65764cbb, 0x33fa9dc2, 0x7ee5b06b, 0x77c0ba88, 0xdf301fc3, 0x02ffc95d,
      0x856e1439, 0x4602a129] =
      0x0892a7a6"
    by (simp add: rotl_def sha1_next_def)
  have r36: "sha1_round [0xb8dec6b7, 0x4696b027, 0xf3ed0b3f, 0x9e3bea05, 0x53552ecb]
      (Parity, 0x6ed9eba1) 0xdfffc27a =
      [0xe94804fa, 0xb8dec6b7, 0xd1a5ac09, 0xf3ed0b3f, 0x9e3bea05]"
    by (simp add: rotl_def)
  have n36: "sha1_next
      [0xdfffc27a, 0x874780a3, 0x9d192b13, 0xdb91c88b, 0xee01b56e, 0x9e9d608e, 0x168c527a,
      0x65764cbb, 0x33fa9dc2, 0x7ee5b06b, 0x77c0ba88, 0xdf301fc3, 0x02ffc95d, 0x856e1439,
      0x4602a129, 0x0892a7a6] =
      0xe8e4c125"
    by (simp add: rotl_def sha1_next_def)
  have r37: "sha1_round [0xe94804fa, 0xb8dec6b7, 0xd1a5ac09, 0xf3ed0b3f, 0x9e3bea05]
      (Parity, 0x6ed9eba1) 0x874780a3 =
      [0x57f45727, 0xe94804fa, 0xee37b1ad, 0xd1a5ac09, 0xf3ed0b3f]"
    by (simp add: rotl_def)
  have n37: "sha1_next
      [0x874780a3, 0x9d192b13, 0xdb91c88b, 0xee01b56e, 0x9e9d608e, 0x168c527a, 0x65764cbb,
      0x33fa9dc2, 0x7ee5b06b, 0x77c0ba88, 0xdf301fc3, 0x02ffc95d, 0x856e1439, 0x4602a129,
      0x0892a7a6, 0xe8e4c125] =
      0xc862b2d4"
    by (simp add: rotl_def sha1_next_def)
  have r38: "sha1_round [0x57f45727, 0xe94804fa, 0xee37b1ad, 0xd1a5ac09, 0xf3ed0b3f]
      (Parity, 0x6ed9eba1) 0x9d192b13 =
      [0xd545203b, 0x57f45727, 0xba52013e, 0xee37b1ad, 0xd1a5ac09]"
    by (simp add: rotl_def)
  have n38: "sha1_next
      [0x9d192b13, 0xdb91c88b, 0xee01b56e, 0x9e9d608e, 0x168c527a, 0x65764cbb, 0x33fa9dc2,
      0x7ee5b06b, 0x77c0ba88, 0xdf301fc3, 0x02ffc95d, 0x856e1439, 0x4602a129, 0x0892a7a6,
      0xe8e4c125, 0xc862b2d4] =
      0x189506a6"
    by (simp add: rotl_def sha1_next_def)
  have r39: "sha1_round [0xd545203b, 0x57f45727, 0xba52013e, 0xee37b1ad, 0xd1a5ac09]
      (Parity, 0x6ed9eba1) 0xdb91c88b =
      [0xc8474f63, 0xd545203b, 0xd5fd15c9, 0xba52013e, 0xee37b1ad]"
    by (simp add: rotl_def)
  have n39: "sha1_next
      [0xdb91c88b, 0xee01b56e, 0x9e9d608e, 0x168c527a, 0x65764cbb, 0x33fa9dc2, 0x7ee5b06b,
      0x77c0ba88, 0xdf301fc3, 0x02ffc95d, 0x856e1439, 0x4602a129, 0x0892a7a6, 0xe8e4c125,
      0xc862b2d4, 0x189506a6] =
      0xe5b0edc6"
    by (simp add: rotl_def sha1_next_def)
  have r40: "sha1_round [0xc8474f63, 0xd545203b, 0xd5fd15c9, 0xba52013e, 0xee37b1ad]
      (Maj, 0x8f1bbcdc) 0xee01b56e =
      [0x499411ab, 0xc8474f63, 0xf551480e, 0xd5fd15c9, 0xba52013e]"
    by (simp add: rotl_def)
  have n40: "sha1_next
      [0xee01b56e, 0x9e9d608e, 0x168c527a, 0x65764cbb, 0x33fa9dc2, 0x7ee5b06b, 0x77c0ba88,
      0xdf301fc3, 0x02ffc95d, 0x856e1439, 0x4602a129, 0x0892a7a6, 0xe8e4c125, 0xc862b2d4,
      0x189506a6, 0xe5b0edc6] =
      0x6421393a"
    by (simp add: rotl_def sha1_next_def)
  have r41: "sha1_round [0x499411ab, 0xc8474f63, 0xf551480e, 0xd5fd15c9, 0xba52013e]
      (Maj, 0x8f1bbcdc) 0x9e9d608e =
      [0xefe2a15c, 0x499411ab, 0xf211d3d8, 0xf551480e, 0xd5fd15c9]"
    by (simp add: rotl_def)
  have n41: "sha1_next
      [0x9e9d608e, 0x168c527a, 0x65764cbb, 0x33fa9dc2, 0x7ee5b06b, 0x77c0ba88, 0xdf301fc3,
      0x02ffc95d, 0x856e1439, 0x4602a129, 0x0892a7a6, 0xe8e4c125, 0xc862b2d4, 0x189506a6,
      0xe5b0edc6, 0x6421393a] =
      0xcc207d54"
    by (simp add: rotl_def sha1_next_def)
  have r42: "sha1_round [0xefe2a15c, 0x499411ab, 0xf211d3d8, 0xf551480e, 0xd5fd15c9]
      (Maj, 0x8f1bbcdc) 0x168c527a =
      [0x690aa246, 0xefe2a15c, 0xd265046a, 0xf211d3d8, 0xf551480e]"
    by (simp add: rotl_def)
  have n42: "sha1_next
      [0x168c527a, 0x65764cbb, 0x33fa9dc2, 0x7ee5b06b, 0x77c0ba88, 0xdf301fc3, 0x02ffc95d,
      0x856e1439, 0x4602a129, 0x0892a7a6, 0xe8e4c125, 0xc862b2d4, 0x189506a6, 0xe5b0edc6,
      0x6421393a, 0xcc207d54] =
      0x0d8906af"
    by (simp add: rotl_def sha1_next_def)
  have r43: "sha1_round [0x690aa246, 0xefe2a15c, 0xd265046a, 0xf211d3d8, 0xf551480e]
      (Maj, 0x8f1bbcdc) 0x65764cbb =
      [0xfd991bca, 0x690aa246, 0x3bf8a857, 0xd265046a, 0xf211d3d8]"
    by (simp add: rotl_def)
  have n43: "sha1_next
      [0x65764cbb, 0x33fa9dc2, 0x7ee5b06b, 0x77c0ba88, 0xdf301fc3, 0x02ffc95d, 0x856e1439,
      0x4602a129, 0x0892a7a6, 0xe8e4c125, 0xc862b2d4, 0x189506a6, 0xe5b0edc6, 0x6421393a,
      0xcc207d54, 0x0d8906af] =
      0xee40c498"
    by (simp add: rotl_def sha1_next_def)
  have r44: "sha1_round [0xfd991bca, 0x690aa246, 0x3bf8a857, 0xd265046a, 0xf211d3d8]
      (Maj, 0x8f1bbcdc) 0x33fa9dc2 =
      [0xe3b4481b, 0xfd991bca, 0x9a42a891, 0x3bf8a857, 0xd265046a]"
    by (simp add: rotl_def)
  have n44: "sha1_next
      [0x33fa9dc2, 0x7ee5b06b, 0x77c0ba88, 0xdf301fc3, 0x02ffc95d, 0x856e1439, 0x4602a129,
      0x0892a7a6, 0xe8e4c125, 0xc862b2d4, 0x189506a6, 0xe5b0edc6, 0x6421393a, 0xcc207d54,
      0x0d8906af, 0xee40c498] =
      0xc1fd3676"
    by (simp add: rotl_def sha1_next_def)
  have r45: "sha1_round [0xe3b4481b, 0xfd991bca, 0x9a42a891, 0x3bf8a857, 0xd265046a]
      (Maj, 0x8f1bbcdc) 0x7ee5b06b =
      [0x12c81e00, 0xe3b4481b, 0xbf6646f2, 0x9a42a891, 0x3bf8a857]"
    by (simp add: rotl_def)
  have n45: "sha1_next
      [0x7ee5b06b, 0x77c0ba88, 0xdf301fc3, 0x02ffc95d, 0x856e1439, 0x4602a129, 0x0892a7a6,
      0xe8e4c125, 0xc862b2d4, 0x189506a6, 0xe5b0edc6, 0x6421393a, 0xcc207d54, 0x0d8906af,
      0xee40c498, 0xc1fd3676] =
      0xc87c37a6"
    by (simp add: rotl_def sha1_next_def)
  have r46: "sha1_round [0x12c81e00, 0xe3b4481b, 0xbf6646f2, 0x9a42a891, 0x3bf8a857]
      (Maj, 0x8f1bbcdc) 0x77c0ba88 =
      [0x573f2850, 0x12c81e00, 0xf8ed1206, 0xbf6646f2, 0x9a42a891]"
    by (simp add: rotl_def)
  have n46: "sha1_next
      [0x77c0ba88, 0xdf301fc3, 0x02ffc95d, 0x856e1439, 0x4602a129, 0x0892a7a6, 0xe8e4c125,
      0xc862b2d4, 0x189506a6, 0xe5b0edc6, 0x6421393a, 0xcc207d54, 0x0d8906af, 0xee40c498,
      0xc1fd3676, 0xc87c37a6] =
      0x07d563d7"
    by (simp add: rotl_def sha1_next_def)
  have r47: "sha1_round [0x573f2850, 0x12c81e00, 0xf8ed1206, 0xbf6646f2, 0x9a42a891]
      (Maj, 0x8f1bbcdc) 0xdf301fc3 =
      [0xab5fa53c, 0x573f2850, 0x04b20780, 0xf8ed1206, 0xbf6646f2]"
    by (simp add: rotl_def)
  have n47: "sha1_next
      [0xdf301fc3, 0x02ffc95d, 0x856e1439, 0x4602a129, 0x0892a7a6, 0xe8e4c125, 0xc862b2d4,
      0x189506a6, 0xe5b0edc6, 0x6421393a, 0xcc207d54, 0x0d8906af, 0xee40c498, 0xc1fd3676,
      0xc87c37a6, 0x07d563d7] =
      0xfc27a094"
    by (simp add: rotl_def sha1_next_def)
  have r48: "sha1_round [0xab5fa53c, 0x573f2850, 0x04b20780, 0xf8ed1206, 0xbf6646f2]
      (Maj, 0x8f1bbcdc) 0x02ffc95d =
      [0x123576c0, 0xab5fa53c, 0x15cfca14, 0x04b20780, 0xf8ed1206]"
    by (simp add: rotl_def)
  have n48: "sha1_next
      [0x02ffc95d, 0x856e1439, 0x4602a129, 0x0892a7a6, 0xe8e4c125, 0xc862b2d4, 0x189506a6,
      0xe5b0edc6, 0x6421393a, 0xcc207d54, 0x0d8906af, 0xee40c498, 0xc1fd3676, 0xc87c37a6,
      0x07d563d7, 0xfc27a094] =
      0xd140cdd1"
    by (simp add: rotl_def sha1_next_def)
  have r49: "sha1_round [0x123576c0, 0xab5fa53c, 0x15cfca14, 0x04b20780, 0xf8ed1206]
      (Maj, 0x8f1bbcdc) 0x856e1439 =
      [0x5a054231, 0x123576c0, 0x2ad7e94f, 0x15cfca14, 0x04b20780]"
    by (simp add: rotl_def)
  have n49: "sha1_next
      [0x856e1439, 0x4602a129, 0x0892a7a6, 0xe8e4c125, 0xc862b2d4, 0x189506a6, 0xe5b0edc6,
      0x6421393a, 0xcc207d54, 0x0d8906af, 0xee40c498, 0xc1fd3676, 0xc87c37a6, 0x07d563d7,
      0xfc27a094, 0xd140cdd1] =
      0x8c135a38"
    by (simp add: rotl_def sha1_next_def)
  have r50: "sha1_round [0x5a054231, 0x123576c0, 0x2ad7e94f, 0x15cfca14, 0x04b20780]
      (Maj, 0x8f1bbcdc) 0x4602a129 =
      [0x2d5095f4, 0x5a054231, 0x048d5db0, 0x2ad7e94f, 0x15cfca14]"
    by (simp add: rotl_def)
  have n50: "sha1_next
      [0x4602a129, 0x0892a7a6, 0xe8e4c125, 0xc862b2d4, 0x189506a6, 0xe5b0edc6, 0x6421393a,
      0xcc207d54, 0x0d8906af, 0xee40c498, 0xc1fd3676, 0xc87c37a6, 0x07d563d7, 0xfc27a094,
      0xd140cdd1, 0x8c135a38] =
      0xbe918c6e"
    by (simp add: rotl_def sha1_next_def)
  have r51: "sha1_round [0x2d5095f4, 0x5a054231, 0x048d5db0, 0x2ad7e94f, 0x15cfca14]
      (Maj, 0x8f1bbcdc) 0x0892a7a6 =
      [0x6216364c, 0x2d5095f4, 0x5681508c, 0x048d5db0, 0x2ad7e94f]"
    by (simp add: rotl_def)
  have n51: "sha1_next
      [0x0892a7a6, 0xe8e4c125, 0xc862b2d4, 0x189506a6, 0xe5b0edc6, 0x6421393a, 0xcc207d54,
      0x0d8906af, 0xee40c498, 0xc1fd3676, 0xc87c37a6, 0x07d563d7, 0xfc27a094, 0xd140cdd1,
      0x8c135a38, 0xbe918c6e] =
      0xffe03877"
    by (simp add: rotl_def sha1_next_def)
  have r52: "sha1_round [0x6216364c, 0x2d5095f4, 0x5681508c, 0x048d5db0, 0x2ad7e94f]
      (Maj, 0x8f1bbcdc) 0xe8e4c125 =
      [0xea208690, 0x6216364c, 0x0b54257d, 0x5681508c, 0x048d5db0]"
    by (simp add: rotl_def)
  have n52: "sha1_next
      [0xe8e4c125, 0xc862b2d4, 0x189506a6, 0xe5b0edc6, 0x6421393a, 0xcc207d54, 0x0d8906af,
      0xee40c498, 0xc1fd3676, 0xc87c37a6, 0x07d563d7, 0xfc27a094, 0xd140cdd1, 0x8c135a38,
      0xbe918c6e, 0xffe03877] =
      0x7b3f579b"
    by (simp add: rotl_def sha1_next_def)
  have r53: "sha1_round [0xea208690, 0x6216364c, 0x0b54257d, 0x5681508c, 0x048d5db0]
      (Maj, 0x8f1bbcdc) 0xc862b2d4 =
      [0xe230d3c9, 0xea208690, 0x18858d93, 0x0b54257d, 0x5681508c]"
    by (simp add: rotl_def)
  have n53: "sha1_next
      [0xc862b2d4, 0x189506a6, 0xe5b0edc6, 0x6421393a, 0xcc207d54, 0x0d8906af, 0xee40c498,
      0xc1fd3676, 0xc87c37a6, 0x07d563d7, 0xfc27a094, 0xd140cdd1, 0x8c135a38, 0xbe918c6e,
      0xffe03877, 0x7b3f579b] =
      0xb67fc9b4"
    by (simp add: rotl_def sha1_next_def)
  have r54: "sha1_round [0xe230d3c9, 0xea208690, 0x18858d93, 0x0b54257d, 0x5681508c]
      (Maj, 0x8f1bbcdc) 0x189506a6 =
      [0x4e5112db, 0xe230d3c9, 0x3a8821a4, 0x18858d93, 0x0b54257d]"
    by (simp add: rotl_def)
  have n54: "sha1_next
      [0x189506a6, 0xe5b0edc6, 0x6421393a, 0xcc207d54, 0x0d8906af, 0xee40c498, 0xc1fd3676,
      0xc87c37a6, 0x07d563d7, 0xfc27a094, 0xd140cdd1, 0x8c135a38, 0xbe918c6e, 0xffe03877,
      0x7b3f579b, 0xb67fc9b4] =
      0x0902c879"
    by (simp add: rotl_def sha1_next_def)
  have r55: "sha1_round [0x4e5112db, 0xe230d3c9, 0x3a8821a4, 0x18858d93, 0x0b54257d]
      (Maj, 0x8f1bbcdc) 0xe5b0edc6 =
      [0x84c3ad09, 0x4e5112db, 0x788c34f2, 0x3a8821a4, 0x18858d93]"
    by (simp add: rotl_def)
  have n55: "sha1_next
      [0xe5b0edc6, 0x6421393a, 0xcc207d54, 0x0d8906af, 0xee40c498, 0xc1fd3676, 0xc87c37a6,
      0x07d563d7, 0xfc27a094, 0xd140cdd1, 0x8c135a38, 0xbe918c6e, 0xffe03877, 0x7b3f579b,
      0xb67fc9b4, 0x0902c879] =
      0x5d10cf3b"
    by (simp add: rotl_def sha1_next_def)
  have r56: "sha1_round [0x84c3ad09, 0x4e5112db, 0x788c34f2, 0x3a8821a4, 0x18858d93]
      (Maj, 0x8f1bbcdc) 0x6421393a =
      [0x1ec055cb, 0x84c3ad09, 0xd39444b6, 0x788c34f2, 0x3a8821a4]"
    by (simp add: rotl_def)
  have n56: "sha1_next
      [0x6421393a, 0xcc207d54, 0x0d8906af, 0xee40c498, 0xc1fd3676, 0xc87c37a6, 0x07d563d7,
      0xfc27a094, 0xd140cdd1, 0x8c135a38, 0xbe918c6e, 0xffe03877, 0x7b3f579b, 0xb67fc9b4,
      0x0902c879, 0x5d10cf3b] =
      0x1d2e77e0"
    by (simp add: rotl_def sha1_next_def)
  have r57: "sha1_round [0x1ec055cb, 0x84c3ad09, 0xd39444b6, 0x788c34f2, 0x3a8821a4]
      (Maj, 0x8f1bbcdc) 0xcc207d54 =
      [0x3e5339e9, 0x1ec055cb, 0x6130eb42, 0xd39444b6, 0x788c34f2]"
    by (simp add: rotl_def)
  have n57: "sha1_next
      [0xcc207d54, 0x0d8906af, 0xee40c498, 0xc1fd3676, 0xc87c37a6, 0x07d563d7, 0xfc27a094,
      0xd140cdd1, 0x8c135a38, 0xbe918c6e, 0xffe03877, 0x7b3f579b, 0xb67fc9b4, 0x0902c879,
      0x5d10cf3b, 0x1d2e77e0] =
      0x4ee2571b"
    by (simp add: rotl_def sha1_next_def)
  have r58: "sha1_round [0x3e5339e9, 0x1ec055cb, 0x6130eb42, 0xd39444b6, 0x788c34f2]
      (Maj, 0x8f1bbcdc) 0x0d8906af =
      [0x33287b66, 0x3e5339e9, 0xc7b01572, 0x6130eb42, 0xd39444b6]"
    by (simp add: rotl_def)
  have n58: "sha1_next
      [0x0d8906af, 0xee40c498, 0xc1fd3676, 0xc87c37a6, 0x07d563d7, 0xfc27a094, 0xd140cdd1,
      0x8c135a38, 0xbe918c6e, 0xffe03877, 0x7b3f579b, 0xb67fc9b4, 0x0902c879, 0x5d10cf3b,
      0x1d2e77e0, 0x4ee2571b] =
      0x5feae718"
    by (simp add: rotl_def sha1_next_def)
  have r59: "sha1_round [0x33287b66, 0x3e5339e9, 0xc7b01572, 0x6130eb42, 0xd39444b6]
      (Maj, 0x8f1bbcdc) 0xee40c498 =
      [0x1d306c52, 0x33287b66, 0x4f94ce7a, 0xc7b01572, 0x6130eb42]"
    by (simp add: rotl_def)
  have n59: "sha1_next
      [0xee40c498, 0xc1fd3676, 0xc87c37a6, 0x07d563d7, 0xfc27a094, 0xd140cdd1, 0x8c135a38,
      0xbe918c6e, 0xffe03877, 0x7b3f579b, 0xb67fc9b4, 0x0902c879, 0x5d10cf3b, 0x1d2e77e0,
      0x4ee2571b, 0x5feae718] =
      0x89e57953"
    by (simp add: rotl_def sha1_next_def)
  have r60: "sha1_round [0x1d306c52, 0x33287b66, 0x4f94ce7a, 0xc7b01572, 0x6130eb42]
      (Parity, 0xca62c1d6) 0xc1fd3676 =
      [0x4eab0e3f, 0x1d306c52, 0x8cca1ed9, 0x4f94ce7a, 0xc7b01572]"
    by (simp add: rotl_def)
  have n60: "sha1_next
      [0xc1fd3676, 0xc87c37a6, 0x07d563d7, 0xfc27a094, 0xd140cdd1, 0x8c135a38, 0xbe918c6e,
      0xffe03877, 0x7b3f579b, 0xb67fc9b4, 0x0902c879, 0x5d10cf3b, 0x1d2e77e0, 0x4ee2571b,
      0x5feae718, 0x89e57953] =
      0xe7eaaa43"
    by (simp add: rotl_def sha1_next_def)
  have r61: "sha1_round [0x4eab0e3f, 0x1d306c52, 0x8cca1ed9, 0x4f94ce7a, 0xc7b01572]
      (Parity, 0xca62c1d6) 0xc87c37a6 =
      [0x0e5f93c8, 0x4eab0e3f, 0x874c1b14, 0x8cca1ed9, 0x4f94ce7a]"
    by (simp add: rotl_def)
  have n61: "sha1_next
      [0xc87c37a6, 0x07d563d7, 0xfc27a094, 0xd140cdd1, 0x8c135a38, 0xbe918c6e, 0xffe03877,
      0x7b3f579b, 0xb67fc9b4, 0x0902c879, 0x5d10cf3b, 0x1d2e77e0, 0x4ee2571b, 0x5feae718,
      0x89e57953, 0xe7eaaa43] =
      0xbb9d733d"
    by (simp add: rotl_def sha1_next_def)
  have r62: "sha1_round [0x0e5f93c8, 0x4eab0e3f, 0x874c1b14, 0x8cca1ed9, 0x4f94ce7a]
      (Parity, 0xca62c1d6) 0x07d563d7 =
      [0x32ec791a, 0x0e5f93c8, 0xd3aac38f, 0x874c1b14, 0x8cca1ed9]"
    by (simp add: rotl_def)
  have n62: "sha1_next
      [0x07d563d7, 0xfc27a094, 0xd140cdd1, 0x8c135a38, 0xbe918c6e, 0xffe03877, 0x7b3f579b,
      0xb67fc9b4, 0x0902c879, 0x5d10cf3b, 0x1d2e77e0, 0x4ee2571b, 0x5feae718, 0x89e57953,
      0xe7eaaa43, 0xbb9d733d] =
      0xace43e58"
    by (simp add: rotl_def sha1_next_def)
  have r63: "sha1_round [0x32ec791a, 0x0e5f93c8, 0xd3aac38f, 0x874c1b14, 0x8cca1ed9]
      (Parity, 0xca62c1d6) 0xfc27a094 =
      [0x0b9cefdc, 0x32ec791a, 0x0397e4f2, 0xd3aac38f, 0x874c1b14]"
    by (simp add: rotl_def)
  have n63: "sha1_next
      [0xfc27a094, 0xd140cdd1, 0x8c135a38, 0xbe918c6e, 0xffe03877, 0x7b3f579b, 0xb67fc9b4,
      0x0902c879, 0x5d10cf3b, 0x1d2e77e0, 0x4ee2571b, 0x5feae718, 0x89e57953, 0xe7eaaa43,
      0xbb9d733d, 0xace43e58] =
      0x959d3fa9"
    by (simp add: rotl_def sha1_next_def)
  have r64: "sha1_round [0x0b9cefdc, 0x32ec791a, 0x0397e4f2, 0xd3aac38f, 0x874c1b14]
      (Parity, 0xca62c1d6) 0xd140cdd1 =
      [0x795f04a3, 0x0b9cefdc, 0x8cbb1e46, 0x0397e4f2, 0xd3aac38f]"
    by (simp add: rotl_def)
  have n64: "sha1_next
      [0xd140cdd1, 0x8c135a38, 0xbe918c6e, 0xffe03877, 0x7b3f579b, 0xb67fc9b4, 0x0902c879,
      0x5d10cf3b, 0x1d2e77e0, 0x4ee2571b, 0x5feae718, 0x89e57953, 0xe7eaaa43, 0xbb9d733d,
      0xace43e58, 0x959d3fa9] =
      0x92c48ac5"
    by (simp add: rotl_def sha1_next_def)
  have r65: "sha1_round [0x795f04a3, 0x0b9cefdc, 0x8cbb1e46, 0x0397e4f2, 0xd3aac38f]
      (Parity, 0xca62c1d6) 0x8c135a38 =
      [0xdab18974, 0x795f04a3, 0x02e73bf7, 0x8cbb1e46, 0x0397e4f2]"
    by (simp add: rotl_def)
  have n65: "sha1_next
      [0x8c135a38, 0xbe918c6e, 0xffe03877, 0x7b3f579b, 0xb67fc9b4, 0x0902c879, 0x5d10cf3b,
      0x1d2e77e0, 0x4ee2571b, 0x5feae718, 0x89e57953, 0xe7eaaa43, 0xbb9d733d, 0xace43e58,
      0x959d3fa9, 0x92c48ac5] =
      0x23ea1619"
    by (simp add: rotl_def sha1_next_def)
  have r66: "sha1_round [0xdab18974, 0x795f04a3, 0x02e73bf7, 0x8cbb1e46, 0x0397e4f2]
      (Parity, 0xca62c1d6) 0xbe918c6e =
      [0xd9c082e3, 0xdab18974, 0xde57c128, 0x02e73bf7, 0x8cbb1e46]"
    by (simp add: rotl_def)
  have n66: "sha1_next
      [0xbe918c6e, 0xffe03877, 0x7b3f579b, 0xb67fc9b4, 0x0902c879, 0x5d10cf3b, 0x1d2e77e0,
      0x4ee2571b, 0x5feae718, 0x89e57953, 0xe7eaaa43, 0xbb9d733d, 0xace43e58, 0x959d3fa9,
      0x92c48ac5, 0x23ea1619] =
      0x1fb20688"
    by (simp add: rotl_def sha1_next_def)
  have r67: "sha1_round [0xd9c082e3, 0xdab18974, 0xde57c128, 0x02e73bf7, 0x8cbb1e46]
      (Parity, 0xca62c1d6) 0xffe03877 =
      [0x950fe8b9, 0xd9c082e3, 0x36ac625d, 0xde57c128, 0x02e73bf7]"
    by (simp add: rotl_def)
  have n67: "sha1_next
      [0xffe03877, 0x7b3f579b, 0xb67fc9b4, 0x0902c879, 0x5d10cf3b, 0x1d2e77e0, 0x4ee2571b,
      0x5feae718, 0x89e57953, 0xe7eaaa43, 0xbb9d733d, 0xace43e58, 0x959d3fa9, 0x92c48ac5,
      0x23ea1619, 0x1fb20688] =
      0xa57c04aa"
    by (simp add: rotl_def sha1_next_def)
  have r68: "sha1_round [0x950fe8b9, 0xd9c082e3, 0x36ac625d, 0xde57c128, 0x02e73bf7]
      (Parity, 0xca62c1d6) 0x7b3f579b =
      [0x1bc18e30, 0x950fe8b9, 0xf67020b8, 0x36ac625d, 0xde57c128]"
    by (simp add: rotl_def)
  have n68: "sha1_next
      [0x7b3f579b, 0xb67fc9b4, 0x0902c879, 0x5d10cf3b, 0x1d2e77e0, 0x4ee2571b, 0x5feae718,
      0x89e57953, 0xe7eaaa43, 0xbb9d733d, 0xace43e58, 0x959d3fa9, 0x92c48ac5, 0x23ea1619,
      0x1fb20688, 0xa57c04aa] =
      0x6c7a4771"
    by (simp add: rotl_def sha1_next_def)
  have r69: "sha1_round [0x1bc18e30, 0x950fe8b9, 0xf67020b8, 0x36ac625d, 0xde57c128]
      (Parity, 0xca62c1d6) 0xb67fc9b4 =
      [0x2d3fbd11, 0x1bc18e30, 0x6543fa2e, 0xf67020b8, 0x36ac625d]"
    by (simp add: rotl_def)
  have n69: "sha1_next
      [0xb67fc9b4, 0x0902c879, 0x5d10cf3b, 0x1d2e77e0, 0x4ee2571b, 0x5feae718, 0x89e57953,
      0xe7eaaa43, 0xbb9d733d, 0xace43e58, 0x959d3fa9, 0x92c48ac5, 0x23ea1619, 0x1fb20688,
      0xa57c04aa, 0x6c7a4771] =
      0x9e80e674"
    by (simp add: rotl_def sha1_next_def)
  have r70: "sha1_round [0x2d3fbd11, 0x1bc18e30, 0x6543fa2e, 0xf67020b8, 0x36ac625d]
      (Parity, 0xca62c1d6) 0x0902c879 =
      [0x3afbe377, 0x2d3fbd11, 0x06f0638c, 0x6543fa2e, 0xf67020b8]"
    by (simp add: rotl_def)
  have n70: "sha1_next
      [0x0902c879, 0x5d10cf3b, 0x1d2e77e0, 0x4ee2571b, 0x5feae718, 0x89e57953, 0xe7eaaa43,
      0xbb9d733d, 0xace43e58, 0x959d3fa9, 0x92c48ac5, 0x23ea1619, 0x1fb20688, 0xa57c04aa,
      0x6c7a4771, 0x9e80e674] =
      0x3b690ad6"
    by (simp add: rotl_def sha1_next_def)
  have r71: "sha1_round [0x3afbe377, 0x2d3fbd11, 0x06f0638c, 0x6543fa2e, 0xf67020b8]
      (Parity, 0xca62c1d6) 0x5d10cf3b =
      [0xcbec4563, 0x3afbe377, 0x4b4fef44, 0x06f0638c, 0x6543fa2e]"
    by (simp add: rotl_def)
  have n71: "sha1_next
      [0x5d10cf3b, 0x1d2e77e0, 0x4ee2571b, 0x5feae718, 0x89e57953, 0xe7eaaa43, 0xbb9d733d,
      0xace43e58, 0x959d3fa9, 0x92c48ac5, 0x23ea1619, 0x1fb20688, 0xa57c04aa, 0x6c7a4771,
      0x9e80e674, 0x3b690ad6] =
      0xd42bc1f1"
    by (simp add: rotl_def sha1_next_def)
  have r72: "sha1_round [0xcbec4563, 0x3afbe377, 0x4b4fef44, 0x06f0638c, 0x6543fa2e]
      (Parity, 0xca62c1d6) 0x1d2e77e0 =
      [0x41a2501c, 0xcbec4563, 0xcebef8dd, 0x4b4fef44, 0x06f0638c]"
    by (simp add: rotl_def)
  have n72: "sha1_next
      [0x1d2e77e0, 0x4ee2571b, 0x5feae718, 0x89e57953, 0xe7eaaa43, 0xbb9d733d, 0xace43e58,
      0x959d3fa9, 0x92c48ac5, 0x23ea1619, 0x1fb20688, 0xa57c04aa, 0x6c7a4771, 0x9e80e674,
      0x3b690ad6, 0xd42bc1f1] =
      0x9d01f892"
    by (simp add: rotl_def sha1_next_def)
  have r73: "sha1_round [0x41a2501c, 0xcbec4563, 0xcebef8dd, 0x4b4fef44, 0x06f0638c]
      (Parity, 0xca62c1d6) 0x4ee2571b =
      [0xa29cd2ff, 0x41a2501c, 0xf2fb1158, 0xcebef8dd, 0x4b4fef44]"
    by (simp add: rotl_def)
  have n73: "sha1_next
      [0x4ee2571b, 0x5feae718, 0x89e57953, 0xe7eaaa43, 0xbb9d733d, 0xace43e58, 0x959d3fa9,
      0x92c48ac5, 0x23ea1619, 0x1fb20688, 0xa57c04aa, 0x6c7a4771, 0x9e80e674, 0x3b690ad6,
      0xd42bc1f1, 0x9d01f892] =
      0xbf08650f"
    by (simp add: rotl_def sha1_next_def)
  have r74: "sha1_round [0xa29cd2ff, 0x41a2501c, 0xf2fb1158, 0xcebef8dd, 0x4b4fef44]
      (Parity, 0xca62c1d6) 0x5feae718 =
      [0x471fb1bf, 0xa29cd2ff, 0x10689407, 0xf2fb1158, 0xcebef8dd]"
    by (simp add: rotl_def)
  have n74: "sha1_next
      [0x5feae718, 0x89e57953, 0xe7eaaa43, 0xbb9d733d, 0xace43e58, 0x959d3fa9, 0x92c48ac5,
      0x23ea1619, 0x1fb20688, 0xa57c04aa, 0x6c7a4771, 0x9e80e674, 0x3b690ad6, 0xd42bc1f1,
      0x9d01f892, 0xbf08650f] =
      0xe7331444"
    by (simp add: rotl_def sha1_next_def)
  have r75: "sha1_round [0x471fb1bf, 0xa29cd2ff, 0x10689407, 0xf2fb1158, 0xcebef8dd]
      (Parity, 0xca62c1d6) 0x89e57953 =
      [0x470cc38e, 0x471fb1bf, 0xe8a734bf, 0x10689407, 0xf2fb1158]"
    by (simp add: rotl_def)
  have n75: "sha1_next
      [0x89e57953, 0xe7eaaa43, 0xbb9d733d, 0xace43e58, 0x959d3fa9, 0x92c48ac5, 0x23ea1619,
      0x1fb20688, 0xa57c04aa, 0x6c7a4771, 0x9e80e674, 0x3b690ad6, 0xd42bc1f1, 0x9d01f892,
      0xbf08650f, 0xe7331444] =
      0x140becac"
    by (simp add: rotl_def sha1_next_def)
  have r76: "sha1_round [0x470cc38e, 0x471fb1bf, 0xe8a734bf, 0x10689407, 0xf2fb1158]
      (Parity, 0xca62c1d6) 0xe7eaaa43 =
      [0x46b10040, 0x470cc38e, 0xd1c7ec6f, 0xe8a734bf, 0x10689407]"
    by (simp add: rotl_def)
  have n76: "sha1_next
      [0xe7eaaa43, 0xbb9d733d, 0xace43e58, 0x959d3fa9, 0x92c48ac5, 0x23ea1619, 0x1fb20688,
      0xa57c04aa, 0x6c7a4771, 0x9e80e674, 0x3b690ad6, 0xd42bc1f1, 0x9d01f892, 0xbf08650f,
      0xe7331444, 0x140becac] =
      0x30f96ccb"
    by (simp add: rotl_def sha1_next_def)
  have r77: "sha1_round [0x46b10040, 0x470cc38e, 0xd1c7ec6f, 0xe8a734bf, 0x10689407]
      (Parity, 0xca62c1d6) 0xbb9d733d =
      [0xeaf4ec80, 0x46b10040, 0x91c330e3, 0xd1c7ec6f, 0xe8a734bf]"
    by (simp add: rotl_def)
  have n77: "sha1_next
      [0xbb9d733d, 0xace43e58, 0x959d3fa9, 0x92c48ac5, 0x23ea1619, 0x1fb20688, 0xa57c04aa,
      0x6c7a4771, 0x9e80e674, 0x3b690ad6, 0xd42bc1f1, 0x9d01f892, 0xbf08650f, 0xe7331444,
      0x140becac, 0x30f96ccb] =
      0xaf677d48"
    by (simp add: rotl_def sha1_next_def)
  have r78: "sha1_round [0xeaf4ec80, 0x46b10040, 0x91c330e3, 0xd1c7ec6f, 0xe8a734bf]
      (Parity, 0xca62c1d6) 0xace43e58 =
      [0xc541a1d6, 0xeaf4ec80, 0x11ac4010, 0x91c330e3, 0xd1c7ec6f]"
    by (simp add: rotl_def)
  have n78: "sha1_next
      [0xace43e58, 0x959d3fa9, 0x92c48ac5, 0x23ea1619, 0x1fb20688, 0xa57c04aa, 0x6c7a4771,
      0x9e80e674, 0x3b690ad6, 0xd42bc1f1, 0x9d01f892, 0xbf08650f, 0xe7331444, 0x140becac,
      0x30f96ccb, 0xaf677d48] =
      0x2284a5ce"
    by (simp add: rotl_def sha1_next_def)
  have r79: "sha1_round [0xc541a1d6, 0xeaf4ec80, 0x11ac4010, 0x91c330e3, 0xd1c7ec6f]
      (Parity, 0xca62c1d6) 0x959d3fa9 =
      [0x4497c539, 0xc541a1d6, 0x3abd3b20, 0x11ac4010, 0x91c330e3]"
    by (simp add: rotl_def)
  have n79: "sha1_next
      [0x959d3fa9, 0x92c48ac5, 0x23ea1619, 0x1fb20688, 0xa57c04aa, 0x6c7a4771, 0x9e80e674,
      0x3b690ad6, 0xd42bc1f1, 0x9d01f892, 0xbf08650f, 0xe7331444, 0x140becac, 0x30f96ccb,
      0xaf677d48, 0x2284a5ce] =
      0xa54b0914"
    by (simp add: rotl_def sha1_next_def)
  have rounds: "sha1_rounds sha1_schedule
     [0x67452301, 0xefcdab89, 0x98badcfe, 0x10325476, 0xc3d2e1f0]
     [0x5129f304, 0x8fce01fb, 0x463ec137, 0x7ec9b8d7, 0x0c6d0e39, 0x0000016c, 0x0000013b,
      0x80000000, 0x00000000, 0x00000000, 0x00000000, 0x00000000, 0x00000000, 0x00000000,
      0x00000000, 0x000000e0] =
     [0x4497c539, 0xc541a1d6, 0x3abd3b20, 0x11ac4010, 0x91c330e3]"
    by (simp only: sha1_schedule_def twenty_def sha1_rounds.simps list.sel append.simps
      r0 n0 r1 n1 r2 n2 r3 n3 r4 n4 r5 n5 r6 n6 r7 n7 r8 n8 r9 n9 r10 n10 r11
      n11 r12 n12 r13 n13 r14 n14 r15 n15 r16 n16 r17 n17 r18 n18 r19 n19 r20
      n20 r21 n21 r22 n22 r23 n23 r24 n24 r25 n25 r26 n26 r27 n27 r28 n28 r29
      n29 r30 n30 r31 n31 r32 n32 r33 n33 r34 n34 r35 n35 r36 n36 r37 n37 r38
      n38 r39 n39 r40 n40 r41 n41 r42 n42 r43 n43 r44 n44 r45 n45 r46 n46 r47
      n47 r48 n48 r49 n49 r50 n50 r51 n51 r52 n52 r53 n53 r54 n54 r55 n55 r56
      n56 r57 n57 r58 n58 r59 n59 r60 n60 r61 n61 r62 n62 r63 n63 r64 n64 r65
      n65 r66 n66 r67 n67 r68 n68 r69 n69 r70 n70 r71 n71 r72 n72 r73 n73 r74
      n74 r75 n75 r76 n76 r77 n77 r78 n78 r79 n79)
  show ?thesis
    by (simp add: sha1_def block blocks_of.simps sha1_compress_def rounds sha1_H0_def be32_def)
qed

text \<open>C9: the offline digest of the ordered policy
  \<open>[PolicySecret(owner, "bar"), PolicyAuthValue, PolicyCommandCode(NVChangeAuth)]\<close> is
  \<open>426df7ddd07dbfaa400237f773da801e464ef2766084966b04d8b4dfc0feeee5\<close> when computed for SHA-256 and
  \<open>abdce83ab50f4d5fd378181e21de9486559612d3\<close> when computed for SHA-1.\<close>

theorem policy_mixed_digests:
  "ComputeFor HashAlgorithmSHA256
     [PolicySecret (MakeHandleName HandleOwner) (bytes_of_string ''bar''), PolicyAuthValue,
      PolicyCommandCode CommandNVChangeAuth] =
   [0x42, 0x6d, 0xf7, 0xdd, 0xd0, 0x7d, 0xbf, 0xaa, 0x40, 0x02, 0x37, 0xf7, 0x73, 0xda, 0x80,
    0x1e, 0x46, 0x4e, 0xf2, 0x76, 0x60, 0x84, 0x96, 0x6b, 0x04, 0xd8, 0xb4, 0xdf, 0xc0, 0xfe,
    0xee, 0xe5] \<and>
   ComputeFor HashAlgorithmSHA1
     [PolicySecret (MakeHandleName HandleOwner) (bytes_of_string ''bar''), PolicyAuthValue,
      PolicyCommandCode CommandNVChangeAuth] =
   [0xab, 0xdc, 0xe8, 0x3a, 0xb5, 0x0f, 0x4d, 0x5f, 0xd3, 0x78, 0x18, 0x1e, 0x21, 0xde, 0x94,
    0x86, 0x55, 0x96, 0x12, 0xd3]"
proof -
  have secret256: "replicate (digest_size HashAlgorithmSHA256) 0 @ be32 CommandPolicySecret @
      MakeHandleName HandleOwner =
    [0x00, 0x00, 0x00, 0x00, 0x00, 0x00, 0x00, 0x00, 0x00, 0x00, 0x00, 0x00, 0x00, 0x00, 0x00,
     0x00, 0x00, 0x00, 0x00, 0x00, 0x00, 0x00, 0x00, 0x00, 0x00, 0x00, 0x00, 0x00, 0x00, 0x00,
     0x00, 0x00, 0x00, 0x00, 0x01, 0x51, 0x40, 0x00, 0x00, 0x01]"
    by (simp add: be32_def CommandPolicySecret_def MakeHandleName_def HandleOwner_def
        replicate_numeral)
  have secret1: "replicate (digest_size HashAlgorithmSHA1) 0 @ be32 CommandPolicySecret @
      MakeHandleName HandleOwner =
    [0x00, 0x00, 0x00, 0x00, 0x00, 0x00, 0x00, 0x00, 0x00, 0x00, 0x00, 0x00, 0x00, 0x00, 0x00,
     0x00, 0x00, 0x00, 0x00, 0x00, 0x00, 0x00, 0x01, 0x51, 0x40, 0x00, 0x00, 0x01]"
    by (simp add: be32_def CommandPolicySecret_def MakeHandleName_def HandleOwner_def
        replicate_numeral)
  have ref: "bytes_of_string ''bar'' = [0x62, 0x61, 0x72]"
    by (simp add: bytes_of_string_def)
  have authValue: "be32 CommandPolicyAuthValue = [0x00, 0x00, 0x01, 0x6b]"
    by (simp add: be32_def CommandPolicyAuthValue_def)
  have commandCode: "be32 CommandPolicyCommandCode @ be32 CommandNVChangeAuth =
      [0x00, 0x00, 0x01, 0x6c, 0x00, 0x00, 0x01, 0x3b]"
    by (simp add: be32_def CommandPolicyCommandCode_def CommandNVChangeAuth_def)
  have d256: "ComputeFor HashAlgorithmSHA256
     [PolicySecret (MakeHandleName HandleOwner) (bytes_of_string ''bar''), PolicyAuthValue,
      PolicyCommandCode CommandNVChangeAuth] =
   [0x42, 0x6d, 0xf7, 0xdd, 0xd0, 0x7d, 0xbf, 0xaa, 0x40, 0x02, 0x37, 0xf7, 0x73, 0xda, 0x80,
    0x1e, 0x46, 0x4e, 0xf2, 0x76, 0x60, 0x84, 0x96, 0x6b, 0x04, 0xd8, 0xb4, 0xdf, 0xc0, 0xfe,
    0xee, 0xe5]"
    unfolding ComputeFor_def
    by (simp only: foldl.simps policy_update.simps hash_sum.simps secret256 ref authValue
        commandCode append.simps sha256_policy_mixed_step1 sha256_policy_mixed_step2
        sha256_policy_mixed_step3 sha256_policy_mixed_step4)
  have d1: "ComputeFor HashAlgorithmSHA1
     [PolicySecret (MakeHandleName HandleOwner) (bytes_of_string ''bar''), PolicyAuthValue,
      PolicyCommandCode CommandNVChangeAuth] =
   [0xab, 0xdc, 0xe8, 0x3a, 0xb5, 0x0f, 0x4d, 0x5f, 0xd3, 0x78, 0x18, 0x1e, 0x21, 0xde, 0x94,
    0x86, 0x55, 0x96, 0x12, 0xd3]"
    unfolding ComputeFor_def
    by (simp only: foldl.simps policy_update.simps hash_sum.simps secret1 ref authValue
        commandCode append.simps sha1_policy_mixed_step1 sha1_policy_mixed_step2
        sha1_policy_mixed_step3 sha1_policy_mixed_step4)
  from d256 d1 show ?thesis
    by (rule conjI)
qed

end
